(* ===== verification/Prelude.thy ===== *)
theory Prelude
  imports Main "HOL-Library.Word"
begin

text \<open>
  Shared vocabulary of the development: Go error values, the outcome of a Go call, the small
  state-passing combinators in which every effectful function of the provider is written, and
  the generic lemmas about them.

  A Go function with results \<open>(T, error)\<close> that reads and writes state becomes a function of type
  \<open>('s, 'a) go\<close>, that is \<open>'s \<Rightarrow> 'a outcome \<times> 's\<close>.  State changes made before an error return or
  a panic are kept, as they are in Go.  Here \<open>Ok a\<close> is a return with a nil error,
  \<open>Err e\<close> is a return with a non-nil error (the other results are dropped: every caller in the
  repository looks at the error first), and \<open>Panic m\<close> is a run-time panic (nil dereference, index out
  of range, failed type assertion).
\<close>

section \<open>Collections of facts\<close>

named_theorems go_defs \<open>definitions of the Go combinators\<close>
named_theorems code_defs \<open>definitions of model operations that proofs unfold together\<close>

section \<open>Errors and outcomes\<close>

text \<open>
  \<open>Errorf s\<close> is an error made by \<open>errors.New\<close> or \<open>fmt.Errorf\<close> without \<open>%w\<close>, \<open>Errorw s e\<close> one made
  by \<open>fmt.Errorf\<close> with \<open>%w\<close> (or \<open>errors.Wrap\<close>) whose full text is \<open>s\<close> and whose cause is \<open>e\<close>;
  \<open>Ext kind text\<close> is an error value made outside the repository (a gRPC status, a Kubernetes API
  error, a conversion error), of which the code only sees its text and what library predicates
  say about it.
\<close>

datatype err =
    Errorf string
  | Errorw string err
  | Ext string string

fun Error :: "err \<Rightarrow> string" where
  "Error (Errorf s) = s"
| "Error (Errorw s e) = s"
| "Error (Ext k t) = t"

text \<open>\<open>fmt.Errorf("...: %w", err)\<close> and \<open>errors.Wrap(err, "...")\<close>.\<close>

definition wrapf :: "string \<Rightarrow> err \<Rightarrow> err" where
  "wrapf s e = Errorw (s @ Error e) e"

datatype 'a outcome =
    Ok 'a
  | Err err
  | Panic string

fun is_ok :: "'a outcome \<Rightarrow> bool" where
  "is_ok (Ok a) = True"
| "is_ok _ = False"

text \<open>The \<open>err\<close> result seen by code that runs after the call (such as \<open>ObserveRequest(err)\<close>).\<close>

fun error_of :: "'a outcome \<Rightarrow> err option" where
  "error_of (Err e) = Some e"
| "error_of _ = None"

type_synonym ('s, 'a) go = "'s \<Rightarrow> 'a outcome \<times> 's"

section \<open>Combinators\<close>

definition ret :: "'a \<Rightarrow> ('s, 'a) go" where
  "ret a s = (Ok a, s)"

definition raise :: "err \<Rightarrow> ('s, 'a) go" where
  "raise e s = (Err e, s)"

definition panic :: "string \<Rightarrow> ('s, 'a) go" where
  "panic m s = (Panic m, s)"

text \<open>
  \<open>tryG m k h\<close>: run \<open>m\<close>; with a nil error go on with \<open>k\<close>, else run the handler \<open>h\<close> of the
  \<open>if err != nil\<close> block.  \<open>bindG\<close> is the common block \<open>if err != nil { return err }\<close>.
\<close>

definition tryG :: "('s, 'a) go \<Rightarrow> ('a \<Rightarrow> ('s, 'b) go) \<Rightarrow> (err \<Rightarrow> ('s, 'b) go) \<Rightarrow> ('s, 'b) go" where
  "tryG m k h s =
     (case m s of
        (Ok a, s') \<Rightarrow> k a s'
      | (Err e, s') \<Rightarrow> h e s'
      | (Panic p, s') \<Rightarrow> (Panic p, s'))"

definition bindG :: "('s, 'a) go \<Rightarrow> ('a \<Rightarrow> ('s, 'b) go) \<Rightarrow> ('s, 'b) go" where
  "bindG m k = tryG m k raise"

definition thenG :: "('s, 'a) go \<Rightarrow> ('s, 'b) go \<Rightarrow> ('s, 'b) go" where
  "thenG m k = bindG m (\<lambda>_. k)"

definition getG :: "('s \<Rightarrow> 'a) \<Rightarrow> ('s, 'a) go" where
  "getG f s = (Ok (f s), s)"

definition modifyG :: "('s \<Rightarrow> 's) \<Rightarrow> ('s, unit) go" where
  "modifyG f s = (Ok (), f s)"

text \<open>Read the state and go on with what was read (no copy is made of it).\<close>

definition withG :: "('s \<Rightarrow> ('s, 'a) go) \<Rightarrow> ('s, 'a) go" where
  "withG f s = f s s"

text \<open>
  Run an operation on a part of the state: \<open>zoomG get put m\<close> reads the part with \<open>get\<close> and writes
  it back with \<open>put\<close>.
\<close>

definition zoomG :: "('s \<Rightarrow> 't) \<Rightarrow> ('t \<Rightarrow> 's \<Rightarrow> 's) \<Rightarrow> ('t, 'a) go \<Rightarrow> ('s, 'a) go" where
  "zoomG get put m s = (case m (get s) of (r, t) \<Rightarrow> (r, put t s))"

text \<open>
  \<open>defer func() { if err := close(); err != nil && reterr == nil { reterr = err } }()\<close> around a
  body: the closing call runs after a return and after a panic alike, its error is returned only
  when the body returned none, and a panic goes on.
\<close>

definition deferG :: "('s, unit) go \<Rightarrow> ('s, 'a) go \<Rightarrow> ('s, 'a) go" where
  "deferG close m s =
     (case m s of (r, s') \<Rightarrow>
        (case close s' of
           (Ok _, s'') \<Rightarrow> (r, s'')
         | (Err e, s'') \<Rightarrow> ((case r of Ok _ \<Rightarrow> Err e | _ \<Rightarrow> r), s'')
         | (Panic p, s'') \<Rightarrow> (Panic p, s'')))"

lemmas go_core [go_defs] = ret_def raise_def panic_def tryG_def bindG_def thenG_def getG_def
  modifyG_def withG_def zoomG_def

lemma tryG_cases:
  "tryG m k h s = (r, s') \<longleftrightarrow>
     (\<exists>a t. m s = (Ok a, t) \<and> k a t = (r, s')) \<or>
     (\<exists>e t. m s = (Err e, t) \<and> h e t = (r, s')) \<or>
     (\<exists>p. m s = (Panic p, s') \<and> r = Panic p)"
  by (cases "m s"; cases "fst (m s)") (auto simp: tryG_def)

lemma bindG_Ok_iff:
  "bindG m k s = (Ok b, s') \<longleftrightarrow> (\<exists>a t. m s = (Ok a, t) \<and> k a t = (Ok b, s'))"
  by (auto simp: bindG_def tryG_cases raise_def)

lemma ret_apply [simp]: "ret a s = (Ok a, s)"
  by (simp add: ret_def)

lemma raise_apply [simp]: "raise e s = (Err e, s)"
  by (simp add: raise_def)

lemma panic_apply [simp]: "panic p s = (Panic p, s)"
  by (simp add: panic_def)

lemma getG_apply [simp]: "getG f s = (Ok (f s), s)"
  by (simp add: getG_def)

lemma modifyG_apply [simp]: "modifyG f s = (Ok (), f s)"
  by (simp add: modifyG_def)

lemma withG_apply [simp]: "withG f s = f s s"
  by (simp add: withG_def)

lemma tryG_simps [simp]:
  "m s = (Ok a, s') \<Longrightarrow> tryG m k h s = k a s'"
  "m s = (Err e, s') \<Longrightarrow> tryG m k h s = h e s'"
  "m s = (Panic p, s') \<Longrightarrow> tryG m k h s = (Panic p, s')"
  by (simp_all add: tryG_def)

lemma bindG_simps [simp]:
  "m s = (Ok a, s') \<Longrightarrow> bindG m k s = k a s'"
  "m s = (Err e, s') \<Longrightarrow> bindG m k s = (Err e, s')"
  "m s = (Panic p, s') \<Longrightarrow> bindG m k s = (Panic p, s')"
  by (simp_all add: bindG_def)

lemma thenG_simps [simp]:
  "m s = (Ok a, s') \<Longrightarrow> thenG m k s = k s'"
  "m s = (Err e, s') \<Longrightarrow> thenG m k s = (Err e, s')"
  "m s = (Panic p, s') \<Longrightarrow> thenG m k s = (Panic p, s')"
  by (simp_all add: thenG_def)

lemma zoomG_apply [simp]:
  "m (get s) = (r, t) \<Longrightarrow> zoomG get put m s = (r, put t s)"
  by (simp add: zoomG_def)

text \<open>
  A deferred close: the result is a success exactly when both the body and the close succeed, and
  then it is the body's; an error or a panic of the body survives a close that does not panic.
\<close>

lemma deferG_run:
  assumes "deferG c m s = (r, s')"
  obtains r0 t q where "m s = (r0, t)" "c t = (q, s')" "is_ok r \<longleftrightarrow> is_ok r0 \<and> is_ok q"
    "is_ok r \<Longrightarrow> r = r0" "\<not> is_ok r0 \<Longrightarrow> (\<forall>p. q \<noteq> Panic p) \<Longrightarrow> r = r0"
proof -
  obtain r0 t where m: "m s = (r0, t)" by fastforce
  obtain q u where c: "c t = (q, u)" by fastforce
  from assms m c have "s' = u" "is_ok r \<longleftrightarrow> is_ok r0 \<and> is_ok q" "is_ok r \<Longrightarrow> r = r0"
    "\<not> is_ok r0 \<Longrightarrow> (\<forall>p. q \<noteq> Panic p) \<Longrightarrow> r = r0"
    by (cases r0; cases q; auto simp: deferG_def)+
  with m c that show thesis by blast
qed

section \<open>Relations that every run respects\<close>

text \<open>
  \<open>every_run R m\<close>: whatever the outcome, the state \<open>m\<close> leaves is \<open>R\<close>-related to the one it
  started in.  Frame conditions, growing traces and preserved invariants all have this shape; the
  locale below proves once that a reflexive and transitive \<open>R\<close> is respected by a composed program
  as soon as its parts respect it.
\<close>

definition every_run :: "('s \<Rightarrow> 's \<Rightarrow> bool) \<Rightarrow> ('s, 'a) go \<Rightarrow> bool" where
  "every_run R m \<longleftrightarrow> (\<forall>s. R s (snd (m s)))"

lemma every_runD: "every_run R m \<Longrightarrow> m s = (r, s') \<Longrightarrow> R s s'"
  by (metis every_run_def snd_conv)

lemma every_runI: "(\<And>s r s'. m s = (r, s') \<Longrightarrow> R s s') \<Longrightarrow> every_run R m"
  by (metis every_run_def prod.collapse)

lemma every_run_mono: "every_run R m \<Longrightarrow> (\<And>s s'. R s s' \<Longrightarrow> Q s s') \<Longrightarrow> every_run Q m"
  by (simp add: every_run_def)

locale run_relation =
  fixes R :: "'s \<Rightarrow> 's \<Rightarrow> bool"
  assumes refl_R: "R s s"
    and trans_R: "R s t \<Longrightarrow> R t u \<Longrightarrow> R s u"
begin

lemma run_ret: "every_run R (ret a)"
  by (simp add: every_run_def refl_R)

lemma run_raise: "every_run R (raise e)"
  by (simp add: every_run_def refl_R)

lemma run_panic: "every_run R (panic p)"
  by (simp add: every_run_def refl_R)

lemma run_getG: "every_run R (getG f)"
  by (simp add: every_run_def refl_R)

lemma run_modifyG: "(\<And>s. R s (f s)) \<Longrightarrow> every_run R (modifyG f)"
  by (simp add: every_run_def)

lemma run_withG: "(\<And>s. every_run R (f s)) \<Longrightarrow> every_run R (withG f)"
  by (simp add: every_run_def)

lemma run_tryG:
  assumes "every_run R m" "\<And>a. every_run R (k a)" "\<And>e. every_run R (h e)"
  shows "every_run R (tryG m k h)"
proof (rule every_runI)
  fix s r s'
  assume "tryG m k h s = (r, s')"
  then show "R s s'"
    unfolding tryG_cases by (meson assms every_runD trans_R)
qed

lemma run_bindG: "every_run R m \<Longrightarrow> (\<And>a. every_run R (k a)) \<Longrightarrow> every_run R (bindG m k)"
  unfolding bindG_def by (intro run_tryG run_raise)

lemma run_thenG: "every_run R m \<Longrightarrow> every_run R k \<Longrightarrow> every_run R (thenG m k)"
  unfolding thenG_def by (rule run_bindG)

lemma run_deferG:
  assumes "every_run R c" "every_run R m"
  shows "every_run R (deferG c m)"
proof (rule every_runI)
  fix s r s'
  assume d: "deferG c m s = (r, s')"
  obtain r1 s1 where m: "m s = (r1, s1)" by fastforce
  obtain r2 s2 where c: "c s1 = (r2, s2)" by fastforce
  have "s' = s2"
    using d m c by (auto simp: deferG_def split: outcome.splits)
  moreover have "R s s1" "R s1 s2"
    using assms m c by (auto dest: every_runD)
  ultimately show "R s s'" by (blast intro: trans_R)
qed

lemma run_if: "every_run R m \<Longrightarrow> every_run R n \<Longrightarrow> every_run R (if b then m else n)"
  by simp

lemma run_case_option:
  "every_run R m \<Longrightarrow> (\<And>x. every_run R (n x)) \<Longrightarrow>
     every_run R (case opt of None \<Rightarrow> m | Some x \<Rightarrow> n x)"
  by (cases opt) auto

lemmas run_intros = run_ret run_raise run_panic run_getG run_modifyG run_withG run_tryG run_bindG
  run_thenG run_deferG run_if run_case_option

end

section \<open>Lists and options\<close>

lemma filter_idem [simp]: "filter P (filter P xs) = filter P xs"
  by (induction xs) auto

lemma length_takeWhile_filter: "length (filter P xs) \<le> length xs"
  by (rule length_filter_le)

lemma hd_set_mem: "xs \<noteq> [] \<Longrightarrow> hd xs \<in> set xs"
  by (rule hd_in_set)

end
