(* ===== verification/GoLib.thy ===== *)
theory GoLib
  imports Prelude "HOL-Library.Sublist"
begin

text \<open>
  The pieces of the Go standard library the provider uses on strings: \<open>strings.TrimPrefix\<close>,
  \<open>strings.Join\<close>, decimal and hexadecimal formatting, and the part of \<open>regexp\<close> its two patterns
  need.  A Go string is a sequence of bytes, which is what \<open>string\<close> (a list of 8-bit characters)
  is, so \<open>length\<close> is Go's \<open>len\<close>.
\<close>

section \<open>strings\<close>

fun HasPrefix :: "string \<Rightarrow> string \<Rightarrow> bool" where
  "HasPrefix s [] = True"
| "HasPrefix [] (p # ps) = False"
| "HasPrefix (c # s) (p # ps) = (c = p \<and> HasPrefix s ps)"

definition TrimPrefix :: "string \<Rightarrow> string \<Rightarrow> string" where
  "TrimPrefix s p = (if HasPrefix s p then drop (length p) s else s)"

fun Join :: "string list \<Rightarrow> string \<Rightarrow> string" where
  "Join [] sep = []"
| "Join [s] sep = s"
| "Join (s # t # ss) sep = s @ sep @ Join (t # ss) sep"

lemma HasPrefix_iff: "HasPrefix s p \<longleftrightarrow> prefix p s"
  by (induction s p rule: HasPrefix.induct) auto

lemma TrimPrefix_append [simp]: "TrimPrefix (p @ s) p = s"
  by (simp add: TrimPrefix_def HasPrefix_iff)

lemma TrimPrefix_other: "\<not> prefix p s \<Longrightarrow> TrimPrefix s p = s"
  by (simp add: TrimPrefix_def HasPrefix_iff)

lemma TrimPrefix_Nil [simp]: "TrimPrefix [] p = []"
  by (cases p) (simp_all add: TrimPrefix_def)

lemma Join_empty: "Join ss [] = concat ss"
  by (induction ss "[] :: string" rule: Join.induct) auto

section \<open>Numbers in text\<close>

definition digit_char :: "nat \<Rightarrow> char" where
  "digit_char n = char_of (48 + n)"

definition is_digit :: "char \<Rightarrow> bool" where
  "is_digit c \<longleftrightarrow> 48 \<le> (of_char c :: nat) \<and> (of_char c :: nat) \<le> 57"

definition digit_val :: "char \<Rightarrow> nat" where
  "digit_val c = of_char c - 48"

fun utoa :: "nat \<Rightarrow> string" where
  "utoa n = (if n < 10 then [digit_char n] else utoa (n div 10) @ [digit_char (n mod 10)])"

declare utoa.simps [simp del]

text \<open>The verb \<open>%d\<close> on a signed integer.\<close>

definition itoa :: "int \<Rightarrow> string" where
  "itoa i = (if i < 0 then CHR ''-'' # utoa (nat (- i)) else utoa (nat i))"

lemma of_char_digit_char: "n < 10 \<Longrightarrow> (of_char (digit_char n) :: nat) = 48 + n"
  by (simp add: digit_char_def)

lemma is_digit_digit_char [simp]: "n < 10 \<Longrightarrow> is_digit (digit_char n)"
  by (simp add: is_digit_def of_char_digit_char)

lemma digit_val_digit_char [simp]: "n < 10 \<Longrightarrow> digit_val (digit_char n) = n"
  by (simp add: digit_val_def of_char_digit_char)

lemma digit_val_less: "is_digit c \<Longrightarrow> digit_val c < 10"
  by (auto simp: is_digit_def digit_val_def)

lemma digit_char_digit_val: "is_digit c \<Longrightarrow> digit_char (digit_val c) = c"
  by (simp add: is_digit_def digit_val_def digit_char_def)

lemma utoa_small: "n < 10 \<Longrightarrow> utoa n = [digit_char n]"
  by (simp add: utoa.simps)

lemma utoa_big: "10 \<le> n \<Longrightarrow> utoa n = utoa (n div 10) @ [digit_char (n mod 10)]"
  by (subst utoa.simps) simp

lemma utoa_nonempty [simp]: "utoa n \<noteq> []"
  by (subst utoa.simps) simp

lemma utoa_digits: "list_all is_digit (utoa n)"
proof (induction n rule: utoa.induct)
  case (1 n)
  then show ?case
    by (cases "n < 10") (simp_all add: utoa_small utoa_big)
qed

section \<open>Hexadecimal\<close>

type_synonym byte = "8 word"

definition hex_digit :: "nat \<Rightarrow> char" where
  "hex_digit n = (if n < 10 then char_of (48 + n) else char_of (87 + n))"

text \<open>\<open>hex.EncodeToString\<close>, and the verb \<open>%x\<close> on a byte array.\<close>

definition hex_byte :: "byte \<Rightarrow> string" where
  "hex_byte b = [hex_digit (unat b div 16), hex_digit (unat b mod 16)]"

definition EncodeToString :: "byte list \<Rightarrow> string" where
  "EncodeToString bs = concat (map hex_byte bs)"

definition is_hex :: "char \<Rightarrow> bool" where
  "is_hex c \<longleftrightarrow> is_digit c \<or> (97 \<le> (of_char c :: nat) \<and> (of_char c :: nat) \<le> 102)"

lemma length_EncodeToString [simp]: "length (EncodeToString bs) = 2 * length bs"
  by (induction bs) (simp_all add: EncodeToString_def hex_byte_def)

lemma is_hex_hex_digit: "n < 16 \<Longrightarrow> is_hex (hex_digit n)"
  by (auto simp: is_hex_def hex_digit_def is_digit_def)

lemma list_all_hex: "list_all is_hex (EncodeToString bs)"
proof (induction bs)
  case Nil
  then show ?case by (simp add: EncodeToString_def)
next
  case (Cons b bs)
  have "unat b < 256" using unsigned_less [of b, where ?'a = nat] by simp
  then have "unat b div 16 < 16" by simp
  then show ?case using Cons
    by (simp add: EncodeToString_def hex_byte_def is_hex_hex_digit)
qed

text \<open>The bytes of a string, as \<open>[]byte(s)\<close> gives them.\<close>

definition bytes_of :: "string \<Rightarrow> byte list" where
  "bytes_of s = map of_char s"

lemma length_bytes_of [simp]: "length (bytes_of s) = length s"
  by (simp add: bytes_of_def)

section \<open>regexp\<close>

text \<open>
  A pattern anchored at both ends, as a regular expression over bytes: character classes,
  concatenation, the optional group \<open>(r)?\<close>, and the bounded repetition of a class \<open>[..]{m,n}\<close>.
  \<open>matches_from r s\<close> lists the suffixes left after each way in which \<open>r\<close> can match a prefix of
  \<open>s\<close>; \<open>MatchString\<close> of an anchored pattern asks for an empty suffix.
\<close>

datatype rx =
    Class "char \<Rightarrow> bool"
  | Seq rx rx
  | Opt rx
  | Rep "char \<Rightarrow> bool" nat nat

fun rep_suffixes :: "(char \<Rightarrow> bool) \<Rightarrow> nat \<Rightarrow> nat \<Rightarrow> string \<Rightarrow> string list" where
  "rep_suffixes p 0 0 s = [s]"
| "rep_suffixes p 0 (Suc n) [] = [[]]"
| "rep_suffixes p 0 (Suc n) (c # s) =
     (c # s) # (if p c then rep_suffixes p 0 n s else [])"
| "rep_suffixes p (Suc m) 0 s = []"
| "rep_suffixes p (Suc m) (Suc n) [] = []"
| "rep_suffixes p (Suc m) (Suc n) (c # s) = (if p c then rep_suffixes p m n s else [])"

fun matches_from :: "rx \<Rightarrow> string \<Rightarrow> string list" where
  "matches_from (Class p) [] = []"
| "matches_from (Class p) (c # s) = (if p c then [s] else [])"
| "matches_from (Seq r q) s = concat (map (matches_from q) (matches_from r s))"
| "matches_from (Opt r) s = s # matches_from r s"
| "matches_from (Rep p m n) s = rep_suffixes p m n s"

definition MatchString :: "rx \<Rightarrow> string \<Rightarrow> bool" where
  "MatchString r s \<longleftrightarrow> [] \<in> set (matches_from r s)"

lemma rep_suffixes_iff:
  "t \<in> set (rep_suffixes p m n s) \<longleftrightarrow>
     (\<exists>u. s = u @ t \<and> m \<le> length u \<and> length u \<le> n \<and> list_all p u)"
proof (induction p m n s rule: rep_suffixes.induct)
  case (3 p n c s)
  show ?case
  proof
    assume "t \<in> set (rep_suffixes p 0 (Suc n) (c # s))"
    then consider "t = c # s" | "p c" "t \<in> set (rep_suffixes p 0 n s)"
      by (auto split: if_splits)
    then show "\<exists>u. c # s = u @ t \<and> 0 \<le> length u \<and> length u \<le> Suc n \<and> list_all p u"
    proof cases
      case 1
      then show ?thesis by (intro exI [of _ "[]"]) simp
    next
      case 2
      then obtain u where "s = u @ t" "length u \<le> n" "list_all p u"
        using "3.IH" by auto
      then show ?thesis using 2 by (intro exI [of _ "c # u"]) simp
    qed
  next
    assume "\<exists>u. c # s = u @ t \<and> 0 \<le> length u \<and> length u \<le> Suc n \<and> list_all p u"
    then show "t \<in> set (rep_suffixes p 0 (Suc n) (c # s))"
      using "3.IH" by (auto simp: Cons_eq_append_conv)
  qed
next
  case (6 p m n c s)
  show ?case
  proof
    assume "t \<in> set (rep_suffixes p (Suc m) (Suc n) (c # s))"
    then have "p c" "t \<in> set (rep_suffixes p m n s)"
      by (auto split: if_splits)
    then obtain u where "s = u @ t" "m \<le> length u" "length u \<le> n" "list_all p u"
      using "6.IH" by auto
    then show "\<exists>u. c # s = u @ t \<and> Suc m \<le> length u \<and> length u \<le> Suc n \<and> list_all p u"
      using \<open>p c\<close> by (intro exI [of _ "c # u"]) simp
  next
    assume "\<exists>u. c # s = u @ t \<and> Suc m \<le> length u \<and> length u \<le> Suc n \<and> list_all p u"
    then show "t \<in> set (rep_suffixes p (Suc m) (Suc n) (c # s))"
      using "6.IH" by (auto simp: Cons_eq_append_conv)
  qed
qed auto

text \<open>
  \<open>ReplaceAllString(str, "")\<close> for a pattern \<open>[..]+\<close>: each maximal run of matching bytes is
  removed, scanning from the left.  The pattern's class is closed under the bytes of a rune (it is
  the complement of a set of ASCII characters), so runs of bytes and runs of runes coincide.
\<close>

function remove_runs :: "(char \<Rightarrow> bool) \<Rightarrow> string \<Rightarrow> string" where
  "remove_runs p s =
     (case dropWhile (\<lambda>c. \<not> p c) s of
        [] \<Rightarrow> s
      | c # rest \<Rightarrow> takeWhile (\<lambda>c. \<not> p c) s @ remove_runs p (dropWhile p rest))"
  by pat_completeness auto
termination
proof (relation "measure (\<lambda>(p, s). length s)", goal_cases)
  case 1
  then show ?case by simp
next
  case (2 p s c rest)
  have "length (dropWhile p rest) \<le> length rest" by (rule length_dropWhile_le)
  also have "length rest < length (dropWhile (\<lambda>c. \<not> p c) s)" using 2 by simp
  also have "\<dots> \<le> length s" by (rule length_dropWhile_le)
  finally show ?case by simp
qed

declare remove_runs.simps [simp del]

lemma filter_dropWhile: "filter (\<lambda>c. \<not> p c) (dropWhile p s) = filter (\<lambda>c. \<not> p c) s"
  by (induction s) auto

lemma filter_takeWhile: "filter p (takeWhile p s) = takeWhile p s"
  by (induction s) auto

text \<open>The scanner removes exactly the matching bytes.\<close>

lemma remove_runs_filter: "remove_runs p s = filter (\<lambda>c. \<not> p c) s"
proof (induction p s rule: remove_runs.induct)
  case (1 p s)
  let ?q = "\<lambda>c. \<not> p c"
  have split: "filter ?q s = takeWhile ?q s @ filter ?q (dropWhile ?q s)"
    by (metis filter_append filter_takeWhile takeWhile_dropWhile_id)
  show ?case
  proof (cases "dropWhile ?q s")
    case Nil
    then have "filter ?q s = s"
      using split by (metis append_Nil2 filter.simps(1) takeWhile_dropWhile_id)
    then show ?thesis
      by (subst remove_runs.simps) (simp only: Nil list.case)
  next
    case (Cons c rest)
    then have "p c" by (metis hd_dropWhile list.distinct(1) list.sel(1))
    moreover have "remove_runs p (dropWhile p rest) = filter ?q (dropWhile p rest)"
      using "1.IH" [OF Cons] .
    ultimately show ?thesis
      using split Cons by (subst remove_runs.simps) (simp add: filter_dropWhile)
  qed
qed

end
