(* ===== verification/Api.thy ===== *)
theory Api
  imports GoLib
begin

text \<open>
  The custom resources of \<open>api/v1alpha1\<close> as records, with the constants and accessors the package
  declares, and the metadata of the Kubernetes and Cluster API objects as far as the provider reads
  them.  A Go pointer that may be nil is an \<open>option\<close>; \<open>int32\<close>, \<open>int64\<close> and \<open>int\<close> keep their width as
  words (\<open>int\<close> is 64 bits on the provider's platforms); a nil map differs from an empty one, so
  \<open>Labels\<close> is an optional map and \<open>SecurityGroups\<close> an optional list.  A \<open>resource.Quantity\<close> is its serialised text (its parser is library
  code), and the time stamps of conditions are not kept.
\<close>

type_synonym int32 = "32 word"
type_synonym int64 = "64 word"

section \<open>types.go\<close>

type_synonym InstanceStatus = string

definition InstanceStatusProvisioning :: InstanceStatus where "InstanceStatusProvisioning = ''PROVISIONING''"
definition InstanceStatusRunning :: InstanceStatus where "InstanceStatusRunning = ''RUNNING''"
definition InstanceStatusError :: InstanceStatus where "InstanceStatusError = ''ERROR''"
definition InstanceStatusStopped :: InstanceStatus where "InstanceStatusStopped = ''STOPPED''"
definition InstanceStatusStarting :: InstanceStatus where "InstanceStatusStarting = ''STARTING''"
definition InstanceStatusStopping :: InstanceStatus where "InstanceStatusStopping = ''STOPPING''"
definition InstanceStatusRestarting :: InstanceStatus where "InstanceStatusRestarting = ''RESTARTING''"
definition InstanceStatusUpdating :: InstanceStatus where "InstanceStatusUpdating = ''UPDATING''"
definition InstanceStatusCrashed :: InstanceStatus where "InstanceStatusCrashed = ''CRASHED''"
definition InstanceStatusDeleting :: InstanceStatus where "InstanceStatusDeleting = ''DELETING''"
definition InstanceStatusDeleted :: InstanceStatus where "InstanceStatusDeleted = ''DELETED''"
definition InstanceStatusUnspecified :: InstanceStatus where "InstanceStatusUnspecified = ''UNSPECIFIED''"

lemmas instance_status_defs = InstanceStatusProvisioning_def InstanceStatusRunning_def
  InstanceStatusError_def InstanceStatusStopped_def InstanceStatusStarting_def
  InstanceStatusStopping_def InstanceStatusRestarting_def InstanceStatusUpdating_def
  InstanceStatusCrashed_def InstanceStatusDeleting_def InstanceStatusDeleted_def
  InstanceStatusUnspecified_def

definition ConditionStatusProvisioning :: string where "ConditionStatusProvisioning = ''PROVISIONING''"
definition ConditionStatusRunning :: string where "ConditionStatusRunning = ''RUNNING''"
definition ConditionStatusReady :: string where "ConditionStatusReady = ''READY''"
definition ConditionStatusError :: string where "ConditionStatusError = ''ERROR''"
definition ConditionStatusNotfound :: string where "ConditionStatusNotfound = ''NOTFOUND''"

definition LoadBalancerReadyCondition :: string where "LoadBalancerReadyCondition = ''LoadBalancerReady''"
definition LoadBalancerFailedReason :: string where "LoadBalancerFailedReason = ''LoadBalancerFailed''"

section \<open>Metadata and Cluster API objects\<close>

text \<open>
  \<open>metav1.ObjectMeta\<close>, as far as the provider reads it.  The code only asks \<open>DeletionTimestamp.IsZero()\<close>, which
  holds of a nil pointer and of a zero time alike: \<open>om_DeletionTimestamp\<close> is \<open>None\<close> exactly when it holds.
\<close>

record ObjectMeta =
  om_Name :: string
  om_Namespace :: string
  om_Labels :: "string \<rightharpoonup> string"
  om_Annotations :: "string \<rightharpoonup> string"
  om_Finalizers :: "string list"
  om_OwnerReferences :: "string list"
  om_DeletionTimestamp :: "string option"

text \<open>\<open>clusterv1.ObjectMeta\<close>, the metadata of a template's resource, has labels and annotations only.\<close>

record TemplateMeta =
  tom_Labels :: "string \<rightharpoonup> string"
  tom_Annotations :: "string \<rightharpoonup> string"

text \<open>Reading a key of a Go \<open>map[string]string\<close>: the zero value when it is absent or the map is nil.\<close>

definition map_get :: "(string \<rightharpoonup> string) \<Rightarrow> string \<Rightarrow> string" where
  "map_get m k = (case m k of None \<Rightarrow> [] | Some v \<Rightarrow> v)"

text \<open>One entry of \<open>clusterv1.Conditions\<close>.\<close>

record Condition =
  co_Type :: string
  co_Status :: string
  co_Severity :: string
  co_Reason :: string
  co_Message :: string

type_synonym Conditions = "Condition list"

text \<open>\<open>clusterv1.APIEndpoint\<close>; \<open>zero_endpoint\<close> is \<open>clusterv1.APIEndpoint{}\<close>.\<close>

record APIEndpoint =
  ep_Host :: string
  ep_Port :: int32

definition zero_endpoint :: APIEndpoint where
  "zero_endpoint = \<lparr>ep_Host = [], ep_Port = 0\<rparr>"

record Cluster =
  cl_Meta :: ObjectMeta
  cl_Paused :: bool
  cl_InfrastructureRef :: "string option"

record Machine =
  ma_Meta :: ObjectMeta
  ma_DataSecretName :: "string option"
  ma_InfrastructureRef :: string

section \<open>yandexcluster_types.go\<close>

definition ClusterFinalizer :: string where
  "ClusterFinalizer = ''yandexcluster.infrastructure.cluster.x-k8s.io''"

type_synonym LoadBalancerType = string

definition LoadBalancerTypeALB :: LoadBalancerType where "LoadBalancerTypeALB = ''ALB''"
definition LoadBalancerTypeNLB :: LoadBalancerType where "LoadBalancerTypeNLB = ''NLB''"

type_synonym Labels = "(string \<rightharpoonup> string) option"

record NetworkSpec =
  ns_ID :: string

record SubnetSpec =
  ss_ZoneID :: string
  ss_ID :: string

record ListenerSpec =
  ls_Address :: string
  ls_Port :: int32
  ls_Internal :: bool
  ls_Subnet :: SubnetSpec

record HealtcheckSpec =
  hc_HealthcheckTimeoutSec :: int64
  hc_HealthcheckIntervalSec :: int64
  hc_HealthcheckThreshold :: int64

record LoadBalancerSpec =
  lbs_Type :: LoadBalancerType
  lbs_Name :: string
  lbs_Listener :: ListenerSpec
  lbs_BackendPort :: int32
  lbs_Healthcheck :: HealtcheckSpec
  lbs_SecurityGroups :: "string list option"

record YandexClusterSpec =
  ycs_NetworkSpec :: NetworkSpec
  ycs_ControlPlaneEndpoint :: APIEndpoint
  ycs_FolderID :: string
  ycs_LoadBalancer :: LoadBalancerSpec
  ycs_Labels :: Labels

record LoadBalancerStatus =
  lbst_Name :: string
  lbst_ListenerAddress :: string
  lbst_ListenerPort :: int32

record YandexClusterStatus =
  ycst_Ready :: bool
  ycst_LoadBalancer :: LoadBalancerStatus
  ycst_Conditions :: Conditions

record YandexCluster =
  yc_Meta :: ObjectMeta
  yc_Spec :: YandexClusterSpec
  yc_Status :: YandexClusterStatus

definition YandexCluster_GetConditions :: "YandexCluster \<Rightarrow> Conditions" where
  "YandexCluster_GetConditions yc = ycst_Conditions (yc_Status yc)"

definition YandexCluster_SetConditions :: "Conditions \<Rightarrow> YandexCluster \<Rightarrow> YandexCluster" where
  "YandexCluster_SetConditions cs yc = yc\<lparr>yc_Status := (yc_Status yc)\<lparr>ycst_Conditions := cs\<rparr>\<rparr>"

section \<open>yandexmachine_types.go and yandexmachinetemplate_types.go\<close>

definition MachineFinalizer :: string where
  "MachineFinalizer = ''yandexmachine.infrastructure.cluster.x-k8s.io''"

type_synonym Quantity = string

record NetworkInterface =
  ni_SubnetID :: string
  ni_HasPublicIP :: "bool option"

record Resources =
  re_Memory :: Quantity
  re_Cores :: int64
  re_CoreFraction :: "int64 option"
  re_GPUs :: "int64 option"

record Disk =
  di_TypeID :: "string option"
  di_Size :: Quantity
  di_ImageID :: string

record YandexMachineSpec =
  yms_ProviderID :: "string option"
  yms_ZoneID :: "string option"
  yms_PlatformID :: "string option"
  yms_BootDisk :: "Disk option"
  yms_Resources :: Resources
  yms_NetworkInterfaces :: "NetworkInterface list"

text \<open>\<open>corev1.NodeAddress\<close>.\<close>

record NodeAddress =
  na_Type :: string
  na_Address :: string

record YandexMachineStatus =
  ymst_Ready :: bool
  ymst_Addresses :: "NodeAddress list"
  ymst_InstanceStatus :: "InstanceStatus option"
  ymst_FailureReason :: "string option"
  ymst_FailureMessage :: "string option"
  ymst_Conditions :: Conditions

record YandexMachine =
  ym_Meta :: ObjectMeta
  ym_Spec :: YandexMachineSpec
  ym_Status :: YandexMachineStatus

definition YandexMachine_GetConditions :: "YandexMachine \<Rightarrow> Conditions" where
  "YandexMachine_GetConditions ym = ymst_Conditions (ym_Status ym)"

definition YandexMachine_SetConditions :: "Conditions \<Rightarrow> YandexMachine \<Rightarrow> YandexMachine" where
  "YandexMachine_SetConditions cs ym = ym\<lparr>ym_Status := (ym_Status ym)\<lparr>ymst_Conditions := cs\<rparr>\<rparr>"

record YandexMachineTemplateResource =
  ymtr_Meta :: TemplateMeta
  ymtr_Spec :: YandexMachineSpec

record YandexMachineTemplateSpec =
  ymts_Template :: YandexMachineTemplateResource

record YandexMachineTemplate =
  ymt_Meta :: ObjectMeta
  ymt_Spec :: YandexMachineTemplateSpec

section \<open>Conditions as a mutable field\<close>

text \<open>
  The condition helpers of Cluster API work on any object with the two accessors above.  What both
  kinds of object promise: a read returns what was written last, and writing leaves metadata and
  specification alone.
\<close>

locale condition_setter =
  fixes GetConditions :: "'o \<Rightarrow> Conditions"
    and SetConditions :: "Conditions \<Rightarrow> 'o \<Rightarrow> 'o"
    and meta :: "'o \<Rightarrow> ObjectMeta"
    and spec :: "'o \<Rightarrow> 'sp"
  assumes get_set: "GetConditions (SetConditions cs ob) = cs"
    and set_set: "SetConditions cs (SetConditions ds ob) = SetConditions cs ob"
    and set_get: "SetConditions (GetConditions ob) ob = ob"
    and set_frame: "meta (SetConditions cs ob) = meta ob" "spec (SetConditions cs ob) = spec ob"
begin

text \<open>Applying a library operation to the conditions of an object, as \<open>conditions.Mark...\<close> do.\<close>

lemma update_compose:
  "SetConditions (g (GetConditions (SetConditions (f (GetConditions ob)) ob)))
     (SetConditions (f (GetConditions ob)) ob) = SetConditions (g (f (GetConditions ob))) ob"
  by (simp add: get_set set_set)

lemma update_frame:
  "meta (SetConditions (f (GetConditions ob)) ob) = meta ob"
  "spec (SetConditions (f (GetConditions ob)) ob) = spec ob"
  by (simp_all add: set_frame)

end

interpretation yc_conditions: condition_setter
  YandexCluster_GetConditions YandexCluster_SetConditions yc_Meta yc_Spec
  by unfold_locales
    (simp_all add: YandexCluster_GetConditions_def YandexCluster_SetConditions_def)

interpretation ym_conditions: condition_setter
  YandexMachine_GetConditions YandexMachine_SetConditions ym_Meta ym_Spec
  by unfold_locales
    (simp_all add: YandexMachine_GetConditions_def YandexMachine_SetConditions_def)

end
