(* ===== verification/Cloud_Api.thy ===== *)
theory Cloud_Api
  imports Api
begin

text \<open>
  What lies outside the repository, as data and parameters.  The messages of the Yandex Cloud API
  (generated code the provider imports) are records holding the fields the provider sets or reads.
  The Yandex Cloud SDK, the Kubernetes API server and the Cluster API helper packages are three
  records of functions, arguments of every definition that calls them: the SDK and the API server
  read and change an opaque environment \<open>'e\<close>, so that anything may happen in the cloud, in the API
  server and in other processes between two calls; the helper packages are functions of their
  arguments.
\<close>

section \<open>Compute messages\<close>

text \<open>A network interface as read back: \<open>None\<close> when it has no primary IPv4 address.\<close>

record VmInterface =
  vi_PrimaryV4Address :: "string option"

text \<open>\<open>in_Status\<close> is the name that \<open>vm.GetStatus().String()\<close> gives.\<close>

record Instance =
  in_Id :: string
  in_Status :: string
  in_NetworkInterfaces :: "VmInterface list"

text \<open>\<open>GetPrimaryV4Address().GetAddress()\<close>: the generated getters return zero values on nil.\<close>

definition GetPrimaryAddress :: "VmInterface \<Rightarrow> string" where
  "GetPrimaryAddress i = (case vi_PrimaryV4Address i of None \<Rightarrow> [] | Some a \<Rightarrow> a)"

record ResourcesSpec =
  rs_Memory :: int64
  rs_Cores :: int64
  rs_CoreFraction :: int64
  rs_Gpus :: int64

text \<open>\<open>nis_OneToOneNat\<close>: whether \<open>PrimaryV4AddressSpec\<close> carries a one-to-one NAT of version IPv4.\<close>

record NetworkInterfaceSpec =
  nis_SubnetId :: string
  nis_OneToOneNat :: bool

record AttachedDiskSpec =
  ad_AutoDelete :: bool
  ad_TypeId :: string
  ad_Size :: int64
  ad_ImageId :: string

record CreateInstanceRequest =
  cir_FolderId :: string
  cir_Name :: string
  cir_ZoneId :: string
  cir_PlatformId :: string
  cir_Metadata :: "string \<rightharpoonup> string"
  cir_Labels :: "string \<rightharpoonup> string"
  cir_Hostname :: string
  cir_ResourcesSpec :: ResourcesSpec
  cir_BootDiskSpec :: AttachedDiskSpec
  cir_NetworkInterfaceSpecs :: "NetworkInterfaceSpec list"

section \<open>Application load balancer messages\<close>

datatype LoadBalancer_Status =
    LB_STATUS_UNSPECIFIED | LB_CREATING | LB_STARTING | LB_ACTIVE | LB_STOPPING | LB_STOPPED
  | LB_DELETING | LB_UNRECOGNIZED int

text \<open>The \<open>oneof\<close> of a listener address.\<close>

datatype Address =
    ExternalIpv4Address string
  | InternalIpv4Address string
  | ExternalIpv6Address string
  | NoAddress

record Endpoint =
  en_Addresses :: "Address list"
  en_Ports :: "int64 list"

record Listener =
  li_Endpoints :: "Endpoint list"

record LoadBalancer =
  lb_Id :: string
  lb_Name :: string
  lb_Status :: LoadBalancer_Status
  lb_Listeners :: "Listener list"

text \<open>\<open>lb.GetStatus()\<close> on a possibly nil pointer.\<close>

definition GetStatus :: "LoadBalancer option \<Rightarrow> LoadBalancer_Status" where
  "GetStatus lb = (case lb of None \<Rightarrow> LB_STATUS_UNSPECIFIED | Some l \<Rightarrow> lb_Status l)"

datatype TargetAddressType = Target_IpAddress string | Target_Unset

record Target =
  ta_SubnetId :: string
  ta_AddressType :: TargetAddressType

record TargetGroup =
  tg_Id :: string
  tg_Name :: string
  tg_Targets :: "Target list"

record BackendGroup =
  bg_Id :: string
  bg_Name :: string

record AddTargetsRequest =
  atr_TargetGroupId :: string
  atr_Targets :: "Target list"

record RemoveTargetsRequest =
  rtr_TargetGroupId :: string
  rtr_Targets :: "Target list"

record CreateTargetGroupRequest =
  ctg_FolderId :: string
  ctg_Name :: string
  ctg_Description :: string
  ctg_Labels :: Labels

datatype LoadBalancingMode = ROUND_ROBIN | RANDOM | LEAST_REQUEST | MAGLEV_HASH

record LoadBalancingConfig =
  lbc_StrictLocality :: bool
  lbc_Mode :: LoadBalancingMode

text \<open>Durations are the \<open>time.Duration\<close> (nanoseconds in an \<open>int64\<close>) handed to \<open>durationpb.New\<close>.\<close>

record HealthCheck =
  hk_Timeout :: int64
  hk_Interval :: int64
  hk_UnhealthyThreshold :: int64
  hk_HealthyThreshold :: int64
  hk_Stream :: bool

record StreamBackend =
  sb_Name :: string
  sb_Port :: int64
  sb_TargetGroupIds :: "string list"
  sb_LoadBalancingConfig :: LoadBalancingConfig
  sb_Healthchecks :: "HealthCheck list"

record CreateBackendGroupRequest =
  cbg_FolderId :: string
  cbg_Name :: string
  cbg_Description :: string
  cbg_Labels :: Labels
  cbg_StreamBackends :: "StreamBackend list"

record Location =
  lo_ZoneId :: string
  lo_SubnetId :: string

text \<open>An internal address: \<open>None\<close> when the address field is left unset for the cloud to choose.\<close>

record InternalIpv4AddressSpec =
  ias_Address :: "string option"
  ias_SubnetId :: string

record EndpointSpec =
  es_Ports :: "int64 list"
  es_AddressSpecs :: "InternalIpv4AddressSpec list"

record AlbListenerSpec =
  als_Name :: string
  als_EndpointSpecs :: "EndpointSpec list"
  als_StreamBackendGroupId :: string

record CreateLoadBalancerRequest =
  clb_FolderId :: string
  clb_NetworkId :: string
  clb_Name :: string
  clb_Description :: string
  clb_Labels :: Labels
  clb_Locations :: "Location list"
  clb_ListenerSpecs :: "AlbListenerSpec list"
  clb_LogDisable :: bool

section \<open>Operations and their metadata\<close>

text \<open>An operation handle; the metadata message is one of those the client asks for or another one.\<close>

record Operation =
  op_Id :: string

datatype Meta =
    CreateInstanceMetadata string
  | CreateTargetGroupMetadata string
  | CreateBackendGroupMetadata string
  | CreateLoadBalancerMetadata string
  | OtherMetadata

section \<open>The Yandex Cloud SDK\<close>

text \<open>
  One function per SDK method the client calls.  Each call may change the environment and returns
  an error or a response.  \<open>WrapOperation\<close>, \<open>Metadata\<close>, \<open>Wait\<close> and \<open>Response\<close> are methods of the
  SDK's operation wrapper; \<open>ResolverFilter\<close> and \<open>ResolverPageSize\<close> belong to \<open>sdkresolvers\<close>.
\<close>

type_synonym ('e, 'a) ext = "'e \<Rightarrow> (err + 'a) \<times> 'e"

record ListRequest =
  lr_FolderId :: string
  lr_Filter :: string
  lr_PageSize :: int64

record 'e SDK =
  Instance_Get :: "string \<Rightarrow> ('e, Instance) ext"
  Instance_Create :: "CreateInstanceRequest \<Rightarrow> ('e, Operation) ext"
  Instance_Delete :: "string \<Rightarrow> ('e, Operation) ext"
  TargetGroup_Get :: "string \<Rightarrow> ('e, TargetGroup) ext"
  TargetGroup_List :: "ListRequest \<Rightarrow> ('e, TargetGroup list) ext"
  TargetGroup_Create :: "CreateTargetGroupRequest \<Rightarrow> ('e, Operation) ext"
  TargetGroup_Delete :: "string \<Rightarrow> ('e, Operation) ext"
  TargetGroup_AddTargets :: "AddTargetsRequest \<Rightarrow> ('e, Operation) ext"
  TargetGroup_RemoveTargets :: "RemoveTargetsRequest \<Rightarrow> ('e, Operation) ext"
  BackendGroup_Get :: "string \<Rightarrow> ('e, BackendGroup) ext"
  BackendGroup_List :: "ListRequest \<Rightarrow> ('e, BackendGroup list) ext"
  BackendGroup_Create :: "CreateBackendGroupRequest \<Rightarrow> ('e, Operation) ext"
  BackendGroup_Delete :: "string \<Rightarrow> ('e, Operation) ext"
  LoadBalancer_Get :: "string \<Rightarrow> ('e, LoadBalancer) ext"
  LoadBalancer_List :: "ListRequest \<Rightarrow> ('e, LoadBalancer list) ext"
  LoadBalancer_Create :: "CreateLoadBalancerRequest \<Rightarrow> ('e, Operation) ext"
  LoadBalancer_Delete :: "string \<Rightarrow> ('e, Operation) ext"
  NlbTargetGroup_Get :: "string \<Rightarrow> ('e, TargetGroup) ext"
  NlbTargetGroup_AddTargets :: "AddTargetsRequest \<Rightarrow> ('e, Operation) ext"
  NlbTargetGroup_RemoveTargets :: "RemoveTargetsRequest \<Rightarrow> ('e, Operation) ext"
  WrapOperation :: "Operation \<Rightarrow> ('e, Operation) ext"
  Operation_Metadata :: "Operation \<Rightarrow> ('e, Meta) ext"
  Operation_Wait :: "Operation \<Rightarrow> ('e, unit) ext"
  Operation_Response :: "Operation \<Rightarrow> ('e, unit) ext"
  ResolverFilter :: "string \<Rightarrow> string \<Rightarrow> string"
  ResolverPageSize :: int64
  SDK_Shutdown :: "('e, unit) ext"

section \<open>The Kubernetes API server and Cluster API lookups\<close>

text \<open>
  \<open>GetOwner...\<close> return \<open>None\<close> for a nil pointer with a nil error.  \<open>Patch_...\<close> are \<open>patch.Helper.Patch\<close>:
  they get the snapshot \<open>patch.NewHelper\<close> took and the object to persist, and work on copies of both.
  A secret is its \<open>Data\<close> map.
\<close>

record 'e Kube =
  Get_YandexCluster :: "string \<Rightarrow> string \<Rightarrow> ('e, YandexCluster) ext"
  Get_YandexMachine :: "string \<Rightarrow> string \<Rightarrow> ('e, YandexMachine) ext"
  Get_Secret :: "string \<Rightarrow> string \<Rightarrow> ('e, string \<rightharpoonup> string) ext"
  List_Machines :: "string \<Rightarrow> (string \<rightharpoonup> string) \<Rightarrow> ('e, Machine list) ext"
  GetOwnerCluster :: "ObjectMeta \<Rightarrow> ('e, Cluster option) ext"
  GetOwnerMachine :: "ObjectMeta \<Rightarrow> ('e, Machine option) ext"
  GetClusterFromMetadata :: "ObjectMeta \<Rightarrow> ('e, Cluster) ext"
  NewHelper_YandexCluster :: "YandexCluster \<Rightarrow> ('e, unit) ext"
  NewHelper_YandexMachine :: "YandexMachine \<Rightarrow> ('e, unit) ext"
  Patch_YandexCluster :: "YandexCluster \<Rightarrow> YandexCluster \<Rightarrow> ('e, unit) ext"
  Patch_YandexMachine :: "YandexMachine \<Rightarrow> YandexMachine \<Rightarrow> ('e, unit) ext"

section \<open>Helper packages\<close>

text \<open>
  Functions of \<open>google.golang.org/grpc/status\<close>, \<open>k8s.io/apimachinery\<close>, \<open>controllerutil\<close> and the
  Cluster API \<open>util\<close>, \<open>annotations\<close> and \<open>conditions\<close> packages.  \<open>FromError\<close> gives the status code and
  whether the error is a status error.  The constants of these packages that the provider passes on
  (condition severities and reasons, the failure reason, the type of a node address) are fields too.
\<close>

record Lib =
  FromError :: "err \<Rightarrow> nat \<times> bool"
  Apierrors_IsNotFound :: "err \<Rightarrow> bool"
  ContainsFinalizer :: "string list \<Rightarrow> string \<Rightarrow> bool"
  AddFinalizer :: "string list \<Rightarrow> string \<Rightarrow> string list"
  RemoveFinalizer :: "string list \<Rightarrow> string \<Rightarrow> string list"
  IsPaused :: "Cluster \<Rightarrow> ObjectMeta \<Rightarrow> bool"
  IsControlPlaneMachine :: "Machine \<Rightarrow> bool"
  APIEndpoint_IsValid :: "APIEndpoint \<Rightarrow> bool"
  Quantity_AsInt64 :: "Quantity \<Rightarrow> int64 option"
  codes_NotFound :: nat
  SeverityError :: string
  SeverityWarning :: string
  SeverityInfo :: string
  DeletionFailedReason :: string
  DeletingReason :: string
  UpdateMachineError :: string
  NodeInternalIP :: string
  MarkTrue :: "string \<Rightarrow> Conditions \<Rightarrow> Conditions"
  MarkFalse :: "string \<Rightarrow> string \<Rightarrow> string \<Rightarrow> string \<Rightarrow> Conditions \<Rightarrow> Conditions"
  MarkUnknown :: "string \<Rightarrow> string \<Rightarrow> string \<Rightarrow> Conditions \<Rightarrow> Conditions"

text \<open>
  What the documentation of \<open>controllerutil\<close> says of finalizers, for the properties that need it: adding
  makes a finalizer present, removing makes it absent, and neither touches the others.
\<close>

definition finalizer_laws :: "Lib \<Rightarrow> bool" where
  "finalizer_laws L \<longleftrightarrow>
     (\<forall>fs f. ContainsFinalizer L (AddFinalizer L fs f) f) \<and>
     (\<forall>fs f. \<not> ContainsFinalizer L (RemoveFinalizer L fs f) f) \<and>
     (\<forall>fs f g. g \<noteq> f \<longrightarrow> ContainsFinalizer L (AddFinalizer L fs f) g = ContainsFinalizer L fs g) \<and>
     (\<forall>fs f g. g \<noteq> f \<longrightarrow> ContainsFinalizer L (RemoveFinalizer L fs f) g = ContainsFinalizer L fs g)"

section \<open>The world: environment, trace and metrics\<close>

text \<open>
  \<open>calls\<close> is a history variable: every request sent to the SDK and every patch sent to the API server
  is appended to it, with whether it succeeded.  Nothing in the model reads it; the safety and
  ordering properties are stated over it.
\<close>

datatype ext_call =
    C_InstanceGet string
  | C_InstanceCreate CreateInstanceRequest
  | C_InstanceDelete string
  | C_TargetGroupGet string
  | C_TargetGroupList ListRequest
  | C_TargetGroupCreate CreateTargetGroupRequest
  | C_TargetGroupDelete string
  | C_AddTargets AddTargetsRequest
  | C_RemoveTargets RemoveTargetsRequest
  | C_BackendGroupGet string
  | C_BackendGroupList ListRequest
  | C_BackendGroupCreate CreateBackendGroupRequest
  | C_BackendGroupDelete string
  | C_LoadBalancerGet string
  | C_LoadBalancerList ListRequest
  | C_LoadBalancerCreate CreateLoadBalancerRequest
  | C_LoadBalancerDelete string
  | C_NlbTargetGroupGet string
  | C_NlbAddTargets AddTargetsRequest
  | C_NlbRemoveTargets RemoveTargetsRequest
  | C_PatchCluster YandexCluster
  | C_PatchMachine YandexMachine

text \<open>Requests that change something in the cloud, and those that create something there.\<close>

fun is_create :: "ext_call \<Rightarrow> bool" where
  "is_create (C_InstanceCreate _) = True"
| "is_create (C_TargetGroupCreate _) = True"
| "is_create (C_BackendGroupCreate _) = True"
| "is_create (C_LoadBalancerCreate _) = True"
| "is_create _ = False"

fun is_delete :: "ext_call \<Rightarrow> bool" where
  "is_delete (C_InstanceDelete _) = True"
| "is_delete (C_TargetGroupDelete _) = True"
| "is_delete (C_BackendGroupDelete _) = True"
| "is_delete (C_LoadBalancerDelete _) = True"
| "is_delete _ = False"

fun is_target_change :: "ext_call \<Rightarrow> bool" where
  "is_target_change (C_AddTargets _) = True"
| "is_target_change (C_RemoveTargets _) = True"
| "is_target_change (C_NlbAddTargets _) = True"
| "is_target_change (C_NlbRemoveTargets _) = True"
| "is_target_change _ = False"

fun is_patch :: "ext_call \<Rightarrow> bool" where
  "is_patch (C_PatchCluster _) = True"
| "is_patch (C_PatchMachine _) = True"
| "is_patch _ = False"

definition is_mutation :: "ext_call \<Rightarrow> bool" where
  "is_mutation c \<longleftrightarrow> is_create c \<or> is_delete c \<or> is_target_change c"

end
