(* ===== verification/Metrics.thy ===== *)
theory Metrics
  imports Cloud_Api
begin

text \<open>
  \<open>internal/pkg/metrics\<close>: one histogram of request latencies and one counter of requests, both keyed
  by label values.  A histogram is kept as the number of its observations (latencies come from the
  clock, which the model leaves out); a counter is its value.  The world record that all clients
  share is declared here because it holds the metrics.
\<close>

definition StatusFailed :: string where "StatusFailed = ''failed''"
definition StatusSuccess :: string where "StatusSuccess = ''success''"
definition ServiceLabelCompute :: string where "ServiceLabelCompute = ''compute''"
definition ServiceLabelAlbTargetGroup :: string where "ServiceLabelAlbTargetGroup = ''alb-target-group''"
definition ServiceLabelAlbBackendGroup :: string where "ServiceLabelAlbBackendGroup = ''alb-backend-group''"
definition ServiceLabelAlb :: string where "ServiceLabelAlb = ''alb''"
definition ServiceLabelNlbTargetGroup :: string where "ServiceLabelNlbTargetGroup = ''nlb-target-group''"
definition ControllerLabelMachine :: string where "ControllerLabelMachine = ''yandexmachine''"

lemmas label_defs = StatusFailed_def StatusSuccess_def ServiceLabelCompute_def
  ServiceLabelAlbTargetGroup_def ServiceLabelAlbBackendGroup_def ServiceLabelAlb_def
  ServiceLabelNlbTargetGroup_def ControllerLabelMachine_def

definition metricYCSubsystem :: string where "metricYCSubsystem = ''yc''"
definition metricRequestCountKey :: string where "metricRequestCountKey = ''api_requests''"
definition metricRequestDurationKey :: string where "metricRequestDurationKey = ''api_request_duration_seconds''"
definition metricServiceLabel :: string where "metricServiceLabel = ''object''"
definition metricControllerLabel :: string where "metricControllerLabel = ''controller''"
definition metricStatusLabel :: string where "metricStatusLabel = ''status''"

text \<open>
  How the two collectors are declared: the options of \<open>prometheus.NewHistogramVec\<close> and \<open>prometheus.NewCounterVec\<close> with the
  names of the labels.  The bounds of the buckets are in milliseconds.
\<close>

record VecOpts =
  vo_Subsystem :: string
  vo_Name :: string
  vo_Help :: string
  vo_Labels :: "string list"

definition durationBuckets :: "nat list" where
  "durationBuckets = [0, 100, 250, 500, 750, 1000, 5000]"

definition APIDuration_opts :: "VecOpts \<times> nat list" where
  "APIDuration_opts =
     (\<lparr>vo_Subsystem = metricYCSubsystem, vo_Name = metricRequestDurationKey,
       vo_Help = ''Latency of HTTP requests to YandexCloud API'',
       vo_Labels = [metricControllerLabel, metricServiceLabel]\<rparr>, durationBuckets)"

definition APIRequests_opts :: VecOpts where
  "APIRequests_opts =
     \<lparr>vo_Subsystem = metricYCSubsystem, vo_Name = metricRequestCountKey,
      vo_Help = ''Number of YandexCloud API requests'',
      vo_Labels = [metricControllerLabel, metricServiceLabel, metricStatusLabel]\<rparr>"

text \<open>\<open>YcMetrics\<close>: observations of the histogram and value of the counter, per label values.\<close>

record YcMetrics =
  APIDuration :: "string list \<Rightarrow> nat"
  APIRequests :: "string list \<Rightarrow> nat"

definition no_metrics :: YcMetrics where
  "no_metrics = \<lparr>APIDuration = (\<lambda>_. 0), APIRequests = (\<lambda>_. 0)\<rparr>"

text \<open>\<open>MetricContext\<close> without the start time.\<close>

record MetricContext =
  mc_Attributes :: "string list"

definition NewMetricContext :: "string \<Rightarrow> string \<Rightarrow> MetricContext" where
  "NewMetricContext controller service = \<lparr>mc_Attributes = [controller, service]\<rparr>"

definition observe :: "MetricContext \<Rightarrow> YcMetrics \<Rightarrow> err option \<Rightarrow> YcMetrics" where
  "observe mc om e =
     (let a = mc_Attributes mc;
          om1 = om\<lparr>APIDuration := (APIDuration om)(a := Suc (APIDuration om a))\<rparr>
      in case e of
           Some _ \<Rightarrow>
             (let l = a @ [StatusFailed]
              in om1\<lparr>APIRequests := (APIRequests om1)(l := Suc (APIRequests om1 l))\<rparr>)
         | None \<Rightarrow>
             (let l = a @ [StatusSuccess]
              in om1\<lparr>APIRequests := (APIRequests om1)(l := Suc (APIRequests om1 l))\<rparr>))"

section \<open>The world\<close>

record 'e World =
  env :: 'e
  calls :: "(ext_call \<times> bool) list"
  metrics :: YcMetrics

definition ObserveRequest :: "MetricContext \<Rightarrow> err option \<Rightarrow> 'e World \<Rightarrow> 'e World" where
  "ObserveRequest mc e w = w\<lparr>metrics := observe mc (metrics w) e\<rparr>"

text \<open>A call that leaves the process: the environment moves and the result is an error or a value.\<close>

definition external :: "('e, 'a) ext \<Rightarrow> ('e World, 'a) go" where
  "external f w =
     (case f (env w) of
        (Inl e, e') \<Rightarrow> (Err e, w\<lparr>env := e'\<rparr>)
      | (Inr a, e') \<Rightarrow> (Ok a, w\<lparr>env := e'\<rparr>))"

text \<open>The same, recorded in the trace as call \<open>c\<close>.\<close>

definition traced :: "ext_call \<Rightarrow> ('e, 'a) ext \<Rightarrow> ('e World, 'a) go" where
  "traced c f w =
     (case external f w of (r, w') \<Rightarrow> (r, w'\<lparr>calls := calls w' @ [(c, is_ok r)]\<rparr>))"

lemma external_run:
  assumes "external f w = (r, w')"
  shows "calls w' = calls w" "metrics w' = metrics w" "r \<noteq> Panic p"
  using assms by (auto simp: external_def split: prod.splits sum.splits)

lemma tryG_external:
  assumes "tryG (external f) k h w = (r, w')"
  obtains
    (ok) a v where "external f w = (Ok a, v)" "calls v = calls w" "metrics v = metrics w" "k a v = (r, w')"
  | (err) e v where "external f w = (Err e, v)" "calls v = calls w" "metrics v = metrics w" "h e v = (r, w')"
proof -
  obtain q v where q: "external f w = (q, v)" by fastforce
  from external_run [OF q] assms q that show thesis by (cases q) auto
qed

lemma bindG_external:
  assumes "bindG (external f) k w = (r, w')"
  obtains
    (ok) a v where "external f w = (Ok a, v)" "calls v = calls w" "metrics v = metrics w" "k a v = (r, w')"
  | (err) "\<not> is_ok r" "calls w' = calls w" "metrics w' = metrics w"
  using assms unfolding bindG_def by (elim tryG_external) auto

lemma traced_run:
  assumes "traced c f w = (r, w')"
  shows "calls w' = calls w @ [(c, is_ok r)]" "metrics w' = metrics w" "r \<noteq> Panic p"
  using assms by (auto simp: traced_def dest: external_run split: prod.splits)

text \<open>
  \<open>mc := NewMetricContext(..); result, err := sdk(..); mc.ObserveRequest(err)\<close>, the frame of every
  method of the client.
\<close>

definition observed :: "MetricContext \<Rightarrow> ('e World, 'a) go \<Rightarrow> ('e World, 'a) go" where
  "observed mc m w = (case m w of (r, w') \<Rightarrow> (r, ObserveRequest mc (error_of r) w'))"

section \<open>Metrics follow the trace\<close>

text \<open>The label values of a traced SDK request.\<close>

fun call_labels :: "ext_call \<Rightarrow> string list" where
  "call_labels (C_InstanceGet _) = [ControllerLabelMachine, ServiceLabelCompute]"
| "call_labels (C_InstanceCreate _) = [ControllerLabelMachine, ServiceLabelCompute]"
| "call_labels (C_InstanceDelete _) = [ControllerLabelMachine, ServiceLabelCompute]"
| "call_labels (C_TargetGroupGet _) = [ControllerLabelMachine, ServiceLabelAlbTargetGroup]"
| "call_labels (C_TargetGroupList _) = [ControllerLabelMachine, ServiceLabelAlbTargetGroup]"
| "call_labels (C_TargetGroupCreate _) = [ControllerLabelMachine, ServiceLabelAlbTargetGroup]"
| "call_labels (C_TargetGroupDelete _) = [ControllerLabelMachine, ServiceLabelAlbTargetGroup]"
| "call_labels (C_AddTargets _) = [ControllerLabelMachine, ServiceLabelAlbTargetGroup]"
| "call_labels (C_RemoveTargets _) = [ControllerLabelMachine, ServiceLabelAlbTargetGroup]"
| "call_labels (C_BackendGroupGet _) = [ControllerLabelMachine, ServiceLabelAlbBackendGroup]"
| "call_labels (C_BackendGroupList _) = [ControllerLabelMachine, ServiceLabelAlbBackendGroup]"
| "call_labels (C_BackendGroupCreate _) = [ControllerLabelMachine, ServiceLabelAlbBackendGroup]"
| "call_labels (C_BackendGroupDelete _) = [ControllerLabelMachine, ServiceLabelAlbBackendGroup]"
| "call_labels (C_LoadBalancerGet _) = [ControllerLabelMachine, ServiceLabelAlb]"
| "call_labels (C_LoadBalancerList _) = [ControllerLabelMachine, ServiceLabelAlb]"
| "call_labels (C_LoadBalancerCreate _) = [ControllerLabelMachine, ServiceLabelAlb]"
| "call_labels (C_LoadBalancerDelete _) = [ControllerLabelMachine, ServiceLabelAlb]"
| "call_labels (C_NlbTargetGroupGet _) = [ControllerLabelMachine, ServiceLabelNlbTargetGroup]"
| "call_labels (C_NlbAddTargets _) = [ControllerLabelMachine, ServiceLabelNlbTargetGroup]"
| "call_labels (C_NlbRemoveTargets _) = [ControllerLabelMachine, ServiceLabelNlbTargetGroup]"
| "call_labels (C_PatchCluster _) = []"
| "call_labels (C_PatchMachine _) = []"

definition status_label :: "bool \<Rightarrow> string" where
  "status_label ok = (if ok then StatusSuccess else StatusFailed)"

text \<open>The metrics that a trace of SDK requests ought to produce.\<close>

definition metrics_of :: "(ext_call \<times> bool) list \<Rightarrow> YcMetrics" where
  "metrics_of cs =
     (let sdk = filter (\<lambda>(c, ok). \<not> is_patch c) cs in
      \<lparr>APIDuration = (\<lambda>l. length (filter (\<lambda>(c, ok). call_labels c = l) sdk)),
       APIRequests = (\<lambda>l. length (filter (\<lambda>(c, ok). call_labels c @ [status_label ok] = l) sdk))\<rparr>)"

text \<open>
  \<open>WithLabelValues\<close> panics when it is not given one value for each label.  It is given one: nothing is observed under
  another number of values.
\<close>

definition fits_labels :: "YcMetrics \<Rightarrow> bool" where
  "fits_labels m \<longleftrightarrow>
     (\<forall>l. APIDuration m l \<noteq> 0 \<longrightarrow> length l = length (vo_Labels (fst APIDuration_opts))) \<and>
     (\<forall>l. APIRequests m l \<noteq> 0 \<longrightarrow> length l = length (vo_Labels APIRequests_opts))"

lemma call_labels_length: "\<not> is_patch c \<Longrightarrow> length (call_labels c) = 2"
  by (cases c) simp_all

lemma metrics_of_labels: "fits_labels (metrics_of cs)"
  by (auto simp: fits_labels_def metrics_of_def APIDuration_opts_def APIRequests_opts_def filter_empty_conv
      call_labels_length)

lemma metrics_of_Nil: "metrics_of [] = no_metrics"
  by (simp add: metrics_of_def no_metrics_def)

lemma metrics_of_patch: "is_patch c \<Longrightarrow> metrics_of (cs @ [(c, ok)]) = metrics_of cs"
  by (simp add: metrics_of_def)

lemma metrics_of_snoc:
  assumes "\<not> is_patch c" "mc_Attributes mc = call_labels c" "ok = (e = None)"
  shows "metrics_of (cs @ [(c, ok)]) = observe mc (metrics_of cs) e"
  using assms
  by (cases e) (auto simp: metrics_of_def observe_def status_label_def Let_def fun_eq_iff)

text \<open>
  The relation between the world before and after a run of any provider code: the trace only grows,
  and metrics that agree with the trace before agree with it after.
\<close>

definition trace_grows :: "'e World \<Rightarrow> 'e World \<Rightarrow> bool" where
  "trace_grows w w' \<longleftrightarrow> prefix (calls w) (calls w')"

definition metrics_in_sync :: "'e World \<Rightarrow> bool" where
  "metrics_in_sync w \<longleftrightarrow> metrics w = metrics_of (calls w)"

definition keeps_sync :: "'e World \<Rightarrow> 'e World \<Rightarrow> bool" where
  "keeps_sync w w' \<longleftrightarrow> (metrics_in_sync w \<longrightarrow> metrics_in_sync w') \<and> trace_grows w w'"

interpretation sync: run_relation keeps_sync
  by unfold_locales (auto simp: keeps_sync_def trace_grows_def)

lemma external_keeps_sync: "every_run keeps_sync (external f)"
  by (rule every_runI)
    (auto simp: external_def keeps_sync_def trace_grows_def metrics_in_sync_def
      split: prod.splits sum.splits)

lemma observed_traced_keeps_sync:
  assumes "\<not> is_patch c" "mc_Attributes mc = call_labels c"
  shows "every_run keeps_sync (observed mc (traced c f))"
proof (rule every_runI)
  fix w r w'
  assume run: "observed mc (traced c f) w = (r, w')"
  have m: "metrics_of (cs @ [(c, True)]) = observe mc (metrics_of cs) None"
      "metrics_of (cs @ [(c, False)]) = observe mc (metrics_of cs) (Some e)" for cs e
    by (simp_all add: metrics_of_snoc [OF assms])
  show "keeps_sync w w'"
    using run
    by (auto simp: observed_def traced_def external_def ObserveRequest_def keeps_sync_def
        trace_grows_def metrics_in_sync_def m(1) m(2) [symmetric] split: prod.splits sum.splits)
qed

lemma traced_patch_keeps_sync:
  assumes "is_patch c"
  shows "every_run keeps_sync (traced c f)"
  by (rule every_runI)
    (auto simp: traced_def external_def keeps_sync_def trace_grows_def metrics_in_sync_def
      metrics_of_patch assms split: prod.splits sum.splits)

text \<open>Another relation of this kind: the trace grows, and by requests to the cloud only.\<close>

definition cloud_only :: "'e World \<Rightarrow> 'e World \<Rightarrow> bool" where
  "cloud_only w w' \<longleftrightarrow> (\<exists>cs. calls w' = calls w @ cs \<and> list_all (\<lambda>(c, ok). \<not> is_patch c) cs)"

interpretation cloud_only: run_relation cloud_only
proof unfold_locales
  fix s t u :: "'e World"
  show "cloud_only s s" by (auto simp: cloud_only_def)
  assume "cloud_only s t" "cloud_only t u"
  then show "cloud_only s u" by (fastforce simp: cloud_only_def)
qed

lemma external_cloud_only: "every_run cloud_only (external f)"
  by (rule every_runI) (auto simp: cloud_only_def dest: external_run)

lemma observed_traced_cloud_only:
  assumes "\<not> is_patch c"
  shows "every_run cloud_only (observed mc (traced c f))"
  using assms
  by (intro every_runI)
    (auto simp: observed_def cloud_only_def ObserveRequest_def dest: traced_run split: prod.splits)

end
