(* ===== verification/Yandex_Client.thy ===== *)
theory Yandex_Client
  imports Metrics
begin

text \<open>
  \<open>internal/pkg/client\<close>: the interfaces of \<open>interfaces.go\<close> as a record of operations over an
  arbitrary world, and \<open>YandexClient\<close>, which implements them on the SDK.  Each method builds its
  request, calls the SDK once, records the outcome in the metrics and, for creations, digs the new
  object's identifier out of the operation's metadata.  At the end stand the two contracts the
  services rely on, as locales, and their interpretation by \<open>YandexClient\<close> on every SDK.
\<close>

section \<open>interfaces.go\<close>

record 'w Client =
  ComputeGet :: "string \<Rightarrow> ('w, Instance) go"
  ComputeCreate :: "CreateInstanceRequest \<Rightarrow> ('w, string) go"
  ComputeDelete :: "string \<Rightarrow> ('w, unit) go"
  ALBAddTarget :: "AddTargetsRequest \<Rightarrow> ('w, Operation) go"
  ALBGetTargetGroup :: "string \<Rightarrow> ('w, TargetGroup) go"
  ALBRemoveTarget :: "RemoveTargetsRequest \<Rightarrow> ('w, Operation) go"
  ALBTargetGroupCreate :: "CreateTargetGroupRequest \<Rightarrow> ('w, string) go"
  ALBTargetGroupDelete :: "string \<Rightarrow> ('w, unit) go"
  ALBTargetGroupGet :: "string \<Rightarrow> ('w, TargetGroup) go"
  ALBTargetGroupGetByName :: "string \<Rightarrow> string \<Rightarrow> ('w, TargetGroup option) go"
  ALBBackendGroupCreate :: "CreateBackendGroupRequest \<Rightarrow> ('w, string) go"
  ALBBackendGroupDelete :: "string \<Rightarrow> ('w, unit) go"
  ALBBackendGroupGet :: "string \<Rightarrow> ('w, BackendGroup) go"
  ALBBackendGroupGetByName :: "string \<Rightarrow> string \<Rightarrow> ('w, BackendGroup option) go"
  ALBCreate :: "CreateLoadBalancerRequest \<Rightarrow> ('w, string) go"
  ALBDelete :: "string \<Rightarrow> ('w, unit) go"
  ALBGet :: "string \<Rightarrow> ('w, LoadBalancer) go"
  ALBGetByName :: "string \<Rightarrow> string \<Rightarrow> ('w, LoadBalancer option) go"
  NLBAddTarget :: "AddTargetsRequest \<Rightarrow> ('w, Operation) go"
  NLBGetTargetGroup :: "string \<Rightarrow> ('w, TargetGroup) go"
  NLBRemoveTarget :: "RemoveTargetsRequest \<Rightarrow> ('w, Operation) go"
  Client_Close :: "('w, unit) go"

section \<open>compute.go\<close>

definition YandexClient_ComputeGet :: "'e SDK \<Rightarrow> string \<Rightarrow> ('e World, Instance) go" where
  "YandexClient_ComputeGet sdk ident =
     (let mc = NewMetricContext ControllerLabelMachine ServiceLabelCompute in
      observed mc (traced (C_InstanceGet ident) (Instance_Get sdk ident)))"

text \<open>The type assertion on the metadata has no second result: another message type panics.\<close>

definition YandexClient_ComputeCreate ::
    "'e SDK \<Rightarrow> CreateInstanceRequest \<Rightarrow> ('e World, string) go" where
  "YandexClient_ComputeCreate sdk req =
     (let mc = NewMetricContext ControllerLabelMachine ServiceLabelCompute in
      bindG (observed mc (traced (C_InstanceCreate req) (Instance_Create sdk req))) (\<lambda>op.
      bindG (external (WrapOperation sdk op)) (\<lambda>ci.
      bindG (external (Operation_Metadata sdk ci)) (\<lambda>meta.
      case meta of
        CreateInstanceMetadata i \<Rightarrow> ret i
      | _ \<Rightarrow> panic ''interface conversion''))))"

definition YandexClient_ComputeDelete :: "'e SDK \<Rightarrow> string \<Rightarrow> ('e World, unit) go" where
  "YandexClient_ComputeDelete sdk ident =
     (let mc = NewMetricContext ControllerLabelMachine ServiceLabelCompute in
      bindG (observed mc (traced (C_InstanceDelete ident) (Instance_Delete sdk ident)))
        (\<lambda>_. ret ()))"

section \<open>alb.go\<close>

definition YandexClient_getMeta :: "'e SDK \<Rightarrow> Operation \<Rightarrow> ('e World, Meta) go" where
  "YandexClient_getMeta sdk op =
     bindG (external (WrapOperation sdk op)) (\<lambda>wo.
     external (Operation_Metadata sdk wo))"

definition YandexClient_ALBAddTarget :: "'e SDK \<Rightarrow> AddTargetsRequest \<Rightarrow> ('e World, Operation) go" where
  "YandexClient_ALBAddTarget sdk req =
     (let mc = NewMetricContext ControllerLabelMachine ServiceLabelAlbTargetGroup in
      observed mc (traced (C_AddTargets req) (TargetGroup_AddTargets sdk req)))"

definition YandexClient_ALBRemoveTarget :: "'e SDK \<Rightarrow> RemoveTargetsRequest \<Rightarrow> ('e World, Operation) go" where
  "YandexClient_ALBRemoveTarget sdk req =
     (let mc = NewMetricContext ControllerLabelMachine ServiceLabelAlbTargetGroup in
      observed mc (traced (C_RemoveTargets req) (TargetGroup_RemoveTargets sdk req)))"

definition YandexClient_ALBGetTargetGroup :: "'e SDK \<Rightarrow> string \<Rightarrow> ('e World, TargetGroup) go" where
  "YandexClient_ALBGetTargetGroup sdk ident =
     (let mc = NewMetricContext ControllerLabelMachine ServiceLabelAlbTargetGroup in
      observed mc (traced (C_TargetGroupGet ident) (TargetGroup_Get sdk ident)))"

definition YandexClient_ALBTargetGroupCreate :: "'e SDK \<Rightarrow> CreateTargetGroupRequest \<Rightarrow> ('e World, string) go" where
  "YandexClient_ALBTargetGroupCreate sdk req =
     (let mc = NewMetricContext ControllerLabelMachine ServiceLabelAlbTargetGroup in
      bindG (observed mc (traced (C_TargetGroupCreate req) (TargetGroup_Create sdk req))) (\<lambda>op.
      bindG (YandexClient_getMeta sdk op) (\<lambda>meta.
      case meta of
        CreateTargetGroupMetadata i \<Rightarrow> ret i
      | _ \<Rightarrow> raise (Errorf ''could not get application loadbalancer TargetGroup metatdata from operation response''))))"

definition YandexClient_ALBTargetGroupDelete :: "'e SDK \<Rightarrow> string \<Rightarrow> ('e World, unit) go" where
  "YandexClient_ALBTargetGroupDelete sdk ident =
     (let mc = NewMetricContext ControllerLabelMachine ServiceLabelAlbTargetGroup in
      bindG (observed mc (traced (C_TargetGroupDelete ident) (TargetGroup_Delete sdk ident)))
        (\<lambda>_. ret ()))"

definition YandexClient_ALBTargetGroupGet :: "'e SDK \<Rightarrow> string \<Rightarrow> ('e World, TargetGroup) go" where
  "YandexClient_ALBTargetGroupGet sdk ident =
     (let mc = NewMetricContext ControllerLabelMachine ServiceLabelAlbTargetGroup in
      observed mc (traced (C_TargetGroupGet ident) (TargetGroup_Get sdk ident)))"

definition YandexClient_ALBTargetGroupGetByName ::
    "'e SDK \<Rightarrow> string \<Rightarrow> string \<Rightarrow> ('e World, TargetGroup option) go" where
  "YandexClient_ALBTargetGroupGetByName sdk ident name =
     (let mc = NewMetricContext ControllerLabelMachine ServiceLabelAlbTargetGroup;
          req = \<lparr>lr_FolderId = ident, lr_Filter = ResolverFilter sdk ''name'' name,
                 lr_PageSize = ResolverPageSize sdk\<rparr> in
      bindG (observed mc (traced (C_TargetGroupList req) (TargetGroup_List sdk req)))
        (\<lambda>resp. case resp of [] \<Rightarrow> ret None | x # _ \<Rightarrow> ret (Some x)))"

definition YandexClient_ALBBackendGroupCreate :: "'e SDK \<Rightarrow> CreateBackendGroupRequest \<Rightarrow> ('e World, string) go" where
  "YandexClient_ALBBackendGroupCreate sdk req =
     (let mc = NewMetricContext ControllerLabelMachine ServiceLabelAlbBackendGroup in
      bindG (observed mc (traced (C_BackendGroupCreate req) (BackendGroup_Create sdk req))) (\<lambda>op.
      bindG (YandexClient_getMeta sdk op) (\<lambda>meta.
      case meta of
        CreateBackendGroupMetadata i \<Rightarrow> ret i
      | _ \<Rightarrow> raise (Errorf ''could not get application loadbalancer BackendGroup metatdata from operation response''))))"

definition YandexClient_ALBBackendGroupDelete :: "'e SDK \<Rightarrow> string \<Rightarrow> ('e World, unit) go" where
  "YandexClient_ALBBackendGroupDelete sdk ident =
     (let mc = NewMetricContext ControllerLabelMachine ServiceLabelAlbBackendGroup in
      bindG (observed mc (traced (C_BackendGroupDelete ident) (BackendGroup_Delete sdk ident)))
        (\<lambda>_. ret ()))"

definition YandexClient_ALBBackendGroupGet :: "'e SDK \<Rightarrow> string \<Rightarrow> ('e World, BackendGroup) go" where
  "YandexClient_ALBBackendGroupGet sdk ident =
     (let mc = NewMetricContext ControllerLabelMachine ServiceLabelAlbBackendGroup in
      observed mc (traced (C_BackendGroupGet ident) (BackendGroup_Get sdk ident)))"

definition YandexClient_ALBBackendGroupGetByName ::
    "'e SDK \<Rightarrow> string \<Rightarrow> string \<Rightarrow> ('e World, BackendGroup option) go" where
  "YandexClient_ALBBackendGroupGetByName sdk ident name =
     (let mc = NewMetricContext ControllerLabelMachine ServiceLabelAlbBackendGroup;
          req = \<lparr>lr_FolderId = ident, lr_Filter = ResolverFilter sdk ''name'' name,
                 lr_PageSize = ResolverPageSize sdk\<rparr> in
      bindG (observed mc (traced (C_BackendGroupList req) (BackendGroup_List sdk req)))
        (\<lambda>resp. case resp of [] \<Rightarrow> ret None | x # _ \<Rightarrow> ret (Some x)))"

text \<open>Creation of a load balancer waits for the operation to finish before it returns the identifier.\<close>

definition YandexClient_ALBCreate ::
    "'e SDK \<Rightarrow> CreateLoadBalancerRequest \<Rightarrow> ('e World, string) go" where
  "YandexClient_ALBCreate sdk req =
     (let mc = NewMetricContext ControllerLabelMachine ServiceLabelAlb in
      bindG (observed mc (traced (C_LoadBalancerCreate req) (LoadBalancer_Create sdk req))) (\<lambda>op.
      bindG (external (WrapOperation sdk op)) (\<lambda>ci.
      bindG (external (Operation_Metadata sdk ci)) (\<lambda>meta.
      case meta of
        CreateLoadBalancerMetadata i \<Rightarrow>
          bindG (external (Operation_Wait sdk ci)) (\<lambda>_.
          bindG (external (Operation_Response sdk ci)) (\<lambda>_.
          ret i))
      | _ \<Rightarrow>
          raise (Errorf ''could not get application load balancer ID from create operation metadata'')))))"

definition YandexClient_ALBDelete :: "'e SDK \<Rightarrow> string \<Rightarrow> ('e World, unit) go" where
  "YandexClient_ALBDelete sdk ident =
     (let mc = NewMetricContext ControllerLabelMachine ServiceLabelAlb in
      bindG (observed mc (traced (C_LoadBalancerDelete ident) (LoadBalancer_Delete sdk ident)))
        (\<lambda>_. ret ()))"

definition YandexClient_ALBGet :: "'e SDK \<Rightarrow> string \<Rightarrow> ('e World, LoadBalancer) go" where
  "YandexClient_ALBGet sdk ident =
     (let mc = NewMetricContext ControllerLabelMachine ServiceLabelAlb in
      observed mc (traced (C_LoadBalancerGet ident) (LoadBalancer_Get sdk ident)))"

definition YandexClient_ALBGetByName ::
    "'e SDK \<Rightarrow> string \<Rightarrow> string \<Rightarrow> ('e World, LoadBalancer option) go" where
  "YandexClient_ALBGetByName sdk ident name =
     (let mc = NewMetricContext ControllerLabelMachine ServiceLabelAlb;
          req = \<lparr>lr_FolderId = ident, lr_Filter = ResolverFilter sdk ''name'' name,
                 lr_PageSize = ResolverPageSize sdk\<rparr> in
      bindG (observed mc (traced (C_LoadBalancerList req) (LoadBalancer_List sdk req)))
        (\<lambda>resp. case resp of [] \<Rightarrow> ret None | x # _ \<Rightarrow> ret (Some x)))"

section \<open>nlb.go\<close>

definition YandexClient_NLBAddTarget :: "'e SDK \<Rightarrow> AddTargetsRequest \<Rightarrow> ('e World, Operation) go" where
  "YandexClient_NLBAddTarget sdk req =
     (let mc = NewMetricContext ControllerLabelMachine ServiceLabelNlbTargetGroup in
      observed mc (traced (C_NlbAddTargets req) (NlbTargetGroup_AddTargets sdk req)))"

definition YandexClient_NLBRemoveTarget :: "'e SDK \<Rightarrow> RemoveTargetsRequest \<Rightarrow> ('e World, Operation) go" where
  "YandexClient_NLBRemoveTarget sdk req =
     (let mc = NewMetricContext ControllerLabelMachine ServiceLabelNlbTargetGroup in
      observed mc (traced (C_NlbRemoveTargets req) (NlbTargetGroup_RemoveTargets sdk req)))"

definition YandexClient_NLBGetTargetGroup :: "'e SDK \<Rightarrow> string \<Rightarrow> ('e World, TargetGroup) go" where
  "YandexClient_NLBGetTargetGroup sdk ident =
     (let mc = NewMetricContext ControllerLabelMachine ServiceLabelNlbTargetGroup in
      observed mc (traced (C_NlbTargetGroupGet ident) (NlbTargetGroup_Get sdk ident)))"

section \<open>client.go\<close>

definition YandexClient_Close :: "'e SDK \<Rightarrow> ('e World, unit) go" where
  "YandexClient_Close sdk = external (SDK_Shutdown sdk)"

definition YandexClient :: "'e SDK \<Rightarrow> 'e World Client" where
  "YandexClient sdk =
     \<lparr>ComputeGet = YandexClient_ComputeGet sdk,
      ComputeCreate = YandexClient_ComputeCreate sdk,
      ComputeDelete = YandexClient_ComputeDelete sdk,
      ALBAddTarget = YandexClient_ALBAddTarget sdk,
      ALBGetTargetGroup = YandexClient_ALBGetTargetGroup sdk,
      ALBRemoveTarget = YandexClient_ALBRemoveTarget sdk,
      ALBTargetGroupCreate = YandexClient_ALBTargetGroupCreate sdk,
      ALBTargetGroupDelete = YandexClient_ALBTargetGroupDelete sdk,
      ALBTargetGroupGet = YandexClient_ALBTargetGroupGet sdk,
      ALBTargetGroupGetByName = YandexClient_ALBTargetGroupGetByName sdk,
      ALBBackendGroupCreate = YandexClient_ALBBackendGroupCreate sdk,
      ALBBackendGroupDelete = YandexClient_ALBBackendGroupDelete sdk,
      ALBBackendGroupGet = YandexClient_ALBBackendGroupGet sdk,
      ALBBackendGroupGetByName = YandexClient_ALBBackendGroupGetByName sdk,
      ALBCreate = YandexClient_ALBCreate sdk,
      ALBDelete = YandexClient_ALBDelete sdk,
      ALBGet = YandexClient_ALBGet sdk,
      ALBGetByName = YandexClient_ALBGetByName sdk,
      NLBAddTarget = YandexClient_NLBAddTarget sdk,
      NLBGetTargetGroup = YandexClient_NLBGetTargetGroup sdk,
      NLBRemoveTarget = YandexClient_NLBRemoveTarget sdk,
      Client_Close = YandexClient_Close sdk\<rparr>"

lemmas client_method_defs =
  YandexClient_ComputeGet_def YandexClient_ComputeCreate_def YandexClient_ComputeDelete_def YandexClient_ALBAddTarget_def YandexClient_ALBGetTargetGroup_def YandexClient_ALBRemoveTarget_def YandexClient_ALBTargetGroupCreate_def YandexClient_ALBTargetGroupDelete_def YandexClient_ALBTargetGroupGet_def YandexClient_ALBTargetGroupGetByName_def YandexClient_ALBBackendGroupCreate_def YandexClient_ALBBackendGroupDelete_def YandexClient_ALBBackendGroupGet_def YandexClient_ALBBackendGroupGetByName_def YandexClient_ALBCreate_def YandexClient_ALBDelete_def YandexClient_ALBGet_def YandexClient_ALBGetByName_def YandexClient_NLBAddTarget_def YandexClient_NLBGetTargetGroup_def YandexClient_NLBRemoveTarget_def

lemma YandexClient_sel [simp]:
  "ComputeGet (YandexClient sdk) = YandexClient_ComputeGet sdk"
  "ComputeCreate (YandexClient sdk) = YandexClient_ComputeCreate sdk"
  "ComputeDelete (YandexClient sdk) = YandexClient_ComputeDelete sdk"
  "ALBAddTarget (YandexClient sdk) = YandexClient_ALBAddTarget sdk"
  "ALBGetTargetGroup (YandexClient sdk) = YandexClient_ALBGetTargetGroup sdk"
  "ALBRemoveTarget (YandexClient sdk) = YandexClient_ALBRemoveTarget sdk"
  "ALBTargetGroupCreate (YandexClient sdk) = YandexClient_ALBTargetGroupCreate sdk"
  "ALBTargetGroupDelete (YandexClient sdk) = YandexClient_ALBTargetGroupDelete sdk"
  "ALBTargetGroupGet (YandexClient sdk) = YandexClient_ALBTargetGroupGet sdk"
  "ALBTargetGroupGetByName (YandexClient sdk) = YandexClient_ALBTargetGroupGetByName sdk"
  "ALBBackendGroupCreate (YandexClient sdk) = YandexClient_ALBBackendGroupCreate sdk"
  "ALBBackendGroupDelete (YandexClient sdk) = YandexClient_ALBBackendGroupDelete sdk"
  "ALBBackendGroupGet (YandexClient sdk) = YandexClient_ALBBackendGroupGet sdk"
  "ALBBackendGroupGetByName (YandexClient sdk) = YandexClient_ALBBackendGroupGetByName sdk"
  "ALBCreate (YandexClient sdk) = YandexClient_ALBCreate sdk"
  "ALBDelete (YandexClient sdk) = YandexClient_ALBDelete sdk"
  "ALBGet (YandexClient sdk) = YandexClient_ALBGet sdk"
  "ALBGetByName (YandexClient sdk) = YandexClient_ALBGetByName sdk"
  "NLBAddTarget (YandexClient sdk) = YandexClient_NLBAddTarget sdk"
  "NLBGetTargetGroup (YandexClient sdk) = YandexClient_NLBGetTargetGroup sdk"
  "NLBRemoveTarget (YandexClient sdk) = YandexClient_NLBRemoveTarget sdk"
  "Client_Close (YandexClient sdk) = YandexClient_Close sdk"
  by (simp_all add: YandexClient_def)

section \<open>Contract: every method respects a relation on worlds\<close>

text \<open>
  What a service needs to know of its client to show that a whole reconciliation keeps an invariant
  or a frame: each method respects the relation, whatever it answers.
\<close>

locale respectful_client = run_relation R for R :: "'w \<Rightarrow> 'w \<Rightarrow> bool" +
  fixes C :: "'w Client"
  assumes run_ComputeGet: "\<And>x. every_run R (ComputeGet C x)"
    and run_ComputeCreate: "\<And>x. every_run R (ComputeCreate C x)"
    and run_ComputeDelete: "\<And>x. every_run R (ComputeDelete C x)"
    and run_ALBAddTarget: "\<And>x. every_run R (ALBAddTarget C x)"
    and run_ALBGetTargetGroup: "\<And>x. every_run R (ALBGetTargetGroup C x)"
    and run_ALBRemoveTarget: "\<And>x. every_run R (ALBRemoveTarget C x)"
    and run_ALBTargetGroupCreate: "\<And>x. every_run R (ALBTargetGroupCreate C x)"
    and run_ALBTargetGroupDelete: "\<And>x. every_run R (ALBTargetGroupDelete C x)"
    and run_ALBTargetGroupGet: "\<And>x. every_run R (ALBTargetGroupGet C x)"
    and run_ALBTargetGroupGetByName: "\<And>x y. every_run R (ALBTargetGroupGetByName C x y)"
    and run_ALBBackendGroupCreate: "\<And>x. every_run R (ALBBackendGroupCreate C x)"
    and run_ALBBackendGroupDelete: "\<And>x. every_run R (ALBBackendGroupDelete C x)"
    and run_ALBBackendGroupGet: "\<And>x. every_run R (ALBBackendGroupGet C x)"
    and run_ALBBackendGroupGetByName: "\<And>x y. every_run R (ALBBackendGroupGetByName C x y)"
    and run_ALBCreate: "\<And>x. every_run R (ALBCreate C x)"
    and run_ALBDelete: "\<And>x. every_run R (ALBDelete C x)"
    and run_ALBGet: "\<And>x. every_run R (ALBGet C x)"
    and run_ALBGetByName: "\<And>x y. every_run R (ALBGetByName C x y)"
    and run_NLBAddTarget: "\<And>x. every_run R (NLBAddTarget C x)"
    and run_NLBGetTargetGroup: "\<And>x. every_run R (NLBGetTargetGroup C x)"
    and run_NLBRemoveTarget: "\<And>x. every_run R (NLBRemoveTarget C x)"
begin

lemmas client_runs =
  run_ComputeGet run_ComputeCreate run_ComputeDelete run_ALBAddTarget run_ALBGetTargetGroup run_ALBRemoveTarget run_ALBTargetGroupCreate run_ALBTargetGroupDelete run_ALBTargetGroupGet run_ALBTargetGroupGetByName run_ALBBackendGroupCreate run_ALBBackendGroupDelete run_ALBBackendGroupGet run_ALBBackendGroupGetByName run_ALBCreate run_ALBDelete run_ALBGet run_ALBGetByName run_NLBAddTarget run_NLBGetTargetGroup run_NLBRemoveTarget

end

lemmas sync_steps = sync.run_bindG sync.run_ret sync.run_raise sync.run_panic
  observed_traced_keeps_sync external_keeps_sync

interpretation sync_client: respectful_client keeps_sync "YandexClient sdk" for sdk
  by unfold_locales
    (auto simp: client_method_defs Let_def NewMetricContext_def YandexClient_getMeta_def
      intro!: sync_steps split: list.split Meta.split)

lemmas cloud_only_steps = cloud_only.run_bindG cloud_only.run_ret cloud_only.run_raise
  cloud_only.run_panic observed_traced_cloud_only external_cloud_only

interpretation cloud_only_client: respectful_client cloud_only "YandexClient sdk" for sdk
  by unfold_locales
    (auto simp: client_method_defs Let_def YandexClient_getMeta_def
      intro!: cloud_only_steps split: list.split Meta.split)

section \<open>Contract: which requests a method sends\<close>

text \<open>
  \<open>emits M cs m\<close>: whatever its outcome, a run of \<open>m\<close> appends exactly the requests \<open>cs\<close> to the history
  \<open>M\<close> of the requests that change something in the cloud.  A look-up emits none, every other
  method exactly its own request, once.
\<close>

definition emits :: "('w \<Rightarrow> ext_call list) \<Rightarrow> ext_call list \<Rightarrow> ('w, 'a) go \<Rightarrow> bool" where
  "emits M cs m \<longleftrightarrow> (\<forall>s. M (snd (m s)) = M s @ cs)"

lemma emitsD: "emits M cs m \<Longrightarrow> m s = (r, s') \<Longrightarrow> M s' = M s @ cs"
  by (metis emits_def snd_conv)

lemma emits_bindG:
  assumes "emits M cs m" "\<And>a. emits M [] (k a)"
  shows "emits M cs (bindG m k)"
  unfolding emits_def
proof
  fix s
  obtain r t where m: "m s = (r, t)" by fastforce
  then have "M t = M s @ cs" using assms(1) by (rule emitsD [rotated])
  then show "M (snd (bindG m k s)) = M s @ cs"
    using m assms(2) by (cases r) (auto simp: emits_def)
qed

lemma emits_pure: "emits M [] (ret a)" "emits M [] (raise e)" "emits M [] (panic p)"
  by (simp_all add: emits_def)

text \<open>
  Weaker: the history only grows, and only by requests that satisfy \<open>P\<close>.  This relation is reflexive
  and transitive, so the rules for composed programs apply to it.
\<close>

definition grows_by :: "('w \<Rightarrow> ext_call list) \<Rightarrow> (ext_call \<Rightarrow> bool) \<Rightarrow> 'w \<Rightarrow> 'w \<Rightarrow> bool" where
  "grows_by M P w w' \<longleftrightarrow> (\<exists>cs. M w' = M w @ cs \<and> list_all P cs)"

interpretation grows: run_relation "grows_by M P" for M P
proof unfold_locales
  fix s t u
  show "grows_by M P s s" by (auto simp: grows_by_def)
  assume "grows_by M P s t" "grows_by M P t u"
  then show "grows_by M P s u" by (fastforce simp: grows_by_def)
qed

lemma grows_by_none: "grows_by M (\<lambda>_. False) w w' \<longleftrightarrow> M w' = M w"
  by (auto simp: grows_by_def list_all_iff)

lemma grows_by_mono: "grows_by M P w w' \<Longrightarrow> (\<And>c. P c \<Longrightarrow> Q c) \<Longrightarrow> grows_by M Q w w'"
  by (auto simp: grows_by_def list_all_iff)

lemma emits_grows: "emits M cs m \<Longrightarrow> list_all P cs \<Longrightarrow> every_run (grows_by M P) m"
  by (auto simp: emits_def every_run_def grows_by_def)

locale cloud_client =
  fixes C :: "'w Client"
    and M :: "'w \<Rightarrow> ext_call list"
  assumes emits_ComputeGet: "\<And>x. emits M [] (ComputeGet C x)"
    and emits_ComputeCreate: "\<And>x. emits M [C_InstanceCreate x] (ComputeCreate C x)"
    and emits_ComputeDelete: "\<And>x. emits M [C_InstanceDelete x] (ComputeDelete C x)"
    and emits_ALBAddTarget: "\<And>x. emits M [C_AddTargets x] (ALBAddTarget C x)"
    and emits_ALBGetTargetGroup: "\<And>x. emits M [] (ALBGetTargetGroup C x)"
    and emits_ALBRemoveTarget: "\<And>x. emits M [C_RemoveTargets x] (ALBRemoveTarget C x)"
    and emits_ALBTargetGroupCreate: "\<And>x. emits M [C_TargetGroupCreate x] (ALBTargetGroupCreate C x)"
    and emits_ALBTargetGroupDelete: "\<And>x. emits M [C_TargetGroupDelete x] (ALBTargetGroupDelete C x)"
    and emits_ALBTargetGroupGet: "\<And>x. emits M [] (ALBTargetGroupGet C x)"
    and emits_ALBTargetGroupGetByName: "\<And>x y. emits M [] (ALBTargetGroupGetByName C x y)"
    and emits_ALBBackendGroupCreate: "\<And>x. emits M [C_BackendGroupCreate x] (ALBBackendGroupCreate C x)"
    and emits_ALBBackendGroupDelete: "\<And>x. emits M [C_BackendGroupDelete x] (ALBBackendGroupDelete C x)"
    and emits_ALBBackendGroupGet: "\<And>x. emits M [] (ALBBackendGroupGet C x)"
    and emits_ALBBackendGroupGetByName: "\<And>x y. emits M [] (ALBBackendGroupGetByName C x y)"
    and emits_ALBCreate: "\<And>x. emits M [C_LoadBalancerCreate x] (ALBCreate C x)"
    and emits_ALBDelete: "\<And>x. emits M [C_LoadBalancerDelete x] (ALBDelete C x)"
    and emits_ALBGet: "\<And>x. emits M [] (ALBGet C x)"
    and emits_ALBGetByName: "\<And>x y. emits M [] (ALBGetByName C x y)"
    and emits_NLBAddTarget: "\<And>x. emits M [C_NlbAddTargets x] (NLBAddTarget C x)"
    and emits_NLBGetTargetGroup: "\<And>x. emits M [] (NLBGetTargetGroup C x)"
    and emits_NLBRemoveTarget: "\<And>x. emits M [C_NlbRemoveTargets x] (NLBRemoveTarget C x)"
begin

lemmas client_emits =
  emits_ComputeGet emits_ComputeCreate emits_ComputeDelete emits_ALBAddTarget emits_ALBGetTargetGroup emits_ALBRemoveTarget emits_ALBTargetGroupCreate emits_ALBTargetGroupDelete emits_ALBTargetGroupGet emits_ALBTargetGroupGetByName emits_ALBBackendGroupCreate emits_ALBBackendGroupDelete emits_ALBBackendGroupGet emits_ALBBackendGroupGetByName emits_ALBCreate emits_ALBDelete emits_ALBGet emits_ALBGetByName emits_NLBAddTarget emits_NLBGetTargetGroup emits_NLBRemoveTarget

text \<open>The same facts in the form in which the services' proofs step through a run.\<close>

lemmas client_steps = client_emits [THEN emitsD]

end

definition mutations :: "'e World \<Rightarrow> ext_call list" where
  "mutations w = filter is_mutation (map fst (calls w))"

lemma mutations_append:
  "calls w' = calls w @ cs \<Longrightarrow> mutations w' = mutations w @ filter is_mutation (map fst cs)"
  by (simp add: mutations_def)

lemma patch_no_mutation [simp]:
  "\<not> is_mutation (C_PatchCluster yc)" "\<not> is_mutation (C_PatchMachine ym)"
  by (simp_all add: is_mutation_def)

lemma emits_external: "emits mutations [] (external f)"
  by (auto simp: emits_def external_def mutations_def split: prod.splits sum.splits)

lemma emits_read: "\<not> is_mutation c \<Longrightarrow> emits mutations [] (observed mc (traced c f))"
  by (auto simp: emits_def observed_def traced_def external_def ObserveRequest_def mutations_def
      split: prod.splits sum.splits)

lemma emits_write: "is_mutation c \<Longrightarrow> emits mutations [c] (observed mc (traced c f))"
  by (auto simp: emits_def observed_def traced_def external_def ObserveRequest_def mutations_def
      split: prod.splits sum.splits)

interpretation yandex_client: cloud_client "YandexClient sdk" mutations for sdk
  by unfold_locales
    (auto simp: client_method_defs Let_def YandexClient_getMeta_def is_mutation_def
      intro!: emits_bindG emits_pure emits_external emits_read emits_write
      split: list.split Meta.split)

end
