(* ===== verification/Hashes.thy ===== *)
theory Hashes
  imports GoLib
begin

text \<open>
  The two digests of the Go standard library that the provider uses for names and labels:
  \<open>crypto/md5\<close> (RFC 1321) and \<open>crypto/sha256\<close> (FIPS 180-4), as executable functions from bytes to
  bytes.  The development needs their values on concrete inputs and the length of their results.
  The round constants are written in decimal.
\<close>

unbundle bit_operations_syntax

type_synonym u32 = "32 word"

section \<open>Bytes, words and padding\<close>

definition rotl32 :: "nat \<Rightarrow> u32 \<Rightarrow> u32" where
  "rotl32 n w = push_bit n w OR drop_bit (32 - n) w"

definition rotr32 :: "nat \<Rightarrow> u32 \<Rightarrow> u32" where
  "rotr32 n w = drop_bit n w OR push_bit (32 - n) w"

text \<open>The bytes of a word, the most significant one first, and back.\<close>

definition be_bytes :: "u32 \<Rightarrow> byte list" where
  "be_bytes w = map (\<lambda>k. ucast (drop_bit k w)) [24, 16, 8, 0]"

definition be_word :: "byte list \<Rightarrow> u32" where
  "be_word bs = foldl (\<lambda>w b. push_bit 8 w OR ucast b) 0 bs"

text \<open>The 64-bit length in bits, the most significant byte first.\<close>

definition bit_length_bytes :: "nat \<Rightarrow> byte list" where
  "bit_length_bytes n = map (\<lambda>k. ucast (drop_bit k (word_of_nat (8 * n) :: 64 word))) [56, 48, 40, 32, 24, 16, 8, 0]"

definition pad :: "(byte list \<Rightarrow> byte list) \<Rightarrow> byte list \<Rightarrow> byte list" where
  "pad order bs =
     bs @ [0x80] @ replicate ((119 - length bs mod 64) mod 64) 0 @ order (bit_length_bytes (length bs))"

fun blocks :: "nat \<Rightarrow> 'a list \<Rightarrow> 'a list list" where
  "blocks 0 xs = []"
| "blocks (Suc n) xs = (if xs = [] then [] else take 64 xs # blocks n (drop 64 xs))"

fun words_of :: "(byte list \<Rightarrow> byte list) \<Rightarrow> byte list \<Rightarrow> u32 list" where
  "words_of order (a # b # c # d # bs) = be_word (order [a, b, c, d]) # words_of order bs"
| "words_of order bs = []"

section \<open>MD5\<close>

definition md5_K :: "u32 list" where
  "md5_K =
     [3614090360, 3905402710, 606105819, 3250441966, 4118548399, 1200080426,
      2821735955, 4249261313, 1770035416, 2336552879, 4294925233, 2304563134,
      1804603682, 4254626195, 2792965006, 1236535329, 4129170786, 3225465664,
      643717713, 3921069994, 3593408605, 38016083, 3634488961, 3889429448,
      568446438, 3275163606, 4107603335, 1163531501, 2850285829, 4243563512,
      1735328473, 2368359562, 4294588738, 2272392833, 1839030562, 4259657740,
      2763975236, 1272893353, 4139469664, 3200236656, 681279174, 3936430074,
      3572445317, 76029189, 3654602809, 3873151461, 530742520, 3299628645,
      4096336452, 1126891415, 2878612391, 4237533241, 1700485571, 2399980690,
      4293915773, 2240044497, 1873313359, 4264355552, 2734768916, 1309151649,
      4149444226, 3174756917, 718787259, 3951481745]"

definition md5_shifts :: "nat list" where
  "md5_shifts =
     [7, 12, 17, 22, 7, 12, 17, 22, 7, 12, 17, 22, 7, 12, 17, 22,
      5, 9, 14, 20, 5, 9, 14, 20, 5, 9, 14, 20, 5, 9, 14, 20,
      4, 11, 16, 23, 4, 11, 16, 23, 4, 11, 16, 23, 4, 11, 16, 23,
      6, 10, 15, 21, 6, 10, 15, 21, 6, 10, 15, 21, 6, 10, 15, 21]"

type_synonym md5_state = "u32 \<times> u32 \<times> u32 \<times> u32"

fun md5_step :: "u32 list \<Rightarrow> md5_state \<Rightarrow> nat \<times> u32 \<times> nat \<Rightarrow> md5_state" where
  "md5_step m (a, b, c, d) (i, k, s) =
     (let (f, g) =
        (if i < 16 then ((b AND c) OR (NOT b AND d), i)
         else if i < 32 then ((d AND b) OR (NOT d AND c), (5 * i + 1) mod 16)
         else if i < 48 then (b XOR c XOR d, (3 * i + 5) mod 16)
         else (c XOR (b OR NOT d), (7 * i) mod 16))
      in (d, b + rotl32 s (a + f + k + m ! g), b, c))"

definition md5_block :: "md5_state \<Rightarrow> byte list \<Rightarrow> md5_state" where
  "md5_block st blk =
     (case (st, foldl (md5_step (words_of rev blk)) st (zip [0..<64] (zip md5_K md5_shifts))) of
        ((a, b, c, d), (a', b', c', d')) \<Rightarrow> (a + a', b + b', c + c', d + d'))"

definition md5_Sum :: "byte list \<Rightarrow> byte list" where
  "md5_Sum bs =
     (let p = pad rev bs in
      case foldl md5_block (0x67452301, 0xefcdab89, 0x98badcfe, 0x10325476) (blocks (length p) p) of
        (a, b, c, d) \<Rightarrow> concat (map (\<lambda>w. rev (be_bytes w)) [a, b, c, d]))"

section \<open>SHA-256\<close>

definition sha256_K :: "u32 list" where
  "sha256_K =
     [1116352408, 1899447441, 3049323471, 3921009573, 961987163, 1508970993,
      2453635748, 2870763221, 3624381080, 310598401, 607225278, 1426881987,
      1925078388, 2162078206, 2614888103, 3248222580, 3835390401, 4022224774,
      264347078, 604807628, 770255983, 1249150122, 1555081692, 1996064986,
      2554220882, 2821834349, 2952996808, 3210313671, 3336571891, 3584528711,
      113926993, 338241895, 666307205, 773529912, 1294757372, 1396182291,
      1695183700, 1986661051, 2177026350, 2456956037, 2730485921, 2820302411,
      3259730800, 3345764771, 3516065817, 3600352804, 4094571909, 275423344,
      430227734, 506948616, 659060556, 883997877, 958139571, 1322822218,
      1537002063, 1747873779, 1955562222, 2024104815, 2227730452, 2361852424,
      2428436474, 2756734187, 3204031479, 3329325298]"

text \<open>The message schedule, kept with the newest word first.\<close>

fun sha256_extend :: "nat \<Rightarrow> u32 list \<Rightarrow> u32 list" where
  "sha256_extend 0 ws = ws"
| "sha256_extend (Suc n) ws =
     (let w15 = ws ! 14; w2 = ws ! 1;
          s0 = rotr32 7 w15 XOR rotr32 18 w15 XOR drop_bit 3 w15;
          s1 = rotr32 17 w2 XOR rotr32 19 w2 XOR drop_bit 10 w2;
          w = ws ! 15 + s0 + ws ! 6 + s1
      in sha256_extend n (w # ws))"

type_synonym sha256_state = "u32 \<times> u32 \<times> u32 \<times> u32 \<times> u32 \<times> u32 \<times> u32 \<times> u32"

fun sha256_round :: "sha256_state \<Rightarrow> u32 \<times> u32 \<Rightarrow> sha256_state" where
  "sha256_round (a, b, c, d, e, f, g, h) (k, w) =
     (let s1 = rotr32 6 e XOR rotr32 11 e XOR rotr32 25 e;
          ch = (e AND f) XOR (NOT e AND g);
          t1 = h + s1 + ch + k + w;
          s0 = rotr32 2 a XOR rotr32 13 a XOR rotr32 22 a;
          maj = (a AND b) XOR (a AND c) XOR (b AND c);
          t2 = s0 + maj
      in (t1 + t2, a, b, c, d + t1, e, f, g))"

definition sha256_block :: "sha256_state \<Rightarrow> byte list \<Rightarrow> sha256_state" where
  "sha256_block st blk =
     (let ws = rev (sha256_extend 48 (rev (words_of id blk))) in
      case (st, foldl sha256_round st (zip sha256_K ws)) of
        ((a, b, c, d, e, f, g, h), (a', b', c', d', e', f', g', h')) \<Rightarrow>
          (a + a', b + b', c + c', d + d', e + e', f + f', g + g', h + h'))"

definition Sum256 :: "byte list \<Rightarrow> byte list" where
  "Sum256 bs =
     (let p = pad id bs in
      case foldl sha256_block
             (0x6a09e667, 0xbb67ae85, 0x3c6ef372, 0xa54ff53a,
              0x510e527f, 0x9b05688c, 0x1f83d9ab, 0x5be0cd19)
             (blocks (length p) p) of
        (a, b, c, d, e, f, g, h) \<Rightarrow> concat (map be_bytes [a, b, c, d, e, f, g, h]))"

section \<open>Lengths of the digests\<close>

lemma length_be_bytes [simp]: "length (be_bytes w) = 4"
  by (simp add: be_bytes_def)

lemma length_md5_Sum [simp]: "length (md5_Sum bs) = 16"
  by (simp add: md5_Sum_def Let_def split: prod.split)

lemma length_Sum256 [simp]: "length (Sum256 bs) = 32"
  by (simp add: Sum256_def Let_def split: prod.split)

end
