(* ===== verification/Cluster_Scope.thy ===== *)
theory Cluster_Scope
  imports Yandex_Client Hashes
begin

text \<open>
  \<open>internal/pkg/cloud/interfaces.go\<close> and \<open>internal/pkg/cloud/scope/cluster.go\<close>: the interfaces between
  scopes, services and controllers as records of operations, the cluster scope with its accessors,
  and the name the load balancer and its groups get.
\<close>

section \<open>interfaces.go\<close>

text \<open>
  The two halves of \<open>cloud.LoadBalancer\<close>, over an arbitrary world, and \<open>cloud.ClusterGetter\<close>, whose
  methods only read.
\<close>

record 'w LoadBalancerI =
  Describe :: "('w, LoadBalancerStatus) go"
  IsActive :: "('w, bool) go"
  AddTarget :: "string \<Rightarrow> string \<Rightarrow> ('w, unit) go"
  RemoveTarget :: "string \<Rightarrow> string \<Rightarrow> ('w, unit) go"

record 'w ClusterGetter =
  GetNetworkID :: string
  GetLabels :: Labels
  GetClient :: "'w Client"
  GetLBType :: LoadBalancerType
  GetLBSpec :: LoadBalancerSpec
  GetLBName :: string
  GetFolderID :: string

section \<open>The cluster scope\<close>

text \<open>\<open>cs_before\<close> is the snapshot that \<open>patchHelper\<close> was created with.\<close>

record ClusterScope =
  cs_Cluster :: Cluster
  cs_YandexCluster :: YandexCluster
  cs_before :: YandexCluster

text \<open>
  The state of a cluster reconciliation: the scope with the \<open>YandexCluster\<close> it points to, and the
  world.  \<open>in_world\<close> runs an operation that does not touch the object.
\<close>

record 'w ClusterState =
  c_scope :: ClusterScope
  c_world :: 'w

definition in_world :: "('w, 'a) go \<Rightarrow> ('w ClusterState, 'a) go" where
  "in_world m = zoomG c_world (\<lambda>w s. s\<lparr>c_world := w\<rparr>) m"

definition set_yc :: "(YandexCluster \<Rightarrow> YandexCluster) \<Rightarrow> 'w ClusterState \<Rightarrow> 'w ClusterState" where
  "set_yc f s = s\<lparr>c_scope := (c_scope s)\<lparr>cs_YandexCluster := f (cs_YandexCluster (c_scope s))\<rparr>\<rparr>"

record 'e ClusterScopeParams =
  csp_Client :: "'e Kube option"
  csp_Cluster :: "Cluster option"
  csp_YandexCluster :: "YandexCluster option"
  csp_YandexClient :: "'e World Client option"

definition NewClusterScope :: "'e ClusterScopeParams \<Rightarrow> ('e World, ClusterScope) go" where
  "NewClusterScope params =
     (case csp_Client params of
        None \<Rightarrow> raise (Errorf ''failed to generate new scope from nil Client'')
      | Some K \<Rightarrow>
     (case csp_Cluster params of
        None \<Rightarrow> raise (Errorf ''failed to generate new scope from nil Cluster'')
      | Some cluster \<Rightarrow>
     (case csp_YandexCluster params of
        None \<Rightarrow> raise (Errorf ''failed to generate new scope from nil YandexCluster'')
      | Some yc \<Rightarrow>
     (case csp_YandexClient params of
        None \<Rightarrow> raise (Errorf ''failed to generate new scope from nil YandexClient'')
      | Some yclient \<Rightarrow>
          tryG (external (NewHelper_YandexCluster K yc))
            (\<lambda>_. ret \<lparr>cs_Cluster = cluster, cs_YandexCluster = yc, cs_before = yc\<rparr>)
            (\<lambda>e. raise (wrapf ''failed to init patch helper: '' e))))))"

definition ClusterScope_PatchObject :: "'e Kube \<Rightarrow> ('e World ClusterState, unit) go" where
  "ClusterScope_PatchObject K =
     withG (\<lambda>s. let sc = c_scope s in
       in_world (traced (C_PatchCluster (cs_YandexCluster sc))
         (Patch_YandexCluster K (cs_before sc) (cs_YandexCluster sc))))"

definition ClusterScope_Close :: "'e Kube \<Rightarrow> ('e World ClusterState, unit) go" where
  "ClusterScope_Close K = ClusterScope_PatchObject K"

definition ClusterScope_Name :: "ClusterScope \<Rightarrow> string" where
  "ClusterScope_Name c = om_Name (cl_Meta (cs_Cluster c))"

definition ClusterScope_SetReady :: "YandexCluster \<Rightarrow> YandexCluster" where
  "ClusterScope_SetReady yc = yc\<lparr>yc_Status := (yc_Status yc)\<lparr>ycst_Ready := True\<rparr>\<rparr>"

definition ClusterScope_GetLBType :: "ClusterScope \<Rightarrow> LoadBalancerType" where
  "ClusterScope_GetLBType c = lbs_Type (ycs_LoadBalancer (yc_Spec (cs_YandexCluster c)))"

definition ClusterScope_GetFolderID :: "ClusterScope \<Rightarrow> string" where
  "ClusterScope_GetFolderID c = ycs_FolderID (yc_Spec (cs_YandexCluster c))"

definition ClusterScope_GetNetworkID :: "ClusterScope \<Rightarrow> string" where
  "ClusterScope_GetNetworkID c = ns_ID (ycs_NetworkSpec (yc_Spec (cs_YandexCluster c)))"

definition ClusterScope_GetLabels :: "ClusterScope \<Rightarrow> Labels" where
  "ClusterScope_GetLabels c = ycs_Labels (yc_Spec (cs_YandexCluster c))"

definition ClusterScope_ControlPlaneEndpoint :: "ClusterScope \<Rightarrow> APIEndpoint" where
  "ClusterScope_ControlPlaneEndpoint c = ycs_ControlPlaneEndpoint (yc_Spec (cs_YandexCluster c))"

definition ClusterScope_GetLBSpec :: "ClusterScope \<Rightarrow> LoadBalancerSpec" where
  "ClusterScope_GetLBSpec c = ycs_LoadBalancer (yc_Spec (cs_YandexCluster c))"

section \<open>The generated name\<close>

definition maxNameLength :: nat where
  "maxNameLength = 64"

text \<open>The complement of the class of \<open>[^a-z0-9-]+\<close>: bytes that stay.\<close>

definition name_char :: "char \<Rightarrow> bool" where
  "name_char c \<longleftrightarrow> (97 \<le> (of_char c :: nat) \<and> (of_char c :: nat) \<le> 122) \<or> is_digit c \<or> c = CHR ''-''"

definition clearString :: "string \<Rightarrow> string" where
  "clearString str = remove_runs (\<lambda>c. \<not> name_char c) str"

definition generateName :: "ClusterScope \<Rightarrow> string" where
  "generateName c =
     (let name = clearString (ClusterScope_Name c) @ ''-api'' in
      if length name < maxNameLength then name
      else
        (let hash = EncodeToString (Sum256 (bytes_of (ClusterScope_Name c)))
         in ''cluster-'' @ take 16 hash @ ''-api''))"

definition ClusterScope_GetLBName :: "ClusterScope \<Rightarrow> string" where
  "ClusterScope_GetLBName c =
     (if lbs_Name (ycs_LoadBalancer (yc_Spec (cs_YandexCluster c))) = []
      then generateName c
      else lbs_Name (ycs_LoadBalancer (yc_Spec (cs_YandexCluster c))))"

text \<open>The scope as a \<open>cloud.ClusterGetter\<close> with the client it was created with.\<close>

definition ClusterScope_getter :: "'w Client \<Rightarrow> ClusterScope \<Rightarrow> 'w ClusterGetter" where
  "ClusterScope_getter C c =
     \<lparr>GetNetworkID = ClusterScope_GetNetworkID c,
      GetLabels = ClusterScope_GetLabels c,
      GetClient = C,
      GetLBType = ClusterScope_GetLBType c,
      GetLBSpec = ClusterScope_GetLBSpec c,
      GetLBName = ClusterScope_GetLBName c,
      GetFolderID = ClusterScope_GetFolderID c\<rparr>"

section \<open>Facts about names\<close>

lemma clearString_filter: "clearString s = filter name_char s"
  by (simp add: clearString_def remove_runs_filter)

lemma hex_name_char: "is_hex c \<Longrightarrow> name_char c"
  by (auto simp: is_hex_def name_char_def)

lemma name_char_literals:
  "list_all name_char ''-api''" "list_all name_char ''cluster-''"
  by (simp_all add: name_char_def is_digit_def)

lemma list_all_take: "list_all p xs \<Longrightarrow> list_all p (take n xs)"
  by (auto simp: list_all_iff dest: in_set_takeD)

lemma generateName_chars: "list_all name_char (generateName c)"
proof -
  have "list_all name_char (clearString s)" for s
    by (auto simp: clearString_filter list_all_iff)
  moreover have "list_all name_char (EncodeToString bs)" for bs
    using list_all_hex [of bs] by (auto simp: list_all_iff hex_name_char)
  ultimately show ?thesis
    using name_char_literals by (auto simp: generateName_def Let_def list_all_take)
qed

lemma generateName_length: "length (generateName c) < 64"
  by (simp add: generateName_def Let_def maxNameLength_def)

lemma generateName_suffix: "suffix ''-api'' (generateName c)"
  by (auto simp: generateName_def Let_def suffix_def)

lemma generateName_short:
  assumes "length (filter name_char (ClusterScope_Name c)) \<le> 59"
  shows "generateName c = filter name_char (ClusterScope_Name c) @ ''-api''"
  using assms by (simp add: generateName_def Let_def maxNameLength_def clearString_filter)

section \<open>The state of a cluster reconciliation\<close>

lemma in_world_apply:
  "in_world m s = (r, s') \<longleftrightarrow> (\<exists>w. m (c_world s) = (r, w) \<and> s' = s\<lparr>c_world := w\<rparr>)"
  by (cases "m (c_world s)") (auto simp: in_world_def zoomG_def)

lemma in_world_simp [simp]: "m (c_world s) = (r, w) \<Longrightarrow> in_world m s = (r, s\<lparr>c_world := w\<rparr>)"
  by (simp add: in_world_apply)

lemma set_yc_simps [simp]:
  "c_world (set_yc f s) = c_world s"
  "cs_YandexCluster (c_scope (set_yc f s)) = f (cs_YandexCluster (c_scope s))"
  "cs_Cluster (c_scope (set_yc f s)) = cs_Cluster (c_scope s)"
  "cs_before (c_scope (set_yc f s)) = cs_before (c_scope s)"
  by (simp_all add: set_yc_def)

text \<open>Relations on worlds, lifted to the state of a reconciliation.\<close>

definition on_c_world :: "('w \<Rightarrow> 'w \<Rightarrow> bool) \<Rightarrow> 'w ClusterState \<Rightarrow> 'w ClusterState \<Rightarrow> bool" where
  "on_c_world R s s' \<longleftrightarrow> R (c_world s) (c_world s')"

lemma run_in_world: "every_run R m \<Longrightarrow> every_run (on_c_world R) (in_world m)"
  by (rule every_runI) (auto simp: in_world_apply on_c_world_def dest: every_runD)

interpretation c_sync: run_relation "on_c_world keeps_sync"
  by unfold_locales (auto simp: on_c_world_def intro: sync.refl_R sync.trans_R)

end
