(* ===== verification/Machine_Scope.thy ===== *)
theory Machine_Scope
  imports Cluster_Scope
begin

text \<open>
  \<open>internal/pkg/cloud/scope/machine.go\<close> and \<open>labels.go\<close>: the machine scope with its accessors, the
  provider identifier, the labels of a virtual machine and the request that creates it.
\<close>

section \<open>The machine scope\<close>

definition ProviderIDPrefix :: string where
  "ProviderIDPrefix = ''yandex://''"

text \<open>
  \<open>ClusterGetter\<close> and \<open>LoadBalancer\<close> are interface values, fixed when the scope is made; they are
  arguments of the operations that use them.  \<open>ms_before\<close> is the snapshot of \<open>patchHelper\<close>.
\<close>

record MachineScope =
  ms_Machine :: Machine
  ms_YandexMachine :: YandexMachine
  ms_before :: YandexMachine

record 'w MachineState =
  m_scope :: MachineScope
  m_world :: 'w

definition in_mworld :: "('w, 'a) go \<Rightarrow> ('w MachineState, 'a) go" where
  "in_mworld m = zoomG m_world (\<lambda>w s. s\<lparr>m_world := w\<rparr>) m"

definition set_ym :: "(YandexMachine \<Rightarrow> YandexMachine) \<Rightarrow> 'w MachineState \<Rightarrow> 'w MachineState" where
  "set_ym f s = s\<lparr>m_scope := (m_scope s)\<lparr>ms_YandexMachine := f (ms_YandexMachine (m_scope s))\<rparr>\<rparr>"

record 'e MachineScopeParams =
  msp_Client :: "'e Kube option"
  msp_ClusterGetter :: "'e World ClusterGetter"
  msp_LoadBalancer :: "'e World LoadBalancerI option"
  msp_Machine :: "Machine option"
  msp_YandexMachine :: "YandexMachine option"

definition NewMachineScope :: "'e MachineScopeParams \<Rightarrow> ('e World, MachineScope) go" where
  "NewMachineScope params =
     (case msp_Client params of
        None \<Rightarrow> raise (Errorf ''Client is required when creating a MachineScope'')
      | Some K \<Rightarrow>
     (case msp_Machine params of
        None \<Rightarrow> raise (Errorf ''Machine is required when creating a MachineScope'')
      | Some machine \<Rightarrow>
     (case msp_YandexMachine params of
        None \<Rightarrow> raise (Errorf ''YandexMachine is required when creating a MachineScope'')
      | Some ym \<Rightarrow>
     (case msp_LoadBalancer params of
        None \<Rightarrow> raise (Errorf ''load balancer is required when creating a MachineScope'')
      | Some lb \<Rightarrow>
          tryG (external (NewHelper_YandexMachine K ym))
            (\<lambda>_. ret \<lparr>ms_Machine = machine, ms_YandexMachine = ym, ms_before = ym\<rparr>)
            (\<lambda>e. raise (wrapf ''failed to init patch helper: '' e))))))"

definition MachineScope_PatchObject :: "'e Kube \<Rightarrow> ('e World MachineState, unit) go" where
  "MachineScope_PatchObject K =
     withG (\<lambda>s. let sc = m_scope s in
       in_mworld (traced (C_PatchMachine (ms_YandexMachine sc))
         (Patch_YandexMachine K (ms_before sc) (ms_YandexMachine sc))))"

definition MachineScope_Close :: "'e Kube \<Rightarrow> ('e World MachineState, unit) go" where
  "MachineScope_Close K = MachineScope_PatchObject K"

definition MachineScope_Name :: "MachineScope \<Rightarrow> string" where
  "MachineScope_Name m = om_Name (ym_Meta (ms_YandexMachine m))"

definition MachineScope_Namespace :: "MachineScope \<Rightarrow> string" where
  "MachineScope_Namespace m = om_Namespace (ym_Meta (ms_YandexMachine m))"

definition MachineScope_IsControlPlane :: "Lib \<Rightarrow> MachineScope \<Rightarrow> bool" where
  "MachineScope_IsControlPlane L m = IsControlPlaneMachine L (ms_Machine m)"

definition MachineScope_SetReady :: "YandexMachine \<Rightarrow> YandexMachine" where
  "MachineScope_SetReady ym = ym\<lparr>ym_Status := (ym_Status ym)\<lparr>ymst_Ready := True\<rparr>\<rparr>"

definition MachineScope_GetProviderID :: "YandexMachine \<Rightarrow> string" where
  "MachineScope_GetProviderID ym =
     (case yms_ProviderID (ym_Spec ym) of Some p \<Rightarrow> p | None \<Rightarrow> [])"

definition MachineScope_SetProviderID :: "string \<Rightarrow> YandexMachine \<Rightarrow> YandexMachine" where
  "MachineScope_SetProviderID instanceID ym =
     ym\<lparr>ym_Spec := (ym_Spec ym)\<lparr>yms_ProviderID := Some (ProviderIDPrefix @ instanceID)\<rparr>\<rparr>"

definition MachineScope_SetAddresses :: "NodeAddress list \<Rightarrow> YandexMachine \<Rightarrow> YandexMachine" where
  "MachineScope_SetAddresses addressList ym =
     ym\<lparr>ym_Status := (ym_Status ym)\<lparr>ymst_Addresses := addressList\<rparr>\<rparr>"

definition MachineScope_GetAddresses :: "YandexMachine \<Rightarrow> NodeAddress list" where
  "MachineScope_GetAddresses ym = ymst_Addresses (ym_Status ym)"

definition MachineScope_GetInstanceStatus :: "YandexMachine \<Rightarrow> InstanceStatus option" where
  "MachineScope_GetInstanceStatus ym = ymst_InstanceStatus (ym_Status ym)"

definition MachineScope_SetInstanceStatus :: "InstanceStatus \<Rightarrow> YandexMachine \<Rightarrow> YandexMachine" where
  "MachineScope_SetInstanceStatus v ym =
     ym\<lparr>ym_Status := (ym_Status ym)\<lparr>ymst_InstanceStatus := Some v\<rparr>\<rparr>"

definition MachineScope_SetFailureMessage :: "err \<Rightarrow> YandexMachine \<Rightarrow> YandexMachine" where
  "MachineScope_SetFailureMessage v ym =
     ym\<lparr>ym_Status := (ym_Status ym)\<lparr>ymst_FailureMessage := Some (Error v)\<rparr>\<rparr>"

definition MachineScope_SetFailureReason :: "string \<Rightarrow> YandexMachine \<Rightarrow> YandexMachine" where
  "MachineScope_SetFailureReason v ym =
     ym\<lparr>ym_Status := (ym_Status ym)\<lparr>ymst_FailureReason := Some v\<rparr>\<rparr>"

definition parseProviderID :: "string \<Rightarrow> string" where
  "parseProviderID ident = TrimPrefix ident ProviderIDPrefix"

definition MachineScope_GetInstanceID :: "YandexMachine \<Rightarrow> string" where
  "MachineScope_GetInstanceID ym = parseProviderID (MachineScope_GetProviderID ym)"

text \<open>\<open>conditions.Mark...(m.YandexMachine, ...)\<close>: a library operation on the object's conditions.\<close>

definition ym_mark :: "(Conditions \<Rightarrow> Conditions) \<Rightarrow> YandexMachine \<Rightarrow> YandexMachine" where
  "ym_mark f ym = YandexMachine_SetConditions (f (YandexMachine_GetConditions ym)) ym"

section \<open>Labels of a virtual machine\<close>

definition yaAnalyticsClusterNameLabel :: string where
  "yaAnalyticsClusterNameLabel = ''yandex.cloud/capy-cluster-name''"
definition yaAnalyticsFolderIDLabel :: string where
  "yaAnalyticsFolderIDLabel = ''yandex.cloud/folder-id''"
definition yaAnalyticsControlPlaneNameLabel :: string where
  "yaAnalyticsControlPlaneNameLabel = ''yandex.cloud/capy-control-plane-name''"
definition yaAnalyticsMachineDeploymentNameLabel :: string where
  "yaAnalyticsMachineDeploymentNameLabel = ''yandex.cloud/capy-cluster-machine-deployment-name''"
definition yaAnalyticsClusterHashLabel :: string where
  "yaAnalyticsClusterHashLabel = ''yandex.cloud/capy-cluster-hash''"
definition yaAnalyticsMachineDeploymentLabel :: string where
  "yaAnalyticsMachineDeploymentLabel = ''yandex.cloud/capy-cluster-machine-deployment-hash''"
definition managedByLabel :: string where
  "managedByLabel = ''yandex.cloud/managed-by''"
definition capyControllerManagerName :: string where
  "capyControllerManagerName = ''capy-controller-manager''"

text \<open>The Cluster API labels that \<open>labels.go\<close> names in its comments.\<close>

definition ClusterNameLabel :: string where
  "ClusterNameLabel = ''cluster.x-k8s.io/cluster-name''"
definition MachineControlPlaneNameLabel :: string where
  "MachineControlPlaneNameLabel = ''cluster.x-k8s.io/control-plane-name''"
definition MachineDeploymentNameLabel :: string where
  "MachineDeploymentNameLabel = ''cluster.x-k8s.io/deployment-name''"

lemmas label_key_defs = yaAnalyticsClusterNameLabel_def yaAnalyticsFolderIDLabel_def
  yaAnalyticsControlPlaneNameLabel_def yaAnalyticsMachineDeploymentNameLabel_def
  yaAnalyticsClusterHashLabel_def yaAnalyticsMachineDeploymentLabel_def managedByLabel_def

definition getYaAnalyticsLabelHashValue :: "string list \<Rightarrow> string" where
  "getYaAnalyticsLabelHashValue parts =
     (let valueLength = 20;
          val = EncodeToString (md5_Sum (bytes_of (Join parts '''')))
      in if length val \<le> valueLength then val else take valueLength val)"

definition getMachineLabels :: "'w ClusterGetter \<Rightarrow> YandexMachine \<Rightarrow> (string \<rightharpoonup> string)" where
  "getMachineLabels cg ym =
     (let own = om_Labels (ym_Meta ym);
          labels = Map.empty(managedByLabel \<mapsto> capyControllerManagerName,
                             yaAnalyticsClusterNameLabel \<mapsto> map_get own ClusterNameLabel,
                             yaAnalyticsFolderIDLabel \<mapsto> GetFolderID cg);
          deploymentName = '''';
          cpName = map_get own MachineControlPlaneNameLabel;
          (labels, deploymentName) =
            (if cpName \<noteq> '''' then (labels(yaAnalyticsControlPlaneNameLabel \<mapsto> cpName), cpName)
             else (labels, deploymentName));
          mdName = map_get own MachineDeploymentNameLabel;
          (labels, deploymentName) =
            (if mdName \<noteq> '''' then (labels(yaAnalyticsMachineDeploymentNameLabel \<mapsto> mdName), mdName)
             else (labels, deploymentName));
          labels = labels(yaAnalyticsClusterHashLabel \<mapsto>
            getYaAnalyticsLabelHashValue [GetFolderID cg, map_get own ClusterNameLabel]);
          labels = labels(yaAnalyticsMachineDeploymentLabel \<mapsto>
            getYaAnalyticsLabelHashValue [GetFolderID cg, map_get own ClusterNameLabel, deploymentName])
      in labels)"

section \<open>The creation request\<close>

text \<open>
  The key of the secret is the machine's namespace and \<open>*m.Machine.Spec.Bootstrap.DataSecretName\<close>, a
  dereference that panics on nil.
\<close>

definition GetBootstrapData :: "'e Kube \<Rightarrow> ('e World MachineState, string) go" where
  "GetBootstrapData K =
     withG (\<lambda>s. let m = m_scope s in
       case ma_DataSecretName (ms_Machine m) of
         None \<Rightarrow> panic ''nil pointer dereference''
       | Some name \<Rightarrow>
           tryG (in_mworld (external (Get_Secret K (MachineScope_Namespace m) name)))
             (\<lambda>data. case data ''value'' of
                None \<Rightarrow> raise (Errorf ''error retrieving bootstrap data: secret value key is missing'')
              | Some v \<Rightarrow> ret v)
             (\<lambda>e. raise (wrapf (''failed to retrieve bootstrap data secret for YandexMachine '' @
                MachineScope_Namespace m @ ''/'' @ MachineScope_Name m @ '': '') e)))"

definition networkInterfaceSpec :: "NetworkInterface \<Rightarrow> NetworkInterfaceSpec" where
  "networkInterfaceSpec ni =
     \<lparr>nis_SubnetId = ni_SubnetID ni, nis_OneToOneNat = (ni_HasPublicIP ni = Some True)\<rparr>"

definition resourcesSpec :: "Resources \<Rightarrow> int64 \<Rightarrow> ResourcesSpec" where
  "resourcesSpec r memory =
     \<lparr>rs_Memory = memory, rs_Cores = re_Cores r,
      rs_CoreFraction = (case re_CoreFraction r of Some f \<Rightarrow> f | None \<Rightarrow> 0),
      rs_Gpus = (case re_GPUs r of Some g \<Rightarrow> g | None \<Rightarrow> 0)\<rparr>"

text \<open>
  \<open>GetInstanceReq\<close>: the boot disk, the zone, the platform and the disk type are pointers the code
  dereferences without a check, the disk before its size is parsed and the others when the request
  is put together.
\<close>

definition GetInstanceReq ::
    "Lib \<Rightarrow> 'e Kube \<Rightarrow> 'e World ClusterGetter \<Rightarrow> ('e World MachineState, CreateInstanceRequest) go" where
  "GetInstanceReq L K cg =
     bindG (GetBootstrapData K) (\<lambda>bootstrapData.
     withG (\<lambda>s. let ym = ms_YandexMachine (m_scope s); spec = ym_Spec ym in
       case Quantity_AsInt64 L (re_Memory (yms_Resources spec)) of
         None \<Rightarrow> raise (Errorf ''failed to parse instance's memory from yandex machine specification'')
       | Some memory \<Rightarrow>
       (case yms_BootDisk spec of
         None \<Rightarrow> panic ''nil pointer dereference''
       | Some disk \<Rightarrow>
       (case Quantity_AsInt64 L (di_Size disk) of
         None \<Rightarrow> raise (Errorf ''failed to parse instance's boot disk size from yandex machine specification'')
       | Some bootDiskSize \<Rightarrow>
       (case (yms_ZoneID spec, yms_PlatformID spec, di_TypeID disk) of
         (Some zone, Some platform, Some typeID) \<Rightarrow>
           ret \<lparr>cir_FolderId = GetFolderID cg,
                cir_Name = om_Name (ym_Meta ym),
                cir_ZoneId = zone,
                cir_PlatformId = platform,
                cir_Metadata = [''user-data'' \<mapsto> bootstrapData],
                cir_Labels = getMachineLabels cg ym,
                cir_Hostname = om_Name (ym_Meta ym),
                cir_ResourcesSpec = resourcesSpec (yms_Resources spec) memory,
                cir_BootDiskSpec = \<lparr>ad_AutoDelete = True, ad_TypeId = typeID,
                  ad_Size = bootDiskSize, ad_ImageId = di_ImageID disk\<rparr>,
                cir_NetworkInterfaceSpecs = map networkInterfaceSpec (yms_NetworkInterfaces spec)\<rparr>
       | _ \<Rightarrow> panic ''nil pointer dereference'')))))"

section \<open>Facts\<close>

lemma GetInstanceID_SetProviderID [simp]:
  "MachineScope_GetInstanceID (MachineScope_SetProviderID i ym) = i"
  by (simp add: MachineScope_GetInstanceID_def MachineScope_GetProviderID_def
      MachineScope_SetProviderID_def parseProviderID_def)

lemma GetInstanceID_None:
  "yms_ProviderID (ym_Spec ym) = None \<Longrightarrow> MachineScope_GetInstanceID ym = []"
  by (simp add: MachineScope_GetInstanceID_def MachineScope_GetProviderID_def parseProviderID_def)

lemma hash_value_length [simp]: "length (getYaAnalyticsLabelHashValue ps) = 20"
  by (simp add: getYaAnalyticsLabelHashValue_def Let_def)

lemma hash_value_hex: "list_all is_hex (getYaAnalyticsLabelHashValue ps)"
  by (simp add: getYaAnalyticsLabelHashValue_def Let_def list_all_take list_all_hex)

lemma hash_value_concat:
  "concat ps = concat qs \<Longrightarrow> getYaAnalyticsLabelHashValue ps = getYaAnalyticsLabelHashValue qs"
  by (simp add: getYaAnalyticsLabelHashValue_def Join_empty)

lemma in_mworld_apply:
  "in_mworld m s = (r, s') \<longleftrightarrow> (\<exists>w. m (m_world s) = (r, w) \<and> s' = s\<lparr>m_world := w\<rparr>)"
  by (cases "m (m_world s)") (auto simp: in_mworld_def zoomG_def)

lemma in_mworld_simp [simp]: "m (m_world s) = (r, w) \<Longrightarrow> in_mworld m s = (r, s\<lparr>m_world := w\<rparr>)"
  by (simp add: in_mworld_apply)

lemma set_ym_simps [simp]:
  "m_world (set_ym f s) = m_world s"
  "ms_YandexMachine (m_scope (set_ym f s)) = f (ms_YandexMachine (m_scope s))"
  "ms_Machine (m_scope (set_ym f s)) = ms_Machine (m_scope s)"
  "ms_before (m_scope (set_ym f s)) = ms_before (m_scope s)"
  by (simp_all add: set_ym_def)

text \<open>Each setter writes its own field: metadata, and what the other setters write, stay.\<close>

lemma machine_setters [simp]:
  "ym_Meta (MachineScope_SetProviderID i ym) = ym_Meta ym"
  "ym_Status (MachineScope_SetProviderID i ym) = ym_Status ym"
  "ym_Meta (MachineScope_SetAddresses a ym) = ym_Meta ym"
  "ym_Spec (MachineScope_SetAddresses a ym) = ym_Spec ym"
  "MachineScope_GetAddresses (MachineScope_SetAddresses a ym) = a"
  "ym_Meta (MachineScope_SetInstanceStatus v ym) = ym_Meta ym"
  "ym_Spec (MachineScope_SetInstanceStatus v ym) = ym_Spec ym"
  "MachineScope_GetInstanceStatus (MachineScope_SetInstanceStatus v ym) = Some v"
  "ymst_Addresses (ym_Status (MachineScope_SetInstanceStatus v ym)) = ymst_Addresses (ym_Status ym)"
  "ymst_Ready (ym_Status (MachineScope_SetInstanceStatus v ym)) = ymst_Ready (ym_Status ym)"
  "ymst_Ready (ym_Status (MachineScope_SetAddresses a ym)) = ymst_Ready (ym_Status ym)"
  "ymst_InstanceStatus (ym_Status (MachineScope_SetAddresses a ym)) = ymst_InstanceStatus (ym_Status ym)"
  "ym_Meta (ym_mark f ym) = ym_Meta ym"
  "ym_Spec (ym_mark f ym) = ym_Spec ym"
  "ymst_Ready (ym_Status (ym_mark f ym)) = ymst_Ready (ym_Status ym)"
  "ymst_Addresses (ym_Status (ym_mark f ym)) = ymst_Addresses (ym_Status ym)"
  "ymst_InstanceStatus (ym_Status (ym_mark f ym)) = ymst_InstanceStatus (ym_Status ym)"
  "ymst_Conditions (ym_Status (ym_mark f ym)) = f (ymst_Conditions (ym_Status ym))"
  by (simp_all add: MachineScope_SetProviderID_def MachineScope_SetAddresses_def
      MachineScope_GetAddresses_def MachineScope_SetInstanceStatus_def
      MachineScope_GetInstanceStatus_def ym_mark_def YandexMachine_SetConditions_def
      YandexMachine_GetConditions_def)

definition on_m_world :: "('w \<Rightarrow> 'w \<Rightarrow> bool) \<Rightarrow> 'w MachineState \<Rightarrow> 'w MachineState \<Rightarrow> bool" where
  "on_m_world R s s' \<longleftrightarrow> R (m_world s) (m_world s')"

lemma run_in_mworld: "every_run R m \<Longrightarrow> every_run (on_m_world R) (in_mworld m)"
  by (rule every_runI) (auto simp: in_mworld_apply on_m_world_def dest: every_runD)

interpretation m_sync: run_relation "on_m_world keeps_sync"
  by unfold_locales (auto simp: on_m_world_def intro: sync.refl_R sync.trans_R)

section \<open>The request as a function of the object\<close>

text \<open>Reading the secret and putting the request together leave the scope alone.\<close>

definition scope_kept :: "'w MachineState \<Rightarrow> 'w MachineState \<Rightarrow> bool" where
  "scope_kept s s' \<longleftrightarrow> m_scope s' = m_scope s"

interpretation scope_kept: run_relation scope_kept
  by unfold_locales (auto simp: scope_kept_def)

lemma scope_kept_in_mworld: "every_run scope_kept (in_mworld m)"
  by (rule every_runI) (auto simp: in_mworld_apply scope_kept_def)

lemma GetInstanceReq_scope_kept:
  "every_run scope_kept (GetBootstrapData K)" "every_run scope_kept (GetInstanceReq L K cg)"
  by (auto simp: GetInstanceReq_def GetBootstrapData_def Let_def
      intro!: scope_kept.run_intros scope_kept_in_mworld split: option.split)

lemma GetInstanceReq_frame: "GetInstanceReq L K cg s = (r, s') \<Longrightarrow> m_scope s' = m_scope s"
  using every_runD [OF GetInstanceReq_scope_kept(2)] by (fastforce simp: scope_kept_def)

text \<open>
  The request that a machine, its cluster and its bootstrap data determine, when the quantities parse
  and the optional fields are present.
\<close>

definition instance_request ::
    "'w ClusterGetter \<Rightarrow> YandexMachine \<Rightarrow> string \<Rightarrow> int64 \<Rightarrow> int64 \<Rightarrow> Disk \<Rightarrow> string \<Rightarrow> string \<Rightarrow>
       string \<Rightarrow> CreateInstanceRequest" where
  "instance_request cg ym data memory bytes disk zone platform typeID =
     \<lparr>cir_FolderId = GetFolderID cg, cir_Name = om_Name (ym_Meta ym), cir_ZoneId = zone,
      cir_PlatformId = platform, cir_Metadata = [''user-data'' \<mapsto> data],
      cir_Labels = getMachineLabels cg ym, cir_Hostname = om_Name (ym_Meta ym),
      cir_ResourcesSpec = resourcesSpec (yms_Resources (ym_Spec ym)) memory,
      cir_BootDiskSpec = \<lparr>ad_AutoDelete = True, ad_TypeId = typeID, ad_Size = bytes,
        ad_ImageId = di_ImageID disk\<rparr>,
      cir_NetworkInterfaceSpecs = map networkInterfaceSpec (yms_NetworkInterfaces (ym_Spec ym))\<rparr>"

lemma GetInstanceReq_Ok:
  assumes "GetInstanceReq L K cg s = (Ok req, s')"
  obtains data memory bytes disk zone platform typeID where
    "GetBootstrapData K s = (Ok data, s')"
    "Quantity_AsInt64 L (re_Memory (yms_Resources (ym_Spec (ms_YandexMachine (m_scope s))))) = Some memory"
    "yms_BootDisk (ym_Spec (ms_YandexMachine (m_scope s))) = Some disk"
    "Quantity_AsInt64 L (di_Size disk) = Some bytes"
    "yms_ZoneID (ym_Spec (ms_YandexMachine (m_scope s))) = Some zone"
    "yms_PlatformID (ym_Spec (ms_YandexMachine (m_scope s))) = Some platform"
    "di_TypeID disk = Some typeID"
    "req = instance_request cg (ms_YandexMachine (m_scope s)) data memory bytes disk zone platform typeID"
proof -
  from assms obtain data t where b: "GetBootstrapData K s = (Ok data, t)"
    unfolding GetInstanceReq_def bindG_Ok_iff by blast
  have "m_scope t = m_scope s"
    using every_runD [OF GetInstanceReq_scope_kept(1) b] by (simp add: scope_kept_def)
  with assms b that show thesis
    by (auto simp: GetInstanceReq_def Let_def instance_request_def split: option.splits)
qed

lemma GetBootstrapData_Ok:
  assumes "GetBootstrapData K s = (Ok data, s')"
  obtains name secret w where "ma_DataSecretName (ms_Machine (m_scope s)) = Some name"
    "external (Get_Secret K (MachineScope_Namespace (m_scope s)) name) (m_world s) = (Ok secret, w)"
    "secret ''value'' = Some data" "s' = s\<lparr>m_world := w\<rparr>"
  using assms
  by (auto simp: GetBootstrapData_def Let_def tryG_cases in_mworld_apply split: option.splits)

end
