(* ===== verification/Cloud_Sim.thy ===== *)
theory Cloud_Sim
  imports Cloud_Api
begin

text \<open>
  Concrete functions for the parameters of the model, on which the witnesses run: a small cloud that
  keeps its objects in lists and answers look-ups, creations and deletions at once, an API server with
  one object of each kind, and helper packages that do what their documentation says.  Nothing in the
  model refers to this theory.
\<close>

record Sim =
  sim_tgs :: "TargetGroup list"
  sim_bgs :: "BackendGroup list"
  sim_lbs :: "LoadBalancer list"
  sim_vms :: "Instance list"
  sim_yc :: YandexCluster
  sim_ym :: YandexMachine

definition sim_not_found :: err where
  "sim_not_found = Ext ''NotFound'' ''not found''"

definition sim_get :: "('x \<Rightarrow> string) \<Rightarrow> (Sim \<Rightarrow> 'x list) \<Rightarrow> string \<Rightarrow> (Sim, 'x) ext" where
  "sim_get ident field i e =
     (case filter (\<lambda>x. ident x = i) (field e) of [] \<Rightarrow> (Inl sim_not_found, e) | x # _ \<Rightarrow> (Inr x, e))"

definition sim_list :: "('x \<Rightarrow> string) \<Rightarrow> (Sim \<Rightarrow> 'x list) \<Rightarrow> ListRequest \<Rightarrow> (Sim, 'x list) ext" where
  "sim_list name field req e = (Inr (filter (\<lambda>x. name x = lr_Filter req) (field e)), e)"

text \<open>The listener of a new load balancer: the address asked for, or one the cloud picks.\<close>

definition sim_listener :: "CreateLoadBalancerRequest \<Rightarrow> Listener list" where
  "sim_listener req =
     map (\<lambda>l. \<lparr>li_Endpoints = map (\<lambda>s. \<lparr>
         en_Addresses = map (\<lambda>a. InternalIpv4Address
             (case ias_Address a of Some x \<Rightarrow> x | None \<Rightarrow> ''10.0.0.1'')) (es_AddressSpecs s),
         en_Ports = es_Ports s\<rparr>) (als_EndpointSpecs l)\<rparr>)
       (clb_ListenerSpecs req)"

text \<open>An operation carries the identifier of its object after one letter for its kind.\<close>

definition sim_meta :: "Operation \<Rightarrow> (Sim, Meta) ext" where
  "sim_meta op e =
     (Inr (case op_Id op of
        [] \<Rightarrow> OtherMetadata
      | k # i \<Rightarrow>
          if k = CHR ''I'' then CreateInstanceMetadata i
          else if k = CHR ''T'' then CreateTargetGroupMetadata i
          else if k = CHR ''B'' then CreateBackendGroupMetadata i
          else if k = CHR ''L'' then CreateLoadBalancerMetadata i
          else OtherMetadata), e)"

definition sim_done :: "Operation" where
  "sim_done = \<lparr>op_Id = ''done''\<rparr>"

definition sim_sdk :: "Sim SDK" where
  "sim_sdk =
     \<lparr>Instance_Get = sim_get in_Id sim_vms,
      Instance_Create = (\<lambda>req e. (Inr \<lparr>op_Id = CHR ''I'' # cir_Name req\<rparr>,
        e\<lparr>sim_vms := \<lparr>in_Id = cir_Name req, in_Status = InstanceStatusRunning,
          in_NetworkInterfaces = [\<lparr>vi_PrimaryV4Address = Some ''10.0.0.5''\<rparr>]\<rparr> # sim_vms e\<rparr>)),
      Instance_Delete = (\<lambda>i e. (Inr sim_done, e\<lparr>sim_vms := filter (\<lambda>v. in_Id v \<noteq> i) (sim_vms e)\<rparr>)),
      TargetGroup_Get = sim_get tg_Id sim_tgs,
      TargetGroup_List = sim_list tg_Name sim_tgs,
      TargetGroup_Create = (\<lambda>req e. (Inr \<lparr>op_Id = CHR ''T'' # ctg_Name req\<rparr>,
        e\<lparr>sim_tgs := \<lparr>tg_Id = ctg_Name req, tg_Name = ctg_Name req, tg_Targets = []\<rparr> # sim_tgs e\<rparr>)),
      TargetGroup_Delete = (\<lambda>i e. (Inr sim_done, e\<lparr>sim_tgs := filter (\<lambda>v. tg_Id v \<noteq> i) (sim_tgs e)\<rparr>)),
      TargetGroup_AddTargets = (\<lambda>req e. (Inr sim_done, e\<lparr>sim_tgs :=
        map (\<lambda>t. if tg_Id t = atr_TargetGroupId req
          then t\<lparr>tg_Targets := tg_Targets t @ atr_Targets req\<rparr> else t) (sim_tgs e)\<rparr>)),
      TargetGroup_RemoveTargets = (\<lambda>req e. (Inr sim_done, e\<lparr>sim_tgs :=
        map (\<lambda>t. if tg_Id t = rtr_TargetGroupId req
          then t\<lparr>tg_Targets := filter (\<lambda>x. x \<notin> set (rtr_Targets req)) (tg_Targets t)\<rparr> else t)
          (sim_tgs e)\<rparr>)),
      BackendGroup_Get = sim_get bg_Id sim_bgs,
      BackendGroup_List = sim_list bg_Name sim_bgs,
      BackendGroup_Create = (\<lambda>req e. (Inr \<lparr>op_Id = CHR ''B'' # cbg_Name req\<rparr>,
        e\<lparr>sim_bgs := \<lparr>bg_Id = cbg_Name req, bg_Name = cbg_Name req\<rparr> # sim_bgs e\<rparr>)),
      BackendGroup_Delete = (\<lambda>i e. (Inr sim_done, e\<lparr>sim_bgs := filter (\<lambda>v. bg_Id v \<noteq> i) (sim_bgs e)\<rparr>)),
      LoadBalancer_Get = sim_get lb_Id sim_lbs,
      LoadBalancer_List = sim_list lb_Name sim_lbs,
      LoadBalancer_Create = (\<lambda>req e. (Inr \<lparr>op_Id = CHR ''L'' # clb_Name req\<rparr>,
        e\<lparr>sim_lbs := \<lparr>lb_Id = clb_Name req, lb_Name = clb_Name req, lb_Status = LB_ACTIVE,
          lb_Listeners = sim_listener req\<rparr> # sim_lbs e\<rparr>)),
      LoadBalancer_Delete = (\<lambda>i e. (Inr sim_done, e\<lparr>sim_lbs := filter (\<lambda>v. lb_Id v \<noteq> i) (sim_lbs e)\<rparr>)),
      NlbTargetGroup_Get = sim_get tg_Id sim_tgs,
      NlbTargetGroup_AddTargets = (\<lambda>req e. (Inr sim_done, e)),
      NlbTargetGroup_RemoveTargets = (\<lambda>req e. (Inr sim_done, e)),
      WrapOperation = (\<lambda>op e. (Inr op, e)),
      Operation_Metadata = sim_meta,
      Operation_Wait = (\<lambda>op e. (Inr (), e)),
      Operation_Response = (\<lambda>op e. (Inr (), e)),
      ResolverFilter = (\<lambda>k v. v),
      ResolverPageSize = 100,
      SDK_Shutdown = (\<lambda>e. (Inr (), e))\<rparr>"

section \<open>Objects\<close>

definition sim_object :: "string \<Rightarrow> string list \<Rightarrow> ObjectMeta" where
  "sim_object name fs =
     \<lparr>om_Name = name, om_Namespace = ''default'', om_Labels = Map.empty, om_Annotations = Map.empty,
      om_Finalizers = fs, om_OwnerReferences = [], om_DeletionTimestamp = None\<rparr>"

definition sim_cluster :: Cluster where
  "sim_cluster = \<lparr>cl_Meta = sim_object ''c1'' [], cl_Paused = False, cl_InfrastructureRef = Some ''c1''\<rparr>"

definition sim_machine :: Machine where
  "sim_machine = \<lparr>ma_Meta = (sim_object ''m1'' [])\<lparr>om_Labels := [''control-plane'' \<mapsto> '''']\<rparr>,
     ma_DataSecretName = Some ''boot'', ma_InfrastructureRef = ''m1''\<rparr>"

definition sim_yandex_cluster :: "string list \<Rightarrow> YandexCluster" where
  "sim_yandex_cluster fs =
     \<lparr>yc_Meta = sim_object ''c1'' fs,
      yc_Spec = \<lparr>ycs_NetworkSpec = \<lparr>ns_ID = ''net''\<rparr>, ycs_ControlPlaneEndpoint = zero_endpoint,
        ycs_FolderID = ''folder'',
        ycs_LoadBalancer = \<lparr>lbs_Type = LoadBalancerTypeALB, lbs_Name = ''lb1'',
          lbs_Listener = \<lparr>ls_Address = [], ls_Port = 8443, ls_Internal = True,
            ls_Subnet = \<lparr>ss_ZoneID = ''zone'', ss_ID = ''subnet''\<rparr>\<rparr>,
          lbs_BackendPort = 8443,
          lbs_Healthcheck = \<lparr>hc_HealthcheckTimeoutSec = 1, hc_HealthcheckIntervalSec = 3,
            hc_HealthcheckThreshold = 3\<rparr>,
          lbs_SecurityGroups = None\<rparr>,
        ycs_Labels = None\<rparr>,
      yc_Status = \<lparr>ycst_Ready = False,
        ycst_LoadBalancer = \<lparr>lbst_Name = [], lbst_ListenerAddress = [], lbst_ListenerPort = 0\<rparr>,
        ycst_Conditions = []\<rparr>\<rparr>"

definition sim_yandex_machine :: "string option \<Rightarrow> YandexMachine" where
  "sim_yandex_machine ident =
     \<lparr>ym_Meta = sim_object ''m1'' [MachineFinalizer],
      ym_Spec = \<lparr>yms_ProviderID = ident, yms_ZoneID = Some ''zone'', yms_PlatformID = Some ''standard-v3'',
        yms_BootDisk = Some \<lparr>di_TypeID = Some ''network-ssd'', di_Size = ''20Gi'', di_ImageID = ''image''\<rparr>,
        yms_Resources = \<lparr>re_Memory = ''4Gi'', re_Cores = 2, re_CoreFraction = None, re_GPUs = None\<rparr>,
        yms_NetworkInterfaces = [\<lparr>ni_SubnetID = ''subnet'', ni_HasPublicIP = None\<rparr>]\<rparr>,
      ym_Status = \<lparr>ymst_Ready = False, ymst_Addresses = [], ymst_InstanceStatus = None,
        ymst_FailureReason = None, ymst_FailureMessage = None, ymst_Conditions = []\<rparr>\<rparr>"

text \<open>An empty cloud with one cluster and one machine, and one that has everything.\<close>

definition sim_empty :: Sim where
  "sim_empty = \<lparr>sim_tgs = [], sim_bgs = [], sim_lbs = [], sim_vms = [],
     sim_yc = sim_yandex_cluster [ClusterFinalizer], sim_ym = sim_yandex_machine None\<rparr>"

definition sim_lb :: LoadBalancer where
  "sim_lb = \<lparr>lb_Id = ''lb1'', lb_Name = ''lb1'', lb_Status = LB_ACTIVE,
     lb_Listeners = [\<lparr>li_Endpoints = [\<lparr>en_Addresses = [InternalIpv4Address ''10.0.0.1''],
       en_Ports = [8443]\<rparr>]\<rparr>]\<rparr>"

definition sim_vm :: Instance where
  "sim_vm = \<lparr>in_Id = ''m1'', in_Status = InstanceStatusRunning,
     in_NetworkInterfaces = [\<lparr>vi_PrimaryV4Address = Some ''10.0.0.5''\<rparr>]\<rparr>"

definition sim_full :: Sim where
  "sim_full = \<lparr>sim_tgs = [\<lparr>tg_Id = ''lb1'', tg_Name = ''lb1'', tg_Targets = []\<rparr>],
     sim_bgs = [\<lparr>bg_Id = ''lb1'', bg_Name = ''lb1''\<rparr>], sim_lbs = [sim_lb], sim_vms = [sim_vm],
     sim_yc = sim_yandex_cluster [ClusterFinalizer], sim_ym = sim_yandex_machine (Some ''yandex://m1'')\<rparr>"

section \<open>The API server and the helper packages\<close>

definition sim_kube :: "Sim Kube" where
  "sim_kube =
     \<lparr>Get_YandexCluster = (\<lambda>ns n e. (Inr (sim_yc e), e)),
      Get_YandexMachine = (\<lambda>ns n e. (Inr (sim_ym e), e)),
      Get_Secret = (\<lambda>ns n e. (Inr [''value'' \<mapsto> ''#cloud-config''], e)),
      List_Machines = (\<lambda>ns ls e. (Inr [sim_machine], e)),
      GetOwnerCluster = (\<lambda>m e. (Inr (Some sim_cluster), e)),
      GetOwnerMachine = (\<lambda>m e. (Inr (Some sim_machine), e)),
      GetClusterFromMetadata = (\<lambda>m e. (Inr sim_cluster, e)),
      NewHelper_YandexCluster = (\<lambda>c e. (Inr (), e)),
      NewHelper_YandexMachine = (\<lambda>c e. (Inr (), e)),
      Patch_YandexCluster = (\<lambda>b c e. (Inr (), e\<lparr>sim_yc := c\<rparr>)),
      Patch_YandexMachine = (\<lambda>b c e. (Inr (), e\<lparr>sim_ym := c\<rparr>))\<rparr>"

definition sim_condition :: "string \<Rightarrow> string \<Rightarrow> string \<Rightarrow> string \<Rightarrow> string \<Rightarrow> Conditions \<Rightarrow> Conditions" where
  "sim_condition t st sev reason msg cs =
     filter (\<lambda>c. co_Type c \<noteq> t) cs @
       [\<lparr>co_Type = t, co_Status = st, co_Severity = sev, co_Reason = reason, co_Message = msg\<rparr>]"

definition sim_lib :: Lib where
  "sim_lib =
     \<lparr>FromError = (\<lambda>e. if e = sim_not_found then (5, True) else (2, False)),
      Apierrors_IsNotFound = (\<lambda>e. e = sim_not_found),
      ContainsFinalizer = (\<lambda>fs f. List.member fs f),
      AddFinalizer = (\<lambda>fs f. if List.member fs f then fs else fs @ [f]),
      RemoveFinalizer = (\<lambda>fs f. filter (\<lambda>x. x \<noteq> f) fs),
      IsPaused = (\<lambda>c m. cl_Paused c),
      IsControlPlaneMachine = (\<lambda>m. om_Labels (ma_Meta m) ''control-plane'' \<noteq> None),
      APIEndpoint_IsValid = (\<lambda>ep. ep_Host ep \<noteq> [] \<and> ep_Port ep \<noteq> 0),
      Quantity_AsInt64 = (\<lambda>q. Some 1),
      codes_NotFound = 5,
      SeverityError = ''Error'', SeverityWarning = ''Warning'', SeverityInfo = ''Info'',
      DeletionFailedReason = ''DeletionFailed'', DeletingReason = ''Deleting'',
      UpdateMachineError = ''UpdateError'', NodeInternalIP = ''InternalIP'',
      MarkTrue = (\<lambda>t. sim_condition t ''True'' [] [] []),
      MarkFalse = (\<lambda>t reason sev msg. sim_condition t ''False'' sev reason msg),
      MarkUnknown = (\<lambda>t reason msg. sim_condition t ''Unknown'' [] reason msg)\<rparr>"

lemma sim_lib_finalizer_laws: "finalizer_laws sim_lib"
  by (auto simp: finalizer_laws_def sim_lib_def)

text \<open>The parameters one field at a time: evaluation never unfolds the whole records.\<close>

lemma sim_sdk_sel [simp]:
  "Instance_Get sim_sdk = sim_get in_Id sim_vms"
  "Instance_Create sim_sdk = (\<lambda>req e. (Inr \<lparr>op_Id = CHR ''I'' # cir_Name req\<rparr>, e\<lparr>sim_vms := \<lparr>in_Id = cir_Name req, in_Status = InstanceStatusRunning, in_NetworkInterfaces = [\<lparr>vi_PrimaryV4Address = Some ''10.0.0.5''\<rparr>]\<rparr> # sim_vms e\<rparr>))"
  "Instance_Delete sim_sdk = (\<lambda>i e. (Inr sim_done, e\<lparr>sim_vms := filter (\<lambda>v. in_Id v \<noteq> i) (sim_vms e)\<rparr>))"
  "TargetGroup_Get sim_sdk = sim_get tg_Id sim_tgs"
  "TargetGroup_List sim_sdk = sim_list tg_Name sim_tgs"
  "TargetGroup_Create sim_sdk = (\<lambda>req e. (Inr \<lparr>op_Id = CHR ''T'' # ctg_Name req\<rparr>, e\<lparr>sim_tgs := \<lparr>tg_Id = ctg_Name req, tg_Name = ctg_Name req, tg_Targets = []\<rparr> # sim_tgs e\<rparr>))"
  "TargetGroup_Delete sim_sdk = (\<lambda>i e. (Inr sim_done, e\<lparr>sim_tgs := filter (\<lambda>v. tg_Id v \<noteq> i) (sim_tgs e)\<rparr>))"
  "TargetGroup_AddTargets sim_sdk = (\<lambda>req e. (Inr sim_done, e\<lparr>sim_tgs := map (\<lambda>t. if tg_Id t = atr_TargetGroupId req then t\<lparr>tg_Targets := tg_Targets t @ atr_Targets req\<rparr> else t) (sim_tgs e)\<rparr>))"
  "TargetGroup_RemoveTargets sim_sdk = (\<lambda>req e. (Inr sim_done, e\<lparr>sim_tgs := map (\<lambda>t. if tg_Id t = rtr_TargetGroupId req then t\<lparr>tg_Targets := filter (\<lambda>x. x \<notin> set (rtr_Targets req)) (tg_Targets t)\<rparr> else t) (sim_tgs e)\<rparr>))"
  "BackendGroup_Get sim_sdk = sim_get bg_Id sim_bgs"
  "BackendGroup_List sim_sdk = sim_list bg_Name sim_bgs"
  "BackendGroup_Create sim_sdk = (\<lambda>req e. (Inr \<lparr>op_Id = CHR ''B'' # cbg_Name req\<rparr>, e\<lparr>sim_bgs := \<lparr>bg_Id = cbg_Name req, bg_Name = cbg_Name req\<rparr> # sim_bgs e\<rparr>))"
  "BackendGroup_Delete sim_sdk = (\<lambda>i e. (Inr sim_done, e\<lparr>sim_bgs := filter (\<lambda>v. bg_Id v \<noteq> i) (sim_bgs e)\<rparr>))"
  "LoadBalancer_Get sim_sdk = sim_get lb_Id sim_lbs"
  "LoadBalancer_List sim_sdk = sim_list lb_Name sim_lbs"
  "LoadBalancer_Create sim_sdk = (\<lambda>req e. (Inr \<lparr>op_Id = CHR ''L'' # clb_Name req\<rparr>, e\<lparr>sim_lbs := \<lparr>lb_Id = clb_Name req, lb_Name = clb_Name req, lb_Status = LB_ACTIVE, lb_Listeners = sim_listener req\<rparr> # sim_lbs e\<rparr>))"
  "LoadBalancer_Delete sim_sdk = (\<lambda>i e. (Inr sim_done, e\<lparr>sim_lbs := filter (\<lambda>v. lb_Id v \<noteq> i) (sim_lbs e)\<rparr>))"
  "NlbTargetGroup_Get sim_sdk = sim_get tg_Id sim_tgs"
  "NlbTargetGroup_AddTargets sim_sdk = (\<lambda>req e. (Inr sim_done, e))"
  "NlbTargetGroup_RemoveTargets sim_sdk = (\<lambda>req e. (Inr sim_done, e))"
  "WrapOperation sim_sdk = (\<lambda>op e. (Inr op, e))"
  "Operation_Metadata sim_sdk = sim_meta"
  "Operation_Wait sim_sdk = (\<lambda>op e. (Inr (), e))"
  "Operation_Response sim_sdk = (\<lambda>op e. (Inr (), e))"
  "ResolverFilter sim_sdk = (\<lambda>k v. v)"
  "ResolverPageSize sim_sdk = 100"
  "SDK_Shutdown sim_sdk = (\<lambda>e. (Inr (), e))"
  by (simp_all add: sim_sdk_def)

lemma sim_kube_sel [simp]:
  "Get_YandexCluster sim_kube = (\<lambda>ns n e. (Inr (sim_yc e), e))"
  "Get_YandexMachine sim_kube = (\<lambda>ns n e. (Inr (sim_ym e), e))"
  "Get_Secret sim_kube = (\<lambda>ns n e. (Inr [''value'' \<mapsto> ''#cloud-config''], e))"
  "List_Machines sim_kube = (\<lambda>ns ls e. (Inr [sim_machine], e))"
  "GetOwnerCluster sim_kube = (\<lambda>m e. (Inr (Some sim_cluster), e))"
  "GetOwnerMachine sim_kube = (\<lambda>m e. (Inr (Some sim_machine), e))"
  "GetClusterFromMetadata sim_kube = (\<lambda>m e. (Inr sim_cluster, e))"
  "NewHelper_YandexCluster sim_kube = (\<lambda>c e. (Inr (), e))"
  "NewHelper_YandexMachine sim_kube = (\<lambda>c e. (Inr (), e))"
  "Patch_YandexCluster sim_kube = (\<lambda>b c e. (Inr (), e\<lparr>sim_yc := c\<rparr>))"
  "Patch_YandexMachine sim_kube = (\<lambda>b c e. (Inr (), e\<lparr>sim_ym := c\<rparr>))"
  by (simp_all add: sim_kube_def)

lemma sim_lib_sel [simp]:
  "FromError sim_lib = (\<lambda>e. if e = sim_not_found then (5, True) else (2, False))"
  "Apierrors_IsNotFound sim_lib = (\<lambda>e. e = sim_not_found)"
  "ContainsFinalizer sim_lib = (\<lambda>fs f. List.member fs f)"
  "AddFinalizer sim_lib = (\<lambda>fs f. if List.member fs f then fs else fs @ [f])"
  "RemoveFinalizer sim_lib = (\<lambda>fs f. filter (\<lambda>x. x \<noteq> f) fs)"
  "IsPaused sim_lib = (\<lambda>c m. cl_Paused c)"
  "IsControlPlaneMachine sim_lib = (\<lambda>m. om_Labels (ma_Meta m) ''control-plane'' \<noteq> None)"
  "APIEndpoint_IsValid sim_lib = (\<lambda>ep. ep_Host ep \<noteq> [] \<and> ep_Port ep \<noteq> 0)"
  "Quantity_AsInt64 sim_lib = (\<lambda>q. Some 1)"
  "codes_NotFound sim_lib = 5"
  "SeverityError sim_lib = ''Error''"
  "SeverityWarning sim_lib = ''Warning''"
  "SeverityInfo sim_lib = ''Info''"
  "DeletionFailedReason sim_lib = ''DeletionFailed''"
  "DeletingReason sim_lib = ''Deleting''"
  "UpdateMachineError sim_lib = ''UpdateError''"
  "NodeInternalIP sim_lib = ''InternalIP''"
  "MarkTrue sim_lib = (\<lambda>t. sim_condition t ''True'' [] [] [])"
  "MarkFalse sim_lib = (\<lambda>t reason sev msg. sim_condition t ''False'' sev reason msg)"
  "MarkUnknown sim_lib = (\<lambda>t reason msg. sim_condition t ''Unknown'' [] reason msg)"
  by (simp_all add: sim_lib_def)

lemmas sim_defs = sim_get_def sim_list_def sim_listener_def
  sim_meta_def sim_done_def sim_object_def sim_cluster_def sim_machine_def sim_yandex_cluster_def
  sim_yandex_machine_def sim_empty_def sim_full_def sim_lb_def sim_vm_def sim_condition_def
  sim_not_found_def

end
