(* ===== verification/Builders.thy ===== *)
theory Builders
  imports Cluster_Scope Cloud_Sim
begin

text \<open>
  \<open>internal/pkg/cloud/services/loadbalancers/builders/alb_builders.go\<close>: the three request builders.
  A builder is a record, each \<open>With...\<close> method a field update that returns the builder, and \<open>Build\<close> a
  total function (its error result is always nil).  Conversions between integer widths are the Go
  ones: sign extension from \<open>int32\<close> to \<open>int64\<close>, and 64-bit multiplication for durations.
\<close>

definition describePrefix :: string where
  "describePrefix = ''k8s api ''"

section \<open>Target group\<close>

record ALBTargetGroupBuilder =
  tgb_lbs :: LoadBalancerSpec
  tgb_folderID :: string
  tgb_clusterName :: string
  tgb_name :: string
  tgb_subnetID :: string
  tgb_targetGroupID :: string
  tgb_ipAddress :: string
  tgb_additionalLabels :: Labels

definition NewALBTargetGroupBuilder :: "LoadBalancerSpec \<Rightarrow> ALBTargetGroupBuilder" where
  "NewALBTargetGroupBuilder lbs =
     \<lparr>tgb_lbs = lbs, tgb_folderID = [], tgb_clusterName = [], tgb_name = [], tgb_subnetID = [],
      tgb_targetGroupID = [], tgb_ipAddress = [], tgb_additionalLabels = None\<rparr>"

definition TG_WithCluster :: "string \<Rightarrow> ALBTargetGroupBuilder \<Rightarrow> ALBTargetGroupBuilder" where
  "TG_WithCluster clusterName a = a\<lparr>tgb_clusterName := clusterName\<rparr>"

definition TG_WithFolder :: "string \<Rightarrow> ALBTargetGroupBuilder \<Rightarrow> ALBTargetGroupBuilder" where
  "TG_WithFolder folderID a = a\<lparr>tgb_folderID := folderID\<rparr>"

definition TG_WithLBName :: "string \<Rightarrow> ALBTargetGroupBuilder \<Rightarrow> ALBTargetGroupBuilder" where
  "TG_WithLBName name a = a\<lparr>tgb_name := name\<rparr>"

definition TG_WithLabels :: "Labels \<Rightarrow> ALBTargetGroupBuilder \<Rightarrow> ALBTargetGroupBuilder" where
  "TG_WithLabels labels a = a\<lparr>tgb_additionalLabels := labels\<rparr>"

definition TG_WithSubnetID :: "string \<Rightarrow> ALBTargetGroupBuilder \<Rightarrow> ALBTargetGroupBuilder" where
  "TG_WithSubnetID ident a = a\<lparr>tgb_subnetID := ident\<rparr>"

definition TG_WithTargetGroupID :: "string \<Rightarrow> ALBTargetGroupBuilder \<Rightarrow> ALBTargetGroupBuilder" where
  "TG_WithTargetGroupID ident a = a\<lparr>tgb_targetGroupID := ident\<rparr>"

definition TG_WithIP :: "string \<Rightarrow> ALBTargetGroupBuilder \<Rightarrow> ALBTargetGroupBuilder" where
  "TG_WithIP ipAddress a = a\<lparr>tgb_ipAddress := ipAddress\<rparr>"

definition TG_Build :: "ALBTargetGroupBuilder \<Rightarrow> CreateTargetGroupRequest" where
  "TG_Build a =
     (let request = \<lparr>ctg_FolderId = tgb_folderID a, ctg_Name = tgb_name a,
            ctg_Description = describePrefix @ tgb_clusterName a @ '' target'', ctg_Labels = None\<rparr>
      in case tgb_additionalLabels a of
           Some labels \<Rightarrow> request\<lparr>ctg_Labels := Some labels\<rparr>
         | None \<Rightarrow> request)"

definition BuildAddTargetRequest :: "string \<Rightarrow> ALBTargetGroupBuilder \<Rightarrow> AddTargetsRequest" where
  "BuildAddTargetRequest address a =
     \<lparr>atr_TargetGroupId = tgb_targetGroupID a,
      atr_Targets = [\<lparr>ta_SubnetId = tgb_subnetID a, ta_AddressType = Target_IpAddress address\<rparr>]\<rparr>"

definition BuildRemoveTargetRequest :: "string \<Rightarrow> ALBTargetGroupBuilder \<Rightarrow> RemoveTargetsRequest" where
  "BuildRemoveTargetRequest address a =
     \<lparr>rtr_TargetGroupId = tgb_targetGroupID a,
      rtr_Targets = [\<lparr>ta_SubnetId = tgb_subnetID a, ta_AddressType = Target_IpAddress address\<rparr>]\<rparr>"

definition TG_GetName :: "ALBTargetGroupBuilder \<Rightarrow> string" where
  "TG_GetName a = tgb_name a"

section \<open>Backend group\<close>

record ALBBackendGroupBuilder =
  bgb_lbs :: LoadBalancerSpec
  bgb_folderID :: string
  bgb_clusterName :: string
  bgb_name :: string
  bgb_targetGroupID :: string
  bgb_additionalLabels :: Labels

definition NewALBBackendGroupBuilder :: "LoadBalancerSpec \<Rightarrow> ALBBackendGroupBuilder" where
  "NewALBBackendGroupBuilder lbs =
     \<lparr>bgb_lbs = lbs, bgb_folderID = [], bgb_clusterName = [], bgb_name = [],
      bgb_targetGroupID = [], bgb_additionalLabels = None\<rparr>"

definition BG_WithCluster :: "string \<Rightarrow> ALBBackendGroupBuilder \<Rightarrow> ALBBackendGroupBuilder" where
  "BG_WithCluster clusterName a = a\<lparr>bgb_clusterName := clusterName\<rparr>"

definition BG_WithFolder :: "string \<Rightarrow> ALBBackendGroupBuilder \<Rightarrow> ALBBackendGroupBuilder" where
  "BG_WithFolder folderID a = a\<lparr>bgb_folderID := folderID\<rparr>"

definition BG_WithLBName :: "string \<Rightarrow> ALBBackendGroupBuilder \<Rightarrow> ALBBackendGroupBuilder" where
  "BG_WithLBName name a = a\<lparr>bgb_name := name\<rparr>"

definition BG_WithTargetGroupID :: "string \<Rightarrow> ALBBackendGroupBuilder \<Rightarrow> ALBBackendGroupBuilder" where
  "BG_WithTargetGroupID ident a = a\<lparr>bgb_targetGroupID := ident\<rparr>"

definition BG_WithLabels :: "Labels \<Rightarrow> ALBBackendGroupBuilder \<Rightarrow> ALBBackendGroupBuilder" where
  "BG_WithLabels labels a = a\<lparr>bgb_additionalLabels := labels\<rparr>"

definition createLoadBalancingConfig :: "ALBBackendGroupBuilder \<Rightarrow> LoadBalancingConfig" where
  "createLoadBalancingConfig a = \<lparr>lbc_StrictLocality = False, lbc_Mode = ROUND_ROBIN\<rparr>"

text \<open>\<open>time.Second\<close> is the untyped constant 1000000000; the product is taken in \<open>int64\<close> and wraps.\<close>

definition time_Second :: int64 where
  "time_Second = 1000000000"

definition createHealthChecks :: "ALBBackendGroupBuilder \<Rightarrow> HealthCheck list" where
  "createHealthChecks a =
     (let hc = lbs_Healthcheck (bgb_lbs a);
          timeout = time_Second * hc_HealthcheckTimeoutSec hc;
          interval = time_Second * hc_HealthcheckIntervalSec hc
      in [\<lparr>hk_Timeout = timeout, hk_Interval = interval,
           hk_UnhealthyThreshold = hc_HealthcheckThreshold hc,
           hk_HealthyThreshold = hc_HealthcheckThreshold hc, hk_Stream = True\<rparr>])"

definition BG_Build :: "ALBBackendGroupBuilder \<Rightarrow> CreateBackendGroupRequest" where
  "BG_Build a =
     (let sb = \<lparr>sb_Name = bgb_name a,
            sb_Port = (scast (lbs_BackendPort (bgb_lbs a)) :: int64),
            sb_TargetGroupIds = [bgb_targetGroupID a],
            sb_LoadBalancingConfig = createLoadBalancingConfig a,
            sb_Healthchecks = createHealthChecks a\<rparr>;
          request = \<lparr>cbg_FolderId = bgb_folderID a, cbg_Name = bgb_name a,
            cbg_Description = describePrefix @ bgb_clusterName a @ '' backend'',
            cbg_Labels = None, cbg_StreamBackends = []\<rparr>;
          request = (case bgb_additionalLabels a of
              Some labels \<Rightarrow> request\<lparr>cbg_Labels := Some labels\<rparr>
            | None \<Rightarrow> request)
      in request\<lparr>cbg_StreamBackends := [sb]\<rparr>)"

definition BG_GetName :: "ALBBackendGroupBuilder \<Rightarrow> string" where
  "BG_GetName a = bgb_name a"

section \<open>Load balancer\<close>

record ALBBuilder =
  ab_lbs :: LoadBalancerSpec
  ab_folderID :: string
  ab_networkID :: string
  ab_clusterName :: string
  ab_name :: string
  ab_backendGroupID :: string
  ab_additionalLabels :: Labels

definition NewALBBuilder :: "LoadBalancerSpec \<Rightarrow> ALBBuilder" where
  "NewALBBuilder lbs =
     \<lparr>ab_lbs = lbs, ab_folderID = [], ab_networkID = [], ab_clusterName = [], ab_name = [],
      ab_backendGroupID = [], ab_additionalLabels = None\<rparr>"

definition ALB_WithCluster :: "string \<Rightarrow> ALBBuilder \<Rightarrow> ALBBuilder" where
  "ALB_WithCluster clusterName a = a\<lparr>ab_clusterName := clusterName\<rparr>"

definition ALB_WithFolder :: "string \<Rightarrow> ALBBuilder \<Rightarrow> ALBBuilder" where
  "ALB_WithFolder folderID a = a\<lparr>ab_folderID := folderID\<rparr>"

definition ALB_WithName :: "string \<Rightarrow> ALBBuilder \<Rightarrow> ALBBuilder" where
  "ALB_WithName name a = a\<lparr>ab_name := name\<rparr>"

definition ALB_WithBackendGroupID :: "string \<Rightarrow> ALBBuilder \<Rightarrow> ALBBuilder" where
  "ALB_WithBackendGroupID ident a = a\<lparr>ab_backendGroupID := ident\<rparr>"

definition ALB_WithNetworkID :: "string \<Rightarrow> ALBBuilder \<Rightarrow> ALBBuilder" where
  "ALB_WithNetworkID ident a = a\<lparr>ab_networkID := ident\<rparr>"

definition ALB_WithLabels :: "Labels \<Rightarrow> ALBBuilder \<Rightarrow> ALBBuilder" where
  "ALB_WithLabels labels a = a\<lparr>ab_additionalLabels := labels\<rparr>"

definition createListenerSpec ::
    "string \<Rightarrow> int32 \<Rightarrow> string \<Rightarrow> string \<Rightarrow> ALBBuilder \<Rightarrow> AlbListenerSpec list" where
  "createListenerSpec address port subnetID backendID a =
     (let intAddressSpec = \<lparr>ias_Address = None, ias_SubnetId = []\<rparr>;
          intAddressSpec =
            (if address \<noteq> [] then intAddressSpec\<lparr>ias_Address := Some address\<rparr> else intAddressSpec);
          intAddressSpec = intAddressSpec\<lparr>ias_SubnetId := subnetID\<rparr>;
          endpointSpec = \<lparr>es_Ports = [scast port :: int64], es_AddressSpecs = [intAddressSpec]\<rparr>
      in [\<lparr>als_Name = ab_name a, als_EndpointSpecs = [endpointSpec],
           als_StreamBackendGroupId = backendID\<rparr>])"

definition ALB_Build :: "ALBBuilder \<Rightarrow> CreateLoadBalancerRequest" where
  "ALB_Build a =
     (let listener = lbs_Listener (ab_lbs a);
          request = \<lparr>clb_FolderId = ab_folderID a, clb_NetworkId = ab_networkID a,
            clb_Name = ab_name a,
            clb_Description = describePrefix @ ab_clusterName a @ '' loadbalancer'',
            clb_Labels = None,
            clb_Locations = [\<lparr>lo_ZoneId = ss_ZoneID (ls_Subnet listener),
                              lo_SubnetId = ss_ID (ls_Subnet listener)\<rparr>],
            clb_ListenerSpecs = [], clb_LogDisable = False\<rparr>;
          request = (case ab_additionalLabels a of
              Some labels \<Rightarrow> request\<lparr>clb_Labels := Some labels\<rparr>
            | None \<Rightarrow> request);
          request = request\<lparr>clb_ListenerSpecs := createListenerSpec (ls_Address listener)
            (ls_Port listener) (ss_ID (ls_Subnet listener)) (ab_backendGroupID a) a\<rparr>
      in request\<lparr>clb_LogDisable := True\<rparr>)"

definition ALB_GetName :: "ALBBuilder \<Rightarrow> string" where
  "ALB_GetName a = ab_name a"

section \<open>Facts\<close>

lemmas tg_builder_defs = NewALBTargetGroupBuilder_def TG_WithCluster_def TG_WithFolder_def
  TG_WithLBName_def TG_WithLabels_def TG_WithSubnetID_def TG_WithTargetGroupID_def TG_WithIP_def
  TG_GetName_def

lemmas bg_builder_defs = NewALBBackendGroupBuilder_def BG_WithCluster_def BG_WithFolder_def
  BG_WithLBName_def BG_WithTargetGroupID_def BG_WithLabels_def BG_GetName_def

lemmas alb_builder_defs = NewALBBuilder_def ALB_WithCluster_def ALB_WithFolder_def ALB_WithName_def
  ALB_WithBackendGroupID_def ALB_WithNetworkID_def ALB_WithLabels_def ALB_GetName_def

text \<open>A builder method sets one field: methods on different fields commute, the last call wins.\<close>

lemma TG_With_commute:
  "TG_WithCluster c (TG_WithFolder f a) = TG_WithFolder f (TG_WithCluster c a)"
  "TG_WithCluster c (TG_WithLBName n a) = TG_WithLBName n (TG_WithCluster c a)"
  "TG_WithLBName n (TG_WithFolder f a) = TG_WithFolder f (TG_WithLBName n a)"
  "TG_WithLBName n (TG_WithLBName n' a) = TG_WithLBName n a"
  by (simp_all add: tg_builder_defs)

text \<open>The request for a target group, field by field.\<close>

lemma TG_Build_fields:
  "TG_Build a = \<lparr>ctg_FolderId = tgb_folderID a, ctg_Name = tgb_name a,
     ctg_Description = ''k8s api '' @ tgb_clusterName a @ '' target'',
     ctg_Labels = tgb_additionalLabels a\<rparr>"
  by (simp add: TG_Build_def describePrefix_def Let_def split: option.split)

text \<open>Sign extension keeps the value of a port; truncation brings it back.\<close>

lemma port_extend: "sint (scast (p :: int32) :: int64) = sint p"
  by (rule sint_up_scast) (simp add: is_up)

lemma port_roundtrip: "(ucast (scast (p :: int32) :: int64) :: int32) = p"
  by (rule bit_word_eqI) (simp add: bit_simps)

text \<open>
  Seconds to nanoseconds: exact as long as the product fits 63 bits, that is up to 9223372036
  seconds in absolute value.
\<close>

lemma seconds_exact:
  assumes "\<bar>sint (n :: int64)\<bar> \<le> 9223372036"
  shows "sint (time_Second * n) = 1000000000 * sint n"
proof -
  have "sint (time_Second * n) = signed_take_bit 63 (1000000000 * sint n)"
    by (simp add: time_Second_def sint_word_ariths signed_take_bit_mult)
  also have "\<dots> = 1000000000 * sint n"
    using assms by (intro signed_take_bit_int_eq_self) auto
  finally show ?thesis .
qed

end
