(* ===== verification/Loadbalancer.thy ===== *)
theory Loadbalancer
  imports Builders
begin

text \<open>
  \<open>internal/pkg/cloud/services/loadbalancers\<close>: the load balancer service, over any client and any
  world.  Only \<open>reconcileALB\<close> writes the \<open>YandexCluster\<close> of its scope; it runs on the state of a
  cluster reconciliation, and the other operations on the world, with the scope as an argument.  The
  facts at the end give each operation's outcome in terms of the look-ups it makes, the requests it
  sends, and the contract the machine side relies on, as a locale.
\<close>

section \<open>alb.go: reconciliation\<close>

definition resourceDeleted :: bool where "resourceDeleted = True"
definition resourceNotDeleted :: bool where "resourceNotDeleted = False"

definition reconcileALBTargetGroup :: "'w Client \<Rightarrow> ClusterScope \<Rightarrow> ('w, string) go" where
  "reconcileALBTargetGroup client sc =
     (let builder = TG_WithLabels (ClusterScope_GetLabels sc) (TG_WithFolder (ClusterScope_GetFolderID sc)
            (TG_WithLBName (ClusterScope_GetLBName sc) (TG_WithCluster (ClusterScope_Name sc)
            (NewALBTargetGroupBuilder (ClusterScope_GetLBSpec sc)))))
      in bindG (ALBTargetGroupGetByName client (ClusterScope_GetFolderID sc) (TG_GetName builder))
        (\<lambda>tg. case tg of
           None \<Rightarrow> bindG (ALBTargetGroupCreate client (TG_Build builder)) (\<lambda>ident. ret ident)
         | Some tg \<Rightarrow> ret (tg_Id tg)))"

definition reconcileALBBackendGroup ::
    "'w Client \<Rightarrow> ClusterScope \<Rightarrow> string \<Rightarrow> ('w, string) go" where
  "reconcileALBBackendGroup client sc targetGroupID =
     (let builder = BG_WithLabels (ClusterScope_GetLabels sc) (BG_WithTargetGroupID targetGroupID
            (BG_WithFolder (ClusterScope_GetFolderID sc) (BG_WithLBName (ClusterScope_GetLBName sc)
            (BG_WithCluster (ClusterScope_Name sc)
            (NewALBBackendGroupBuilder (ClusterScope_GetLBSpec sc))))))
      in bindG (ALBBackendGroupGetByName client (ClusterScope_GetFolderID sc) (BG_GetName builder))
        (\<lambda>bg. case bg of
           None \<Rightarrow> bindG (ALBBackendGroupCreate client (BG_Build builder)) (\<lambda>ident. ret ident)
         | Some bg \<Rightarrow> ret (bg_Id bg)))"

text \<open>
  \<open>lb.Listeners[0].GetEndpoints()[0].Addresses[0].GetInternalIpv4Address().Address\<close> on a possibly nil
  load balancer: every step but the getters may panic.
\<close>

definition first_endpoint :: "LoadBalancer option \<Rightarrow> ('w, Endpoint) go" where
  "first_endpoint lb =
     (case lb of
        None \<Rightarrow> panic ''nil pointer dereference''
      | Some l \<Rightarrow>
     (case lb_Listeners l of
        [] \<Rightarrow> panic ''index out of range''
      | li # _ \<Rightarrow>
     (case li_Endpoints li of
        [] \<Rightarrow> panic ''index out of range''
      | e # _ \<Rightarrow> ret e)))"

definition getInternalAddress :: "LoadBalancer option \<Rightarrow> ('w, string) go" where
  "getInternalAddress lb = bindG (first_endpoint lb) (\<lambda>e.
     case en_Addresses e of
       [] \<Rightarrow> panic ''index out of range''
     | InternalIpv4Address a # _ \<Rightarrow> ret a
     | _ \<Rightarrow> panic ''nil pointer dereference'')"

definition getInternalPort :: "LoadBalancer option \<Rightarrow> ('w, int32) go" where
  "getInternalPort lb = bindG (first_endpoint lb) (\<lambda>e.
     case en_Ports e of
       [] \<Rightarrow> panic ''index out of range''
     | p # _ \<Rightarrow> ret (ucast p))"

definition incorrect_address_error :: "ClusterScope \<Rightarrow> string \<Rightarrow> err" where
  "incorrect_address_error sc lbAddress =
     Errorf (''load balancer for the YandexCluster '' @ ClusterScope_Name sc @
       '' has an incorrect address '' @ lbAddress @ '', expected '' @
       ls_Address (lbs_Listener (ClusterScope_GetLBSpec sc)) @
       ''. The cluster has become unrecoverable and should be manually deleted'')"

definition incorrect_port_error :: "ClusterScope \<Rightarrow> int32 \<Rightarrow> err" where
  "incorrect_port_error sc lbPort =
     Errorf (''load balancer for the YandexCluster '' @ ClusterScope_Name sc @
       '' has an incorrect port '' @ itoa (sint lbPort) @ '', expected '' @
       itoa (sint (ls_Port (lbs_Listener (ClusterScope_GetLBSpec sc)))) @
       ''. The cluster has become unrecoverable and should be manually deleted'')"

definition lb_not_found_error :: "ClusterScope \<Rightarrow> err" where
  "lb_not_found_error sc =
     Errorf (''load balancer for the YandexCluster '' @ om_Name (yc_Meta (cs_YandexCluster sc)) @
       '' not found, the cluster has become unrecoverable and should be manually deleted'')"

definition yc_mark :: "(Conditions \<Rightarrow> Conditions) \<Rightarrow> YandexCluster \<Rightarrow> YandexCluster" where
  "yc_mark f yc = YandexCluster_SetConditions (f (YandexCluster_GetConditions yc)) yc"

definition alb_builder :: "ClusterScope \<Rightarrow> string \<Rightarrow> ALBBuilder" where
  "alb_builder sc backendGroupID =
     ALB_WithLabels (ClusterScope_GetLabels sc) (ALB_WithNetworkID (ClusterScope_GetNetworkID sc)
       (ALB_WithBackendGroupID backendGroupID (ALB_WithFolder (ClusterScope_GetFolderID sc)
       (ALB_WithName (ClusterScope_GetLBName sc) (ALB_WithCluster (ClusterScope_Name sc)
       (NewALBBuilder (ClusterScope_GetLBSpec sc)))))))"

definition reconcileALB :: "Lib \<Rightarrow> 'w Client \<Rightarrow> string \<Rightarrow> ('w ClusterState, unit) go" where
  "reconcileALB L client backendGroupID =
     withG (\<lambda>s. let sc = c_scope s; builder = alb_builder sc backendGroupID;
          listener = lbs_Listener (ClusterScope_GetLBSpec sc) in
     bindG (in_world (ALBGetByName client (ClusterScope_GetFolderID sc) (ALB_GetName builder))) (\<lambda>lb.
     if lb \<noteq> None \<and> lb_Status (the lb) = LB_ACTIVE \<and> ls_Address listener \<noteq> [] then
       bindG (in_world (getInternalAddress lb)) (\<lambda>lbAddress.
       bindG (in_world (getInternalPort lb)) (\<lambda>lbPort.
       if lbAddress \<noteq> [] \<and> ls_Address listener \<noteq> lbAddress
       then raise (incorrect_address_error sc lbAddress)
       else if lbPort \<noteq> 0 \<and> ls_Port listener \<noteq> lbPort
       then raise (incorrect_port_error sc lbPort)
       else ret ()))
     else if lb = None \<and> APIEndpoint_IsValid L (ClusterScope_ControlPlaneEndpoint sc) \<and>
       ls_Address listener = []
     then raise (lb_not_found_error sc)
     else if lb = None then
       bindG (in_world (ALBCreate client (ALB_Build builder))) (\<lambda>ident.
       modifyG (set_yc (yc_mark (MarkTrue L ConditionStatusReady))))
     else ret ()))"

definition reconcileALBService :: "Lib \<Rightarrow> 'w Client \<Rightarrow> ('w ClusterState, unit) go" where
  "reconcileALBService L client =
     withG (\<lambda>s. let sc = c_scope s in
     bindG (in_world (reconcileALBTargetGroup client sc)) (\<lambda>targetGroupID.
     bindG (in_world (reconcileALBBackendGroup client sc targetGroupID)) (\<lambda>backendGroupID.
     reconcileALB L client backendGroupID)))"

section \<open>alb.go: deletion\<close>

definition deleteApplicationLoadBalancer :: "'w Client \<Rightarrow> ClusterScope \<Rightarrow> ('w, bool) go" where
  "deleteApplicationLoadBalancer client sc =
     bindG (ALBGetByName client (ClusterScope_GetFolderID sc) (ClusterScope_GetLBName sc)) (\<lambda>lb.
     case lb of
       None \<Rightarrow> ret resourceDeleted
     | Some l \<Rightarrow>
        (let status = GetStatus lb in
         if status = LB_DELETING \<or> status = LB_STOPPING then ret resourceNotDeleted
         else thenG (ALBDelete client (lb_Id l)) (ret resourceNotDeleted)))"

definition deleteALBTargetGroup :: "'w Client \<Rightarrow> ClusterScope \<Rightarrow> ('w, bool) go" where
  "deleteALBTargetGroup client sc =
     (let name = TG_GetName (TG_WithLBName (ClusterScope_GetLBName sc)
            (NewALBTargetGroupBuilder (ClusterScope_GetLBSpec sc)))
      in bindG (ALBTargetGroupGetByName client (ClusterScope_GetFolderID sc) name) (\<lambda>tg.
         case tg of
           None \<Rightarrow> ret resourceDeleted
         | Some tg \<Rightarrow> thenG (ALBTargetGroupDelete client (tg_Id tg)) (ret resourceNotDeleted)))"

definition deleteALBBackendGroup :: "'w Client \<Rightarrow> ClusterScope \<Rightarrow> ('w, bool) go" where
  "deleteALBBackendGroup client sc =
     (let name = BG_GetName (BG_WithLBName (ClusterScope_GetLBName sc)
            (NewALBBackendGroupBuilder (ClusterScope_GetLBSpec sc)))
      in bindG (ALBBackendGroupGetByName client (ClusterScope_GetFolderID sc) name) (\<lambda>bg.
         case bg of
           None \<Rightarrow> ret resourceDeleted
         | Some bg \<Rightarrow> thenG (ALBBackendGroupDelete client (bg_Id bg)) (ret resourceNotDeleted)))"

definition deleteALBService :: "'w Client \<Rightarrow> ClusterScope \<Rightarrow> ('w, bool) go" where
  "deleteALBService client sc =
     bindG (deleteApplicationLoadBalancer client sc) (\<lambda>deleted.
     if \<not> deleted then ret resourceNotDeleted else
     bindG (deleteALBBackendGroup client sc) (\<lambda>deleted.
     if \<not> deleted then ret resourceNotDeleted else
     bindG (deleteALBTargetGroup client sc) (\<lambda>deleted.
     if \<not> deleted then ret resourceNotDeleted else
     ret resourceDeleted)))"

section \<open>alb.go: description and targets\<close>

definition describeALB :: "'w Client \<Rightarrow> ClusterScope \<Rightarrow> ('w, LoadBalancerStatus) go" where
  "describeALB client sc =
     bindG (ALBGetByName client (ClusterScope_GetFolderID sc) (ClusterScope_GetLBName sc)) (\<lambda>lb.
     bindG (getInternalAddress lb) (\<lambda>address.
     bindG (getInternalPort lb) (\<lambda>port.
     ret \<lparr>lbst_Name = [], lbst_ListenerAddress = address, lbst_ListenerPort = port\<rparr>)))"

text \<open>The loop over \<open>tg.Targets\<close> with its early return.\<close>

fun registered_in :: "string \<Rightarrow> string \<Rightarrow> Target list \<Rightarrow> bool" where
  "registered_in addr subnetID [] = False"
| "registered_in addr subnetID (target # rest) =
     (if ta_AddressType target = Target_IpAddress addr \<and> ta_SubnetId target = subnetID then True
      else registered_in addr subnetID rest)"

definition isAddressRegisteredALB :: "string \<Rightarrow> string \<Rightarrow> TargetGroup \<Rightarrow> bool" where
  "isAddressRegisteredALB addr subnetID tg = registered_in addr subnetID (tg_Targets tg)"

definition target_builder :: "ClusterScope \<Rightarrow> string \<Rightarrow> string \<Rightarrow> ALBTargetGroupBuilder" where
  "target_builder sc ipAddress subnetID =
     TG_WithFolder (ClusterScope_GetFolderID sc) (TG_WithSubnetID subnetID (TG_WithIP ipAddress
       (TG_WithLBName (ClusterScope_GetLBName sc) (TG_WithCluster (ClusterScope_Name sc)
       (NewALBTargetGroupBuilder (ClusterScope_GetLBSpec sc))))))"

definition addTargetALB :: "'w Client \<Rightarrow> ClusterScope \<Rightarrow> string \<Rightarrow> string \<Rightarrow> ('w, unit) go" where
  "addTargetALB client sc ipAddress subnetID =
     (let builder = target_builder sc ipAddress subnetID in
      bindG (ALBTargetGroupGetByName client (ClusterScope_GetFolderID sc) (TG_GetName builder)) (\<lambda>tg.
      case tg of
        None \<Rightarrow> raise (Errorf (''target group with name '' @ TG_GetName builder @ '' not found''))
      | Some tg \<Rightarrow>
         if isAddressRegisteredALB ipAddress subnetID tg then ret ()
         else
           (let req = BuildAddTargetRequest ipAddress (TG_WithTargetGroupID (tg_Id tg) builder)
            in thenG (ALBAddTarget client req) (ret ()))))"

definition removeTargetALB :: "'w Client \<Rightarrow> ClusterScope \<Rightarrow> string \<Rightarrow> string \<Rightarrow> ('w, unit) go" where
  "removeTargetALB client sc ipAddress subnetID =
     (let builder = target_builder sc ipAddress subnetID in
      bindG (ALBTargetGroupGetByName client (ClusterScope_GetFolderID sc) (TG_GetName builder)) (\<lambda>tg.
      case tg of
        None \<Rightarrow> ret ()
      | Some tg \<Rightarrow>
         if \<not> isAddressRegisteredALB ipAddress subnetID tg then ret ()
         else
           (let req = BuildRemoveTargetRequest ipAddress (TG_WithTargetGroupID (tg_Id tg) builder)
            in thenG (ALBRemoveTarget client req) (ret ()))))"

definition isActiveALB :: "'w Client \<Rightarrow> ClusterScope \<Rightarrow> ('w, bool) go" where
  "isActiveALB client sc =
     bindG (ALBGetByName client (ClusterScope_GetFolderID sc) (ClusterScope_GetLBName sc)) (\<lambda>lb.
     if GetStatus lb = LB_ACTIVE then ret True else ret False)"

section \<open>nlb.go\<close>

definition nlb_error :: err where
  "nlb_error = Errorf ''NLB support will be added in future releases, use ALB instead''"

definition reconcileNLBService :: "('w, unit) go" where "reconcileNLBService = raise nlb_error"
definition deleteNLBService :: "('w, bool) go" where "deleteNLBService = raise nlb_error"
definition describeNLB :: "('w, LoadBalancerStatus) go" where "describeNLB = raise nlb_error"
definition addTargetNLB :: "string \<Rightarrow> string \<Rightarrow> ('w, unit) go" where
  "addTargetNLB addr subnetID = raise nlb_error"
definition removeTargetNLB :: "string \<Rightarrow> string \<Rightarrow> ('w, unit) go" where
  "removeTargetNLB addr subnetID = raise nlb_error"
definition isActiveNLB :: "('w, bool) go" where "isActiveNLB = raise nlb_error"

section \<open>reconcile.go and service.go\<close>

definition unknown_lb_type :: "LoadBalancerType \<Rightarrow> err" where
  "unknown_lb_type lbType = Errorf (''unknown loadbalancer type: '' @ lbType)"

definition LB_Reconcile :: "Lib \<Rightarrow> 'w Client \<Rightarrow> ('w ClusterState, unit) go" where
  "LB_Reconcile L client =
     withG (\<lambda>s. let lbType = ClusterScope_GetLBType (c_scope s) in
       if lbType = LoadBalancerTypeALB then reconcileALBService L client
       else if lbType = LoadBalancerTypeNLB then reconcileNLBService
       else raise (unknown_lb_type lbType))"

definition LB_Delete :: "'w Client \<Rightarrow> ClusterScope \<Rightarrow> ('w, bool) go" where
  "LB_Delete client sc =
     (let lbType = ClusterScope_GetLBType sc in
      if lbType = LoadBalancerTypeALB then deleteALBService client sc
      else if lbType = LoadBalancerTypeNLB then deleteNLBService
      else raise (unknown_lb_type lbType))"

definition LB_Describe :: "'w Client \<Rightarrow> ClusterScope \<Rightarrow> ('w, LoadBalancerStatus) go" where
  "LB_Describe client sc =
     (let lbType = ClusterScope_GetLBType sc in
      if lbType = LoadBalancerTypeALB then describeALB client sc
      else if lbType = LoadBalancerTypeNLB then describeNLB
      else raise (unknown_lb_type lbType))"

definition LB_AddTarget :: "'w Client \<Rightarrow> ClusterScope \<Rightarrow> string \<Rightarrow> string \<Rightarrow> ('w, unit) go" where
  "LB_AddTarget client sc addr subnetID =
     (let lbType = ClusterScope_GetLBType sc in
      if lbType = LoadBalancerTypeALB then addTargetALB client sc addr subnetID
      else if lbType = LoadBalancerTypeNLB then addTargetNLB addr subnetID
      else raise (unknown_lb_type lbType))"

definition LB_RemoveTarget :: "'w Client \<Rightarrow> ClusterScope \<Rightarrow> string \<Rightarrow> string \<Rightarrow> ('w, unit) go" where
  "LB_RemoveTarget client sc addr subnetID =
     (let lbType = ClusterScope_GetLBType sc in
      if lbType = LoadBalancerTypeALB then removeTargetALB client sc addr subnetID
      else if lbType = LoadBalancerTypeNLB then removeTargetNLB addr subnetID
      else raise (unknown_lb_type lbType))"

definition LB_IsActive :: "'w Client \<Rightarrow> ClusterScope \<Rightarrow> ('w, bool) go" where
  "LB_IsActive client sc =
     (let lbType = ClusterScope_GetLBType sc in
      if lbType = LoadBalancerTypeALB then isActiveALB client sc
      else if lbType = LoadBalancerTypeNLB then isActiveNLB
      else raise (unknown_lb_type lbType))"

text \<open>\<open>loadbalancer.New(scope)\<close> as a \<open>cloud.LoadBalancer\<close>.\<close>

definition loadbalancer_New :: "'w Client \<Rightarrow> ClusterScope \<Rightarrow> 'w LoadBalancerI" where
  "loadbalancer_New client sc =
     \<lparr>Describe = LB_Describe client sc, IsActive = LB_IsActive client sc,
      AddTarget = LB_AddTarget client sc, RemoveTarget = LB_RemoveTarget client sc\<rparr>"

section \<open>Facts\<close>

lemmas lb_service_defs = LB_Reconcile_def LB_Delete_def LB_Describe_def LB_AddTarget_def
  LB_RemoveTarget_def LB_IsActive_def

lemmas nlb_defs = reconcileNLBService_def deleteNLBService_def describeNLB_def addTargetNLB_def
  removeTargetNLB_def isActiveNLB_def

lemma LB_types_differ [simp]: "LoadBalancerTypeNLB \<noteq> LoadBalancerTypeALB"
  by (simp add: LoadBalancerTypeALB_def LoadBalancerTypeNLB_def)

lemma loadbalancer_New_sel [simp]:
  "Describe (loadbalancer_New C sc) = LB_Describe C sc"
  "IsActive (loadbalancer_New C sc) = LB_IsActive C sc"
  "AddTarget (loadbalancer_New C sc) = LB_AddTarget C sc"
  "RemoveTarget (loadbalancer_New C sc) = LB_RemoveTarget C sc"
  by (simp_all add: loadbalancer_New_def)

text \<open>The search of the loop is membership of the pair of address and subnet.\<close>

lemma isAddressRegisteredALB_iff:
  "isAddressRegisteredALB addr subnetID tg \<longleftrightarrow>
     (\<exists>t \<in> set (tg_Targets tg). ta_AddressType t = Target_IpAddress addr \<and> ta_SubnetId t = subnetID)"
proof -
  have "registered_in addr subnetID ts \<longleftrightarrow>
      (\<exists>t \<in> set ts. ta_AddressType t = Target_IpAddress addr \<and> ta_SubnetId t = subnetID)" for ts
    by (induction ts) auto
  then show ?thesis by (simp add: isAddressRegisteredALB_def)
qed

text \<open>The listener read back: when a load balancer has an internal IPv4 address first, and when not.\<close>

fun internal_listener :: "LoadBalancer option \<Rightarrow> (string \<times> int32) option" where
  "internal_listener None = None"
| "internal_listener (Some l) =
     (case lb_Listeners l of
        li # _ \<Rightarrow>
          (case li_Endpoints li of
             e # _ \<Rightarrow>
               (case (en_Addresses e, en_Ports e) of
                  (InternalIpv4Address a # _, p # _) \<Rightarrow> Some (a, ucast p)
                | _ \<Rightarrow> None)
           | [] \<Rightarrow> None)
      | [] \<Rightarrow> None)"

lemma internal_listener_Some:
  assumes "internal_listener lb = Some (a, p)"
  shows "getInternalAddress lb s = (Ok a, s)" "getInternalPort lb s = (Ok p, s)"
proof -
  obtain l li ls e es as q qs where "lb = Some l" "lb_Listeners l = li # ls"
    "li_Endpoints li = e # es" "en_Addresses e = InternalIpv4Address a # as" "en_Ports e = q # qs"
    "p = ucast q"
    using assms by (cases lb) (auto split: list.splits Address.splits)
  then show "getInternalAddress lb s = (Ok a, s)" "getInternalPort lb s = (Ok p, s)"
    by (simp_all add: getInternalAddress_def getInternalPort_def first_endpoint_def)
qed

lemma listener_reads:
  "getInternalAddress lb s = (r, s') \<Longrightarrow> s' = s" "getInternalPort lb s = (q, s') \<Longrightarrow> s' = s"
  by (auto simp: getInternalAddress_def getInternalPort_def first_endpoint_def bindG_def tryG_cases
      split: option.splits list.splits Address.splits)

lemma listener_panics:
  assumes "internal_listener lb = None"
  shows "(\<exists>m. getInternalAddress lb s = (Panic m, s)) \<or>
    (\<exists>a m. getInternalAddress lb s = (Ok a, s) \<and> getInternalPort lb s = (Panic m, s))"
  using assms
  by (cases lb)
    (auto simp: getInternalAddress_def getInternalPort_def first_endpoint_def bindG_def tryG_def
      split: list.splits Address.splits)

section \<open>Deletion, one resource at a time\<close>

text \<open>
  The three deletions have one shape: look the resource up by name; nothing found means deleted;
  otherwise ask for its deletion, unless it need not be asked for, and report that it is not deleted.
\<close>

definition delete_found ::
    "('w, 'x option) go \<Rightarrow> ('x \<Rightarrow> bool) \<Rightarrow> ('x \<Rightarrow> ('w, unit) go) \<Rightarrow> ('w, bool) go" where
  "delete_found look skip del =
     bindG look (\<lambda>y. case y of
       None \<Rightarrow> ret True
     | Some x \<Rightarrow> if skip x then ret False else thenG (del x) (ret False))"

definition lb_going :: "LoadBalancer \<Rightarrow> bool" where
  "lb_going l \<longleftrightarrow> lb_Status l = LB_DELETING \<or> lb_Status l = LB_STOPPING"

lemma delete_one_shapes:
  "deleteApplicationLoadBalancer C sc =
     delete_found (ALBGetByName C (ClusterScope_GetFolderID sc) (ClusterScope_GetLBName sc)) lb_going
       (\<lambda>l. ALBDelete C (lb_Id l))"
  "deleteALBBackendGroup C sc =
     delete_found (ALBBackendGroupGetByName C (ClusterScope_GetFolderID sc) (ClusterScope_GetLBName sc))
       (\<lambda>_. False) (\<lambda>b. ALBBackendGroupDelete C (bg_Id b))"
  "deleteALBTargetGroup C sc =
     delete_found (ALBTargetGroupGetByName C (ClusterScope_GetFolderID sc) (ClusterScope_GetLBName sc))
       (\<lambda>_. False) (\<lambda>t. ALBTargetGroupDelete C (tg_Id t))"
  unfolding resourceDeleted_def resourceNotDeleted_def
    deleteApplicationLoadBalancer_def deleteALBBackendGroup_def deleteALBTargetGroup_def
  by (simp_all add: delete_found_def GetStatus_def lb_going_def tg_builder_defs bg_builder_defs Let_def
      cong: option.case_cong)

text \<open>What one of them does: it is done and has asked for nothing, or not done and has asked at most once.\<close>

lemma delete_found_run:
  assumes look: "emits M [] look" and del: "\<And>x. emits M [c x] (del x)"
    and run: "delete_found look skip del w = (r, w')"
  obtains
    (gone) "r = Ok True" "look w = (Ok None, w')" "M w' = M w"
  | (asked) x w1 where "r \<noteq> Ok True" "look w = (Ok (Some x), w1)" "\<not> skip x" "M w' = M w @ [c x]"
  | (waits) "r \<noteq> Ok True" "M w' = M w"
proof -
  obtain y w1 where l: "look w = (y, w1)" by fastforce
  then have M1: "M w1 = M w" using emitsD [OF look] by fastforce
  show thesis
  proof (cases "\<exists>x. y = Ok (Some x) \<and> \<not> skip x")
    case True
    then obtain x where x: "y = Ok (Some x)" "\<not> skip x" by blast
    obtain d w2 where d: "del x w1 = (d, w2)" by fastforce
    then have "M w2 = M w @ [c x]" using emitsD [OF del] M1 by fastforce
    moreover have "w' = w2" "r \<noteq> Ok True"
      using run l x d by (cases d; auto simp: delete_found_def)+
    ultimately show thesis using asked l x by auto
  next
    case False
    then show thesis
      using run l M1 gone waits
      by (cases y) (auto simp: delete_found_def split: option.splits if_splits)
  qed
qed

lemma unless_deleted_run:
  assumes "bindG m (\<lambda>deleted. if \<not> deleted then ret resourceNotDeleted else k) w = (r, w')"
  obtains (stop) "m w = (r, w')" "r \<noteq> Ok True"
  | (go) w1 where "m w = (Ok True, w1)" "k w1 = (r, w')"
  using assms
  by (cases "m w"; cases "fst (m w)") (auto simp: resourceNotDeleted_def split: if_splits)

context cloud_client
begin

text \<open>
  One pass of \<open>deleteALBService\<close>: the requests it sends and the look-ups that license them.  The
  backend group is only deleted when the load balancer was not found, the target group only when
  neither was, and the pass reports success only when it found nothing and asked for nothing.
\<close>

lemma deleteALBService_run:
  assumes run: "deleteALBService C sc w = (r, w')"
  defines "folder \<equiv> ClusterScope_GetFolderID sc" and "name \<equiv> ClusterScope_GetLBName sc"
  obtains
    (gone) w1 w2 where "r = Ok True" "M w' = M w" "ALBGetByName C folder name w = (Ok None, w1)"
      "ALBBackendGroupGetByName C folder name w1 = (Ok None, w2)"
      "ALBTargetGroupGetByName C folder name w2 = (Ok None, w')"
  | (lb) l w1 where "r \<noteq> Ok True" "ALBGetByName C folder name w = (Ok (Some l), w1)"
      "\<not> lb_going l" "M w' = M w @ [C_LoadBalancerDelete (lb_Id l)]"
  | (bg) b w1 w2 where "r \<noteq> Ok True" "ALBGetByName C folder name w = (Ok None, w1)"
      "ALBBackendGroupGetByName C folder name w1 = (Ok (Some b), w2)"
      "M w' = M w @ [C_BackendGroupDelete (bg_Id b)]"
  | (tg) t w1 w2 w3 where "r \<noteq> Ok True" "ALBGetByName C folder name w = (Ok None, w1)"
      "ALBBackendGroupGetByName C folder name w1 = (Ok None, w2)"
      "ALBTargetGroupGetByName C folder name w2 = (Ok (Some t), w3)"
      "M w' = M w @ [C_TargetGroupDelete (tg_Id t)]"
  | (waits) "r \<noteq> Ok True" "M w' = M w"
proof -
  note del = delete_one_shapes [of C sc, folded folder_def name_def]
  note run' = run [unfolded deleteALBService_def]
  from run' show thesis
  proof (cases rule: unless_deleted_run)
    case stop
    then show thesis
      by (cases rule: delete_found_run [OF emits_ALBGetByName emits_ALBDelete stop(1) [unfolded del]])
        (use lb waits in auto)
  next
    case (go w1)
    from go(1) have first: "ALBGetByName C folder name w = (Ok None, w1)" "M w1 = M w"
      by (cases rule: delete_found_run [OF emits_ALBGetByName emits_ALBDelete go(1) [unfolded del]];
          auto)+
    from go(2) show thesis
    proof (cases rule: unless_deleted_run)
      case stop
      then show thesis
        by (cases rule: delete_found_run
              [OF emits_ALBBackendGroupGetByName emits_ALBBackendGroupDelete stop(1) [unfolded del]])
          (use bg waits first in auto)
    next
      case (go w2)
      from go(1) have second: "ALBBackendGroupGetByName C folder name w1 = (Ok None, w2)" "M w2 = M w"
        by (cases rule: delete_found_run
              [OF emits_ALBBackendGroupGetByName emits_ALBBackendGroupDelete go(1) [unfolded del]];
            use first in auto)+
      from go(2) show thesis
      proof (cases rule: unless_deleted_run)
        case stop
        then show thesis
          by (cases rule: delete_found_run
                [OF emits_ALBTargetGroupGetByName emits_ALBTargetGroupDelete stop(1) [unfolded del]])
            (use tg waits first second in auto)
      next
        case (go w3)
        then have "w3 = w'" "r = Ok True" by (simp_all add: resourceDeleted_def)
        then show thesis
          by (cases rule: delete_found_run
                [OF emits_ALBTargetGroupGetByName emits_ALBTargetGroupDelete go(1) [unfolded del]])
            (use gone first second in auto)
      qed
    qed
  qed
qed

end

section \<open>Creation, one resource at a time\<close>

text \<open>The two groups are reconciled in one shape: look up by name, create when nothing was found.\<close>

definition ensure_found ::
    "('w, 'x option) go \<Rightarrow> ('x \<Rightarrow> string) \<Rightarrow> ('w, string) go \<Rightarrow> ('w, string) go" where
  "ensure_found look ident create =
     bindG look (\<lambda>y. case y of None \<Rightarrow> bindG create (\<lambda>i. ret i) | Some x \<Rightarrow> ret (ident x))"

definition target_group_request :: "ClusterScope \<Rightarrow> CreateTargetGroupRequest" where
  "target_group_request sc =
     \<lparr>ctg_FolderId = ClusterScope_GetFolderID sc, ctg_Name = ClusterScope_GetLBName sc,
      ctg_Description = ''k8s api '' @ ClusterScope_Name sc @ '' target'',
      ctg_Labels = ClusterScope_GetLabels sc\<rparr>"

definition backend_group_request :: "ClusterScope \<Rightarrow> string \<Rightarrow> CreateBackendGroupRequest" where
  "backend_group_request sc tg =
     BG_Build (BG_WithLabels (ClusterScope_GetLabels sc) (BG_WithTargetGroupID tg
       (BG_WithFolder (ClusterScope_GetFolderID sc) (BG_WithLBName (ClusterScope_GetLBName sc)
       (BG_WithCluster (ClusterScope_Name sc)
       (NewALBBackendGroupBuilder (ClusterScope_GetLBSpec sc)))))))"

lemma ensure_shapes:
  "reconcileALBTargetGroup C sc =
     ensure_found (ALBTargetGroupGetByName C (ClusterScope_GetFolderID sc) (ClusterScope_GetLBName sc))
       tg_Id (ALBTargetGroupCreate C (target_group_request sc))"
  "reconcileALBBackendGroup C sc tg =
     ensure_found (ALBBackendGroupGetByName C (ClusterScope_GetFolderID sc) (ClusterScope_GetLBName sc))
       bg_Id (ALBBackendGroupCreate C (backend_group_request sc tg))"
  by (simp_all add: reconcileALBTargetGroup_def reconcileALBBackendGroup_def ensure_found_def
      target_group_request_def backend_group_request_def TG_Build_fields
      tg_builder_defs bg_builder_defs Let_def cong: option.case_cong)

lemma ensure_found_run:
  assumes look: "emits M [] look" and create: "emits M [c] create"
    and run: "ensure_found look ident create w = (r, w')"
  obtains
    (found) x where "look w = (Ok (Some x), w')" "r = Ok (ident x)" "M w' = M w"
  | (created) w1 where "look w = (Ok None, w1)" "create w1 = (r, w')" "M w' = M w @ [c]"
  | (failed) "\<not> is_ok r" "M w' = M w"
proof -
  obtain y w1 where l: "look w = (y, w1)" by fastforce
  then have M1: "M w1 = M w" using emitsD [OF look] by fastforce
  show thesis
  proof (cases "y = Ok None")
    case True
    obtain d w2 where d: "create w1 = (d, w2)" by fastforce
    then have "M w2 = M w @ [c]" using emitsD [OF create] M1 by fastforce
    moreover have "w' = w2" "r = d"
      using run l True d by (cases d; auto simp: ensure_found_def)+
    ultimately show thesis using created l True d by auto
  next
    case False
    then show thesis
      using run l M1 found failed
      by (cases y) (auto simp: ensure_found_def split: option.splits)
  qed
qed

section \<open>The last step of a reconciliation\<close>

text \<open>The request that creates the load balancer, field by field.\<close>

definition load_balancer_request :: "ClusterScope \<Rightarrow> string \<Rightarrow> CreateLoadBalancerRequest" where
  "load_balancer_request sc bg =
     (let spec = ClusterScope_GetLBSpec sc; listener = lbs_Listener spec;
          name = ClusterScope_GetLBName sc in
      \<lparr>clb_FolderId = ClusterScope_GetFolderID sc, clb_NetworkId = ClusterScope_GetNetworkID sc,
       clb_Name = name, clb_Description = ''k8s api '' @ ClusterScope_Name sc @ '' loadbalancer'',
       clb_Labels = ClusterScope_GetLabels sc,
       clb_Locations = [\<lparr>lo_ZoneId = ss_ZoneID (ls_Subnet listener),
                         lo_SubnetId = ss_ID (ls_Subnet listener)\<rparr>],
       clb_ListenerSpecs = [\<lparr>als_Name = name,
         als_EndpointSpecs = [\<lparr>es_Ports = [scast (ls_Port listener)],
           es_AddressSpecs = [\<lparr>ias_Address = (if ls_Address listener = [] then None
                                            else Some (ls_Address listener)),
                              ias_SubnetId = ss_ID (ls_Subnet listener)\<rparr>]\<rparr>],
         als_StreamBackendGroupId = bg\<rparr>],
       clb_LogDisable = True\<rparr>)"

lemma ALB_Build_request: "ALB_Build (alb_builder sc bg) = load_balancer_request sc bg"
  by (simp add: ALB_Build_def alb_builder_def load_balancer_request_def createListenerSpec_def
      alb_builder_defs describePrefix_def Let_def split: option.split)

lemma ALB_GetName_alb_builder: "ALB_GetName (alb_builder sc bg) = ClusterScope_GetLBName sc"
  by (simp add: alb_builder_def alb_builder_defs)

text \<open>The verdict on a load balancer that was found, from the listener read back from it.\<close>

definition listener_verdict :: "ClusterScope \<Rightarrow> string \<times> int32 \<Rightarrow> unit outcome" where
  "listener_verdict sc = (\<lambda>(a, p). let listener = lbs_Listener (ClusterScope_GetLBSpec sc) in
     if a \<noteq> [] \<and> a \<noteq> ls_Address listener then Err (incorrect_address_error sc a)
     else if p \<noteq> 0 \<and> p \<noteq> ls_Port listener then Err (incorrect_port_error sc p)
     else Ok ())"

lemma listener_check_run:
  assumes "bindG (in_world (getInternalAddress lb)) (\<lambda>a. bindG (in_world (getInternalPort lb)) (\<lambda>p.
      if P a then raise (e a) else if Q p then raise (f p) else ret ())) s = (r, s')"
  shows "s' = s"
    and "internal_listener lb = Some (a, p) \<Longrightarrow>
      r = (if P a then Err (e a) else if Q p then Err (f p) else Ok ())"
    and "internal_listener lb = None \<Longrightarrow> \<exists>m. r = Panic m"
proof -
  show "s' = s"
    using assms by (auto simp: bindG_def tryG_cases in_world_apply dest!: listener_reads split: if_splits)
  show "r = (if P a then Err (e a) else if Q p then Err (f p) else Ok ())"
    if "internal_listener lb = Some (a, p)"
    using assms internal_listener_Some [OF that, of "c_world s"] by (auto split: if_splits)
  show "\<exists>m. r = Panic m" if "internal_listener lb = None"
    using assms listener_panics [OF that, of "c_world s"] by auto
qed

text \<open>What a reconciliation of the service may change in its scope: the conditions of the cluster.\<close>

definition only_conditions :: "ClusterScope \<Rightarrow> ClusterScope \<Rightarrow> bool" where
  "only_conditions sc sc' \<longleftrightarrow>
     (\<exists>cs. sc' = sc\<lparr>cs_YandexCluster := YandexCluster_SetConditions cs (cs_YandexCluster sc)\<rparr>)"

lemma only_conditions_refl [simp]: "only_conditions sc sc"
  unfolding only_conditions_def
  by (rule exI [of _ "YandexCluster_GetConditions (cs_YandexCluster sc)"])
    (simp add: yc_conditions.set_get)

lemma only_conditions_mark [simp]:
  "only_conditions (c_scope s) (c_scope (set_yc (yc_mark f) s))"
  "only_conditions (c_scope s) (c_scope (set_yc (yc_mark f) (s\<lparr>c_world := w\<rparr>)))"
  unfolding only_conditions_def set_yc_def yc_mark_def by auto

lemma only_conditionsD:
  assumes "only_conditions sc sc'"
  shows "yc_Meta (cs_YandexCluster sc') = yc_Meta (cs_YandexCluster sc)"
    "yc_Spec (cs_YandexCluster sc') = yc_Spec (cs_YandexCluster sc)"
    "ycst_Ready (yc_Status (cs_YandexCluster sc')) = ycst_Ready (yc_Status (cs_YandexCluster sc))"
    "cs_Cluster sc' = cs_Cluster sc" "cs_before sc' = cs_before sc"
  using assms by (auto simp: only_conditions_def YandexCluster_SetConditions_def)

text \<open>
  The requests that each step of a pass may send, with what licenses them: a target group is created
  only when none was found; a backend group only when none was found, and for the target group that
  was just found or created; a load balancer only when none was found and losing it can be mended,
  and for the backend group that was just found or created.
\<close>

definition creates_tg :: "'w Client \<Rightarrow> ClusterScope \<Rightarrow> 'w \<Rightarrow> ext_call list \<Rightarrow> bool" where
  "creates_tg C sc w t \<longleftrightarrow> t = [] \<or>
     (t = [C_TargetGroupCreate (target_group_request sc)] \<and>
      fst (ALBTargetGroupGetByName C (ClusterScope_GetFolderID sc) (ClusterScope_GetLBName sc) w) = Ok None)"

definition creates_bg :: "'w Client \<Rightarrow> ClusterScope \<Rightarrow> 'w \<Rightarrow> ext_call list \<Rightarrow> bool" where
  "creates_bg C sc w b \<longleftrightarrow> b = [] \<or>
     (\<exists>i w1. reconcileALBTargetGroup C sc w = (Ok i, w1) \<and>
      b = [C_BackendGroupCreate (backend_group_request sc i)] \<and>
      fst (ALBBackendGroupGetByName C (ClusterScope_GetFolderID sc) (ClusterScope_GetLBName sc) w1) = Ok None)"

definition creates_lb :: "Lib \<Rightarrow> 'w Client \<Rightarrow> ClusterScope \<Rightarrow> 'w \<Rightarrow> ext_call list \<Rightarrow> bool" where
  "creates_lb L C sc w l \<longleftrightarrow> l = [] \<or>
     (\<exists>i w1 j w2. reconcileALBTargetGroup C sc w = (Ok i, w1) \<and>
      reconcileALBBackendGroup C sc i w1 = (Ok j, w2) \<and>
      l = [C_LoadBalancerCreate (load_balancer_request sc j)] \<and>
      fst (ALBGetByName C (ClusterScope_GetFolderID sc) (ClusterScope_GetLBName sc) w2) = Ok None \<and>
      \<not> (ls_Address (lbs_Listener (ClusterScope_GetLBSpec sc)) = [] \<and>
         APIEndpoint_IsValid L (ClusterScope_ControlPlaneEndpoint sc)))"

context cloud_client
begin

lemma reconcileALB_run:
  assumes run: "reconcileALB L C bg s = (r, s')"
  defines "sc \<equiv> c_scope s"
  defines "look \<equiv> ALBGetByName C (ClusterScope_GetFolderID sc) (ClusterScope_GetLBName sc)"
    and "address \<equiv> ls_Address (lbs_Listener (ClusterScope_GetLBSpec sc))"
  obtains
    (failed) "\<not> is_ok r" "c_scope s' = sc" "M (c_world s') = M (c_world s)"
      "\<not> is_ok (fst (look (c_world s)))"
  | (checked) l where "look (c_world s) = (Ok (Some l), c_world s')" "c_scope s' = sc"
      "M (c_world s') = M (c_world s)" "lb_Status l = LB_ACTIVE" "address \<noteq> []"
      "\<And>x. internal_listener (Some l) = Some x \<Longrightarrow> r = listener_verdict sc x"
      "internal_listener (Some l) = None \<Longrightarrow> \<exists>m. r = Panic m"
  | (accepted) l where "look (c_world s) = (Ok (Some l), c_world s')" "c_scope s' = sc"
      "M (c_world s') = M (c_world s)" "lb_Status l \<noteq> LB_ACTIVE \<or> address = []" "r = Ok ()"
  | (lost) "look (c_world s) = (Ok None, c_world s')" "c_scope s' = sc"
      "M (c_world s') = M (c_world s)" "address = []"
      "APIEndpoint_IsValid L (ClusterScope_ControlPlaneEndpoint sc)"
      "r = Err (lb_not_found_error sc)"
  | (created) w1 q where "look (c_world s) = (Ok None, w1)"
      "\<not> (address = [] \<and> APIEndpoint_IsValid L (ClusterScope_ControlPlaneEndpoint sc))"
      "ALBCreate C (load_balancer_request sc bg) w1 = (q, c_world s')"
      "M (c_world s') = M (c_world s) @ [C_LoadBalancerCreate (load_balancer_request sc bg)]"
      "is_ok q = is_ok r"
      "c_scope s' = (if is_ok r then c_scope (set_yc (yc_mark (MarkTrue L ConditionStatusReady)) s) else sc)"
proof -
  obtain y w1 where l: "look (c_world s) = (y, w1)" by fastforce
  then have M1: "M w1 = M (c_world s)"
    unfolding look_def by (rule client_steps [THEN trans]) simp
  note defs = reconcileALB_def Let_def ALB_GetName_alb_builder ALB_Build_request
  note run' = run [unfolded defs withG_apply, folded sc_def, folded look_def address_def]
  have ll: "in_world look s = (y, s\<lparr>c_world := w1\<rparr>)" using l by simp
  show thesis
  proof (cases y)
    case (Ok lb)
    show thesis
    proof (cases lb)
      case None
      show thesis
      proof (cases "APIEndpoint_IsValid L (ClusterScope_ControlPlaneEndpoint sc) \<and> address = []")
        case True
        then show thesis
          using run' ll l Ok None M1 by (intro lost) (auto simp: sc_def)
      next
        case False
        obtain q w2 where c: "ALBCreate C (load_balancer_request sc bg) w1 = (q, w2)" by fastforce
        then have "M w2 = M (c_world s) @ [C_LoadBalancerCreate (load_balancer_request sc bg)]"
          using emitsD [OF emits_ALBCreate] M1 by fastforce
        then show thesis
          using run' ll l Ok None False c
          by (intro created [of w1 q]) (cases q; auto simp: sc_def set_yc_def)+
      qed
    next
      case (Some b)
      show thesis
      proof (cases "lb_Status b = LB_ACTIVE \<and> address \<noteq> []")
        case True
        then have "bindG (in_world (getInternalAddress lb)) (\<lambda>a. bindG (in_world (getInternalPort lb)) (\<lambda>p.
            if a \<noteq> [] \<and> address \<noteq> a then raise (incorrect_address_error sc a)
            else if p \<noteq> 0 \<and> ls_Port (lbs_Listener (ClusterScope_GetLBSpec sc)) \<noteq> p
            then raise (incorrect_port_error sc p) else ret ())) (s\<lparr>c_world := w1\<rparr>) = (r, s')"
          using run' ll Ok Some by (simp add: address_def)
        from listener_check_run [OF this] show thesis
          using l Ok Some M1 True
          by (intro checked [of b]) (auto simp: sc_def listener_verdict_def address_def Let_def)
      next
        case False
        then show thesis
          using run' ll l Ok Some M1 by (intro accepted [of b]) (auto simp: sc_def)
      qed
    qed
  qed (use run' ll l M1 in \<open>auto intro!: failed simp: sc_def\<close>)
qed

lemma reconcileALBService_sends:
  assumes run: "reconcileALBService L C s = (r, s')"
  defines "sc \<equiv> c_scope s"
  obtains t b l where "M (c_world s') = M (c_world s) @ t @ b @ l"
    "creates_tg C sc (c_world s) t" "creates_bg C sc (c_world s) b" "creates_lb L C sc (c_world s) l"
    "only_conditions sc (c_scope s')" "is_ok r \<or> c_scope s' = sc"
proof -
  note tg_run = ensure_found_run [OF emits_ALBTargetGroupGetByName emits_ALBTargetGroupCreate]
  note bg_run = ensure_found_run [OF emits_ALBBackendGroupGetByName emits_ALBBackendGroupCreate]
  obtain r1 w1 where e1: "reconcileALBTargetGroup C sc (c_world s) = (r1, w1)" by fastforce
  from e1 [unfolded ensure_shapes]
  obtain t where t: "M w1 = M (c_world s) @ t" "creates_tg C sc (c_world s) t"
    by (cases rule: tg_run) (auto simp: creates_tg_def)
  note run' = run [unfolded reconcileALBService_def withG_apply Let_def, folded sc_def]
  have none: "creates_bg C sc (c_world s) []" "creates_lb L C sc (c_world s) []"
    by (simp_all add: creates_bg_def creates_lb_def)
  show thesis
  proof (cases r1)
    case (Ok i)
    obtain r2 w2 where e2: "reconcileALBBackendGroup C sc i w1 = (r2, w2)" by fastforce
    from e2 [unfolded ensure_shapes]
    obtain b where b: "M w2 = M w1 @ b" "creates_bg C sc (c_world s) b"
      using e1 Ok by (cases rule: bg_run) (auto simp: creates_bg_def)
    show thesis
    proof (cases r2)
      case ok2: (Ok j)
      have "reconcileALB L C j (s\<lparr>c_world := w2\<rparr>) = (r, s')"
        using run' e1 Ok e2 ok2 by simp
      then obtain l where "M (c_world s') = M w2 @ l" "creates_lb L C sc (c_world s) l"
          "only_conditions sc (c_scope s')" "is_ok r \<or> c_scope s' = sc"
        by (cases rule: reconcileALB_run) (use that none e1 Ok e2 ok2 in \<open>auto simp: sc_def creates_lb_def\<close>)
      with t b that show thesis by auto
    qed (use run' e1 Ok e2 t b none that [of t b "[]"] in \<open>auto simp: sc_def\<close>)
  qed (use run' e1 t none that [of t "[]" "[]"] in \<open>auto simp: sc_def\<close>)
qed

end

section \<open>Targets\<close>

text \<open>Both target operations look the group up and send a request unless the target makes it needless.\<close>

definition change_target ::
    "('w, 'x option) go \<Rightarrow> ('w, unit) go \<Rightarrow> ('x \<Rightarrow> bool) \<Rightarrow> ('x \<Rightarrow> ('w, Operation) go) \<Rightarrow> ('w, unit) go" where
  "change_target look missing skip send =
     bindG look (\<lambda>y. case y of
       None \<Rightarrow> missing
     | Some x \<Rightarrow> if skip x then ret () else thenG (send x) (ret ()))"

definition target_of :: "string \<Rightarrow> string \<Rightarrow> Target" where
  "target_of ip net = \<lparr>ta_SubnetId = net, ta_AddressType = Target_IpAddress ip\<rparr>"

lemma registered_iff_target:
  "isAddressRegisteredALB ip net tg \<longleftrightarrow> target_of ip net \<in> set (tg_Targets tg)"
proof -
  have "ta_AddressType t = Target_IpAddress ip \<and> ta_SubnetId t = net \<longleftrightarrow> t = target_of ip net" for t
    by (cases t) (auto simp: target_of_def)
  then show ?thesis by (simp add: isAddressRegisteredALB_iff)
qed

definition add_request :: "TargetGroup \<Rightarrow> string \<Rightarrow> string \<Rightarrow> AddTargetsRequest" where
  "add_request tg ip net = \<lparr>atr_TargetGroupId = tg_Id tg, atr_Targets = [target_of ip net]\<rparr>"

definition remove_request :: "TargetGroup \<Rightarrow> string \<Rightarrow> string \<Rightarrow> RemoveTargetsRequest" where
  "remove_request tg ip net = \<lparr>rtr_TargetGroupId = tg_Id tg, rtr_Targets = [target_of ip net]\<rparr>"

definition find_group :: "'w Client \<Rightarrow> ClusterScope \<Rightarrow> ('w, TargetGroup option) go" where
  "find_group C sc =
     ALBTargetGroupGetByName C (ClusterScope_GetFolderID sc) (ClusterScope_GetLBName sc)"

lemma target_shapes:
  "addTargetALB C sc ip net =
     change_target (find_group C sc)
       (raise (Errorf (''target group with name '' @ ClusterScope_GetLBName sc @ '' not found'')))
       (isAddressRegisteredALB ip net) (\<lambda>tg. ALBAddTarget C (add_request tg ip net))"
  "removeTargetALB C sc ip net =
     change_target (find_group C sc) (ret ())
       (\<lambda>tg. \<not> isAddressRegisteredALB ip net tg) (\<lambda>tg. ALBRemoveTarget C (remove_request tg ip net))"
  by (simp_all add: addTargetALB_def removeTargetALB_def change_target_def find_group_def
      target_builder_def tg_builder_defs BuildAddTargetRequest_def BuildRemoveTargetRequest_def
      add_request_def remove_request_def target_of_def Let_def cong: option.case_cong if_cong)

lemma change_target_run:
  assumes look: "emits M [] look" and send: "\<And>x. emits M [c x] (send x)"
    and absent: "missing = ret () \<or> missing = raise e"
    and run: "change_target look missing skip send w = (r, w')"
  obtains
    (needless) x where "look w = (Ok (Some x), w')" "skip x" "r = Ok ()" "M w' = M w"
  | (missing) "look w = (Ok None, w')" "(r, w') = missing w'" "M w' = M w"
  | (sent) x w1 q where "look w = (Ok (Some x), w1)" "\<not> skip x" "send x w1 = (q, w')"
      "is_ok r = is_ok q" "M w' = M w @ [c x]"
  | (failed) "\<not> is_ok (fst (look w))" "\<not> is_ok r" "M w' = M w"
proof -
  obtain y w1 where l: "look w = (y, w1)" by fastforce
  then have M1: "M w1 = M w" using emitsD [OF look] by fastforce
  consider (s) x where "y = Ok (Some x)" "\<not> skip x" | (n) x where "y = Ok (Some x)" "skip x"
    | (m) "y = Ok None" | (f) "\<not> is_ok y"
  proof (cases y)
    case (Ok z)
    then show ?thesis using that by (cases z) auto
  qed (use that in simp_all)
  then show thesis
  proof cases
    case s
    obtain d w2 where d: "send x w1 = (d, w2)" by fastforce
    then have "M w2 = M w @ [c x]" using emitsD [OF send] M1 by fastforce
    moreover have "w' = w2" "is_ok r = is_ok d"
      using run l s d by (cases d; auto simp: change_target_def)+
    ultimately show thesis using that(3) l s d by auto
  next
    case n then show thesis using that(1) run l M1 by (auto simp: change_target_def)
  next
    case m then show thesis using that(2) absent run l M1 by (auto simp: change_target_def)
  next
    case f then show thesis using that(4) run l M1 by (cases y) (auto simp: change_target_def)
  qed
qed

section \<open>The contract of a load balancer\<close>

text \<open>
  What the machine side relies on: describing a load balancer and asking whether it is active send
  nothing that changes the cloud; adding or removing a target sends at most the one request that
  does so for that target.
\<close>

locale load_balancer =
  fixes LB :: "'w LoadBalancerI" and M :: "'w \<Rightarrow> ext_call list"
  assumes describe_reads: "Describe LB w = (r1, w') \<Longrightarrow> M w' = M w"
    and is_active_reads: "IsActive LB w = (r2, w') \<Longrightarrow> M w' = M w"
    and add_target_sends: "\<And>ip net r. AddTarget LB ip net w = (r, w') \<Longrightarrow>
      M w' = M w \<or> (\<exists>tg. M w' = M w @ [C_AddTargets (add_request tg ip net)])"
    and remove_target_sends: "\<And>ip net r. RemoveTarget LB ip net w = (r, w') \<Longrightarrow>
      M w' = M w \<or> (\<exists>tg. M w' = M w @ [C_RemoveTargets (remove_request tg ip net)])"
begin

lemma target_runs:
  "every_run (grows_by M (\<lambda>_. False)) (Describe LB)"
  "every_run (grows_by M (\<lambda>_. False)) (IsActive LB)"
  "every_run (grows_by M is_target_change) (AddTarget LB ip net)"
  "every_run (grows_by M is_target_change) (RemoveTarget LB ip net)"
proof -
  show "every_run (grows_by M (\<lambda>_. False)) (Describe LB)"
    by (rule every_runI) (auto simp: grows_by_none dest: describe_reads)
  show "every_run (grows_by M (\<lambda>_. False)) (IsActive LB)"
    by (rule every_runI) (auto simp: grows_by_none dest: is_active_reads)
  show "every_run (grows_by M is_target_change) (AddTarget LB ip net)"
    by (rule every_runI) (auto simp: grows_by_def dest!: add_target_sends)
  show "every_run (grows_by M is_target_change) (RemoveTarget LB ip net)"
    by (rule every_runI) (auto simp: grows_by_def dest!: remove_target_sends)
qed

end

context cloud_client
begin

lemma find_group_emits: "emits M [] (find_group C sc)"
  by (simp add: find_group_def emits_ALBTargetGroupGetByName)

lemmas add_target_run = change_target_run
  [OF find_group_emits emits_ALBAddTarget disjI2 [OF refl]]

lemmas remove_target_run = change_target_run
  [OF find_group_emits emits_ALBRemoveTarget disjI1 [OF refl]]

lemma lookup_reads:
  "bindG (ALBGetByName C f n) k w = (r, w') \<Longrightarrow> (\<And>x v q v'. k x v = (q, v') \<Longrightarrow> v' = v) \<Longrightarrow> M w' = M w"
  using emitsD [OF emits_ALBGetByName] by (fastforce simp: bindG_def tryG_cases)

lemma loadbalancer_New_contract: "load_balancer (loadbalancer_New C sc) M"
proof
  fix w w' :: 'w and r1 r2 r ip net
  show "M w' = M w" if "Describe (loadbalancer_New C sc) w = (r1, w')"
    using that
    by (auto simp: LB_Describe_def describeALB_def nlb_defs Let_def bindG_def tryG_cases
        dest!: listener_reads emitsD [OF emits_ALBGetByName] split: if_splits)
  show "M w' = M w" if "IsActive (loadbalancer_New C sc) w = (r2, w')"
    using that
    by (auto simp: LB_IsActive_def isActiveALB_def nlb_defs Let_def bindG_def tryG_cases
        dest!: emitsD [OF emits_ALBGetByName] split: if_splits)
  show "M w' = M w \<or> (\<exists>tg. M w' = M w @ [C_AddTargets (add_request tg ip net)])"
    if "AddTarget (loadbalancer_New C sc) ip net w = (r, w')"
    using that
    by (auto simp: LB_AddTarget_def nlb_defs Let_def target_shapes elim: add_target_run split: if_splits)
  show "M w' = M w \<or> (\<exists>tg. M w' = M w @ [C_RemoveTargets (remove_request tg ip net)])"
    if "RemoveTarget (loadbalancer_New C sc) ip net w = (r, w')"
    using that
    by (auto simp: LB_RemoveTarget_def nlb_defs Let_def target_shapes elim: remove_target_run split: if_splits)
qed

end

interpretation alb: load_balancer "loadbalancer_New (YandexClient sdk) sc" mutations for sdk sc
  by (rule yandex_client.loadbalancer_New_contract)

section \<open>The service as a whole\<close>

lemma LB_Reconcile_ALB:
  "ClusterScope_GetLBType (c_scope s) = LoadBalancerTypeALB \<Longrightarrow>
     LB_Reconcile L C s = reconcileALBService L C s"
  by (simp add: LB_Reconcile_def)

context cloud_client
begin

text \<open>A pass of the service that succeeds reached its last step, after both groups.\<close>

lemma LB_Reconcile_last:
  assumes run: "LB_Reconcile L C s = (r, s')" and ok: "is_ok r"
  obtains i w1 j w2 where
    "reconcileALBTargetGroup C (c_scope s) (c_world s) = (Ok i, w1)"
    "reconcileALBBackendGroup C (c_scope s) i w1 = (Ok j, w2)"
    "reconcileALB L C j (s\<lparr>c_world := w2\<rparr>) = (r, s')"
  using run ok
  by (auto simp: LB_Reconcile_def reconcileALBService_def reconcileNLBService_def Let_def bindG_def
      tryG_cases in_world_apply split: if_splits)

lemma LB_Reconcile_sends:
  assumes run: "LB_Reconcile L C s = (r, s')"
  defines "sc \<equiv> c_scope s"
  obtains t b l where "M (c_world s') = M (c_world s) @ t @ b @ l"
    "creates_tg C sc (c_world s) t" "creates_bg C sc (c_world s) b" "creates_lb L C sc (c_world s) l"
    "only_conditions sc (c_scope s')" "is_ok r \<or> c_scope s' = sc"
    "is_ok r \<Longrightarrow> ClusterScope_GetLBType sc = LoadBalancerTypeALB"
proof (cases "ClusterScope_GetLBType sc = LoadBalancerTypeALB")
  case True
  with run have "reconcileALBService L C s = (r, s')" by (simp add: LB_Reconcile_def sc_def)
  from reconcileALBService_sends [OF this] True that show thesis unfolding sc_def by metis
next
  case False
  with run have "s' = s" "\<not> is_ok r"
    by (auto simp: LB_Reconcile_def reconcileNLBService_def sc_def Let_def split: if_splits)
  then show thesis
    using that [of "[]" "[]" "[]"] by (simp add: creates_tg_def creates_bg_def creates_lb_def sc_def)
qed

lemma LB_reads:
  "LB_IsActive C sc w = (r1, w') \<Longrightarrow> M w' = M w"
  "LB_Describe C sc w = (r2, w') \<Longrightarrow> M w' = M w"
  using load_balancer.describe_reads [OF loadbalancer_New_contract]
    load_balancer.is_active_reads [OF loadbalancer_New_contract] by auto

end

section \<open>Runs of the service respect what the client respects\<close>

sublocale respectful_client \<subseteq> on_c: run_relation "on_c_world R"
  by unfold_locales (auto simp: on_c_world_def intro: refl_R trans_R)

context respectful_client
begin

lemma run_listener: "every_run R (getInternalAddress lb)" "every_run R (getInternalPort lb)"
  by (auto intro!: every_runI dest!: listener_reads simp: refl_R)

lemma run_one_by_one:
  "every_run R (reconcileALBTargetGroup C sc)"
  "every_run R (reconcileALBBackendGroup C sc tg)"
  "every_run R (deleteApplicationLoadBalancer C sc)"
  "every_run R (deleteALBTargetGroup C sc)"
  "every_run R (deleteALBBackendGroup C sc)"
  by (auto simp: reconcileALBTargetGroup_def reconcileALBBackendGroup_def
      deleteApplicationLoadBalancer_def deleteALBTargetGroup_def deleteALBBackendGroup_def Let_def
      intro!: run_intros client_runs split: option.split)

lemma run_LB:
  "every_run R (LB_Delete C sc)"
  "every_run R (LB_Describe C sc)"
  "every_run R (LB_AddTarget C sc ip net)"
  "every_run R (LB_RemoveTarget C sc ip net)"
  "every_run R (LB_IsActive C sc)"
  by (auto simp: lb_service_defs nlb_defs deleteALBService_def describeALB_def addTargetALB_def
      removeTargetALB_def isActiveALB_def Let_def
      intro!: run_intros client_runs run_listener run_one_by_one split: option.split)

lemma run_LB_Reconcile: "every_run (on_c_world R) (LB_Reconcile L C)"
proof -
  have set: "on_c_world R s (set_yc f s)" for s f
    by (simp add: on_c_world_def refl_R)
  show ?thesis
    unfolding LB_Reconcile_def reconcileALBService_def reconcileALB_def reconcileNLBService_def Let_def
    by (intro on_c.run_intros run_in_world client_runs run_listener run_one_by_one set)
qed

end

end
