(* ===== verification/Compute.thy ===== *)
theory Compute
  imports Machine_Scope Loadbalancer
begin

text \<open>
  \<open>internal/pkg/cloud/services/compute\<close> and \<open>internal/pkg/cloud/ycerrors\<close>: the virtual machine behind a
  \<open>YandexMachine\<close>.  The operations run on the state of a machine reconciliation; the interfaces that
  the scope holds (\<open>ClusterGetter\<close>, \<open>LoadBalancer\<close>) are arguments, and the client is the one the
  cluster getter returns.
\<close>

section \<open>ycerrors/errors.go\<close>

definition IsNotFound :: "Lib \<Rightarrow> err option \<Rightarrow> bool" where
  "IsNotFound L e =
     (case e of None \<Rightarrow> False | Some e' \<Rightarrow> (case FromError L e' of (c, ok) \<Rightarrow> ok \<and> c = codes_NotFound L))"

section \<open>compute/reconcile.go\<close>

definition instanceDeleted :: bool where "instanceDeleted = True"
definition instanceNotDeleted :: bool where "instanceNotDeleted = False"

definition mark :: "(Conditions \<Rightarrow> Conditions) \<Rightarrow> ('w MachineState, unit) go" where
  "mark f = modifyG (set_ym (ym_mark f))"

definition createComputeInstance ::
    "Lib \<Rightarrow> 'e Kube \<Rightarrow> 'e World ClusterGetter \<Rightarrow> ('e World MachineState, string) go" where
  "createComputeInstance L K cg =
     bindG (GetInstanceReq L K cg) (\<lambda>request.
     in_mworld (ComputeCreate (GetClient cg) request))"

definition getInstanceAddress :: "Lib \<Rightarrow> Instance \<Rightarrow> err + NodeAddress list" where
  "getInstanceAddress L vm =
     (let intfList = in_NetworkInterfaces vm in
      if length intfList \<noteq> 1 then Inl (Errorf ''only one interface supported'')
      else
        (let address = GetPrimaryAddress (intfList ! 0) in
         if address = [] then Inl (Errorf ''only IPv4 address supported'')
         else Inr [\<lparr>na_Type = NodeInternalIP L, na_Address = address\<rparr>]))"

definition registerControlPlane :: "'w LoadBalancerI \<Rightarrow> ('w MachineState, unit) go" where
  "registerControlPlane LB =
     withG (\<lambda>s. let ym = ms_YandexMachine (m_scope s) in
       case MachineScope_GetAddresses ym of
         [] \<Rightarrow> raise (Errorf (''no addresses registered for YandexMachne '' @ MachineScope_Name (m_scope s)))
       | a # _ \<Rightarrow>
       (case yms_NetworkInterfaces (ym_Spec ym) of
         [] \<Rightarrow> panic ''index out of range''
       | ni # _ \<Rightarrow> in_mworld (AddTarget LB (na_Address a) (ni_SubnetID ni))))"

definition deregisterControlPlane :: "'w LoadBalancerI \<Rightarrow> ('w MachineState, unit) go" where
  "deregisterControlPlane LB =
     withG (\<lambda>s. let ym = ms_YandexMachine (m_scope s) in
       case MachineScope_GetAddresses ym of
         [] \<Rightarrow> ret ()
       | a # _ \<Rightarrow>
       (case yms_NetworkInterfaces (ym_Spec ym) of
         [] \<Rightarrow> panic ''index out of range''
       | ni # _ \<Rightarrow> in_mworld (RemoveTarget LB (na_Address a) (ni_SubnetID ni))))"

text \<open>The first half of \<open>Reconcile\<close>: an instance is created when the machine has no identifier.\<close>

definition ensureInstance ::
    "Lib \<Rightarrow> 'e Kube \<Rightarrow> 'e World ClusterGetter \<Rightarrow> ('e World MachineState, unit) go" where
  "ensureInstance L K cg =
     withG (\<lambda>s. if MachineScope_GetInstanceID (ms_YandexMachine (m_scope s)) = [] then
       tryG (createComputeInstance L K cg)
         (\<lambda>newInstanceID. modifyG (set_ym (MachineScope_SetProviderID newInstanceID)))
         (\<lambda>e. thenG (mark (MarkFalse L ConditionStatusRunning ConditionStatusNotfound
                 (SeverityError L) (Error e)))
              (raise e))
     else ret ())"

text \<open>What \<open>Reconcile\<close> does with the error of \<open>ComputeGet\<close>.\<close>

definition instanceMissing :: "Lib \<Rightarrow> err \<Rightarrow> ('w MachineState, unit) go" where
  "instanceMissing L e =
     withG (\<lambda>s. if IsNotFound L (Some e) then
       thenG (modifyG (set_ym (MachineScope_SetInstanceStatus InstanceStatusDeleted)))
       (thenG (mark (MarkTrue L ConditionStatusNotfound))
       (thenG (mark (MarkFalse L ConditionStatusProvisioning ConditionStatusError
           (SeverityError L) (Error e)))
       (mark (MarkFalse L ConditionStatusRunning ConditionStatusError
           (SeverityError L) (Error e)))))
     else
       thenG (mark (MarkUnknown L ConditionStatusProvisioning ConditionStatusNotfound (Error e)))
       (thenG (mark (MarkUnknown L ConditionStatusRunning ConditionStatusNotfound (Error e)))
       (raise (wrapf (''unable to find compute instance '' @
          MachineScope_GetInstanceID (ms_YandexMachine (m_scope s)) @ '': '') e))))"

text \<open>The second half: the status of the instance found, its address and its registration.\<close>

definition instanceFound :: "Lib \<Rightarrow> 'w LoadBalancerI \<Rightarrow> Instance \<Rightarrow> ('w MachineState, unit) go" where
  "instanceFound L LB vm =
     thenG
       (if in_Status vm = InstanceStatusRunning then
          (case getInstanceAddress L vm of
             Inl e \<Rightarrow>
               thenG (mark (MarkFalse L ConditionStatusRunning ConditionStatusError
                   (SeverityError L) (Error e)))
               (raise e)
           | Inr instanceAddress \<Rightarrow>
               thenG (modifyG (set_ym (MachineScope_SetAddresses instanceAddress)))
               (thenG
                 (withG (\<lambda>s. if MachineScope_IsControlPlane L (m_scope s) then
                    tryG (registerControlPlane LB) ret
                      (\<lambda>e. raise (wrapf ''failed to register controlplane compute instance in load balancer: '' e))
                  else ret ()))
               (mark (MarkTrue L ConditionStatusRunning))))
        else ret ())
     (modifyG (set_ym (MachineScope_SetInstanceStatus (in_Status vm))))"

definition Compute_Reconcile ::
    "Lib \<Rightarrow> 'e Kube \<Rightarrow> 'e World ClusterGetter \<Rightarrow> 'e World LoadBalancerI \<Rightarrow>
       ('e World MachineState, unit) go" where
  "Compute_Reconcile L K cg LB =
     thenG (ensureInstance L K cg)
     (withG (\<lambda>s. tryG
        (in_mworld (ComputeGet (GetClient cg)
          (MachineScope_GetInstanceID (ms_YandexMachine (m_scope s)))))
        (instanceFound L LB)
        (instanceMissing L)))"

definition Compute_Delete ::
    "Lib \<Rightarrow> 'e World ClusterGetter \<Rightarrow> 'e World LoadBalancerI \<Rightarrow> ('e World MachineState, bool) go" where
  "Compute_Delete L cg LB =
     withG (\<lambda>s. let client = GetClient cg;
          instanceID = MachineScope_GetInstanceID (ms_YandexMachine (m_scope s));
          deregister = (\<lambda>k. withG (\<lambda>t.
            if MachineScope_IsControlPlane L (m_scope t) then
              tryG (deregisterControlPlane LB) (\<lambda>_. k)
                (\<lambda>e. raise (wrapf ''failed to deregister controlplane compute instance from load balancer: '' e))
            else k)) in
     if instanceID = [] then ret instanceDeleted
     else tryG (in_mworld (ComputeGet client instanceID))
       (\<lambda>vm.
          thenG (modifyG (set_ym (MachineScope_SetInstanceStatus (in_Status vm))))
          (if in_Status vm = InstanceStatusDeleting then ret instanceNotDeleted
           else deregister (thenG (in_mworld (ComputeDelete client instanceID))
             (ret instanceNotDeleted))))
       (\<lambda>e. if \<not> IsNotFound L (Some e) then
              raise (wrapf (''failed to get compute instance with id: '' @ instanceID @
                '' for delete: '') e)
            else deregister (ret instanceDeleted)))"

section \<open>Facts\<close>

abbreviation machine_of :: "'w MachineState \<Rightarrow> YandexMachine" where
  "machine_of s \<equiv> ms_YandexMachine (m_scope s)"

abbreviation instance_id :: "'w MachineState \<Rightarrow> string" where
  "instance_id s \<equiv> MachineScope_GetInstanceID (machine_of s)"

lemma mark_apply: "mark f s = (Ok (), set_ym (ym_mark f) s)"
  by (simp add: mark_def)

text \<open>
  The frame of every operation: the owner machine, the snapshot and the metadata stay, the ready flag
  stays, and a specification that has an instance identifier stays.
\<close>

definition machine_frame :: "'w MachineState \<Rightarrow> 'w MachineState \<Rightarrow> bool" where
  "machine_frame s s' \<longleftrightarrow>
     ms_Machine (m_scope s') = ms_Machine (m_scope s) \<and>
     ms_before (m_scope s') = ms_before (m_scope s) \<and>
     ym_Meta (machine_of s') = ym_Meta (machine_of s) \<and>
     ymst_Ready (ym_Status (machine_of s')) = ymst_Ready (ym_Status (machine_of s)) \<and>
     (instance_id s \<noteq> [] \<longrightarrow> ym_Spec (machine_of s') = ym_Spec (machine_of s))"

lemma instance_id_spec:
  "ym_Spec a = ym_Spec b \<Longrightarrow> MachineScope_GetInstanceID a = MachineScope_GetInstanceID b"
  by (simp add: MachineScope_GetInstanceID_def MachineScope_GetProviderID_def)

interpretation frame: run_relation machine_frame
proof unfold_locales
  fix s t u :: "'w MachineState"
  show "machine_frame s s" by (simp add: machine_frame_def)
  assume "machine_frame s t" "machine_frame t u"
  then show "machine_frame s u" by (auto simp: machine_frame_def dest: instance_id_spec)
qed

text \<open>Operations that leave the specification alone altogether.\<close>

definition spec_frame :: "'w MachineState \<Rightarrow> 'w MachineState \<Rightarrow> bool" where
  "spec_frame s s' \<longleftrightarrow> machine_frame s s' \<and> ym_Spec (machine_of s') = ym_Spec (machine_of s)"

interpretation spec_frame: run_relation spec_frame
  by unfold_locales (auto simp: spec_frame_def intro: frame.refl_R frame.trans_R)

lemma spec_frame_in_mworld: "every_run spec_frame (in_mworld m)"
  by (rule every_runI) (auto simp: in_mworld_apply spec_frame_def machine_frame_def)

lemma spec_frame_set:
  "spec_frame s (set_ym (ym_mark f) s)"
  "spec_frame s (set_ym (MachineScope_SetAddresses a) s)"
  "spec_frame s (set_ym (MachineScope_SetInstanceStatus v) s)"
  by (simp_all add: spec_frame_def machine_frame_def)

lemma spec_frame_mark: "every_run spec_frame (mark f)"
  unfolding mark_def by (intro spec_frame.run_modifyG spec_frame_set)

lemmas spec_frame_steps = spec_frame.run_intros spec_frame_in_mworld spec_frame_mark spec_frame_set

lemma spec_frame_register:
  "every_run spec_frame (registerControlPlane LB)"
  "every_run spec_frame (deregisterControlPlane LB)"
  by (auto simp: registerControlPlane_def deregisterControlPlane_def Let_def
      intro!: spec_frame_steps split: list.split)

lemma spec_frame_parts:
  "every_run spec_frame (instanceFound L LB vm)"
  "every_run spec_frame (instanceMissing L e)"
  "every_run spec_frame (Compute_Delete L cg LB)"
  by (auto simp: instanceFound_def instanceMissing_def Compute_Delete_def Let_def
      intro!: spec_frame_steps spec_frame_register split: sum.split)

lemma createComputeInstance_frame:
  "createComputeInstance L K cg s = (r, s') \<Longrightarrow> m_scope s' = m_scope s"
  by (auto simp: createComputeInstance_def bindG_def tryG_cases in_mworld_apply
      dest: GetInstanceReq_frame)

lemma ensureInstance_run:
  assumes "ensureInstance L K cg s = (r, s')"
  obtains
    (present) "instance_id s \<noteq> []" "r = Ok ()" "s' = s"
  | (created) i t where "instance_id s = []" "createComputeInstance L K cg s = (Ok i, t)" "r = Ok ()"
      "s' = set_ym (MachineScope_SetProviderID i) t" "m_scope t = m_scope s"
  | (failed) e t where "instance_id s = []" "createComputeInstance L K cg s = (Err e, t)" "r = Err e"
      "m_world s' = m_world t" "spec_frame s s'"
  | (panics) m where "instance_id s = []" "createComputeInstance L K cg s = (Panic m, s')" "r = Panic m"
      "m_scope s' = m_scope s"
proof (cases "instance_id s = []")
  case True
  obtain q t where c: "createComputeInstance L K cg s = (q, t)" by fastforce
  note f = createComputeInstance_frame [OF c]
  show thesis
  proof (cases q)
    case (Err e)
    with assms True c f show thesis
      by (intro failed [of e t]) (auto simp: ensureInstance_def mark_def spec_frame_def machine_frame_def)
  next
    case (Ok i)
    with assms True c have "r = Ok ()" "s' = set_ym (MachineScope_SetProviderID i) t"
      by (simp_all add: ensureInstance_def)
    with True c f Ok show thesis by (intro created [of i t]) simp_all
  next
    case (Panic m)
    with assms True c have "r = Panic m" "s' = t" by (simp_all add: ensureInstance_def)
    with True c f Panic show thesis by (intro panics [of m]) simp_all
  qed
next
  case False
  with assms have "r = Ok ()" "s' = s" by (simp_all add: ensureInstance_def)
  with False show thesis by (rule present)
qed

lemma ensureInstance_frame: "every_run machine_frame (ensureInstance L K cg)"
  by (rule every_runI, erule ensureInstance_run)
    (auto simp: machine_frame_def spec_frame_def)

lemma spec_frame_machine: "every_run spec_frame m \<Longrightarrow> every_run machine_frame m"
  by (erule every_run_mono) (simp add: spec_frame_def)

lemma Compute_Reconcile_frame: "every_run machine_frame (Compute_Reconcile L K cg LB)"
  unfolding Compute_Reconcile_def
  by (intro frame.run_thenG frame.run_withG frame.run_tryG ensureInstance_frame
      spec_frame_machine spec_frame_in_mworld spec_frame_parts)

text \<open>
  Deletion.  \<open>deregistered\<close>: the machine needs no deregistration, or its target was removed without an
  error between the two worlds.
\<close>

definition deregistered :: "Lib \<Rightarrow> 'w LoadBalancerI \<Rightarrow> MachineScope \<Rightarrow> 'w \<Rightarrow> 'w \<Rightarrow> bool" where
  "deregistered L LB sc w w' \<longleftrightarrow>
     (if MachineScope_IsControlPlane L sc \<and> MachineScope_GetAddresses (ms_YandexMachine sc) \<noteq> []
      then yms_NetworkInterfaces (ym_Spec (ms_YandexMachine sc)) \<noteq> [] \<and>
        RemoveTarget LB (na_Address (hd (MachineScope_GetAddresses (ms_YandexMachine sc))))
          (ni_SubnetID (hd (yms_NetworkInterfaces (ym_Spec (ms_YandexMachine sc))))) w = (Ok (), w')
      else w' = w)"

section \<open>What a pass asks the cloud for\<close>

text \<open>
  The environment of the compute service: a client and a load balancer with their contracts, and
  secrets that are read without a request to the cloud.
\<close>

locale machine_env = cloud_client C M + load_balancer LB M
  for C :: "'e World Client" and M :: "'e World \<Rightarrow> ext_call list" and LB :: "'e World LoadBalancerI" +
  fixes K :: "'e Kube" and cg :: "'e World ClusterGetter"
  assumes secret_reads: "\<And>ns n. emits M [] (external (Get_Secret K ns n))"
    and getter_client: "GetClient cg = C"
begin

abbreviation sent :: "'e World MachineState \<Rightarrow> ext_call list" where
  "sent s \<equiv> M (m_world s)"

lemma GetInstanceReq_reads: "GetInstanceReq L K cg s = (r, s') \<Longrightarrow> sent s' = sent s"
  using emitsD [OF secret_reads]
  by (fastforce simp: GetInstanceReq_def GetBootstrapData_def Let_def bindG_def tryG_def in_mworld_def
      zoomG_def split: option.splits prod.splits outcome.splits)

lemma createComputeInstance_sends:
  assumes run: "createComputeInstance L K cg s = (q, t)"
  obtains
    (refused) "\<not> is_ok q" "sent t = sent s"
  | (asked) req u where "GetInstanceReq L K cg s = (Ok req, u)"
      "ComputeCreate C req (m_world u) = (q, m_world t)" "sent t = sent s @ [C_InstanceCreate req]"
proof -
  obtain a u where g: "GetInstanceReq L K cg s = (a, u)" by fastforce
  note reads = GetInstanceReq_reads [OF g]
  show thesis
  proof (cases a)
    case (Ok req)
    obtain b v where c: "ComputeCreate C req (m_world u) = (b, v)" by fastforce
    then have "M v = sent s @ [C_InstanceCreate req]"
      using emitsD [OF emits_ComputeCreate] reads by fastforce
    with run g Ok c show thesis
      by (intro asked [of req u]) (auto simp: createComputeInstance_def getter_client)
  qed (use run g reads refused in \<open>auto simp: createComputeInstance_def\<close>)
qed

lemma failed_creation:
  assumes "createComputeInstance L K cg s = (q, t)" "\<not> is_ok q"
  obtains req where "sent t = sent s \<or> (\<exists>p u. GetInstanceReq L K cg s = (Ok req, u) \<and>
    ComputeCreate C req (m_world u) = (p, m_world t) \<and> \<not> is_ok p \<and>
    sent t = sent s @ [C_InstanceCreate req])"
  using assms(1)
proof (cases rule: createComputeInstance_sends)
  case (asked req u)
  with assms(2) show thesis by (intro that [of req]) blast
qed (use that in auto)

text \<open>Registration sends at most one request, for a target made from the machine's own address.\<close>

definition may_add :: "'e World MachineState \<Rightarrow> 'e World MachineState \<Rightarrow> bool" where
  "may_add s s' \<longleftrightarrow> sent s' = sent s \<or> (\<exists>req. sent s' = sent s @ [C_AddTargets req])"

lemma registerControlPlane_sends: "registerControlPlane LB s = (r, s') \<Longrightarrow> may_add s s'"
  by (auto simp: registerControlPlane_def may_add_def Let_def in_mworld_apply
      dest!: add_target_sends split: list.splits)

lemma instanceFound_sends:
  assumes "instanceFound L LB vm s = (r, s')"
  shows "may_add s s'"
proof -
  have keep: "may_add (set_ym f t) u \<longleftrightarrow> may_add t u" "may_add t (set_ym f u) \<longleftrightarrow> may_add t u"
    "may_add t t" for f t u
    by (simp_all add: may_add_def)
  show ?thesis
    using assms
    by (auto simp: instanceFound_def thenG_def bindG_def tryG_cases mark_apply keep
        dest!: registerControlPlane_sends split: if_splits sum.splits)
qed

lemma instanceMissing_sends: "instanceMissing L e s = (r, s') \<Longrightarrow> sent s' = sent s"
  by (auto simp: instanceMissing_def mark_apply thenG_def bindG_def tryG_cases split: if_splits)

text \<open>
  A pass of \<open>Reconcile\<close>: a machine is created only when the object carries no identifier, and then its
  identifier is in the object at the end, whatever else went wrong.
\<close>

lemma inspect_run:
  assumes "withG (\<lambda>s. tryG (in_mworld (ComputeGet (GetClient cg) (instance_id s)))
    (instanceFound L LB) (instanceMissing L)) s = (r, s')"
  shows "may_add s s'" "spec_frame s s'"
proof -
  obtain q w where g: "ComputeGet (GetClient cg) (instance_id s) (m_world s) = (q, w)" by fastforce
  then have Mw: "sent (s\<lparr>m_world := w\<rparr>) = sent s"
    using emitsD [OF emits_ComputeGet] by (fastforce simp: getter_client)
  have "may_add (s\<lparr>m_world := w\<rparr>) s'"
  proof (cases q)
    case (Ok vm)
    with assms g have "instanceFound L LB vm (s\<lparr>m_world := w\<rparr>) = (r, s')" by simp
    then show ?thesis by (rule instanceFound_sends)
  next
    case (Err e)
    with assms g have "instanceMissing L e (s\<lparr>m_world := w\<rparr>) = (r, s')" by simp
    then show ?thesis by (simp add: may_add_def instanceMissing_sends)
  next
    case (Panic m)
    with assms g have "s' = s\<lparr>m_world := w\<rparr>" by simp
    then show ?thesis by (simp add: may_add_def)
  qed
  with Mw show "may_add s s'" by (simp add: may_add_def)
  have "every_run spec_frame (withG (\<lambda>s. tryG (in_mworld (ComputeGet (GetClient cg) (instance_id s)))
      (instanceFound L LB) (instanceMissing L)))"
    by (intro spec_frame_steps spec_frame_parts)
  then show "spec_frame s s'" using assms by (rule every_runD)
qed

lemma Compute_Reconcile_run:
  assumes run: "Compute_Reconcile L K cg LB s = (r, s')"
  obtains
    (present) "instance_id s \<noteq> []" "may_add s s'" "instance_id s' = instance_id s"
  | (created) req i t u where "instance_id s = []" "GetInstanceReq L K cg s = (Ok req, t)"
      "ComputeCreate C req (m_world t) = (Ok i, m_world u)"
      "sent u = sent s @ [C_InstanceCreate req]" "may_add u s'" "instance_id s' = i"
  | (failed) req where "instance_id s = []" "\<not> is_ok r" "instance_id s' = []"
      "sent s' = sent s \<or> (\<exists>p u. GetInstanceReq L K cg s = (Ok req, u) \<and>
         ComputeCreate C req (m_world u) = (p, m_world s') \<and> \<not> is_ok p \<and>
         sent s' = sent s @ [C_InstanceCreate req])"
proof -
  obtain q t where e: "ensureInstance L K cg s = (q, t)" by fastforce
  have same: "instance_id s' = instance_id t" if "spec_frame t s'"
    using that unfolding spec_frame_def by (intro instance_id_spec) simp
  from e show thesis
  proof (cases rule: ensureInstance_run)
    case present
    then have "may_add s s'" "spec_frame s s'"
      using run e inspect_run [of L s r s'] by (simp_all add: Compute_Reconcile_def)
    with present same show thesis by (intro that(1)) simp_all
  next
    case (created i u)
    then have "may_add t s'" "spec_frame t s'"
      using run e inspect_run [of L t r s'] by (simp_all add: Compute_Reconcile_def)
    moreover from created(2) obtain req v where
      "GetInstanceReq L K cg s = (Ok req, v)" "ComputeCreate C req (m_world v) = (Ok i, m_world u)"
      "sent u = sent s @ [C_InstanceCreate req]"
      by (cases rule: createComputeInstance_sends) auto
    ultimately show thesis
      using created same by (intro that(2) [of req v i u]) (simp_all add: may_add_def)
  next
    case (failed x u)
    then have rs: "r = q" "s' = t" "\<not> is_ok q" using run e by (auto simp: Compute_Reconcile_def)
    have "instance_id t = instance_id s"
      using failed(5) unfolding spec_frame_def by (intro instance_id_spec) simp
    obtain req where "sent u = sent s \<or> (\<exists>p v. GetInstanceReq L K cg s = (Ok req, v) \<and>
        ComputeCreate C req (m_world v) = (p, m_world u) \<and> \<not> is_ok p \<and>
        sent u = sent s @ [C_InstanceCreate req])"
      by (rule failed_creation [OF failed(2)]) simp_all
    with failed(1,4) rs \<open>instance_id t = instance_id s\<close> show thesis by (intro that(3) [of req]) simp_all
  next
    case (panics m)
    then have "r = q" "s' = t" "\<not> is_ok q" using run e by (auto simp: Compute_Reconcile_def)
    moreover obtain req where "sent t = sent s \<or> (\<exists>p v. GetInstanceReq L K cg s = (Ok req, v) \<and>
        ComputeCreate C req (m_world v) = (p, m_world t) \<and> \<not> is_ok p \<and>
        sent t = sent s @ [C_InstanceCreate req])"
      by (rule failed_creation [OF panics(2)]) simp_all
    ultimately show thesis using panics by (intro that(3) [of req]) simp_all
  qed
qed

lemma deregister_run:
  assumes run: "(if MachineScope_IsControlPlane L (m_scope t) then tryG (deregisterControlPlane LB) (\<lambda>_. k)
      (\<lambda>e. raise (wrapf m e)) else k) t = (r, s')"
  obtains
    (done_) u where "deregistered L LB (m_scope t) (m_world t) (m_world u)" "m_scope u = m_scope t"
      "k u = (r, s')" "grows_by M is_target_change (m_world t) (m_world u)"
  | (failed) "\<not> is_ok r" "grows_by M is_target_change (m_world t) (m_world s')"
proof (cases "MachineScope_IsControlPlane L (m_scope t)")
  case True
  obtain q u where d: "deregisterControlPlane LB t = (q, u)" by fastforce
  have g: "grows_by M is_target_change (m_world t) (m_world u)" "m_scope u = m_scope t"
    using d grows.refl_R [of M is_target_change "m_world t"] every_runD [OF target_runs(4)]
    by (auto simp: deregisterControlPlane_def Let_def in_mworld_apply split: list.splits)
  show thesis
  proof (cases q)
    case (Ok x)
    then have "deregistered L LB (m_scope t) (m_world t) (m_world u)"
      using d True
      by (auto simp: deregisterControlPlane_def deregistered_def Let_def in_mworld_apply split: list.splits)
    with Ok d True run g show thesis by (intro done_ [of u]) auto
  next
    case (Err e)
    with d True run g show thesis by (intro failed) auto
  next
    case (Panic m)
    with d True run g show thesis by (intro failed) auto
  qed
next
  case False
  then show thesis
    using run by (intro done_ [of t]) (auto simp: deregistered_def intro: grows.refl_R)
qed

lemma Compute_Delete_run:
  assumes run: "Compute_Delete L cg LB s = (r, s')"
  obtains
    (absent) "instance_id s = []" "r = Ok True" "s' = s"
  | (gone) e w where "instance_id s \<noteq> []" "ComputeGet C (instance_id s) (m_world s) = (Err e, w)"
      "IsNotFound L (Some e)" "deregistered L LB (m_scope s) w (m_world s')" "r = Ok True"
      "grows_by M is_target_change (m_world s) (m_world s')"
  | (asked) vm w w' where "ComputeGet C (instance_id s) (m_world s) = (Ok vm, w)"
      "in_Status vm \<noteq> InstanceStatusDeleting" "deregistered L LB (m_scope s) w w'" "r \<noteq> Ok True"
      "grows_by M is_target_change (m_world s) w'" "sent s' = M w' @ [C_InstanceDelete (instance_id s)]"
  | (waits) "r \<noteq> Ok True" "grows_by M is_target_change (m_world s) (m_world s')"
proof (cases "instance_id s = []")
  case True
  with run have "r = Ok True" "s' = s" by (simp_all add: Compute_Delete_def instanceDeleted_def Let_def)
  with True show thesis by (rule absent)
next
  case False
  obtain q w where g: "ComputeGet C (instance_id s) (m_world s) = (q, w)" by fastforce
  then have Mw: "M w = sent s" using emitsD [OF emits_ComputeGet] by fastforce
  have grow: "grows_by M is_target_change (m_world s) v" if "grows_by M is_target_change w v" for v
    using that Mw by (simp add: grows_by_def)
  note run' = run [unfolded Compute_Delete_def Let_def getter_client withG_apply]
  show thesis
  proof (cases q)
    case (Ok vm)
    let ?t = "set_ym (MachineScope_SetInstanceStatus (in_Status vm)) (s\<lparr>m_world := w\<rparr>)"
    show thesis
    proof (cases "in_Status vm = InstanceStatusDeleting")
      case True
      with run' False g Ok Mw show thesis
        by (intro waits) (auto simp: instanceNotDeleted_def grows_by_def)
    next
      case busy: False
      with run' False g Ok have "(if MachineScope_IsControlPlane L (m_scope ?t)
          then tryG (deregisterControlPlane LB)
            (\<lambda>_. thenG (in_mworld (ComputeDelete C (instance_id s))) (ret instanceNotDeleted))
            (\<lambda>e. raise (wrapf ''failed to deregister controlplane compute instance from load balancer: '' e))
          else thenG (in_mworld (ComputeDelete C (instance_id s))) (ret instanceNotDeleted)) ?t = (r, s')"
        by simp
      then show thesis
      proof (cases rule: deregister_run)
        case (done_ u)
        obtain d v where d: "ComputeDelete C (instance_id s) (m_world u) = (d, v)" by fastforce
        then have "M v = M (m_world u) @ [C_InstanceDelete (instance_id s)]"
          using emitsD [OF emits_ComputeDelete] by fastforce
        moreover have "deregistered L LB (m_scope s) w (m_world u)"
          using done_(1) by (auto simp: deregistered_def MachineScope_IsControlPlane_def
              MachineScope_GetAddresses_def split: if_splits)
        moreover have "m_world s' = v" "r \<noteq> Ok True"
          using done_(3) d by (cases d; auto simp: instanceNotDeleted_def)+
        moreover have "grows_by M is_target_change (m_world s) (m_world u)"
          using done_(4) grow by simp
        ultimately show thesis
          using asked [OF _ busy] g Ok by simp
      next
        case failed
        with grow show thesis by (intro waits) auto
      qed
    qed
  next
    case (Err e)
    show thesis
    proof (cases "IsNotFound L (Some e)")
      case True
      with run' False g Err have "(if MachineScope_IsControlPlane L (m_scope (s\<lparr>m_world := w\<rparr>))
          then tryG (deregisterControlPlane LB) (\<lambda>_. ret instanceDeleted)
            (\<lambda>e. raise (wrapf ''failed to deregister controlplane compute instance from load balancer: '' e))
          else ret instanceDeleted) (s\<lparr>m_world := w\<rparr>) = (r, s')"
        by simp
      then show thesis
      proof (cases rule: deregister_run)
        case (done_ u)
        with False g Err True grow show thesis
          by (intro gone [of e w]) (auto simp: instanceDeleted_def)
      next
        case failed
        with grow show thesis by (intro waits) auto
      qed
    next
      case other: False
      with run' False g Err Mw show thesis by (intro waits) (auto simp: grows_by_def)
    qed
  next
    case (Panic m)
    with run' False g Mw show thesis by (intro waits) (auto simp: grows_by_def)
  qed
qed

end

interpretation provider: machine_env "YandexClient sdk" mutations "loadbalancer_New (YandexClient sdk) sc" K
    "ClusterScope_getter (YandexClient sdk) sc" for sdk sc K
  by unfold_locales (simp_all add: emits_external ClusterScope_getter_def)

end
