(* ===== verification/NetIP.thy ===== *)
theory NetIP
  imports GoLib
begin

text \<open>
  \<open>net/netip.ParseAddr\<close> of the Go standard library, as far as the cluster webhook observes it:
  whether a string is an IP address literal and of which family (\<open>Is4\<close>, \<open>Is6\<close>).  The IPv4 scanner
  keeps the loop's variables; the IPv6 scanner keeps the loop over the eight 16-bit groups, counting
  the groups still free instead of the write position \<open>i\<close> (free = \<open>(16 - i) / 2\<close>).
\<close>

datatype addr = V4 "nat list" | V6

fun Is4 :: "addr \<Rightarrow> bool" where
  "Is4 (V4 fs) = True"
| "Is4 V6 = False"

fun Is6 :: "addr \<Rightarrow> bool" where
  "Is6 (V4 fs) = False"
| "Is6 V6 = True"

section \<open>Dotted decimal\<close>

text \<open>
  \<open>parseIPv4Fields\<close>: the remaining text, whether the previous byte was a dot (or there is none), the
  value and the number of digits of the octet being read, and the octets already stored.
\<close>

fun parse_v4 :: "string \<Rightarrow> bool \<Rightarrow> nat \<Rightarrow> nat \<Rightarrow> nat list \<Rightarrow> nat list option" where
  "parse_v4 [] sep val dl fs = (if length fs < 3 then None else Some (fs @ [val]))"
| "parse_v4 (c # s) sep val dl fs =
     (if is_digit c then
        (if dl = 1 \<and> val = 0 then None
         else if 255 < val * 10 + digit_val c then None
         else parse_v4 s False (val * 10 + digit_val c) (Suc dl) fs)
      else if c = CHR ''.'' then
        (if sep \<or> s = [] then None
         else if length fs = 3 then None
         else parse_v4 s True 0 0 (fs @ [val]))
      else None)"

section \<open>Colon separated groups\<close>

definition is_hexdigit :: "char \<Rightarrow> bool" where
  "is_hexdigit c \<longleftrightarrow> is_hex c \<or> (65 \<le> (of_char c :: nat) \<and> (of_char c :: nat) \<le> 70)"

text \<open>
  The loop of \<open>parseIPv6\<close>: groups still free, whether a \<open>::\<close> was seen, the remaining text.  The result
  is what the loop leaves behind when it is left without an error.
\<close>

fun v6_loop :: "nat \<Rightarrow> bool \<Rightarrow> string \<Rightarrow> (nat \<times> bool \<times> string) option" where
  "v6_loop 0 ell s = Some (0, ell, s)"
| "v6_loop (Suc n) ell s =
     (let h = takeWhile is_hexdigit s; r = drop (length h) s in
      if 4 < length h \<or> h = [] then None
      else
        (case r of
           [] \<Rightarrow> Some (n, ell, [])
         | c # r1 \<Rightarrow>
             if c = CHR ''.'' then
               (if \<not> ell \<and> Suc n \<noteq> 2 then None
                else if Suc n < 2 then None
                else (case parse_v4 s True 0 0 [] of
                        None \<Rightarrow> None
                      | Some fs \<Rightarrow> Some (n - 1, ell, [])))
             else if c \<noteq> CHR '':'' then None
             else
               (case r1 of
                  [] \<Rightarrow> None
                | d # r2 \<Rightarrow>
                    if d = CHR '':'' then
                      (if ell then None
                       else if r2 = [] then Some (n, True, [])
                       else v6_loop n True r2)
                    else v6_loop n ell r1)))"

definition v6_groups :: "string \<Rightarrow> bool" where
  "v6_groups s =
     (case (if HasPrefix s ''::'' then (if drop 2 s = [] then None else Some (True, drop 2 s))
            else Some (False, s)) of
        None \<Rightarrow> True
      | Some (ell, t) \<Rightarrow>
          (case v6_loop 8 ell t of
             None \<Rightarrow> False
           | Some (free, ell', rest) \<Rightarrow>
               rest = [] \<and> (if 0 < free then ell' else \<not> ell')))"

definition parse_v6 :: "string \<Rightarrow> bool" where
  "parse_v6 s =
     (case dropWhile (\<lambda>c. c \<noteq> CHR ''%'') s of
        [] \<Rightarrow> v6_groups s
      | pct # zone \<Rightarrow> zone \<noteq> [] \<and> v6_groups (takeWhile (\<lambda>c. c \<noteq> CHR ''%'') s))"

section \<open>ParseAddr\<close>

text \<open>The first of the bytes \<open>.\<close>, \<open>:\<close> and \<open>%\<close> decides which parser runs on the whole string.\<close>

definition ParseAddr :: "string \<Rightarrow> addr option" where
  "ParseAddr s =
     (case dropWhile (\<lambda>c. c \<notin> {CHR ''.'', CHR '':'', CHR ''%''}) s of
        [] \<Rightarrow> None
      | c # r \<Rightarrow>
          if c = CHR ''.'' then map_option V4 (parse_v4 s True 0 0 [])
          else if c = CHR '':'' then (if parse_v6 s then Some V6 else None)
          else None)"

section \<open>Dotted decimal texts and their parse\<close>

definition dotted :: "nat list \<Rightarrow> string" where
  "dotted fs = Join (map utoa fs) ''.''"

definition dotted_open :: "nat list \<Rightarrow> string" where
  "dotted_open fs = concat (map (\<lambda>f. utoa f @ ''.'') fs)"

lemma dotted_open_snoc: "dotted_open (fs @ [v]) = dotted_open fs @ utoa v @ ''.''"
  by (simp add: dotted_open_def)

lemma dotted_snoc: "dotted (fs @ [v]) = dotted_open fs @ utoa v"
proof (induction fs)
  case Nil
  then show ?case by (simp add: dotted_def dotted_open_def)
next
  case (Cons f fs)
  then show ?case
    by (cases "fs @ [v]") (simp_all add: dotted_def dotted_open_def)
qed

lemma not_digit_dot [simp]: "\<not> is_digit (CHR ''.'')"
  by (simp add: is_digit_def)

text \<open>Reading one printed octet leaves its value in the scanner.\<close>

lemma utoa_octet:
  assumes "n \<le> 255"
  obtains "n < 10" "utoa n = [digit_char n]"
  | "10 \<le> n" "n < 100" "utoa n = [digit_char (n div 10), digit_char (n mod 10)]"
  | "100 \<le> n"
    "utoa n = [digit_char (n div 100), digit_char (n div 10 mod 10), digit_char (n mod 10)]"
proof (cases "n < 10")
  case True
  then show ?thesis using that(1) by (simp add: utoa_small)
next
  case False
  then have u: "utoa n = utoa (n div 10) @ [digit_char (n mod 10)]" by (simp add: utoa_big)
  show ?thesis
  proof (cases "n < 100")
    case True
    then have "n div 10 < 10" by simp
    then show ?thesis using that(2) False True u by (simp add: utoa_small)
  next
    case n100: False
    have "n div 10 div 10 = n div 100" by (simp add: div_mult2_eq [symmetric])
    moreover have "n div 100 < 10" "10 \<le> n div 10" using assms n100 by simp_all
    ultimately have "utoa (n div 10) = [digit_char (n div 100), digit_char (n div 10 mod 10)]"
      by (simp add: utoa_big utoa_small)
    then show ?thesis using that(3) n100 u by simp
  qed
qed

lemma parse_v4_two:
  assumes "0 < q" "q < 10" "r < 10"
  shows "parse_v4 (digit_char q # digit_char r # s) True 0 0 fs =
    parse_v4 s False (q * 10 + r) (Suc (Suc 0)) fs"
  using assms by simp

lemma parse_v4_three:
  assumes "0 < p" "p < 10" "q < 10" "r < 10" "(p * 10 + q) * 10 + r \<le> 255"
  shows "parse_v4 (digit_char p # digit_char q # digit_char r # s) True 0 0 fs =
    parse_v4 s False ((p * 10 + q) * 10 + r) (Suc (Suc (Suc 0))) fs"
  using assms by simp

lemma parse_v4_octet:
  assumes "n \<le> 255"
  shows "parse_v4 (utoa n @ s) True 0 0 fs = parse_v4 s False n (length (utoa n)) fs"
  using assms
proof (cases rule: utoa_octet)
  case 1
  then show ?thesis by simp
next
  case 2
  then have "0 < n div 10" "n div 10 < 10" "n mod 10 < 10" by simp_all
  note step = parse_v4_two [OF this, of s fs]
  have e: "n div 10 * 10 + n mod 10 = n" by simp
  have u: "utoa n @ s = digit_char (n div 10) # digit_char (n mod 10) # s"
    and l: "length (utoa n) = Suc (Suc 0)"
    by (simp_all add: 2(3))
  show ?thesis unfolding u l by (rule step [unfolded e])
next
  case 3
  have e: "(n div 100 * 10 + n div 10 mod 10) * 10 + n mod 10 = n"
  proof -
    have "n div 100 = n div 10 div 10" by (simp add: div_mult2_eq [symmetric])
    then show ?thesis by (simp only: div_mult_mod_eq)
  qed
  have "0 < n div 100" "n div 100 < 10" "n div 10 mod 10 < 10" "n mod 10 < 10"
    using assms 3(1) by simp_all
  note step = parse_v4_three [OF this, of s fs, unfolded e, OF assms]
  have u: "utoa n @ s =
      digit_char (n div 100) # digit_char (n div 10 mod 10) # digit_char (n mod 10) # s"
    and l: "length (utoa n) = Suc (Suc (Suc 0))"
    by (simp_all add: 3(2))
  show ?thesis unfolding u l by (rule step)
qed

lemma parse_v4_dotted:
  assumes "a \<le> 255" "b \<le> 255" "c \<le> 255" "d \<le> 255"
  shows "parse_v4 (dotted [a, b, c, d]) True 0 0 [] = Some [a, b, c, d]"
proof -
  have "dotted [a, b, c, d] = utoa a @ ''.'' @ utoa b @ ''.'' @ utoa c @ ''.'' @ utoa d @ []"
    by (simp add: dotted_def)
  then show ?thesis
    using assms parse_v4_octet [of d "[]"] by (simp add: parse_v4_octet)
qed

text \<open>A successful scan has read a printed list of octets, leading zeros excluded.\<close>

lemma parse_v4_inverse:
  assumes "parse_v4 s sep val dl fs = Some out"
    and "sep \<longrightarrow> val = 0 \<and> dl = 0 \<and> (fs \<noteq> [] \<longrightarrow> s \<noteq> [])"
    and "\<not> sep \<longrightarrow> val \<le> 255 \<and> dl = length (utoa val)"
    and "length fs \<le> 3" "list_all (\<lambda>f. f \<le> 255) fs"
  shows "length out = 4 \<and> list_all (\<lambda>f. f \<le> 255) out \<and>
    dotted out = dotted_open fs @ (if sep then [] else utoa val) @ s"
  using assms
proof (induction s sep val dl fs rule: parse_v4.induct)
  case (1 sep val dl fs)
  then have "length fs = 3" "out = fs @ [val]" by (simp_all split: if_splits)
  moreover from this have "\<not> sep" using 1 by auto
  ultimately show ?case using 1 by (simp add: dotted_snoc)
next
  case (2 c s sep val dl fs)
  show ?case
  proof (cases "is_digit c")
    case True
    let ?v = "val * 10 + digit_val c"
    have lead: "\<not> (dl = 1 \<and> val = 0)" and le: "?v \<le> 255"
      and rec: "parse_v4 s False ?v (Suc dl) fs = Some out"
      using 2(3) True by (auto split: if_splits)
    have d: "digit_val c < 10" "digit_char (digit_val c) = c"
      using True by (simp_all add: digit_val_less digit_char_digit_val)
    have u: "utoa ?v = (if sep then [] else utoa val) @ [c]"
    proof (cases sep)
      case True
      then show ?thesis using 2(4) d by (simp add: utoa_small)
    next
      case False
      then have "0 < val" using 2(5) lead by (cases "val = 0") (auto simp: utoa_small)
      then have "10 \<le> ?v" "?v div 10 = val" "?v mod 10 = digit_val c" using d by simp_all
      then show ?thesis using False d by (simp add: utoa_big [of ?v])
    qed
    have "Suc dl = length (utoa ?v)" using u 2(4,5) by (cases sep) simp_all
    then show ?thesis
      using "2.IH"(1) [OF True lead _ rec] le u 2(6,7) by simp
  next
    case False
    then have dot: "c = CHR ''.''" and ns: "\<not> sep" "s \<noteq> []" "length fs \<noteq> 3"
      and rec: "parse_v4 s True 0 0 (fs @ [val]) = Some out"
      using 2(3) by (auto split: if_splits)
    then show ?thesis
      using "2.IH"(2) [OF False dot _ ns(3) rec] 2(5,6,7) by (simp add: dotted_open_snoc)
  qed
qed

lemma parse_v4_iff:
  "parse_v4 s True 0 0 [] = Some fs \<longleftrightarrow>
     length fs = 4 \<and> list_all (\<lambda>f. f \<le> 255) fs \<and> s = dotted fs"
proof
  assume "parse_v4 s True 0 0 [] = Some fs"
  from parse_v4_inverse [OF this]
  show "length fs = 4 \<and> list_all (\<lambda>f. f \<le> 255) fs \<and> s = dotted fs"
    by (simp add: dotted_open_def)
next
  assume r: "length fs = 4 \<and> list_all (\<lambda>f. f \<le> 255) fs \<and> s = dotted fs"
  then obtain a b c d where "fs = [a, b, c, d]"
    by (auto simp: length_Suc_conv numeral_eq_Suc)
  then show "parse_v4 s True 0 0 [] = Some fs"
    using r by (simp add: parse_v4_dotted)
qed

text \<open>A dotted text contains a dot and no colon or percent sign before it.\<close>

lemma dotted_first_sep:
  "dropWhile (\<lambda>c. c \<notin> {CHR ''.'', CHR '':'', CHR ''%''}) (dotted (a # b # fs)) =
     CHR ''.'' # dotted (b # fs)"
proof -
  let ?p = "\<lambda>c. c \<notin> {CHR ''.'', CHR '':'', CHR ''%''}"
  have "list_all ?p (utoa a)"
    using utoa_digits [of a] by (auto simp: list_all_iff is_digit_def)
  then have "dropWhile ?p (utoa a @ CHR ''.'' # dotted (b # fs)) = CHR ''.'' # dotted (b # fs)"
    by (subst dropWhile_append2) (auto simp: list_all_iff)
  then show ?thesis by (simp add: dotted_def)
qed

lemma ParseAddr_V4_iff:
  "ParseAddr s = Some (V4 fs) \<longleftrightarrow>
     length fs = 4 \<and> list_all (\<lambda>f. f \<le> 255) fs \<and> s = dotted fs"
proof
  assume "ParseAddr s = Some (V4 fs)"
  then have "parse_v4 s True 0 0 [] = Some fs"
    by (auto simp: ParseAddr_def split: list.splits if_splits)
  then show "length fs = 4 \<and> list_all (\<lambda>f. f \<le> 255) fs \<and> s = dotted fs"
    by (simp add: parse_v4_iff)
next
  assume r: "length fs = 4 \<and> list_all (\<lambda>f. f \<le> 255) fs \<and> s = dotted fs"
  then obtain a b c d where fs: "fs = [a, b, c, d]"
    by (auto simp: length_Suc_conv numeral_eq_Suc)
  have "parse_v4 s True 0 0 [] = Some fs" using r parse_v4_iff by blast
  moreover have "dropWhile (\<lambda>c. c \<notin> {CHR ''.'', CHR '':'', CHR ''%''}) s = CHR ''.'' # dotted [b, c, d]"
    using r fs dotted_first_sep by simp
  ultimately show "ParseAddr s = Some (V4 fs)"
    by (simp add: ParseAddr_def)
qed

end
