(* ===== verification/Webhooks.thy ===== *)
theory Webhooks
  imports Api NetIP "HOL-Library.AList_Mapping"
begin

text \<open>
  The admission webhooks of \<open>api/v1alpha1\<close>: which creations and updates of the three custom resources
  the API server accepts.  The resolver behind \<open>net.LookupHost\<close> and the converter
  \<open>runtime.DefaultUnstructuredConverter\<close> are parameters.  An update to a \<open>YandexCluster\<close> is also a
  step of a transition system, whose reachable states are studied at the end.
\<close>

section \<open>Field errors and admission responses\<close>

datatype bad_value =
    BadString string
  | BadPort int32
  | BadEndpoint APIEndpoint
  | BadLoadBalancer LoadBalancerSpec

text \<open>\<open>field.Invalid\<close>, \<open>field.Forbidden\<close> and \<open>field.InternalError\<close>; a path is its dotted text.\<close>

datatype field_error =
    Invalid string bad_value string
  | Forbidden string string
  | InternalError string err

text \<open>
  A response: accepted, \<open>apierrors.NewInvalid\<close> with the kind, the name and the list of field errors,
  \<open>apierrors.NewBadRequest\<close>, or a panic of the handler.
\<close>

datatype admission =
    Allowed
  | NewInvalid string string "field_error list"
  | NewBadRequest string
  | AdmissionPanic string

text \<open>\<open>runtime.Object\<close> as the handlers get it.\<close>

datatype runtime_object =
    Obj_YandexCluster YandexCluster
  | Obj_YandexMachine YandexMachine
  | Obj_YandexMachineTemplate YandexMachineTemplate
  | Obj_Other

section \<open>yandexcluster\_webhook.go\<close>

datatype AddrType = Unknown | FQDN | IPV4 | IPV6

text \<open>The constants count from one in the order of declaration.\<close>

fun addr_code :: "AddrType \<Rightarrow> int" where
  "addr_code Unknown = 1"
| "addr_code FQDN = 2"
| "addr_code IPV4 = 3"
| "addr_code IPV6 = 4"

instantiation AddrType :: linorder
begin

definition less_eq_AddrType :: "AddrType \<Rightarrow> AddrType \<Rightarrow> bool" where
  "less_eq_AddrType a b \<longleftrightarrow> addr_code a \<le> addr_code b"

definition less_AddrType :: "AddrType \<Rightarrow> AddrType \<Rightarrow> bool" where
  "less_AddrType a b \<longleftrightarrow> addr_code a < addr_code b"

instance
proof
  fix x y z :: AddrType
  show "(x < y) = (x \<le> y \<and> \<not> y \<le> x)" "x \<le> x" "x \<le> y \<or> y \<le> x"
    by (auto simp: less_eq_AddrType_def less_AddrType_def)
  show "x \<le> y \<Longrightarrow> y \<le> z \<Longrightarrow> x \<le> z" by (auto simp: less_eq_AddrType_def)
  show "x \<le> y \<Longrightarrow> y \<le> x \<Longrightarrow> x = y"
    by (cases x; cases y) (auto simp: less_eq_AddrType_def)
qed

end

definition getAddrType :: "(string \<Rightarrow> bool) \<Rightarrow> string \<Rightarrow> AddrType" where
  "getAddrType lookupHost s =
     (case ParseAddr s of
        None \<Rightarrow> if lookupHost s then FQDN else Unknown
      | Some parsedIP \<Rightarrow>
          if Is4 parsedIP then IPV4 else if Is6 parsedIP then IPV6 else Unknown)"

definition isIPv4 :: "(string \<Rightarrow> bool) \<Rightarrow> string \<Rightarrow> bool" where
  "isIPv4 lookupHost s \<longleftrightarrow> getAddrType lookupHost s = IPV4"

definition isIPv4orFQDN :: "(string \<Rightarrow> bool) \<Rightarrow> string \<Rightarrow> bool" where
  "isIPv4orFQDN lookupHost s \<longleftrightarrow>
     (let result = getAddrType lookupHost s in result = IPV4 \<or> result = FQDN)"

definition isControlPlaneEndpointValid ::
    "(string \<Rightarrow> bool) \<Rightarrow> APIEndpoint \<Rightarrow> field_error list" where
  "isControlPlaneEndpointValid lookupHost cp =
     (let errs = [];
          errs = (if ep_Host cp = [] \<or> ep_Port cp = 0
            then errs @ [Invalid ''spec.controlPlaneEndpoint'' (BadPort (ep_Port cp))
              ''fields have to be not empty'']
            else errs);
          errs = (if \<not> isIPv4orFQDN lookupHost (ep_Host cp)
            then errs @ [Invalid ''spec.controlPlaneEndpoint.host'' (BadString (ep_Host cp))
              ''field has to be IPv4 or FQDN'']
            else errs);
          errs = (if sint (ep_Port cp) < 1 \<or> sint (ep_Port cp) > 65535
            then errs @ [Invalid ''spec.controlPlaneEndpoint.port'' (BadPort (ep_Port cp))
              ''field has to be a network port from range 1-65535'']
            else errs)
      in errs)"

definition verdict :: "string \<Rightarrow> string \<Rightarrow> field_error list \<Rightarrow> admission" where
  "verdict kind name allErrs = (if length allErrs = 0 then Allowed else NewInvalid kind name allErrs)"

definition YandexCluster_ValidateCreate :: "(string \<Rightarrow> bool) \<Rightarrow> YandexCluster \<Rightarrow> admission" where
  "YandexCluster_ValidateCreate lookupHost c =
     (let lb = ycs_LoadBalancer (yc_Spec c); address = ls_Address (lbs_Listener lb);
          endpoint = ycs_ControlPlaneEndpoint (yc_Spec c);
          allErrs = [];
          allErrs = (if lbs_Type lb = LoadBalancerTypeNLB
            then allErrs @ [Invalid ''spec.loadBalancer.type'' (BadString (lbs_Type lb))
              ''network load balancer support will be added in future releases, use application load balancer instead'']
            else allErrs);
          allErrs = (if address \<noteq> [] \<and> \<not> isIPv4 lookupHost address
            then allErrs @ [Invalid ''spec.loadBalancer.listener.address'' (BadString address)
              ''field must be a valid IPv4 address'']
            else allErrs);
          allErrs = (if endpoint \<noteq> zero_endpoint
            then allErrs @ isControlPlaneEndpointValid lookupHost endpoint
            else allErrs)
      in verdict ''YandexCluster'' (om_Name (yc_Meta c)) allErrs)"

definition YandexCluster_ValidateUpdate ::
    "(string \<Rightarrow> bool) \<Rightarrow> YandexCluster \<Rightarrow> runtime_object \<Rightarrow> admission" where
  "YandexCluster_ValidateUpdate lookupHost c oldRaw =
     (case oldRaw of
        Obj_YandexCluster old \<Rightarrow>
          (let oldSpec = yc_Spec old; newSpec = yc_Spec c;
               allErrs = [];
               allErrs = (if ycs_LoadBalancer oldSpec \<noteq> ycs_LoadBalancer newSpec
                 then allErrs @ [Invalid ''spec.loadBalancer''
                   (BadLoadBalancer (ycs_LoadBalancer newSpec)) ''field is immutable'']
                 else allErrs);
               allErrs = (if ycs_ControlPlaneEndpoint newSpec \<noteq> ycs_ControlPlaneEndpoint oldSpec
                 then if ycs_ControlPlaneEndpoint oldSpec = zero_endpoint
                   then allErrs @ isControlPlaneEndpointValid lookupHost (ycs_ControlPlaneEndpoint newSpec)
                   else allErrs @ [Invalid ''spec.controlPlaneEndpoint''
                     (BadEndpoint (ycs_ControlPlaneEndpoint newSpec)) ''field is immutable'']
                 else allErrs)
           in verdict ''YandexCluster'' (om_Name (yc_Meta c)) allErrs)
      | _ \<Rightarrow> NewBadRequest ''failed to convert runtime Object to YandexCluster'')"

definition YandexCluster_ValidateDelete :: "YandexCluster \<Rightarrow> admission" where
  "YandexCluster_ValidateDelete c = Allowed"

definition YandexCluster_Default :: "YandexCluster \<Rightarrow> YandexCluster" where
  "YandexCluster_Default c = c"

section \<open>yandexmachine\_webhook.go\<close>

text \<open>
  The converter gives a finite map with one entry per JSON key; a value is an object, itself a map,
  or something else.  Equality of values is \<open>reflect.DeepEqual\<close> on them.
\<close>

datatype 'j unstructured =
    JObject "(string, 'j) mapping"
  | JOther 'j

type_synonym 'j converter = "runtime_object \<Rightarrow> err + (string, 'j unstructured) mapping"

text \<open>\<open>u["spec"].(map[string]interface{})\<close>: a missing key or another kind of value panics.\<close>

definition unstructured_spec :: "(string, 'j unstructured) mapping \<Rightarrow> (string, 'j) mapping option" where
  "unstructured_spec u =
     (case Mapping.lookup u ''spec'' of Some (JObject m) \<Rightarrow> Some m | _ \<Rightarrow> None)"

definition YandexMachine_ValidateCreate :: "YandexMachine \<Rightarrow> admission" where
  "YandexMachine_ValidateCreate ym = Allowed"

definition YandexMachine_ValidateUpdate ::
    "'j converter \<Rightarrow> YandexMachine \<Rightarrow> runtime_object \<Rightarrow> admission" where
  "YandexMachine_ValidateUpdate toUnstructured ym oldRaw =
     (let invalid = (\<lambda>e. NewInvalid ''YandexMachine'' (om_Name (ym_Meta ym)) [e]) in
      case toUnstructured (Obj_YandexMachine ym) of
        Inl e \<Rightarrow> invalid (InternalError ''<nil>''
          (wrapf ''failed to convert new YandexMachine to unstructured object: '' e))
      | Inr newYandexMachine \<Rightarrow>
      (case toUnstructured oldRaw of
        Inl e \<Rightarrow> invalid (InternalError ''<nil>''
          (wrapf ''failed to convert old YandexMachine to unstructured object: '' e))
      | Inr oldYandexMachine \<Rightarrow>
      (case (unstructured_spec newYandexMachine, unstructured_spec oldYandexMachine) of
        (Some newSpec, Some oldSpec) \<Rightarrow>
          (let oldSpec = Mapping.delete ''providerID'' oldSpec;
               newSpec = Mapping.delete ''providerID'' newSpec
           in if oldSpec \<noteq> newSpec then invalid (Forbidden ''spec'' ''cannot be modified'')
              else Allowed)
      | _ \<Rightarrow> AdmissionPanic ''interface conversion'')))"

definition YandexMachine_ValidateDelete :: "YandexMachine \<Rightarrow> admission" where
  "YandexMachine_ValidateDelete ym = Allowed"

definition YandexMachine_Default :: "YandexMachine \<Rightarrow> YandexMachine" where
  "YandexMachine_Default ym = ym"

section \<open>yandexmachinetemplate\_webhook.go\<close>

definition is_lower :: "char \<Rightarrow> bool" where
  "is_lower c \<longleftrightarrow> 97 \<le> (of_char c :: nat) \<and> (of_char c :: nat) \<le> 122"

text \<open>\<open>^[a-z]([-a-z0-9]{0,55}[a-z0-9])?$\<close>\<close>

definition nameRegex :: rx where
  "nameRegex = Seq (Class is_lower)
     (Opt (Seq (Rep (\<lambda>c. c = CHR ''-'' \<or> is_lower c \<or> is_digit c) 0 55)
       (Class (\<lambda>c. is_lower c \<or> is_digit c))))"

definition YandexMachineTemplate_ValidateCreate :: "YandexMachineTemplate \<Rightarrow> admission" where
  "YandexMachineTemplate_ValidateCreate t =
     (let name = om_Name (ymt_Meta t);
          allErrs = [];
          allErrs = (if yms_ProviderID (ymtr_Spec (ymts_Template (ymt_Spec t))) \<noteq> None
            then allErrs @ [Forbidden ''spec.template.spec.providerID'' ''cannot be set in templates'']
            else allErrs);
          allErrs = (if \<not> MatchString nameRegex name
            then allErrs @ [Invalid ''metadata.name'' (BadString name)
              ''may contain lowercase Latin letters, digits, and hyphens. The first character must be a letter, and the hyphen cannot be the last character, max 57 symbols'']
            else allErrs)
      in verdict ''YandexMachineTemplate'' name allErrs)"

definition YandexMachineTemplate_ValidateUpdate ::
    "'j converter \<Rightarrow> YandexMachineTemplate \<Rightarrow> runtime_object \<Rightarrow> admission" where
  "YandexMachineTemplate_ValidateUpdate toUnstructured t oldRaw =
     (let invalid = (\<lambda>e. NewInvalid ''YandexMachineTemplate'' (om_Name (ymt_Meta t)) [e]) in
      case toUnstructured (Obj_YandexMachineTemplate t) of
        Inl e \<Rightarrow> invalid (InternalError ''<nil>''
          (wrapf ''failed to convert new YandexMachineTemplate to unstructured object: '' e))
      | Inr newTemplate \<Rightarrow>
      (case toUnstructured oldRaw of
        Inl e \<Rightarrow> invalid (InternalError ''<nil>''
          (wrapf ''failed to convert old YandexMachineTemplate to unstructured object: '' e))
      | Inr oldTemplate \<Rightarrow>
      (case (unstructured_spec newTemplate, unstructured_spec oldTemplate) of
        (Some newSpec, Some oldSpec) \<Rightarrow>
          (if oldSpec \<noteq> newSpec then invalid (Forbidden ''spec'' ''cannot be modified'') else Allowed)
      | _ \<Rightarrow> AdmissionPanic ''interface conversion'')))"

definition YandexMachineTemplate_ValidateDelete :: "YandexMachineTemplate \<Rightarrow> admission" where
  "YandexMachineTemplate_ValidateDelete t = Allowed"

definition YandexMachineTemplate_Default :: "YandexMachineTemplate \<Rightarrow> YandexMachineTemplate" where
  "YandexMachineTemplate_Default t = t"

section \<open>Facts\<close>

lemma isIPv4_iff:
  "isIPv4 lookupHost s \<longleftrightarrow> (\<exists>fs. length fs = 4 \<and> list_all (\<lambda>f. f \<le> 255) fs \<and> s = dotted fs)"
proof -
  have "isIPv4 lookupHost s \<longleftrightarrow> (\<exists>fs. ParseAddr s = Some (V4 fs))"
  proof (cases "ParseAddr s")
    case (Some a)
    then show ?thesis by (cases a) (auto simp: isIPv4_def getAddrType_def)
  qed (simp add: isIPv4_def getAddrType_def)
  then show ?thesis by (simp add: ParseAddr_V4_iff)
qed

lemma isIPv4orFQDN_iff:
  "isIPv4orFQDN lookupHost s \<longleftrightarrow> isIPv4 lookupHost s \<or> (ParseAddr s = None \<and> lookupHost s)"
  by (cases "ParseAddr s")
    (auto simp: isIPv4orFQDN_def isIPv4_def getAddrType_def Let_def split: if_splits)

lemma verdict_Allowed [simp]: "verdict kind name es = Allowed \<longleftrightarrow> es = []"
  by (simp add: verdict_def)

text \<open>An endpoint without field errors.\<close>

definition valid_endpoint :: "(string \<Rightarrow> bool) \<Rightarrow> APIEndpoint \<Rightarrow> bool" where
  "valid_endpoint lookupHost ep \<longleftrightarrow>
     ep_Host ep \<noteq> [] \<and> 1 \<le> sint (ep_Port ep) \<and> sint (ep_Port ep) \<le> 65535 \<and>
     (isIPv4 lookupHost (ep_Host ep) \<or> (ParseAddr (ep_Host ep) = None \<and> lookupHost (ep_Host ep)))"

lemma isControlPlaneEndpointValid_iff:
  "isControlPlaneEndpointValid lookupHost ep = [] \<longleftrightarrow> valid_endpoint lookupHost ep"
  by (auto simp: isControlPlaneEndpointValid_def valid_endpoint_def isIPv4orFQDN_iff Let_def)

lemma valid_endpoint_nonzero: "valid_endpoint lookupHost ep \<Longrightarrow> ep \<noteq> zero_endpoint"
  by (auto simp: valid_endpoint_def zero_endpoint_def)

lemma ValidateCreate_iff:
  "YandexCluster_ValidateCreate lookupHost c = Allowed \<longleftrightarrow>
     lbs_Type (ycs_LoadBalancer (yc_Spec c)) \<noteq> LoadBalancerTypeNLB \<and>
     (let a = ls_Address (lbs_Listener (ycs_LoadBalancer (yc_Spec c))) in a = [] \<or> isIPv4 lookupHost a) \<and>
     (let ep = ycs_ControlPlaneEndpoint (yc_Spec c) in ep = zero_endpoint \<or> valid_endpoint lookupHost ep)"
  by (auto simp: YandexCluster_ValidateCreate_def Let_def isControlPlaneEndpointValid_iff)

lemma ValidateUpdate_iff:
  "YandexCluster_ValidateUpdate lookupHost c (Obj_YandexCluster old) = Allowed \<longleftrightarrow>
     ycs_LoadBalancer (yc_Spec c) = ycs_LoadBalancer (yc_Spec old) \<and>
     (let new = ycs_ControlPlaneEndpoint (yc_Spec c); before = ycs_ControlPlaneEndpoint (yc_Spec old)
      in new = before \<or> (before = zero_endpoint \<and> valid_endpoint lookupHost new))"
  by (auto simp: YandexCluster_ValidateUpdate_def Let_def isControlPlaneEndpointValid_iff)

section \<open>The life of a YandexCluster under the webhook\<close>

text \<open>
  \<open>admitted lookupHost old new\<close>: one update that the API server lets through; a history is a creation and
  such updates.  What a name resolves to changes over time: each step has a resolver of its own, from
  the set \<open>R\<close>.
\<close>

inductive admitted :: "(string \<Rightarrow> bool) \<Rightarrow> YandexCluster \<Rightarrow> YandexCluster \<Rightarrow> bool"
  for lookupHost where
  update: "YandexCluster_ValidateUpdate lookupHost new (Obj_YandexCluster old) = Allowed \<Longrightarrow>
    admitted lookupHost old new"

inductive history :: "(string \<Rightarrow> bool) set \<Rightarrow> YandexCluster \<Rightarrow> YandexCluster \<Rightarrow> bool"
  for R where
  created: "lookupHost \<in> R \<Longrightarrow> YandexCluster_ValidateCreate lookupHost c = Allowed \<Longrightarrow> history R c c"
| updated: "history R c d \<Longrightarrow> lookupHost \<in> R \<Longrightarrow> admitted lookupHost d e \<Longrightarrow> history R c e"

inductive_cases admittedE: "admitted lookupHost old new"
inductive_simps admitted_iff: "admitted lookupHost old new"

lemma history_load_balancer:
  "history R c d \<Longrightarrow> ycs_LoadBalancer (yc_Spec d) = ycs_LoadBalancer (yc_Spec c)"
  by (induction rule: history.induct) (auto simp: admitted_iff ValidateUpdate_iff)

lemma history_endpoint:
  assumes "history R c d"
  shows "ycs_ControlPlaneEndpoint (yc_Spec d) = zero_endpoint \<or>
    (\<exists>lookupHost \<in> R. valid_endpoint lookupHost (ycs_ControlPlaneEndpoint (yc_Spec d)))"
  using assms
  by (induction rule: history.induct)
    (auto simp: admitted_iff ValidateUpdate_iff ValidateCreate_iff Let_def)

lemma admitted_endpoint:
  "admitted lookupHost d e \<Longrightarrow> ycs_ControlPlaneEndpoint (yc_Spec d) \<noteq> zero_endpoint \<Longrightarrow>
     ycs_ControlPlaneEndpoint (yc_Spec e) = ycs_ControlPlaneEndpoint (yc_Spec d)"
  by (auto simp: admitted_iff ValidateUpdate_iff Let_def)

section \<open>Names of templates\<close>

definition template_name_char :: "char \<Rightarrow> bool" where
  "template_name_char c \<longleftrightarrow> c = CHR ''-'' \<or> is_lower c \<or> is_digit c"

lemma dash_not_alnum: "\<not> is_lower (CHR ''-'')" "\<not> is_digit (CHR ''-'')"
  by (simp_all add: is_lower_def is_digit_def)

lemma class_match: "[] \<in> set (matches_from (Class p) u) \<longleftrightarrow> (\<exists>d. u = [d] \<and> p d)"
  by (cases u) auto

lemma nameRegex_iff:
  "MatchString nameRegex s \<longleftrightarrow>
     s \<noteq> [] \<and> is_lower (hd s) \<and> length s \<le> 57 \<and> list_all template_name_char s \<and> last s \<noteq> CHR ''-''"
  (is "_ = ?R")
proof
  let ?mid = "\<lambda>c. c = CHR ''-'' \<or> is_lower c \<or> is_digit c"
  assume "MatchString nameRegex s"
  then obtain c t where c: "s = c # t" "is_lower c"
    and t: "t = [] \<or> (\<exists>u \<in> set (rep_suffixes ?mid 0 55 t). [] \<in> set (matches_from (Class (\<lambda>c. is_lower c \<or> is_digit c)) u))"
    by (cases s) (auto simp: MatchString_def nameRegex_def split: if_splits)
  show ?R
  proof (cases "t = []")
    case True
    then show ?thesis using c dash_not_alnum by (auto simp: template_name_char_def)
  next
    case False
    then obtain u d where u: "u \<in> set (rep_suffixes ?mid 0 55 t)" "u = [d]" "is_lower d \<or> is_digit d"
      using t unfolding class_match by blast
    then obtain v where "t = v @ [d]" "length v \<le> 55" "list_all ?mid v"
      by (auto simp: rep_suffixes_iff)
    then show ?thesis using c u dash_not_alnum
      by (auto simp: template_name_char_def [abs_def] list_all_iff)
  qed
next
  let ?mid = "\<lambda>c. c = CHR ''-'' \<or> is_lower c \<or> is_digit c"
  assume R: ?R
  then obtain c t where s: "s = c # t" "is_lower c" by (cases s) auto
  show "MatchString nameRegex s"
  proof (cases "t = []")
    case True
    then show ?thesis using s by (simp add: MatchString_def nameRegex_def)
  next
    case False
    then obtain v d where t: "t = v @ [d]" by (metis rev_exhaust)
    then have "[d] \<in> set (rep_suffixes ?mid 0 55 t)" "is_lower d \<or> is_digit d"
      using R s by (auto simp: rep_suffixes_iff template_name_char_def [abs_def])
    then show ?thesis
      using s by (auto simp: MatchString_def nameRegex_def intro!: bexI [of _ "[d]"])
  qed
qed

end
