(* ===== verification/Cluster_Controller.thy ===== *)
theory Cluster_Controller
  imports Loadbalancer Webhooks
begin

text \<open>
  \<open>controllers/yandexcluster_controller.go\<close>: one reconciliation of a \<open>YandexCluster\<close>, from the fetch of
  the object to the deferred patch.  The API server \<open>K\<close>, the helper packages \<open>L\<close> and the client \<open>C\<close> are
  arguments; the time-out of the context is not modelled (an expired context is an error of the call it
  hits).
\<close>

section \<open>Results\<close>

text \<open>\<open>ctrl.Result\<close>; a duration is its number of nanoseconds.\<close>

record Result =
  Requeue :: bool
  RequeueAfter :: int64

definition no_requeue :: Result where
  "no_requeue = \<lparr>Requeue = False, RequeueAfter = 0\<rparr>"

definition RequeueDuration :: int64 where
  "RequeueDuration = 10 * time_Second"

definition requeue_later :: Result where
  "requeue_later = \<lparr>Requeue = False, RequeueAfter = RequeueDuration\<rparr>"

section \<open>Reconciliation\<close>

definition yc_finalizers :: "(string list \<Rightarrow> string list) \<Rightarrow> YandexCluster \<Rightarrow> YandexCluster" where
  "yc_finalizers f yc = yc\<lparr>yc_Meta := (yc_Meta yc)\<lparr>om_Finalizers := f (om_Finalizers (yc_Meta yc))\<rparr>\<rparr>"

definition lb_reconcile_error :: "Lib \<Rightarrow> err \<Rightarrow> ('w ClusterState, Result) go" where
  "lb_reconcile_error L e =
     thenG (modifyG (set_yc (yc_mark (MarkFalse L LoadBalancerReadyCondition
         ''load balancer reconcile error'' (SeverityError L) (Error e)))))
       (raise (wrapf ''error reconciling load balancer: '' e))"

text \<open>\<open>publish_status\<close>: the status of the load balancer, its condition and the ready flag.\<close>

definition publish_status :: "Lib \<Rightarrow> LoadBalancerStatus \<Rightarrow> YandexCluster \<Rightarrow> YandexCluster" where
  "publish_status L state yc =
     (let yc = yc\<lparr>yc_Status := (yc_Status yc)\<lparr>ycst_LoadBalancer :=
            \<lparr>lbst_Name = [], lbst_ListenerAddress = lbst_ListenerAddress state,
             lbst_ListenerPort = lbst_ListenerPort state\<rparr>\<rparr>\<rparr>
      in ClusterScope_SetReady (yc_mark (MarkTrue L LoadBalancerReadyCondition) yc))"

definition set_endpoint :: "APIEndpoint \<Rightarrow> YandexCluster \<Rightarrow> YandexCluster" where
  "set_endpoint ep yc = yc\<lparr>yc_Spec := (yc_Spec yc)\<lparr>ycs_ControlPlaneEndpoint := ep\<rparr>\<rparr>"

definition endpoint_differs :: err where
  "endpoint_differs = Errorf ''YandexCluster controlPlaneEndpoint differs from the load balancer listener values. The cluster has become unrecoverable and should be manually deleted''"

text \<open>The final switch.\<close>

definition settle_endpoint :: "Lib \<Rightarrow> LoadBalancerStatus \<Rightarrow> ('w ClusterState, Result) go" where
  "settle_endpoint L state =
     withG (\<lambda>s. let ep = ycs_ControlPlaneEndpoint (yc_Spec (cs_YandexCluster (c_scope s))) in
     if ep_Host ep = [] \<and> ep_Port ep = 0 then
       thenG (modifyG (set_yc (\<lambda>yc. publish_status L state (set_endpoint
           \<lparr>ep_Host = lbst_ListenerAddress state, ep_Port = lbst_ListenerPort state\<rparr> yc))))
         (ret no_requeue)
     else if ep_Host ep = lbst_ListenerAddress state \<and> ep_Port ep = lbst_ListenerPort state then
       thenG (modifyG (set_yc (publish_status L state))) (ret no_requeue)
     else raise endpoint_differs)"

definition YandexCluster_reconcile :: "Lib \<Rightarrow> 'w Client \<Rightarrow> ('w ClusterState, Result) go" where
  "YandexCluster_reconcile L C =
     withG (\<lambda>s0.
     if \<not> ContainsFinalizer L (om_Finalizers (yc_Meta (cs_YandexCluster (c_scope s0)))) ClusterFinalizer
     then thenG (modifyG (set_yc (yc_finalizers (\<lambda>fs. AddFinalizer L fs ClusterFinalizer))))
       (ret \<lparr>Requeue = True, RequeueAfter = 0\<rparr>)
     else tryG (LB_Reconcile L C) (\<lambda>_.
       withG (\<lambda>s1. tryG (in_world (LB_IsActive C (c_scope s1))) (\<lambda>active.
         if \<not> active then ret requeue_later
         else withG (\<lambda>s2. tryG (in_world (LB_Describe C (c_scope s2)))
           (settle_endpoint L) (lb_reconcile_error L)))
         (lb_reconcile_error L)))
       (lb_reconcile_error L))"

definition YandexCluster_reconcileDelete :: "Lib \<Rightarrow> 'w Client \<Rightarrow> ('w ClusterState, Result) go" where
  "YandexCluster_reconcileDelete L C =
     withG (\<lambda>s.
     if \<not> ContainsFinalizer L (om_Finalizers (yc_Meta (cs_YandexCluster (c_scope s)))) ClusterFinalizer
     then ret no_requeue
     else tryG (in_world (LB_Delete C (c_scope s)))
       (\<lambda>deleted.
          if deleted then
            thenG (modifyG (set_yc (yc_finalizers (\<lambda>fs. RemoveFinalizer L fs ClusterFinalizer))))
              (ret no_requeue)
          else
            thenG (modifyG (set_yc (yc_mark (MarkFalse L LoadBalancerReadyCondition
                (DeletingReason L) (SeverityInfo L) []))))
              (ret requeue_later))
       (\<lambda>e. thenG (modifyG (set_yc (yc_mark (MarkFalse L LoadBalancerReadyCondition
                (DeletionFailedReason L) (SeverityWarning L) []))))
              (raise (wrapf ''error deleting load balancer  '' e))))"

text \<open>The body that runs on the scope, with the deferred \<open>Close\<close>.\<close>

definition YandexCluster_scoped ::
    "Lib \<Rightarrow> 'e Kube \<Rightarrow> 'e World Client \<Rightarrow> ('e World ClusterState, Result) go" where
  "YandexCluster_scoped L K C =
     deferG (ClusterScope_Close K)
       (withG (\<lambda>s. if om_DeletionTimestamp (yc_Meta (cs_YandexCluster (c_scope s))) \<noteq> None
          then YandexCluster_reconcileDelete L C
          else YandexCluster_reconcile L C))"

text \<open>Running it on a scope: the scope is local to the call, only the world is left.\<close>

definition run_cluster_scope :: "ClusterScope \<Rightarrow> ('w ClusterState, 'a) go \<Rightarrow> ('w, 'a) go" where
  "run_cluster_scope sc m w =
     (case m \<lparr>c_scope = sc, c_world = w\<rparr> of (r, s) \<Rightarrow> (r, c_world s))"

definition YandexCluster_Reconcile ::
    "Lib \<Rightarrow> 'e Kube \<Rightarrow> 'e World Client \<Rightarrow> string \<Rightarrow> string \<Rightarrow> ('e World, Result) go" where
  "YandexCluster_Reconcile L K C ns name =
     tryG (external (Get_YandexCluster K ns name))
       (\<lambda>yandexCluster.
          bindG (external (GetOwnerCluster K (yc_Meta yandexCluster))) (\<lambda>owner.
          case owner of
            None \<Rightarrow> ret no_requeue
          | Some cluster \<Rightarrow>
              if IsPaused L cluster (yc_Meta yandexCluster) then ret no_requeue
              else
                bindG (NewClusterScope
                  \<lparr>csp_Client = Some K, csp_Cluster = Some cluster,
                   csp_YandexCluster = Some yandexCluster, csp_YandexClient = Some C\<rparr>)
                  (\<lambda>clusterScope. run_cluster_scope clusterScope (YandexCluster_scoped L K C))))
       (\<lambda>e. if Apierrors_IsNotFound L e then ret no_requeue else raise e)"

section \<open>Facts\<close>

lemmas result_defs = no_requeue_def requeue_later_def RequeueDuration_def

abbreviation cluster_of :: "'w ClusterState \<Rightarrow> YandexCluster" where
  "cluster_of s \<equiv> cs_YandexCluster (c_scope s)"

abbreviation endpoint_of :: "YandexCluster \<Rightarrow> APIEndpoint" where
  "endpoint_of yc \<equiv> ycs_ControlPlaneEndpoint (yc_Spec yc)"

abbreviation has_finalizer :: "Lib \<Rightarrow> YandexCluster \<Rightarrow> bool" where
  "has_finalizer L yc \<equiv> ContainsFinalizer L (om_Finalizers (yc_Meta yc)) ClusterFinalizer"

lemma endpoint_zero_iff: "ep_Host ep = [] \<and> ep_Port ep = 0 \<longleftrightarrow> ep = zero_endpoint"
  by (cases ep) (simp add: zero_endpoint_def)

lemma only_conditions_trans:
  "only_conditions a b \<Longrightarrow> only_conditions b c \<Longrightarrow> only_conditions a c"
  by (auto simp: only_conditions_def YandexCluster_SetConditions_def)

text \<open>The switch: the endpoint after it is the listener's, and was the listener's or unset before.\<close>

definition settled :: "Lib \<Rightarrow> LoadBalancerStatus \<Rightarrow> YandexCluster \<Rightarrow> YandexCluster \<Rightarrow> bool" where
  "settled L state yc yc' \<longleftrightarrow>
     (let ep = \<lparr>ep_Host = lbst_ListenerAddress state, ep_Port = lbst_ListenerPort state\<rparr> in
      endpoint_of yc \<in> {zero_endpoint, ep} \<and> yc' = publish_status L state (set_endpoint ep yc))"

lemma set_endpoint_same: "set_endpoint (endpoint_of yc) yc = yc"
  by (simp add: set_endpoint_def)

lemma settledD:
  assumes "settled L state yc yc'"
  shows "yc_Meta yc' = yc_Meta yc" "ycst_Ready (yc_Status yc')"
    "endpoint_of yc' = \<lparr>ep_Host = lbst_ListenerAddress state, ep_Port = lbst_ListenerPort state\<rparr>"
    "endpoint_of yc = zero_endpoint \<or> endpoint_of yc' = endpoint_of yc"
    "ycs_LoadBalancer (yc_Spec yc') = ycs_LoadBalancer (yc_Spec yc)"
    "ycs_FolderID (yc_Spec yc') = ycs_FolderID (yc_Spec yc)"
    "yc_Spec yc' = (yc_Spec yc)\<lparr>ycs_ControlPlaneEndpoint := endpoint_of yc'\<rparr>"
    "ycst_LoadBalancer (yc_Status yc') =
      \<lparr>lbst_Name = [], lbst_ListenerAddress = lbst_ListenerAddress state, lbst_ListenerPort = lbst_ListenerPort state\<rparr>"
  using assms
  by (auto simp: settled_def publish_status_def set_endpoint_def ClusterScope_SetReady_def
      yc_mark_def YandexCluster_SetConditions_def Let_def)

lemma settle_endpoint_run:
  assumes "settle_endpoint L state s = (r, s')"
  obtains
    (settled) "r = Ok no_requeue" "settled L state (cluster_of s) (cluster_of s')"
      "c_world s' = c_world s" "cs_Cluster (c_scope s') = cs_Cluster (c_scope s)"
      "cs_before (c_scope s') = cs_before (c_scope s)"
  | (differs) "r = Err endpoint_differs" "s' = s"
proof -
  let ?ep = "\<lparr>ep_Host = lbst_ListenerAddress state, ep_Port = lbst_ListenerPort state\<rparr>"
  consider (unset) "endpoint_of (cluster_of s) = zero_endpoint"
    | (same) "endpoint_of (cluster_of s) = ?ep" "endpoint_of (cluster_of s) \<noteq> zero_endpoint"
    | (other) "endpoint_of (cluster_of s) \<noteq> zero_endpoint" "endpoint_of (cluster_of s) \<noteq> ?ep"
    by blast
  then show thesis
  proof cases
    case unset
    with assms show thesis
      by (intro settled) (auto simp: settle_endpoint_def settled_def zero_endpoint_def Let_def)
  next
    case same
    with assms have "s' = set_yc (publish_status L state) s" "r = Ok no_requeue"
      by (auto simp: settle_endpoint_def endpoint_zero_iff Let_def)
    moreover have "set_endpoint ?ep (cluster_of s) = cluster_of s"
      using same(1) set_endpoint_same by metis
    ultimately show thesis
      using same by (intro settled) (auto simp: settled_def Let_def)
  next
    case other
    then have "\<not> (ep_Host (endpoint_of (cluster_of s)) = lbst_ListenerAddress state \<and>
        ep_Port (endpoint_of (cluster_of s)) = lbst_ListenerPort state)"
      by (metis (full_types) APIEndpoint.surjective old.unit.exhaust)
    with assms other show thesis
      by (intro differs) (auto simp: settle_endpoint_def endpoint_zero_iff Let_def)
  qed
qed

lemma only_conditions_mark':
  "only_conditions sc (c_scope s) \<Longrightarrow> only_conditions sc (c_scope (set_yc (yc_mark f) s))"
  by (erule only_conditions_trans) (rule only_conditions_mark(1))

lemma lb_reconcile_error_apply:
  "lb_reconcile_error L e s =
     (Err (wrapf ''error reconciling load balancer: '' e),
      set_yc (yc_mark (MarkFalse L LoadBalancerReadyCondition ''load balancer reconcile error''
        (SeverityError L) (Error e))) s)"
  by (simp add: lb_reconcile_error_def)

context cloud_client
begin

lemma YandexCluster_reconcile_run:
  assumes run: "YandexCluster_reconcile L C s = (r, s')"
  obtains
    (finalizer) "\<not> has_finalizer L (cluster_of s)" "r = Ok \<lparr>Requeue = True, RequeueAfter = 0\<rparr>"
      "s' = set_yc (yc_finalizers (\<lambda>fs. AddFinalizer L fs ClusterFinalizer)) s"
  | (failed) q t where "has_finalizer L (cluster_of s)" "\<not> is_ok r"
      "LB_Reconcile L C s = (q, t)" "M (c_world s') = M (c_world t)"
      "only_conditions (c_scope s) (c_scope s')"
  | (inactive) t where "has_finalizer L (cluster_of s)" "r = Ok requeue_later"
      "LB_Reconcile L C s = (Ok (), t)" "M (c_world s') = M (c_world t)"
      "LB_IsActive C (c_scope t) (c_world t) = (Ok False, c_world s')" "c_scope s' = c_scope t"
  | (ready) t w1 state where "has_finalizer L (cluster_of s)" "r = Ok no_requeue"
      "LB_Reconcile L C s = (Ok (), t)" "M (c_world s') = M (c_world t)"
      "LB_IsActive C (c_scope t) (c_world t) = (Ok True, w1)"
      "LB_Describe C (c_scope t) w1 = (Ok state, c_world s')"
      "settled L state (cluster_of t) (cluster_of s')"
proof (cases "has_finalizer L (cluster_of s)")
  case False
  with run show thesis by (intro finalizer) (auto simp: YandexCluster_reconcile_def)
next
  case True
  note run' = run [unfolded YandexCluster_reconcile_def]
  obtain q t where q: "LB_Reconcile L C s = (q, t)" by fastforce
  then have same: "only_conditions (c_scope s) (c_scope t)" by (rule LB_Reconcile_sends)
  note fail = failed [OF True _ q]
  show thesis
  proof (cases "q = Ok ()")
    case False
    with run' True q same show thesis
      by (cases q) (auto intro!: fail simp: lb_reconcile_error_apply intro: only_conditions_mark')
  next
    case ok: True
    obtain a w1 where a: "LB_IsActive C (c_scope t) (c_world t) = (a, w1)" by fastforce
    then have M1: "M w1 = M (c_world t)" by (rule LB_reads)
    show thesis
    proof (cases "is_ok a")
      case False
      with run' True q ok a M1 same show thesis
        by (cases a) (auto intro!: fail simp: lb_reconcile_error_apply intro: only_conditions_mark')
    next
      case True
      then obtain act where act: "a = Ok act" by (cases a) auto
      show thesis
      proof (cases act)
        case False
        with run' \<open>has_finalizer L (cluster_of s)\<close> q ok a act M1 show thesis
          by (intro inactive [of t]) auto
      next
        case True
        obtain d w2 where d: "LB_Describe C (c_scope t) w1 = (d, w2)" by fastforce
        then have M2: "M w2 = M (c_world t)" using LB_reads(2) M1 by fastforce
        show thesis
        proof (cases d)
          case (Ok state)
          have "settle_endpoint L state (t\<lparr>c_world := w2\<rparr>) = (r, s')"
            using run' \<open>has_finalizer L (cluster_of s)\<close> q ok a act True d Ok by simp
          then show thesis
          proof (cases rule: settle_endpoint_run)
            case settled
            with \<open>has_finalizer L (cluster_of s)\<close> q ok a act True d Ok M2 show thesis
              by (intro ready [of t w1 state]) auto
          next
            case differs
            with M2 same show thesis by (intro fail) auto
          qed
        next
          case (Err e)
          with run' \<open>has_finalizer L (cluster_of s)\<close> q ok a act True d M2 same show thesis
            by (intro fail) (auto simp: lb_reconcile_error_apply intro: only_conditions_mark')
        next
          case (Panic m)
          with run' \<open>has_finalizer L (cluster_of s)\<close> q ok a act True d M2 same show thesis
            by (intro fail) auto
        qed
      qed
    qed
  qed
qed

lemma YandexCluster_reconcileDelete_run:
  assumes run: "YandexCluster_reconcileDelete L C s = (r, s')"
  obtains
    (skipped) "\<not> has_finalizer L (cluster_of s)" "r = Ok no_requeue" "s' = s"
  | (deleted) "has_finalizer L (cluster_of s)" "r = Ok no_requeue"
      "LB_Delete C (c_scope s) (c_world s) = (Ok True, c_world s')"
      "c_scope s' = c_scope (set_yc (yc_finalizers (\<lambda>fs. RemoveFinalizer L fs ClusterFinalizer)) s)"
  | (deleting) "has_finalizer L (cluster_of s)" "r = Ok requeue_later"
      "LB_Delete C (c_scope s) (c_world s) = (Ok False, c_world s')"
      "only_conditions (c_scope s) (c_scope s')"
  | (failed) q where "has_finalizer L (cluster_of s)" "\<not> is_ok r" "\<not> is_ok q"
      "LB_Delete C (c_scope s) (c_world s) = (q, c_world s')"
      "only_conditions (c_scope s) (c_scope s')"
proof (cases "has_finalizer L (cluster_of s)")
  case False
  with run have "r = Ok no_requeue" "s' = s" by (simp_all add: YandexCluster_reconcileDelete_def)
  with False show thesis by (rule skipped)
next
  case True
  obtain q w where q: "LB_Delete C (c_scope s) (c_world s) = (q, w)" by fastforce
  note run' = run [unfolded YandexCluster_reconcileDelete_def]
  show thesis
  proof (cases q)
    case (Ok b)
    show thesis
    proof (cases b)
      case True
      with run' \<open>has_finalizer L (cluster_of s)\<close> q Ok show thesis
        by (intro deleted) (auto simp: set_yc_def)
    next
      case False
      then have "s' = set_yc (yc_mark (MarkFalse L LoadBalancerReadyCondition (DeletingReason L)
          (SeverityInfo L) [])) (s\<lparr>c_world := w\<rparr>)" "r = Ok requeue_later"
        using run' True q Ok by auto
      with False True q Ok show thesis
        by (intro deleting) (auto intro: only_conditions_mark')
    qed
  next
    case (Err e)
    with run' True q show thesis
      by (intro failed [of q]) (auto intro: only_conditions_mark')
  next
    case (Panic m)
    with run' True q show thesis by (intro failed [of q]) auto
  qed
qed

end

section \<open>A whole reconciliation\<close>

lemma Close_run:
  assumes "ClusterScope_Close K s = (r, s')"
  shows "calls (c_world s') = calls (c_world s) @ [(C_PatchCluster (cluster_of s), is_ok r)]"
    "c_scope s' = c_scope s" "r \<noteq> Panic p"
  using assms
  by (auto simp: ClusterScope_Close_def ClusterScope_PatchObject_def in_world_apply Let_def
      dest: traced_run)

text \<open>The body that \<open>Close\<close> is deferred around, and what the deferred patch adds to it.\<close>

definition cluster_body :: "Lib \<Rightarrow> 'w Client \<Rightarrow> ('w ClusterState, Result) go" where
  "cluster_body L C =
     withG (\<lambda>s. if om_DeletionTimestamp (yc_Meta (cs_YandexCluster (c_scope s))) \<noteq> None
       then YandexCluster_reconcileDelete L C else YandexCluster_reconcile L C)"

lemma YandexCluster_scoped_run:
  assumes "YandexCluster_scoped L K C s = (r, s')"
  obtains r0 t ok where "cluster_body L C s = (r0, t)"
    "calls (c_world s') = calls (c_world t) @ [(C_PatchCluster (cluster_of t), ok)]"
    "is_ok r \<longleftrightarrow> is_ok r0 \<and> ok" "is_ok r \<Longrightarrow> r = r0" "\<not> is_ok r0 \<Longrightarrow> r = r0"
  using assms unfolding YandexCluster_scoped_def cluster_body_def [symmetric]
  by (elim deferG_run) (metis Close_run(1) Close_run(3))

lemma NewClusterScope_run:
  assumes "NewClusterScope \<lparr>csp_Client = Some K, csp_Cluster = Some cluster,
    csp_YandexCluster = Some yc, csp_YandexClient = Some C\<rparr> w = (r, w')"
  shows "calls w' = calls w" "metrics w' = metrics w"
    "is_ok r \<Longrightarrow> r = Ok \<lparr>cs_Cluster = cluster, cs_YandexCluster = yc, cs_before = yc\<rparr>"
  using assms by (auto simp: NewClusterScope_def tryG_cases dest: external_run)

lemma YandexCluster_Reconcile_run:
  assumes run: "YandexCluster_Reconcile L K C ns name w = (r, w')"
  obtains
    (idle) "calls w' = calls w" "metrics w' = metrics w" "r = Ok no_requeue \<or> \<not> is_ok r"
  | (scoped) yc cluster v w1 s' where "external (Get_YandexCluster K ns name) w = (Ok yc, v)"
      "\<not> IsPaused L cluster (yc_Meta yc)" "calls w1 = calls w" "metrics w1 = metrics w"
      "YandexCluster_scoped L K C
         \<lparr>c_scope = \<lparr>cs_Cluster = cluster, cs_YandexCluster = yc, cs_before = yc\<rparr>, c_world = w1\<rparr> = (r, s')"
      "w' = c_world s'" "fst (external (GetOwnerCluster K (yc_Meta yc)) v) = Ok (Some cluster)"
proof -
  obtain q v where g: "external (Get_YandexCluster K ns name) w = (q, v)" by fastforce
  note gv = external_run [OF g]
  note run' = run [unfolded YandexCluster_Reconcile_def]
  show thesis
  proof (cases q)
    case (Ok yc)
    obtain o1 v1 where o1: "external (GetOwnerCluster K (yc_Meta yc)) v = (o1, v1)" by fastforce
    note ov = external_run [OF o1]
    show thesis
    proof (cases "\<exists>cluster. o1 = Ok (Some cluster) \<and> \<not> IsPaused L cluster (yc_Meta yc)")
      case True
      then obtain cluster where cl: "o1 = Ok (Some cluster)" "\<not> IsPaused L cluster (yc_Meta yc)" by blast
      obtain n w1 where n: "NewClusterScope \<lparr>csp_Client = Some K, csp_Cluster = Some cluster,
          csp_YandexCluster = Some yc, csp_YandexClient = Some C\<rparr> v1 = (n, w1)" by fastforce
      note nv = NewClusterScope_run [OF n]
      show thesis
      proof (cases "is_ok n")
        case True
        then have "run_cluster_scope \<lparr>cs_Cluster = cluster, cs_YandexCluster = yc, cs_before = yc\<rparr>
            (YandexCluster_scoped L K C) w1 = (r, w')"
          using run' g Ok o1 cl n nv(3) by simp
        then obtain s1 where "YandexCluster_scoped L K C
            \<lparr>c_scope = \<lparr>cs_Cluster = cluster, cs_YandexCluster = yc, cs_before = yc\<rparr>, c_world = w1\<rparr> = (r, s1)"
          "w' = c_world s1"
          by (auto simp: run_cluster_scope_def split: prod.splits)
        with g Ok o1 cl ov gv nv show thesis by (intro scoped [of yc v cluster w1 s1]) auto
      next
        case False
        with run' g Ok o1 cl n nv ov gv show thesis by (intro idle; cases n) auto
      qed
    next
      case False
      with run' g Ok o1 ov gv show thesis
        by (intro idle; cases o1) (auto split: option.splits if_splits)
    qed
  qed (use run' g gv in \<open>intro idle; auto split: if_splits\<close>)+
qed

end
