(* ===== verification/Machine_Controller.thy ===== *)
theory Machine_Controller
  imports Compute Cluster_Controller
begin

text \<open>
  \<open>controllers/yandexmachine_controller.go\<close>: one reconciliation of a \<open>YandexMachine\<close>, and the map from
  a \<open>YandexCluster\<close> to the machines to reconcile when it changes.
\<close>

section \<open>Reconciliation\<close>

definition ym_finalizers :: "(string list \<Rightarrow> string list) \<Rightarrow> YandexMachine \<Rightarrow> YandexMachine" where
  "ym_finalizers f ym = ym\<lparr>ym_Meta := (ym_Meta ym)\<lparr>om_Finalizers := f (om_Finalizers (ym_Meta ym))\<rparr>\<rparr>"

text \<open>The switch over \<open>*machineScope.GetInstanceStatus()\<close>.\<close>

definition settle_instance :: "Lib \<Rightarrow> ('w MachineState, Result) go" where
  "settle_instance L =
     withG (\<lambda>s. case MachineScope_GetInstanceStatus (machine_of s) of
       None \<Rightarrow> panic ''nil pointer dereference''
     | Some instanceState \<Rightarrow>
         if instanceState = InstanceStatusStarting \<or> instanceState = InstanceStatusProvisioning
         then ret requeue_later
         else if instanceState = InstanceStatusRunning
         then thenG (modifyG (set_ym MachineScope_SetReady)) (ret no_requeue)
         else
           thenG (modifyG (set_ym (MachineScope_SetFailureReason (UpdateMachineError L))))
           (thenG (modifyG (set_ym (MachineScope_SetFailureMessage
               (Errorf (''YandexMachine instance state '' @ instanceState @ '' is unexpected'')))))
           (ret requeue_later)))"

definition YandexMachine_reconcile ::
    "Lib \<Rightarrow> 'e Kube \<Rightarrow> 'e World ClusterGetter \<Rightarrow> 'e World LoadBalancerI \<Rightarrow>
       ('e World MachineState, Result) go" where
  "YandexMachine_reconcile L K cg LB =
     thenG (modifyG (set_ym (ym_finalizers (\<lambda>fs. AddFinalizer L fs MachineFinalizer))))
     (tryG (MachineScope_PatchObject K)
       (\<lambda>_. withG (\<lambda>s.
          if ma_DataSecretName (ms_Machine (m_scope s)) = None then ret no_requeue
          else tryG (Compute_Reconcile L K cg LB)
            (\<lambda>_. settle_instance L)
            (\<lambda>e. raise (wrapf ''error reconciling instance resources: '' e))))
       (\<lambda>e. raise (wrapf ''failed to add finalizer: '' e)))"

definition YandexMachine_reconcileDelete ::
    "Lib \<Rightarrow> 'e World ClusterGetter \<Rightarrow> 'e World LoadBalancerI \<Rightarrow> ('e World MachineState, Result) go" where
  "YandexMachine_reconcileDelete L cg LB =
     tryG (Compute_Delete L cg LB)
       (\<lambda>deleted.
          if deleted then
            thenG (modifyG (set_ym (ym_finalizers (\<lambda>fs. RemoveFinalizer L fs MachineFinalizer))))
              (ret no_requeue)
          else ret requeue_later)
       (\<lambda>e. raise (wrapf ''error deleting instance resources: '' e))"

definition YandexMachine_scoped ::
    "Lib \<Rightarrow> 'e Kube \<Rightarrow> 'e World ClusterGetter \<Rightarrow> 'e World LoadBalancerI \<Rightarrow>
       ('e World MachineState, Result) go" where
  "YandexMachine_scoped L K cg LB =
     deferG (MachineScope_Close K)
       (withG (\<lambda>s. if om_DeletionTimestamp (ym_Meta (machine_of s)) \<noteq> None
          then YandexMachine_reconcileDelete L cg LB
          else YandexMachine_reconcile L K cg LB))"

definition run_machine_scope :: "MachineScope \<Rightarrow> ('w MachineState, 'a) go \<Rightarrow> ('w, 'a) go" where
  "run_machine_scope sc m w =
     (case m \<lparr>m_scope = sc, m_world = w\<rparr> of (r, s) \<Rightarrow> (r, m_world s))"

text \<open>The part of \<open>Reconcile\<close> that follows the fetch of the \<open>Cluster\<close>.\<close>

definition machine_in_cluster ::
    "Lib \<Rightarrow> 'e Kube \<Rightarrow> 'e World Client \<Rightarrow> YandexMachine \<Rightarrow> Machine \<Rightarrow> Cluster \<Rightarrow> ('e World, Result) go" where
  "machine_in_cluster L K C yandexMachine machine cluster =
     (if IsPaused L cluster (ym_Meta yandexMachine) then ret no_requeue
      else (case cl_InfrastructureRef cluster of
        None \<Rightarrow> panic ''nil pointer dereference''
      | Some infra \<Rightarrow>
          tryG (external (Get_YandexCluster K (om_Namespace (ym_Meta yandexMachine)) infra))
            (\<lambda>yandexCluster.
               bindG (NewClusterScope
                 \<lparr>csp_Client = Some K, csp_Cluster = Some cluster,
                  csp_YandexCluster = Some yandexCluster, csp_YandexClient = Some C\<rparr>)
               (\<lambda>clusterScope.
                  let LB = loadbalancer_New C clusterScope;
                      cg = ClusterScope_getter C clusterScope in
                  bindG (NewMachineScope
                    \<lparr>msp_Client = Some K, msp_ClusterGetter = cg, msp_LoadBalancer = Some LB,
                     msp_Machine = Some machine, msp_YandexMachine = Some yandexMachine\<rparr>)
                  (\<lambda>machineScope.
                     run_machine_scope machineScope (YandexMachine_scoped L K cg LB))))
            (\<lambda>_. ret no_requeue)))"

definition YandexMachine_Reconcile ::
    "Lib \<Rightarrow> 'e Kube \<Rightarrow> 'e World Client \<Rightarrow> string \<Rightarrow> string \<Rightarrow> ('e World, Result) go" where
  "YandexMachine_Reconcile L K C ns name =
     tryG (external (Get_YandexMachine K ns name))
       (\<lambda>yandexMachine.
          bindG (external (GetOwnerMachine K (ym_Meta yandexMachine))) (\<lambda>owner.
          case owner of
            None \<Rightarrow> ret no_requeue
          | Some machine \<Rightarrow>
              tryG (external (GetClusterFromMetadata K (ma_Meta machine)))
                (machine_in_cluster L K C yandexMachine machine)
                (\<lambda>_. ret no_requeue)))
       (\<lambda>e. if Apierrors_IsNotFound L e then ret no_requeue
            else raise (wrapf ''error occurred while fetching YandexMachine resource: '' e))"

section \<open>From a cluster to its machines\<close>

fun machine_requests :: "Machine list \<Rightarrow> (string \<times> string) list" where
  "machine_requests [] = []"
| "machine_requests (m # ms) =
     (if ma_InfrastructureRef m = [] then machine_requests ms
      else (om_Namespace (ma_Meta m), ma_InfrastructureRef m) # machine_requests ms)"

definition YandexClusterToYandexMachines ::
    "'e Kube \<Rightarrow> runtime_object \<Rightarrow> ('e World, (string \<times> string) list) go" where
  "YandexClusterToYandexMachines K ob =
     (case ob of
        Obj_YandexCluster c \<Rightarrow>
          tryG (external (GetOwnerCluster K (yc_Meta c)))
            (\<lambda>owner. case owner of
               None \<Rightarrow> ret []
             | Some cluster \<Rightarrow>
                 (let labels = [ClusterNameLabel \<mapsto> om_Name (cl_Meta cluster)] in
                  tryG (external (List_Machines K (om_Namespace (yc_Meta c)) labels))
                    (\<lambda>items. ret (machine_requests items))
                    (\<lambda>_. ret [])))
            (\<lambda>_. ret [])
      | _ \<Rightarrow> ret [])"

section \<open>Facts\<close>

lemma machine_requests_map:
  "machine_requests ms =
     map (\<lambda>m. (om_Namespace (ma_Meta m), ma_InfrastructureRef m))
       (filter (\<lambda>m. ma_InfrastructureRef m \<noteq> []) ms)"
  by (induction ms) auto

abbreviation has_machine_finalizer :: "Lib \<Rightarrow> YandexMachine \<Rightarrow> bool" where
  "has_machine_finalizer L ym \<equiv> ContainsFinalizer L (om_Finalizers (ym_Meta ym)) MachineFinalizer"

lemma ym_finalizers_simps [simp]:
  "ym_Spec (ym_finalizers f ym) = ym_Spec ym" "ym_Status (ym_finalizers f ym) = ym_Status ym"
  "om_Finalizers (ym_Meta (ym_finalizers f ym)) = f (om_Finalizers (ym_Meta ym))"
  by (simp_all add: ym_finalizers_def)

lemma GetInstanceID_finalizers [simp]:
  "MachineScope_GetInstanceID (ym_finalizers f ym) = MachineScope_GetInstanceID ym"
  by (rule instance_id_spec) simp

text \<open>After a successful pass of the compute service there is a status: the dereference is safe.\<close>

lemma instanceFound_status:
  "instanceFound L LB vm s = (Ok u, s') \<Longrightarrow>
     MachineScope_GetInstanceStatus (machine_of s') = Some (in_Status vm)"
  by (auto simp: instanceFound_def thenG_def bindG_Ok_iff)

lemma instanceMissing_status:
  "instanceMissing L e s = (Ok u, s') \<Longrightarrow>
     MachineScope_GetInstanceStatus (machine_of s') = Some InstanceStatusDeleted \<and> IsNotFound L (Some e)"
  by (auto simp: instanceMissing_def thenG_def bindG_Ok_iff mark_apply MachineScope_GetInstanceStatus_def
      split: if_splits)
    (auto simp: MachineScope_SetInstanceStatus_def)

lemma Compute_Reconcile_status:
  assumes "Compute_Reconcile L K cg LB s = (Ok u, s')"
  obtains vm t w where "ComputeGet (GetClient cg) (instance_id t) (m_world t) = (Ok vm, w)"
      "ensureInstance L K cg s = (Ok (), t)"
      "MachineScope_GetInstanceStatus (machine_of s') = Some (in_Status vm)"
  | e t w where "ComputeGet (GetClient cg) (instance_id t) (m_world t) = (Err e, w)"
      "ensureInstance L K cg s = (Ok (), t)" "IsNotFound L (Some e)"
      "MachineScope_GetInstanceStatus (machine_of s') = Some InstanceStatusDeleted"
  using assms
  by (auto simp: Compute_Reconcile_def thenG_def bindG_Ok_iff tryG_cases in_mworld_apply
      dest!: instanceFound_status instanceMissing_status)

text \<open>A running instance: its address is recorded, and a control plane machine is registered.\<close>

lemma instanceFound_running:
  assumes "instanceFound L LB vm s = (Ok u, s')" "in_Status vm = InstanceStatusRunning"
  obtains a where "getInstanceAddress L vm = Inr [a]"
    "MachineScope_GetAddresses (machine_of s') = [a]"
    "MachineScope_IsControlPlane L (m_scope s) \<Longrightarrow>
       \<exists>ni w. AddTarget LB (na_Address a) (ni_SubnetID ni) (m_world s) = (Ok (), w) \<and>
         hd (yms_NetworkInterfaces (ym_Spec (machine_of s))) = ni"
proof -
  obtain as where a: "getInstanceAddress L vm = Inr as"
    using assms by (cases "getInstanceAddress L vm") (auto simp: instanceFound_def thenG_def bindG_Ok_iff)
  then obtain x where x: "as = [x]"
    by (auto simp: getInstanceAddress_def Let_def split: if_splits)
  let ?t = "set_ym (MachineScope_SetAddresses as) s"
  have cp: "MachineScope_IsControlPlane L (m_scope ?t) = MachineScope_IsControlPlane L (m_scope s)"
    by (simp add: MachineScope_IsControlPlane_def)
  have keep: "MachineScope_GetAddresses (MachineScope_SetInstanceStatus v ym) = MachineScope_GetAddresses ym"
    "MachineScope_GetAddresses (ym_mark f ym) = MachineScope_GetAddresses ym" for v f ym
    by (simp_all add: MachineScope_GetAddresses_def)
  show thesis
  proof (cases "MachineScope_IsControlPlane L (m_scope s)")
    case True
    obtain q v where reg: "registerControlPlane LB ?t = (q, v)" by fastforce
    have q: "q = Ok ()" and s': "machine_of s' = MachineScope_SetInstanceStatus (in_Status vm)
        (ym_mark (MarkTrue L ConditionStatusRunning) (machine_of v))"
      using assms a cp True reg
      by (cases q; auto simp: instanceFound_def thenG_def bindG_Ok_iff mark_apply)+
    obtain ni nis w where w: "yms_NetworkInterfaces (ym_Spec (machine_of s)) = ni # nis"
        "AddTarget LB (na_Address x) (ni_SubnetID ni) (m_world s) = (Ok (), w)" "m_scope v = m_scope ?t"
      using reg q x
      by (auto simp: registerControlPlane_def Let_def in_mworld_apply split: list.splits)
    with that a x s' keep show thesis by simp
  next
    case False
    then have "machine_of s' = MachineScope_SetInstanceStatus (in_Status vm)
        (ym_mark (MarkTrue L ConditionStatusRunning) (machine_of ?t))"
      using assms a cp by (auto simp: instanceFound_def thenG_def bindG_Ok_iff mark_apply)
    with that a x keep False show thesis by simp
  qed
qed

section \<open>A whole reconciliation\<close>

lemma PatchObject_run:
  assumes "MachineScope_PatchObject K s = (r, s')"
  shows "calls (m_world s') = calls (m_world s) @ [(C_PatchMachine (machine_of s), is_ok r)]"
    "m_scope s' = m_scope s" "r \<noteq> Panic p"
  using assms
  by (auto simp: MachineScope_PatchObject_def in_mworld_apply Let_def dest: traced_run)

definition machine_body ::
    "Lib \<Rightarrow> 'e Kube \<Rightarrow> 'e World ClusterGetter \<Rightarrow> 'e World LoadBalancerI \<Rightarrow>
       ('e World MachineState, Result) go" where
  "machine_body L K cg LB =
     withG (\<lambda>s. if om_DeletionTimestamp (ym_Meta (machine_of s)) \<noteq> None
       then YandexMachine_reconcileDelete L cg LB else YandexMachine_reconcile L K cg LB)"

lemma YandexMachine_scoped_run:
  assumes "YandexMachine_scoped L K cg LB s = (r, s')"
  obtains r0 t ok where "machine_body L K cg LB s = (r0, t)"
    "calls (m_world s') = calls (m_world t) @ [(C_PatchMachine (machine_of t), ok)]"
    "is_ok r \<longleftrightarrow> is_ok r0 \<and> ok" "is_ok r \<Longrightarrow> r = r0" "\<not> is_ok r0 \<Longrightarrow> r = r0"
  using assms unfolding YandexMachine_scoped_def machine_body_def [symmetric] MachineScope_Close_def
  by (elim deferG_run) (metis PatchObject_run(1) PatchObject_run(3))

text \<open>A pass that is not a deletion: the finalizer is persisted before anything else happens.\<close>

lemma YandexMachine_reconcile_run:
  assumes run: "YandexMachine_reconcile L K cg LB s = (r, s')"
  defines "s1 \<equiv> set_ym (ym_finalizers (\<lambda>fs. AddFinalizer L fs MachineFinalizer)) s"
  obtains
    (unpatched) "\<not> is_ok r" "m_scope s' = m_scope s1"
      "calls (m_world s') = calls (m_world s) @ [(C_PatchMachine (machine_of s1), False)]"
  | (waiting) "r = Ok no_requeue" "ma_DataSecretName (ms_Machine (m_scope s)) = None"
      "m_scope s' = m_scope s1"
      "calls (m_world s') = calls (m_world s) @ [(C_PatchMachine (machine_of s1), True)]"
  | (pass) t q u where "ma_DataSecretName (ms_Machine (m_scope s)) \<noteq> None" "m_scope t = m_scope s1"
      "calls (m_world t) = calls (m_world s) @ [(C_PatchMachine (machine_of s1), True)]"
      "Compute_Reconcile L K cg LB t = (q, u)"
      "if is_ok q then settle_instance L u = (r, s') else \<not> is_ok r \<and> s' = u"
proof -
  obtain p t where p: "MachineScope_PatchObject K s1 = (p, t)" by fastforce
  note pr = PatchObject_run [OF p]
  have w1: "m_world s1 = m_world s" "ms_Machine (m_scope s1) = ms_Machine (m_scope s)"
    by (simp_all add: s1_def)
  note run' = run [unfolded YandexMachine_reconcile_def]
  show thesis
  proof (cases p)
    case (Ok x)
    show thesis
    proof (cases "ma_DataSecretName (ms_Machine (m_scope s)) = None")
      case True
      with run' p Ok pr w1 show thesis by (intro waiting) (auto simp: s1_def)
    next
      case False
      obtain q u where q: "Compute_Reconcile L K cg LB t = (q, u)" by fastforce
      with run' p Ok pr w1 False show thesis
        by (intro pass [of t q u]; cases q) (auto simp: s1_def)
    qed
  next
    case (Err e)
    with run' p pr w1 show thesis by (intro unpatched) (auto simp: s1_def)
  qed (use pr in simp)
qed

text \<open>What the switch leaves, given the status it looks at.\<close>

definition instance_settled :: "InstanceStatus \<Rightarrow> Result outcome \<Rightarrow> YandexMachine \<Rightarrow> YandexMachine \<Rightarrow> bool" where
  "instance_settled v r ym ym' \<longleftrightarrow>
     ym_Spec ym' = ym_Spec ym \<and> ym_Meta ym' = ym_Meta ym \<and>
     MachineScope_GetInstanceStatus ym' = Some v \<and>
     MachineScope_GetAddresses ym' = MachineScope_GetAddresses ym \<and>
     r = Ok (if v = InstanceStatusRunning then no_requeue else requeue_later) \<and>
     (ymst_Ready (ym_Status ym') \<longleftrightarrow> v = InstanceStatusRunning \<or> ymst_Ready (ym_Status ym)) \<and>
     ymst_FailureMessage (ym_Status ym') =
       (if v \<in> {InstanceStatusRunning, InstanceStatusStarting, InstanceStatusProvisioning}
        then ymst_FailureMessage (ym_Status ym)
        else Some (''YandexMachine instance state '' @ v @ '' is unexpected''))"

lemma settle_instance_run:
  assumes "settle_instance L s = (r, s')" "MachineScope_GetInstanceStatus (machine_of s) = Some v"
  shows "m_world s' = m_world s" "instance_settled v r (machine_of s) (machine_of s')"
proof -
  have d: "InstanceStatusRunning \<noteq> InstanceStatusStarting" "InstanceStatusRunning \<noteq> InstanceStatusProvisioning"
    by (simp_all add: instance_status_defs)
  show "m_world s' = m_world s" "instance_settled v r (machine_of s) (machine_of s')"
    using assms d
    by (auto simp: settle_instance_def instance_settled_def MachineScope_SetReady_def
        MachineScope_SetFailureReason_def MachineScope_SetFailureMessage_def
        MachineScope_GetInstanceStatus_def MachineScope_GetAddresses_def split: if_splits)
qed

lemma NewMachineScope_run:
  assumes "NewMachineScope \<lparr>msp_Client = Some K, msp_ClusterGetter = cg, msp_LoadBalancer = Some LB,
    msp_Machine = Some machine, msp_YandexMachine = Some ym\<rparr> w = (r, w')"
  shows "calls w' = calls w" "metrics w' = metrics w"
    "is_ok r \<Longrightarrow> r = Ok \<lparr>ms_Machine = machine, ms_YandexMachine = ym, ms_before = ym\<rparr>"
  using assms by (auto simp: NewMachineScope_def tryG_cases dest: external_run)

lemma machine_in_cluster_run:
  assumes run: "machine_in_cluster L K C ym machine cluster w = (r, w')"
  obtains
    (idle) "calls w' = calls w" "metrics w' = metrics w" "r = Ok no_requeue \<or> \<not> is_ok r"
  | (scoped) yc w1 s' sc where "\<not> IsPaused L cluster (ym_Meta ym)" "calls w1 = calls w"
      "metrics w1 = metrics w" "sc = \<lparr>cs_Cluster = cluster, cs_YandexCluster = yc, cs_before = yc\<rparr>"
      "YandexMachine_scoped L K (ClusterScope_getter C sc) (loadbalancer_New C sc)
         \<lparr>m_scope = \<lparr>ms_Machine = machine, ms_YandexMachine = ym, ms_before = ym\<rparr>, m_world = w1\<rparr> = (r, s')"
      "w' = m_world s'"
proof (cases "IsPaused L cluster (ym_Meta ym) \<or> cl_InfrastructureRef cluster = None")
  case True
  with run show thesis by (intro idle) (auto simp: machine_in_cluster_def split: if_splits)
next
  case False
  then obtain infra where infra: "cl_InfrastructureRef cluster = Some infra" by auto
  note run' = run [unfolded machine_in_cluster_def]
  from run' False infra show thesis
  proof (simp, elim tryG_external)
    fix yc v
    assume v: "calls v = calls w" "metrics v = metrics w"
      and k: "bindG (NewClusterScope \<lparr>csp_Client = Some K, csp_Cluster = Some cluster,
          csp_YandexCluster = Some yc, csp_YandexClient = Some C\<rparr>)
        (\<lambda>sc. let LB = loadbalancer_New C sc; cg = ClusterScope_getter C sc in
           bindG (NewMachineScope \<lparr>msp_Client = Some K, msp_ClusterGetter = cg,
             msp_LoadBalancer = Some LB, msp_Machine = Some machine, msp_YandexMachine = Some ym\<rparr>)
           (\<lambda>ms. run_machine_scope ms (YandexMachine_scoped L K cg LB))) v = (r, w')"
    let ?sc = "\<lparr>cs_Cluster = cluster, cs_YandexCluster = yc, cs_before = yc\<rparr>"
    let ?cg = "ClusterScope_getter C ?sc" and ?LB = "loadbalancer_New C ?sc"
    obtain n u where n: "NewClusterScope \<lparr>csp_Client = Some K, csp_Cluster = Some cluster,
        csp_YandexCluster = Some yc, csp_YandexClient = Some C\<rparr> v = (n, u)" by fastforce
    note nv = NewClusterScope_run [OF n]
    show thesis
    proof (cases "is_ok n")
      case True
      obtain m x where m: "NewMachineScope \<lparr>msp_Client = Some K, msp_ClusterGetter = ?cg,
          msp_LoadBalancer = Some ?LB, msp_Machine = Some machine, msp_YandexMachine = Some ym\<rparr> u = (m, x)"
        by fastforce
      note mv = NewMachineScope_run [OF m]
      show thesis
      proof (cases "is_ok m")
        case ok: True
        with k n m True nv mv have "run_machine_scope
            \<lparr>ms_Machine = machine, ms_YandexMachine = ym, ms_before = ym\<rparr>
            (YandexMachine_scoped L K ?cg ?LB) x = (r, w')" by (simp add: Let_def)
        then obtain s1 where "YandexMachine_scoped L K ?cg ?LB
            \<lparr>m_scope = \<lparr>ms_Machine = machine, ms_YandexMachine = ym, ms_before = ym\<rparr>, m_world = x\<rparr> = (r, s1)"
            "w' = m_world s1"
          by (auto simp: run_machine_scope_def split: prod.splits)
        with False v nv mv show thesis by (intro scoped [of x ?sc yc s1]) auto
      next
        case bad: False
        with k n m True v nv mv show thesis by (intro idle; cases m) (auto simp: Let_def)
      qed
    next
      case False
      with k n v nv show thesis by (intro idle; cases n) auto
    qed
  qed (use idle in auto)
qed

lemma YandexMachine_Reconcile_run:
  assumes run: "YandexMachine_Reconcile L K C ns name w = (r, w')"
  obtains
    (idle) "calls w' = calls w" "metrics w' = metrics w" "r = Ok no_requeue \<or> \<not> is_ok r"
  | (scoped) ym machine cluster yc v w1 s' sc where
      "external (Get_YandexMachine K ns name) w = (Ok ym, v)"
      "fst (external (GetOwnerMachine K (ym_Meta ym)) v) = Ok (Some machine)"
      "\<not> IsPaused L cluster (ym_Meta ym)" "calls w1 = calls w" "metrics w1 = metrics w"
      "sc = \<lparr>cs_Cluster = cluster, cs_YandexCluster = yc, cs_before = yc\<rparr>"
      "YandexMachine_scoped L K (ClusterScope_getter C sc) (loadbalancer_New C sc)
         \<lparr>m_scope = \<lparr>ms_Machine = machine, ms_YandexMachine = ym, ms_before = ym\<rparr>, m_world = w1\<rparr> = (r, s')"
      "w' = m_world s'"
  using run [unfolded YandexMachine_Reconcile_def]
proof (cases rule: tryG_external)
  case (err e v)
  then show thesis by (intro idle) (auto split: if_splits)
next
  case outer: (ok ym v)
  from outer(4) show thesis
  proof (cases rule: bindG_external)
    case err
    with outer show thesis by (intro idle) auto
  next
    case own: (ok owner v1)
    show thesis
    proof (cases owner)
      case None
      with own outer show thesis by (intro idle) auto
    next
      case (Some machine)
      with own(4) have "tryG (external (GetClusterFromMetadata K (ma_Meta machine)))
        (machine_in_cluster L K C ym machine) (\<lambda>_. ret no_requeue) v1 = (r, w')" by simp
      then show thesis
      proof (cases rule: tryG_external)
        case (err e u)
        with own outer show thesis by (intro idle) auto
      next
        case cl: (ok cluster v2)
        from cl(4) show thesis
        proof (cases rule: machine_in_cluster_run)
          case a: idle
          from idle [OF _ _ a(3)] a(1,2) cl own outer show thesis by simp
        next
          case b: (scoped yc w1 s' sc)
          have "fst (external (GetOwnerMachine K (ym_Meta ym)) v) = Ok (Some machine)"
            "calls w1 = calls w" "metrics w1 = metrics w"
            using b(2,3) cl own(1-3) Some outer by simp_all
          from scoped [OF outer(1) this(1) b(1) this(2,3) b(4-6)] show thesis .
        qed
      qed
    qed
  qed
qed

end
