(* ===== verification/Runs.thy ===== *)
theory Runs
  imports Machine_Controller
begin

text \<open>
  What the witnesses share: the world in which they start, the bundles of definitions with which a
  concrete run is evaluated, and the run on the simulated cloud for each of the provider's entry
  points.
\<close>

definition start :: "'e \<Rightarrow> 'e World" where
  "start e = \<lparr>env = e, calls = [], metrics = no_metrics\<rparr>"

lemma start_simps [simp]:
  "env (start e) = e" "calls (start e) = []" "metrics (start e) = no_metrics" "mutations (start e) = []"
  by (simp_all add: start_def mutations_def)

lemma start_in_sync: "metrics_in_sync (start e)"
  by (simp add: metrics_in_sync_def start_def metrics_of_Nil)

lemmas lb_run_defs = LB_Reconcile_def LB_Delete_def LB_Describe_def LB_AddTarget_def
  LB_RemoveTarget_def LB_IsActive_def reconcileALBService_def reconcileALB_def deleteALBService_def
  describeALB_def addTargetALB_def removeTargetALB_def isActiveALB_def reconcileALBTargetGroup_def
  reconcileALBBackendGroup_def deleteApplicationLoadBalancer_def deleteALBTargetGroup_def
  deleteALBBackendGroup_def getInternalAddress_def getInternalPort_def first_endpoint_def
  target_builder_def alb_builder_def yc_mark_def resourceDeleted_def resourceNotDeleted_def
  GetStatus_def isAddressRegisteredALB_def

lemmas builder_run_defs = tg_builder_defs bg_builder_defs alb_builder_defs TG_Build_def BG_Build_def
  ALB_Build_def createListenerSpec_def BuildAddTargetRequest_def BuildRemoveTargetRequest_def

lemmas scope_run_defs = ClusterScope_GetLBName_def ClusterScope_GetLBType_def
  ClusterScope_GetFolderID_def ClusterScope_GetNetworkID_def ClusterScope_GetLabels_def
  ClusterScope_ControlPlaneEndpoint_def ClusterScope_GetLBSpec_def ClusterScope_Name_def
  LoadBalancerTypeALB_def LoadBalancerTypeNLB_def zero_endpoint_def in_world_def set_yc_def
  ClusterScope_SetReady_def YandexCluster_SetConditions_def YandexCluster_GetConditions_def

lemmas cluster_run_defs = YandexCluster_Reconcile_def YandexCluster_scoped_def
  YandexCluster_reconcile_def YandexCluster_reconcileDelete_def run_cluster_scope_def
  NewClusterScope_def settle_endpoint_def publish_status_def set_endpoint_def ClusterScope_Close_def
  ClusterScope_PatchObject_def yc_finalizers_def

lemmas world_run_defs = external_def traced_def observed_def ObserveRequest_def observe_def
  NewMetricContext_def YandexClient_getMeta_def client_method_defs start_def go_core deferG_def
  mutations_def is_mutation_def

lemmas evaluate = lb_run_defs builder_run_defs scope_run_defs cluster_run_defs world_run_defs
  sim_defs Let_def

lemmas machine_run_defs = YandexMachine_Reconcile_def machine_in_cluster_def YandexMachine_scoped_def
  YandexMachine_reconcile_def YandexMachine_reconcileDelete_def run_machine_scope_def
  NewMachineScope_def MachineScope_Close_def MachineScope_PatchObject_def
  ym_finalizers_def settle_instance_def Compute_Reconcile_def Compute_Delete_def ensureInstance_def
  createComputeInstance_def GetInstanceReq_def GetBootstrapData_def instanceFound_def
  instanceMissing_def getInstanceAddress_def GetPrimaryAddress_def registerControlPlane_def
  deregisterControlPlane_def mark_def ym_mark_def in_mworld_def set_ym_def
  ClusterScope_getter_def IsNotFound_def instanceDeleted_def instanceNotDeleted_def
  instance_status_defs

lemmas machine_field_unfold = MachineScope_GetInstanceID_def MachineScope_GetProviderID_def
  MachineScope_SetProviderID_def MachineScope_SetAddresses_def MachineScope_GetAddresses_def
  MachineScope_SetInstanceStatus_def MachineScope_GetInstanceStatus_def MachineScope_SetReady_def
  MachineScope_IsControlPlane_def MachineScope_Name_def MachineScope_Namespace_def
  MachineScope_SetFailureMessage_def MachineScope_SetFailureReason_def
  YandexMachine_SetConditions_def YandexMachine_GetConditions_def parseProviderID_def
  ProviderIDPrefix_def TrimPrefix_def

lemmas evaluate_machine = machine_run_defs machine_field_unfold

abbreviation sim_machine_run :: "Sim \<Rightarrow> Result outcome \<times> Sim World" where
  "sim_machine_run e \<equiv>
     YandexMachine_Reconcile sim_lib sim_kube (YandexClient sim_sdk) ''default'' ''m1'' (start e)"

abbreviation sim_cluster_run :: "Sim \<Rightarrow> Result outcome \<times> Sim World" where
  "sim_cluster_run e \<equiv>
     YandexCluster_Reconcile sim_lib sim_kube (YandexClient sim_sdk) ''default'' ''c1'' (start e)"

definition sim_scope :: ClusterScope where
  "sim_scope = \<lparr>cs_Cluster = sim_cluster, cs_YandexCluster = sim_yandex_cluster [ClusterFinalizer],
     cs_before = sim_yandex_cluster [ClusterFinalizer]\<rparr>"

text \<open>
  Starting points: a cluster that was just created, one that is being deleted in an empty cloud, and
  the read of the object that opens a pass.
\<close>

definition sim_fresh :: Sim where
  "sim_fresh = sim_empty\<lparr>sim_yc := sim_yandex_cluster []\<rparr>"

definition sim_leaving :: Sim where
  "sim_leaving = sim_empty\<lparr>sim_yc := (sim_yandex_cluster [ClusterFinalizer])\<lparr>yc_Meta :=
     (sim_object ''c1'' [ClusterFinalizer])\<lparr>om_DeletionTimestamp := Some ''now''\<rparr>\<rparr>\<rparr>"

lemmas sim_starts = sim_fresh_def sim_leaving_def

lemma sim_fetch: "external (Get_YandexCluster sim_kube ns n) (start e) = (Ok (sim_yc e), start e)"
  by (simp add: external_def start_def)

lemma sim_machine_fetch:
  "external (Get_YandexMachine sim_kube ns n) (start e) = (Ok (sim_ym e), start e)"
  by (simp add: external_def start_def)

text \<open>A machine that is being deleted and never got an instance.\<close>

definition sim_unborn :: Sim where
  "sim_unborn = sim_empty\<lparr>sim_ym := (sim_yandex_machine None)\<lparr>ym_Meta :=
     (sim_object ''m1'' [MachineFinalizer])\<lparr>om_DeletionTimestamp := Some ''now''\<rparr>\<rparr>\<rparr>"

end
