(* ===== verification/Balancer_Properties.thy ===== *)
theory Balancer_Properties
  imports Runs
begin

text \<open>
  What the load balancer service promises, on the provider's own client: the order of deletion and of
  creation, what it refuses, and its target operations.
\<close>

section \<open>Deletion\<close>

text \<open>
  C15: one pass of \<open>Delete\<close> asks the cloud for at most one deletion.  It asks for the load balancer
  only when that exists and is not already going, for the backend group only when no load balancer
  was found, for the target group only when neither was found, and it reports success only when
  none of the three was found, in which case it asked for nothing.
\<close>

theorem delete_order:
  fixes sdk :: "'e SDK"
  assumes run: "LB_Delete (YandexClient sdk) sc w = (r, w')"
  defines "folder \<equiv> ClusterScope_GetFolderID sc" and "name \<equiv> ClusterScope_GetLBName sc"
  shows "\<exists>cs. mutations w' = mutations w @ cs \<and>
    (cs = [] \<or>
     (\<exists>l. fst (YandexClient_ALBGetByName sdk folder name w) = Ok (Some l) \<and>
        lb_Status l \<notin> {LB_DELETING, LB_STOPPING} \<and> cs = [C_LoadBalancerDelete (lb_Id l)] \<and> r \<noteq> Ok True) \<or>
     (\<exists>b w1. YandexClient_ALBGetByName sdk folder name w = (Ok None, w1) \<and>
        fst (YandexClient_ALBBackendGroupGetByName sdk folder name w1) = Ok (Some b) \<and>
        cs = [C_BackendGroupDelete (bg_Id b)] \<and> r \<noteq> Ok True) \<or>
     (\<exists>t w1 w2. YandexClient_ALBGetByName sdk folder name w = (Ok None, w1) \<and>
        YandexClient_ALBBackendGroupGetByName sdk folder name w1 = (Ok None, w2) \<and>
        fst (YandexClient_ALBTargetGroupGetByName sdk folder name w2) = Ok (Some t) \<and>
        cs = [C_TargetGroupDelete (tg_Id t)] \<and> r \<noteq> Ok True)) \<and>
    (r = Ok True \<longrightarrow> cs = [] \<and>
      (\<exists>w1 w2. YandexClient_ALBGetByName sdk folder name w = (Ok None, w1) \<and>
         YandexClient_ALBBackendGroupGetByName sdk folder name w1 = (Ok None, w2) \<and>
         YandexClient_ALBTargetGroupGetByName sdk folder name w2 = (Ok None, w')))"
proof (cases "ClusterScope_GetLBType sc = LoadBalancerTypeALB")
  case True
  with run have "deleteALBService (YandexClient sdk) sc w = (r, w')" by (simp add: LB_Delete_def)
  then show ?thesis
    by (cases rule: yandex_client.deleteALBService_run)
      (auto simp: folder_def name_def lb_going_def)
next
  case False
  with run show ?thesis
    by (auto simp: LB_Delete_def deleteNLBService_def Let_def split: if_splits)
qed

theorem delete_order_witness:
  "mutations (snd (LB_Delete (YandexClient sim_sdk) sim_scope (start sim_full))) =
     [C_LoadBalancerDelete ''lb1''] \<and>
   fst (LB_Delete (YandexClient sim_sdk) sim_scope (start sim_full)) \<noteq> Ok True"
proof -
  have m: "mutations (snd (LB_Delete (YandexClient sim_sdk) sim_scope (start sim_full))) =
      [C_LoadBalancerDelete ''lb1'']"
    by (simp add: evaluate sim_scope_def)
  with delete_order [of sim_sdk sim_scope "start sim_full", OF prod.collapse [symmetric]]
  show ?thesis by auto
qed

section \<open>Creation\<close>

text \<open>
  C16: one reconciliation of the service sends at most one creation of each kind, in the order target
  group, backend group, load balancer.  Each is sent only when its look-up found nothing, the backend
  group refers to the target group and the load balancer to the backend group that this pass found or
  created, and no load balancer is created when losing the old one cannot be mended.  Of the scope
  only the conditions change, and only in a pass that succeeds.
\<close>

theorem create_order:
  fixes sdk :: "'e SDK"
  assumes "LB_Reconcile L (YandexClient sdk) s = (r, s')"
  shows "\<exists>t b l. mutations (c_world s') = mutations (c_world s) @ t @ b @ l \<and>
    creates_tg (YandexClient sdk) (c_scope s) (c_world s) t \<and>
    creates_bg (YandexClient sdk) (c_scope s) (c_world s) b \<and>
    creates_lb L (YandexClient sdk) (c_scope s) (c_world s) l \<and>
    only_conditions (c_scope s) (c_scope s') \<and> (is_ok r \<or> c_scope s' = c_scope s)"
  using assms by (rule yandex_client.LB_Reconcile_sends) blast

abbreviation sim_lb_run :: "Sim \<Rightarrow> unit outcome \<times> Sim World ClusterState" where
  "sim_lb_run e \<equiv> LB_Reconcile sim_lib (YandexClient sim_sdk) \<lparr>c_scope = sim_scope, c_world = start e\<rparr>"

theorem create_order_witness:
  "length (mutations (c_world (snd (sim_lb_run sim_empty)))) = 3 \<and>
   (\<exists>t b l. mutations (c_world (snd (sim_lb_run sim_empty))) = t @ b @ l \<and>
      creates_tg (YandexClient sim_sdk) sim_scope (start sim_empty) t \<and>
      creates_bg (YandexClient sim_sdk) sim_scope (start sim_empty) b \<and>
      creates_lb sim_lib (YandexClient sim_sdk) sim_scope (start sim_empty) l)"
proof
  show "length (mutations (c_world (snd (sim_lb_run sim_empty)))) = 3"
    by (simp add: evaluate sim_scope_def)
  show "\<exists>t b l. mutations (c_world (snd (sim_lb_run sim_empty))) = t @ b @ l \<and>
      creates_tg (YandexClient sim_sdk) sim_scope (start sim_empty) t \<and>
      creates_bg (YandexClient sim_sdk) sim_scope (start sim_empty) b \<and>
      creates_lb sim_lib (YandexClient sim_sdk) sim_scope (start sim_empty) l"
    using create_order [of sim_lib sim_sdk "\<lparr>c_scope = sim_scope, c_world = start sim_empty\<rparr>",
        OF prod.collapse [symmetric]] by auto
qed

text \<open>
  C18: a load balancer that was found is never replaced.  When it is active and the specification names
  an address, the verdict depends only on the listener read back from it: a wrong address or port is
  an error, and a listener that cannot be read panics; otherwise it is accepted.  Nothing is asked of
  the cloud and the scope stays as it was.
\<close>

theorem found_verdict:
  fixes sdk :: "'e SDK"
  assumes run: "reconcileALB L (YandexClient sdk) bg s = (r, s')"
    and found: "fst (YandexClient_ALBGetByName sdk (ClusterScope_GetFolderID (c_scope s))
      (ClusterScope_GetLBName (c_scope s)) (c_world s)) = Ok (Some l)"
  shows "mutations (c_world s') = mutations (c_world s) \<and> c_scope s' = c_scope s \<and>
    (if lb_Status l = LB_ACTIVE \<and> ls_Address (lbs_Listener (ClusterScope_GetLBSpec (c_scope s))) \<noteq> []
     then (case internal_listener (Some l) of
             Some x \<Rightarrow> r = listener_verdict (c_scope s) x
           | None \<Rightarrow> \<exists>m. r = Panic m)
     else r = Ok ())"
  using run found
  by (cases rule: yandex_client.reconcileALB_run) (auto split: option.split)

theorem found_verdict_witness:
  "\<exists>e. fst (reconcileALB sim_lib (YandexClient sim_sdk) ''lb1''
      \<lparr>c_scope = sim_scope\<lparr>cs_YandexCluster := (sim_yandex_cluster [])\<lparr>yc_Spec :=
        (yc_Spec (sim_yandex_cluster []))\<lparr>ycs_LoadBalancer :=
          (ycs_LoadBalancer (yc_Spec (sim_yandex_cluster [])))\<lparr>lbs_Listener :=
            (lbs_Listener (ycs_LoadBalancer (yc_Spec (sim_yandex_cluster []))))\<lparr>ls_Address := ''10.0.0.9''\<rparr>\<rparr>\<rparr>\<rparr>\<rparr>,
       c_world = start sim_full\<rparr>) = Err e"
  (is "\<exists>e. fst (reconcileALB _ _ _ ?s) = Err e")
proof -
  have f: "fst (YandexClient_ALBGetByName sim_sdk (ClusterScope_GetFolderID (c_scope ?s))
      (ClusterScope_GetLBName (c_scope ?s)) (c_world ?s)) = Ok (Some sim_lb)"
    by (simp add: evaluate sim_scope_def)
  show ?thesis
    using found_verdict [of sim_lib sim_sdk "''lb1''" ?s, OF prod.collapse [symmetric] f]
    by (simp add: sim_defs listener_verdict_def ClusterScope_GetLBSpec_def Let_def)
qed

text \<open>
  C19: a load balancer whose address is lost is not created anew.  While the cluster has a valid
  endpoint and the specification names no address, no pass of the service asks for a load balancer:
  it sends at most the creations of a missing target group and of a missing backend group.  When the
  look-up that follows finds no load balancer the pass fails with the error that says so, and a pass
  that succeeds has found one.
\<close>

theorem lost_not_recreated:
  fixes sdk :: "'e SDK"
  assumes run: "LB_Reconcile L (YandexClient sdk) s = (r, s')"
    and no_address: "ls_Address (lbs_Listener (ClusterScope_GetLBSpec (c_scope s))) = []"
    and endpoint: "APIEndpoint_IsValid L (ClusterScope_ControlPlaneEndpoint (c_scope s))"
  defines "sc \<equiv> c_scope s"
  defines "look \<equiv> YandexClient_ALBGetByName sdk (ClusterScope_GetFolderID sc) (ClusterScope_GetLBName sc)"
  shows "(\<exists>t b. mutations (c_world s') = mutations (c_world s) @ t @ b \<and>
      creates_tg (YandexClient sdk) sc (c_world s) t \<and> creates_bg (YandexClient sdk) sc (c_world s) b \<and>
      (\<forall>req. C_LoadBalancerCreate req \<notin> set (t @ b))) \<and>
    (\<forall>i w1 j w2 w3. ClusterScope_GetLBType sc = LoadBalancerTypeALB \<and>
      reconcileALBTargetGroup (YandexClient sdk) sc (c_world s) = (Ok i, w1) \<and>
      reconcileALBBackendGroup (YandexClient sdk) sc i w1 = (Ok j, w2) \<and> look w2 = (Ok None, w3) \<longrightarrow>
      r = Err (lb_not_found_error sc) \<and> s' = s\<lparr>c_world := w3\<rparr>) \<and>
    (is_ok r \<longrightarrow> (\<exists>w2 l. look w2 = (Ok (Some l), c_world s')))"
proof (intro conjI impI allI)
  from no_address endpoint have none: "\<not> creates_lb L (YandexClient sdk) sc (c_world s) (c # cs)" for c cs
    by (simp add: creates_lb_def sc_def)
  obtain t b l where "mutations (c_world s') = mutations (c_world s) @ t @ b @ l"
    "creates_tg (YandexClient sdk) sc (c_world s) t" "creates_bg (YandexClient sdk) sc (c_world s) b"
    "creates_lb L (YandexClient sdk) sc (c_world s) l"
    using run unfolding sc_def by (rule yandex_client.LB_Reconcile_sends)
  then show "\<exists>t b. mutations (c_world s') = mutations (c_world s) @ t @ b \<and>
      creates_tg (YandexClient sdk) sc (c_world s) t \<and> creates_bg (YandexClient sdk) sc (c_world s) b \<and>
      (\<forall>req. C_LoadBalancerCreate req \<notin> set (t @ b))"
    using none by (intro exI [of _ t] exI [of _ b]) (cases l; auto simp: creates_tg_def creates_bg_def)
next
  fix i w1 j w2 w3
  assume up: "ClusterScope_GetLBType sc = LoadBalancerTypeALB \<and>
      reconcileALBTargetGroup (YandexClient sdk) sc (c_world s) = (Ok i, w1) \<and>
      reconcileALBBackendGroup (YandexClient sdk) sc i w1 = (Ok j, w2) \<and> look w2 = (Ok None, w3)"
  from up have last: "reconcileALB L (YandexClient sdk) j (s\<lparr>c_world := w2\<rparr>) = (r, s')"
    using run by (simp add: sc_def LB_Reconcile_ALB reconcileALBService_def Let_def)
  from last up no_address endpoint
  show "r = Err (lb_not_found_error sc)" and "s' = s\<lparr>c_world := w3\<rparr>"
    by (cases rule: yandex_client.reconcileALB_run; auto simp: sc_def look_def)+
next
  assume "is_ok r"
  from yandex_client.LB_Reconcile_last [OF run this] obtain j w2 where
    "reconcileALB L (YandexClient sdk) j (s\<lparr>c_world := w2\<rparr>) = (r, s')" by blast
  then show "\<exists>w2 l. look w2 = (Ok (Some l), c_world s')"
    using no_address endpoint \<open>is_ok r\<close>
    by (cases rule: yandex_client.reconcileALB_run) (auto simp: sc_def look_def)
qed

text \<open>A cluster with a published endpoint and a cloud that has lost everything.\<close>

abbreviation sim_lost :: "Sim World ClusterState" where
  "sim_lost \<equiv> \<lparr>c_scope = sim_scope\<lparr>cs_YandexCluster := set_endpoint \<lparr>ep_Host = ''10.0.0.1'', ep_Port = 8443\<rparr>
     (sim_yandex_cluster [])\<rparr>, c_world = start sim_empty\<rparr>"

theorem lost_not_recreated_witness:
  "length (mutations (c_world (snd (LB_Reconcile sim_lib (YandexClient sim_sdk) sim_lost)))) = 2 \<and>
   (\<forall>req. C_LoadBalancerCreate req \<notin>
      set (mutations (c_world (snd (LB_Reconcile sim_lib (YandexClient sim_sdk) sim_lost))))) \<and>
   fst (LB_Reconcile sim_lib (YandexClient sim_sdk) sim_lost) = Err (lb_not_found_error (c_scope sim_lost))"
proof (intro conjI)
  have a: "ls_Address (lbs_Listener (ClusterScope_GetLBSpec (c_scope sim_lost))) = []"
    "APIEndpoint_IsValid sim_lib (ClusterScope_ControlPlaneEndpoint (c_scope sim_lost))"
    by (simp_all add: evaluate sim_scope_def)
  note here = lost_not_recreated [of sim_lib sim_sdk sim_lost, OF prod.collapse [symmetric] a]
  show "\<forall>req. C_LoadBalancerCreate req \<notin>
      set (mutations (c_world (snd (LB_Reconcile sim_lib (YandexClient sim_sdk) sim_lost))))"
    using here [THEN conjunct1] by auto
qed (simp_all add: evaluate sim_scope_def lb_not_found_error_def)

section \<open>Unsupported types\<close>

text \<open>
  For a load balancer type other than ALB every operation of the service fails with an error at
  once, whatever the client: the world and the scope stay as they were.
\<close>

lemma unsupported_type:
  fixes C :: "'w Client"
  assumes "ClusterScope_GetLBType sc \<noteq> LoadBalancerTypeALB"
  shows "\<exists>e. (\<forall>L w. LB_Reconcile L C \<lparr>c_scope = sc, c_world = w\<rparr> = (Err e, \<lparr>c_scope = sc, c_world = w\<rparr>)) \<and>
    (\<forall>w. LB_Delete C sc w = (Err e, w) \<and> LB_Describe C sc w = (Err e, w) \<and>
       LB_IsActive C sc w = (Err e, w)) \<and>
    (\<forall>w ip net. LB_AddTarget C sc ip net w = (Err e, w) \<and> LB_RemoveTarget C sc ip net w = (Err e, w))"
proof (cases "ClusterScope_GetLBType sc = LoadBalancerTypeNLB")
  case True
  with assms show ?thesis
    by (intro exI [of _ nlb_error]) (simp add: lb_service_defs nlb_defs)
next
  case False
  with assms show ?thesis
    by (intro exI [of _ "unknown_lb_type (ClusterScope_GetLBType sc)"])
      (simp add: lb_service_defs Let_def)
qed

section \<open>Targets\<close>

text \<open>
  C27: adding a target looks the target group up once.  When the look-up fails, or finds no group, the
  operation fails and sends nothing; when the pair of address and subnet is already registered in the
  group it succeeds and sends nothing; otherwise it sends exactly one request, for this target and
  this group, whose outcome is the outcome of the operation.
\<close>

theorem add_target_exact:
  fixes sdk :: "'e SDK"
  assumes alb: "ClusterScope_GetLBType sc = LoadBalancerTypeALB"
    and run: "LB_AddTarget (YandexClient sdk) sc ip net w = (r, w')"
    and look: "find_group (YandexClient sdk) sc w = (q, w1)"
  shows "case q of
      Ok (Some tg) \<Rightarrow>
        if target_of ip net \<in> set (tg_Targets tg) then r = Ok () \<and> w' = w1 \<and> mutations w' = mutations w
        else mutations w' = mutations w @ [C_AddTargets (add_request tg ip net)] \<and>
          (is_ok r \<longleftrightarrow> is_ok (fst (YandexClient_ALBAddTarget sdk (add_request tg ip net) w1)))
    | Ok None \<Rightarrow> r = Err (Errorf (''target group with name '' @ ClusterScope_GetLBName sc @ '' not found'')) \<and>
        w' = w1 \<and> mutations w' = mutations w
    | _ \<Rightarrow> \<not> is_ok r \<and> w' = w1 \<and> mutations w' = mutations w"
proof -
  note reg = registered_iff_target
  from alb run have "addTargetALB (YandexClient sdk) sc ip net w = (r, w')"
    by (simp add: LB_AddTarget_def)
  then have run': "change_target (find_group (YandexClient sdk) sc)
      (raise (Errorf (''target group with name '' @ ClusterScope_GetLBName sc @ '' not found'')))
      (isAddressRegisteredALB ip net) (\<lambda>tg. ALBAddTarget (YandexClient sdk) (add_request tg ip net)) w
      = (r, w')" unfolding target_shapes .
  from yandex_client.find_group_emits look have quiet: "mutations w1 = mutations w"
    using emitsD [of mutations "[]"] by fastforce
  show ?thesis
  proof (cases "\<exists>tg. q = Ok (Some tg) \<and> \<not> isAddressRegisteredALB ip net tg")
    case True
    with run' look reg show ?thesis
      by (cases rule: yandex_client.add_target_run [OF run']) (auto simp: change_target_def)
  next
    case False
    with run' look reg quiet show ?thesis
      by (auto simp: change_target_def split: outcome.split option.split)
  qed
qed

theorem add_target_exact_witness:
  "mutations (snd (LB_AddTarget (YandexClient sim_sdk) sim_scope ''10.0.0.5'' ''subnet'' (start sim_full))) =
     [C_AddTargets (add_request \<lparr>tg_Id = ''lb1'', tg_Name = ''lb1'', tg_Targets = []\<rparr> ''10.0.0.5'' ''subnet'')] \<and>
   \<not> is_ok (fst (LB_AddTarget (YandexClient sim_sdk) sim_scope ''10.0.0.5'' ''subnet'' (start sim_empty)))"
proof -
  have a: "ClusterScope_GetLBType sim_scope = LoadBalancerTypeALB"
    by (simp add: evaluate sim_scope_def)
  have f: "find_group (YandexClient sim_sdk) sim_scope (start sim_full) =
      (Ok (Some \<lparr>tg_Id = ''lb1'', tg_Name = ''lb1'', tg_Targets = []\<rparr>),
       snd (find_group (YandexClient sim_sdk) sim_scope (start sim_full)))"
    and n: "find_group (YandexClient sim_sdk) sim_scope (start sim_empty) =
      (Ok None, snd (find_group (YandexClient sim_sdk) sim_scope (start sim_empty)))"
    by (simp_all add: evaluate sim_scope_def find_group_def)
  from add_target_exact [OF a prod.collapse [symmetric] f]
    add_target_exact [OF a prod.collapse [symmetric] n] show ?thesis by simp
qed

text \<open>
  C28: removing a target sends nothing and succeeds when the target group is gone or does not hold the
  target, and otherwise sends exactly one request, for this target and this group.
\<close>

theorem remove_target_exact:
  fixes sdk :: "'e SDK"
  assumes alb: "ClusterScope_GetLBType sc = LoadBalancerTypeALB"
    and run: "LB_RemoveTarget (YandexClient sdk) sc ip net w = (r, w')"
    and found: "find_group (YandexClient sdk) sc w = (Ok g, w1)"
  shows "case g of
      Some tg \<Rightarrow> if target_of ip net \<in> set (tg_Targets tg)
        then mutations w' = mutations w @ [C_RemoveTargets (remove_request tg ip net)]
        else r = Ok () \<and> mutations w' = mutations w
    | None \<Rightarrow> r = Ok () \<and> mutations w' = mutations w"
proof -
  note reg = registered_iff_target
  from alb run have "removeTargetALB (YandexClient sdk) sc ip net w = (r, w')"
    by (simp add: LB_RemoveTarget_def)
  then have run': "change_target (find_group (YandexClient sdk) sc) (ret ())
      (\<lambda>tg. \<not> isAddressRegisteredALB ip net tg)
      (\<lambda>tg. ALBRemoveTarget (YandexClient sdk) (remove_request tg ip net)) w = (r, w')"
    unfolding target_shapes .
  from run' found reg show ?thesis
    by (cases rule: yandex_client.remove_target_run [OF run'])
      (auto simp: change_target_def split: option.splits if_splits)
qed

theorem remove_target_exact_witness:
  "fst (LB_RemoveTarget (YandexClient sim_sdk) sim_scope ''10.0.0.5'' ''subnet'' (start sim_empty)) = Ok ()"
proof -
  have a: "ClusterScope_GetLBType sim_scope = LoadBalancerTypeALB"
    by (simp add: evaluate sim_scope_def)
  have f: "find_group (YandexClient sim_sdk) sim_scope (start sim_empty) =
      (Ok None, snd (find_group (YandexClient sim_sdk) sim_scope (start sim_empty)))"
    by (simp add: evaluate sim_scope_def find_group_def)
  from remove_target_exact [OF a prod.collapse [symmetric] f] show ?thesis by simp
qed

section \<open>Reading the listener back\<close>

text \<open>
  C29: describing a load balancer returns the internal address and port of its first listener, and
  panics when there is none to read: when the look-up found no load balancer at all, when it has no
  listener, endpoint, address or port, or when the first address is not an internal IPv4 address.
\<close>

theorem describe_exact:
  fixes sdk :: "'e SDK"
  assumes alb: "ClusterScope_GetLBType sc = LoadBalancerTypeALB"
    and look: "YandexClient_ALBGetByName sdk (ClusterScope_GetFolderID sc) (ClusterScope_GetLBName sc) w
      = (Ok lb, w1)"
  shows "case internal_listener lb of
      Some (a, p) \<Rightarrow> LB_Describe (YandexClient sdk) sc w =
        (Ok \<lparr>lbst_Name = [], lbst_ListenerAddress = a, lbst_ListenerPort = p\<rparr>, w1)
    | None \<Rightarrow> \<exists>m. LB_Describe (YandexClient sdk) sc w = (Panic m, w1)"
proof (cases "internal_listener lb")
  case None
  from listener_panics [OF None, of w1] alb look None show ?thesis
    by (auto simp: LB_Describe_def describeALB_def)
next
  case (Some x)
  obtain a p where x: "x = (a, p)" by fastforce
  with internal_listener_Some [of lb a p w1] alb look Some show ?thesis
    by (simp add: LB_Describe_def describeALB_def)
qed

theorem describe_exact_witness:
  "\<exists>m. fst (LB_Describe (YandexClient sim_sdk) sim_scope (start sim_empty)) = Panic m"
proof -
  have a: "ClusterScope_GetLBType sim_scope = LoadBalancerTypeALB"
    by (simp add: evaluate sim_scope_def)
  have f: "YandexClient_ALBGetByName sim_sdk (ClusterScope_GetFolderID sim_scope)
      (ClusterScope_GetLBName sim_scope) (start sim_empty) =
      (Ok None, snd (YandexClient_ALBGetByName sim_sdk (ClusterScope_GetFolderID sim_scope)
      (ClusterScope_GetLBName sim_scope) (start sim_empty)))"
    by (simp add: evaluate sim_scope_def)
  from describe_exact [OF a f] show ?thesis by auto
qed

text \<open>
  What the cloud promises of a load balancer it made on a request: its listeners answer the listener
  specifications of the request one by one, on the requested ports and at internal addresses, the
  requested address where one was given.
\<close>

definition answers_address :: "InternalIpv4AddressSpec \<Rightarrow> Address \<Rightarrow> bool" where
  "answers_address as a \<longleftrightarrow>
     (case a of InternalIpv4Address x \<Rightarrow> ias_Address as = None \<or> ias_Address as = Some x | _ \<Rightarrow> False)"

definition answers_endpoint :: "EndpointSpec \<Rightarrow> Endpoint \<Rightarrow> bool" where
  "answers_endpoint es e \<longleftrightarrow>
     en_Ports e = es_Ports es \<and> list_all2 answers_address (es_AddressSpecs es) (en_Addresses e)"

definition answers_request :: "CreateLoadBalancerRequest \<Rightarrow> LoadBalancer \<Rightarrow> bool" where
  "answers_request req l \<longleftrightarrow>
     list_all2 (\<lambda>spec li. list_all2 answers_endpoint (als_EndpointSpecs spec) (li_Endpoints li))
       (clb_ListenerSpecs req) (lb_Listeners l)"

text \<open>What \<open>getInternalAddress\<close> and \<open>getInternalPort\<close> read from the answer to a request of the provider.\<close>

lemma answered_listener:
  assumes "answers_request (load_balancer_request sc bg) l"
  defines "listener \<equiv> lbs_Listener (ClusterScope_GetLBSpec sc)"
  obtains a where "\<forall>w :: 'w. getInternalAddress (Some l) w = (Ok a, w)"
    "\<forall>w :: 'w. getInternalPort (Some l) w = (Ok (ls_Port listener), w)"
    "ls_Address listener = [] \<or> a = ls_Address listener"
proof -
  from assms obtain li e x where l: "lb_Listeners l = [li]" "li_Endpoints li = [e]"
    "en_Ports e = [scast (ls_Port listener)]" "en_Addresses e = [x]"
    and x: "answers_address \<lparr>ias_Address = (if ls_Address listener = [] then None
      else Some (ls_Address listener)), ias_SubnetId = ss_ID (ls_Subnet listener)\<rparr> x"
    by (auto simp: answers_request_def answers_endpoint_def load_balancer_request_def Let_def
        list_all2_Cons1)
  from x obtain a where a: "x = InternalIpv4Address a" "ls_Address listener = [] \<or> a = ls_Address listener"
    by (auto simp: answers_address_def split: Address.splits if_splits)
  from l a(1) show thesis
    by (intro that [OF _ _ a(2)])
      (simp_all add: getInternalAddress_def getInternalPort_def first_endpoint_def port_roundtrip)
qed

text \<open>
  C34: the listener makes the round trip through the cloud.  When a pass of the service asked for a
  load balancer and a later look-up finds one that answers that request, the address and the port read
  back from it are an internal address, the specified one if there is one, and the specified 32-bit
  port, whatever its value: widening it to 64 bits for the request and narrowing it on the way back
  loses nothing.  So \<open>Describe\<close> reports them, and the next pass accepts the balancer.
\<close>

theorem listener_roundtrip:
  fixes sdk :: "'e SDK"
  assumes run: "LB_Reconcile L (YandexClient sdk) s = (r, s')"
    and asked: "mutations (c_world s') = mutations (c_world s) @ cs" "C_LoadBalancerCreate req \<in> set cs"
    and look: "YandexClient_ALBGetByName sdk (ClusterScope_GetFolderID (c_scope s))
      (ClusterScope_GetLBName (c_scope s)) w = (Ok (Some l), w1)"
    and answer: "answers_request req l"
  defines "listener \<equiv> lbs_Listener (ClusterScope_GetLBSpec (c_scope s))"
  shows "\<exists>a. getInternalAddress (Some l) w1 = (Ok a, w1) \<and>
    getInternalPort (Some l) w1 = (Ok (ls_Port listener), w1) \<and>
    (ls_Address listener = [] \<or> a = ls_Address listener) \<and>
    LB_Describe (YandexClient sdk) (c_scope s) w =
      (Ok \<lparr>lbst_Name = [], lbst_ListenerAddress = a, lbst_ListenerPort = ls_Port listener\<rparr>, w1) \<and>
    (\<forall>bg. reconcileALB L (YandexClient sdk) bg \<lparr>c_scope = c_scope s, c_world = w\<rparr> =
      (Ok (), \<lparr>c_scope = c_scope s, c_world = w1\<rparr>))"
proof -
  let ?sc = "c_scope s"
  obtain t b c where sent: "mutations (c_world s') = mutations (c_world s) @ t @ b @ c"
    "creates_tg (YandexClient sdk) ?sc (c_world s) t" "creates_bg (YandexClient sdk) ?sc (c_world s) b"
    "creates_lb L (YandexClient sdk) ?sc (c_world s) c"
    using run by (rule yandex_client.LB_Reconcile_sends)
  with asked have "C_LoadBalancerCreate req \<in> set (t @ b @ c)" by simp
  with sent(2-4) obtain bg where req: "req = load_balancer_request ?sc bg"
    by (auto simp: creates_tg_def creates_bg_def creates_lb_def)
  have alb: "ClusterScope_GetLBType ?sc = LoadBalancerTypeALB"
  proof (rule ccontr)
    assume "ClusterScope_GetLBType ?sc \<noteq> LoadBalancerTypeALB"
    with run have "s' = s"
      by (auto simp: LB_Reconcile_def reconcileNLBService_def Let_def split: if_splits)
    with asked show False by simp
  qed
  from answer obtain a where a: "\<forall>w :: 'e World. getInternalAddress (Some l) w = (Ok a, w)"
    "\<forall>w :: 'e World. getInternalPort (Some l) w = (Ok (ls_Port listener), w)"
    "ls_Address listener = [] \<or> a = ls_Address listener"
    unfolding req listener_def by (rule answered_listener)
  have "LB_Describe (YandexClient sdk) ?sc w =
      (Ok \<lparr>lbst_Name = [], lbst_ListenerAddress = a, lbst_ListenerPort = ls_Port listener\<rparr>, w1)"
    by (simp add: LB_Describe_def alb describeALB_def look a)
  moreover have "reconcileALB L (YandexClient sdk) bg \<lparr>c_scope = ?sc, c_world = w\<rparr> =
      (Ok (), \<lparr>c_scope = ?sc, c_world = w1\<rparr>)" for bg
    using a(3) look
    by (auto simp: reconcileALB_def ALB_GetName_alb_builder Let_def a(1,2) listener_def [symmetric])
  ultimately show ?thesis using a by blast
qed

text \<open>The balancer that one pass over an empty cloud creates, read by \<open>Describe\<close>.\<close>

theorem listener_roundtrip_witness:
  "fst (LB_Describe (YandexClient sim_sdk) sim_scope (c_world (snd (sim_lb_run sim_empty)))) =
     Ok \<lparr>lbst_Name = [], lbst_ListenerAddress = ''10.0.0.1'', lbst_ListenerPort = 8443\<rparr>"
proof -
  let ?s = "\<lparr>c_scope = sim_scope, c_world = start sim_empty\<rparr>"
  let ?req = "load_balancer_request sim_scope ''lb1''" and ?w = "c_world (snd (sim_lb_run sim_empty))"
  have m: "mutations (c_world (snd (sim_lb_run sim_empty))) = mutations (c_world ?s) @
      [C_TargetGroupCreate (target_group_request sim_scope),
       C_BackendGroupCreate (backend_group_request sim_scope ''lb1''), C_LoadBalancerCreate ?req]"
    by (simp add: evaluate sim_scope_def target_group_request_def backend_group_request_def
        load_balancer_request_def describePrefix_def)
  have l: "YandexClient_ALBGetByName sim_sdk (ClusterScope_GetFolderID (c_scope ?s))
      (ClusterScope_GetLBName (c_scope ?s)) ?w = (Ok (Some sim_lb),
      snd (YandexClient_ALBGetByName sim_sdk (ClusterScope_GetFolderID (c_scope ?s))
        (ClusterScope_GetLBName (c_scope ?s)) ?w))"
    by (simp add: evaluate sim_scope_def)
  have n: "answers_request ?req sim_lb"
    by (simp add: answers_request_def answers_endpoint_def answers_address_def load_balancer_request_def
        sim_lb_def evaluate sim_scope_def)
  have d: "lb_Listeners sim_lb = [\<lparr>li_Endpoints = [\<lparr>en_Addresses = [InternalIpv4Address ''10.0.0.1''],
      en_Ports = [8443]\<rparr>]\<rparr>]" by (simp add: sim_lb_def)
  show ?thesis
    using listener_roundtrip [OF prod.collapse [symmetric] m _ l n] d
    by (auto simp: getInternalAddress_def first_endpoint_def evaluate sim_scope_def)
qed

section \<open>The backend group\<close>

text \<open>
  C35: the request for a backend group carries the names of the cluster and of its balancer, the folder
  and the labels, and one backend: on the configured port, for the given target group, balanced round
  robin without locality, with one stream health check.  Both of its thresholds, for healthy and for
  unhealthy, are the configured one, and its time-out and interval are the configured seconds in
  nanoseconds, exactly, as long as they stay below 9223372037 in absolute value.
\<close>

theorem backend_group_checks:
  assumes "\<bar>sint (hc_HealthcheckTimeoutSec (lbs_Healthcheck (ClusterScope_GetLBSpec sc)))\<bar> \<le> 9223372036"
    and "\<bar>sint (hc_HealthcheckIntervalSec (lbs_Healthcheck (ClusterScope_GetLBSpec sc)))\<bar> \<le> 9223372036"
  shows "\<exists>h port. sint port = sint (lbs_BackendPort (ClusterScope_GetLBSpec sc)) \<and>
    backend_group_request sc tg =
      \<lparr>cbg_FolderId = ClusterScope_GetFolderID sc, cbg_Name = ClusterScope_GetLBName sc,
       cbg_Description = ''k8s api '' @ ClusterScope_Name sc @ '' backend'',
       cbg_Labels = ClusterScope_GetLabels sc,
       cbg_StreamBackends = [\<lparr>sb_Name = ClusterScope_GetLBName sc, sb_Port = port, sb_TargetGroupIds = [tg],
         sb_LoadBalancingConfig = \<lparr>lbc_StrictLocality = False, lbc_Mode = ROUND_ROBIN\<rparr>,
         sb_Healthchecks = [h]\<rparr>]\<rparr> \<and>
    sint (hk_Timeout h) = 1000000000 * sint (hc_HealthcheckTimeoutSec (lbs_Healthcheck (ClusterScope_GetLBSpec sc))) \<and>
    sint (hk_Interval h) = 1000000000 * sint (hc_HealthcheckIntervalSec (lbs_Healthcheck (ClusterScope_GetLBSpec sc))) \<and>
    hk_HealthyThreshold h = hc_HealthcheckThreshold (lbs_Healthcheck (ClusterScope_GetLBSpec sc)) \<and>
    hk_UnhealthyThreshold h = hc_HealthcheckThreshold (lbs_Healthcheck (ClusterScope_GetLBSpec sc)) \<and>
    hk_Stream h"
proof -
  let ?lbs = "ClusterScope_GetLBSpec sc"
  let ?h = "hd (createHealthChecks (NewALBBackendGroupBuilder ?lbs))"
  have "backend_group_request sc tg =
      \<lparr>cbg_FolderId = ClusterScope_GetFolderID sc, cbg_Name = ClusterScope_GetLBName sc,
       cbg_Description = ''k8s api '' @ ClusterScope_Name sc @ '' backend'',
       cbg_Labels = ClusterScope_GetLabels sc,
       cbg_StreamBackends = [\<lparr>sb_Name = ClusterScope_GetLBName sc, sb_Port = scast (lbs_BackendPort ?lbs),
         sb_TargetGroupIds = [tg],
         sb_LoadBalancingConfig = \<lparr>lbc_StrictLocality = False, lbc_Mode = ROUND_ROBIN\<rparr>,
         sb_Healthchecks = [?h]\<rparr>]\<rparr>"
    by (simp add: backend_group_request_def BG_Build_def createHealthChecks_def
        createLoadBalancingConfig_def describePrefix_def bg_builder_defs Let_def split: option.split)
  moreover have "sint (hk_Timeout ?h) = 1000000000 * sint (hc_HealthcheckTimeoutSec (lbs_Healthcheck ?lbs))"
    "sint (hk_Interval ?h) = 1000000000 * sint (hc_HealthcheckIntervalSec (lbs_Healthcheck ?lbs))"
    using seconds_exact [OF assms(1)] seconds_exact [OF assms(2)]
    by (simp_all add: createHealthChecks_def bg_builder_defs Let_def)
  ultimately show ?thesis
    by (intro exI [of _ ?h] exI [of _ "scast (lbs_BackendPort ?lbs)"])
      (simp add: port_extend createHealthChecks_def bg_builder_defs Let_def)
qed

theorem backend_group_checks_witness:
  "\<exists>b h. cbg_StreamBackends (backend_group_request sim_scope ''tg'') = [b] \<and> sb_Healthchecks b = [h] \<and>
    sint (hk_Timeout h) = 1000000000 \<and> sint (hk_Interval h) = 3000000000 \<and>
    hk_HealthyThreshold h = 3 \<and> hk_UnhealthyThreshold h = 3"
proof -
  have t: "\<bar>sint (hc_HealthcheckTimeoutSec (lbs_Healthcheck (ClusterScope_GetLBSpec sim_scope)))\<bar> \<le> 9223372036"
    and i: "\<bar>sint (hc_HealthcheckIntervalSec (lbs_Healthcheck (ClusterScope_GetLBSpec sim_scope)))\<bar> \<le> 9223372036"
    by (simp_all add: ClusterScope_GetLBSpec_def sim_scope_def sim_yandex_cluster_def)
  have v: "sint (hc_HealthcheckTimeoutSec (lbs_Healthcheck (ClusterScope_GetLBSpec sim_scope))) = 1"
    "sint (hc_HealthcheckIntervalSec (lbs_Healthcheck (ClusterScope_GetLBSpec sim_scope))) = 3"
    "hc_HealthcheckThreshold (lbs_Healthcheck (ClusterScope_GetLBSpec sim_scope)) = 3"
    by (simp_all add: ClusterScope_GetLBSpec_def sim_scope_def sim_yandex_cluster_def)
  from backend_group_checks [OF t i, of "''tg''", unfolded v] show ?thesis by auto
qed

text \<open>
  Beyond that bound the product wraps: a time-out of 9223372037 seconds becomes a negative one.
\<close>

lemma healthcheck_overflow:
  "\<exists>h. createHealthChecks (NewALBBackendGroupBuilder (spec\<lparr>lbs_Healthcheck :=
      \<lparr>hc_HealthcheckTimeoutSec = 9223372037, hc_HealthcheckIntervalSec = i, hc_HealthcheckThreshold = n\<rparr>\<rparr>)) = [h] \<and>
    sint (hk_Timeout h) < 0"
  by (simp add: createHealthChecks_def NewALBBackendGroupBuilder_def time_Second_def Let_def)

end
