(* ===== verification/Cluster_Lifecycle.thy ===== *)
theory Cluster_Lifecycle
  imports Runs
begin

text \<open>
  The life cycle of a \<open>YandexCluster\<close> as an abstract step relation on the object alone, and the proof
  that one reconciliation of the controller refines it: whatever happens in a pass, the object that
  its one final patch writes is a step of the object it fetched, and the requests it sent to the
  cloud are the ones the step allows.  The properties at the end are read off the relation.
\<close>

section \<open>The steps\<close>

datatype cluster_event =
    Untouched
  | Finalized
  | Reported
  | Settled LoadBalancerStatus
  | Released

abbreviation being_deleted :: "YandexCluster \<Rightarrow> bool" where
  "being_deleted yc \<equiv> om_DeletionTimestamp (yc_Meta yc) \<noteq> None"

inductive cluster_step :: "Lib \<Rightarrow> YandexCluster \<Rightarrow> cluster_event \<Rightarrow> YandexCluster \<Rightarrow> bool"
  for L where
  finalize: "\<not> being_deleted yc \<Longrightarrow> \<not> has_finalizer L yc \<Longrightarrow>
    cluster_step L yc Finalized (yc_finalizers (\<lambda>fs. AddFinalizer L fs ClusterFinalizer) yc)"
| untouched: "being_deleted yc \<Longrightarrow> \<not> has_finalizer L yc \<Longrightarrow> cluster_step L yc Untouched yc"
| report: "has_finalizer L yc \<Longrightarrow> cluster_step L yc Reported (YandexCluster_SetConditions cs yc)"
| settle: "\<not> being_deleted yc \<Longrightarrow> has_finalizer L yc \<Longrightarrow>
    settled L state (YandexCluster_SetConditions cs yc) yc' \<Longrightarrow> cluster_step L yc (Settled state) yc'"
| release: "being_deleted yc \<Longrightarrow> has_finalizer L yc \<Longrightarrow>
    cluster_step L yc Released (yc_finalizers (\<lambda>fs. RemoveFinalizer L fs ClusterFinalizer) yc)"

inductive_cases cluster_stepE: "cluster_step L yc ev yc'"
inductive_cases settledE: "cluster_step L yc (Settled state) yc'"

text \<open>The endpoint a status asks for.\<close>

definition listener_endpoint :: "LoadBalancerStatus \<Rightarrow> APIEndpoint" where
  "listener_endpoint st = \<lparr>ep_Host = lbst_ListenerAddress st, ep_Port = lbst_ListenerPort st\<rparr>"

lemma SetConditions_simps [simp]:
  "yc_Meta (YandexCluster_SetConditions cs yc) = yc_Meta yc"
  "yc_Spec (YandexCluster_SetConditions cs yc) = yc_Spec yc"
  "ycst_Ready (yc_Status (YandexCluster_SetConditions cs yc)) = ycst_Ready (yc_Status yc)"
  by (simp_all add: YandexCluster_SetConditions_def)

lemma yc_finalizers_simps [simp]:
  "yc_Spec (yc_finalizers f yc) = yc_Spec yc"
  "yc_Status (yc_finalizers f yc) = yc_Status yc"
  "om_Finalizers (yc_Meta (yc_finalizers f yc)) = f (om_Finalizers (yc_Meta yc))"
  "om_DeletionTimestamp (yc_Meta (yc_finalizers f yc)) = om_DeletionTimestamp (yc_Meta yc)"
  by (simp_all add: yc_finalizers_def)

text \<open>What every step keeps, by rule inversion.\<close>

lemma cluster_step_spec:
  assumes "cluster_step L yc ev yc'"
  shows "ycs_LoadBalancer (yc_Spec yc') = ycs_LoadBalancer (yc_Spec yc)"
    and "ycs_FolderID (yc_Spec yc') = ycs_FolderID (yc_Spec yc)"
    and "om_DeletionTimestamp (yc_Meta yc') = om_DeletionTimestamp (yc_Meta yc)"
    and "endpoint_of yc \<noteq> zero_endpoint \<Longrightarrow> endpoint_of yc' = endpoint_of yc"
    and "endpoint_of yc' \<noteq> endpoint_of yc \<Longrightarrow>
      \<exists>st. ev = Settled st \<and> endpoint_of yc' = listener_endpoint st"
    and "ycst_Ready (yc_Status yc') \<Longrightarrow> ycst_Ready (yc_Status yc) \<or>
      (\<exists>st. ev = Settled st \<and> endpoint_of yc' = listener_endpoint st)"
  using assms by (auto elim!: cluster_stepE dest: settledD simp: listener_endpoint_def)

text \<open>A step changes nothing of the specification but the endpoint, nothing of the metadata but the finalizers.\<close>

lemma cluster_step_frame:
  assumes "cluster_step L yc ev yc'"
  shows "yc_Spec yc' = (yc_Spec yc)\<lparr>ycs_ControlPlaneEndpoint := endpoint_of yc'\<rparr>"
    and "yc_Meta yc' = (yc_Meta yc)\<lparr>om_Finalizers := om_Finalizers (yc_Meta yc')\<rparr>"
    and "ev = Settled st \<Longrightarrow> endpoint_of yc' = listener_endpoint st \<and>
      ycst_LoadBalancer (yc_Status yc') =
        \<lparr>lbst_Name = [], lbst_ListenerAddress = lbst_ListenerAddress st, lbst_ListenerPort = lbst_ListenerPort st\<rparr> \<and> ycst_Ready (yc_Status yc')"
  using assms
  by (auto elim!: cluster_stepE dest: settledD(1) settledD(2) settledD(3) settledD(7) settledD(8)
      simp: listener_endpoint_def yc_finalizers_def YandexCluster_SetConditions_def)

lemma cluster_step_keeps_finalizer:
  "cluster_step L yc ev yc' \<Longrightarrow> has_finalizer L yc \<Longrightarrow> ev \<noteq> Released \<Longrightarrow> has_finalizer L yc'"
  by (auto elim!: cluster_stepE dest: settledD(1))

text \<open>
  Which requests a step may have sent and which result it may have, when it leads from the state \<open>s\<close>
  of a reconciliation to \<open>s'\<close>.
\<close>

definition licensed ::
    "Lib \<Rightarrow> 'w Client \<Rightarrow> 'w ClusterState \<Rightarrow> cluster_event \<Rightarrow> Result outcome \<Rightarrow> 'w ClusterState \<Rightarrow> bool" where
  "licensed L C s ev r s' \<longleftrightarrow>
     (case ev of
        Untouched \<Rightarrow> r = Ok no_requeue \<and> c_world s' = c_world s
      | Finalized \<Rightarrow> r = Ok \<lparr>Requeue = True, RequeueAfter = 0\<rparr> \<and> c_world s' = c_world s
      | Reported \<Rightarrow> r = Ok requeue_later \<or> \<not> is_ok r
      | Settled st \<Rightarrow> r = Ok no_requeue \<and>
          (\<exists>t w. LB_Reconcile L C s = (Ok (), t) \<and>
             LB_IsActive C (c_scope t) (c_world t) = (Ok True, w) \<and>
             LB_Describe C (c_scope t) w = (Ok st, c_world s'))
      | Released \<Rightarrow> r = Ok no_requeue \<and> LB_Delete C (c_scope s) (c_world s) = (Ok True, c_world s'))"

lemma only_conditions_step:
  assumes "only_conditions (c_scope s) (c_scope s')"
  obtains cs where "cluster_of s' = YandexCluster_SetConditions cs (cluster_of s)"
  using assms by (auto simp: only_conditions_def)

context cloud_client
begin

lemma cluster_body_step:
  assumes run: "cluster_body L C s = (r, s')"
  obtains ev where "cluster_step L (cluster_of s) ev (cluster_of s')" "licensed L C s ev r s'"
proof (cases "being_deleted (cluster_of s)")
  case True
  with run have "YandexCluster_reconcileDelete L C s = (r, s')" by (simp add: cluster_body_def)
  then show thesis
  proof (cases rule: YandexCluster_reconcileDelete_run)
    case skipped
    with True show thesis
      by (intro that [of Untouched]) (auto simp: licensed_def intro: untouched)
  next
    case deleted
    with True show thesis
      by (intro that [of Released]) (auto simp: licensed_def intro: release)
  next
    case deleting
    from deleting(4) obtain cs where "cluster_of s' = YandexCluster_SetConditions cs (cluster_of s)"
      by (rule only_conditions_step)
    with deleting show thesis
      by (intro that [of Reported]) (auto simp: licensed_def intro: report)
  next
    case (failed q)
    from failed(5) obtain cs where "cluster_of s' = YandexCluster_SetConditions cs (cluster_of s)"
      by (rule only_conditions_step)
    with failed show thesis
      by (intro that [of Reported]) (auto simp: licensed_def intro: report)
  qed
next
  case False
  with run have "YandexCluster_reconcile L C s = (r, s')" by (simp add: cluster_body_def)
  then show thesis
  proof (cases rule: YandexCluster_reconcile_run)
    case finalizer
    with False show thesis
      by (intro that [of Finalized]) (auto simp: licensed_def intro: finalize)
  next
    case (failed q t)
    from failed(5) obtain cs where "cluster_of s' = YandexCluster_SetConditions cs (cluster_of s)"
      by (rule only_conditions_step)
    with failed show thesis
      by (intro that [of Reported]) (auto simp: licensed_def intro: report)
  next
    case (inactive t)
    have "only_conditions (c_scope s) (c_scope t)" using inactive(3) by (rule LB_Reconcile_sends)
    with inactive(6) obtain cs where "cluster_of s' = YandexCluster_SetConditions cs (cluster_of s)"
      by (metis only_conditions_step)
    with inactive show thesis
      by (intro that [of Reported]) (auto simp: licensed_def intro: report)
  next
    case (ready t w1 state)
    have "only_conditions (c_scope s) (c_scope t)" using ready(3) by (rule LB_Reconcile_sends)
    then obtain cs where "cluster_of t = YandexCluster_SetConditions cs (cluster_of s)"
      by (rule only_conditions_step)
    with False ready show thesis
      by (intro that [of "Settled state"]) (auto simp: licensed_def intro: settle)
  qed
qed

end

section \<open>Relations on worlds through a whole reconciliation\<close>

context respectful_client
begin

lemma on_c_set: "on_c_world R s (set_yc f s)"
  by (simp add: on_c_world_def refl_R)

lemma run_cluster_body: "every_run (on_c_world R) (cluster_body L C)"
proof -
  have publish: "every_run (on_c_world R) (settle_endpoint L st)" for st
    unfolding settle_endpoint_def Let_def by (intro on_c.run_intros on_c_set)
  have failing: "every_run (on_c_world R) (lb_reconcile_error L e :: ('w ClusterState, Result) go)" for e
    unfolding lb_reconcile_error_def by (intro on_c.run_intros on_c_set)
  show ?thesis
    unfolding cluster_body_def YandexCluster_reconcile_def YandexCluster_reconcileDelete_def
    by (intro on_c.run_intros on_c_set run_LB_Reconcile run_in_world run_LB publish failing)
qed

end

section \<open>One pass\<close>

definition fetched_state :: "Cluster \<Rightarrow> YandexCluster \<Rightarrow> 'w \<Rightarrow> 'w ClusterState" where
  "fetched_state cluster yc w =
     \<lparr>c_scope = \<lparr>cs_Cluster = cluster, cs_YandexCluster = yc, cs_before = yc\<rparr>, c_world = w\<rparr>"

lemma fetched_state_simps [simp]:
  "c_world (fetched_state cluster yc w) = w" "cluster_of (fetched_state cluster yc w) = yc"
  "cs_Cluster (c_scope (fetched_state cluster yc w)) = cluster"
  by (simp_all add: fetched_state_def)

lemma cluster_pass:
  assumes run: "YandexCluster_Reconcile L K (YandexClient sdk) ns name w = (r, w')"
  obtains
    (idle) "calls w' = calls w" "metrics w' = metrics w" "r = Ok no_requeue \<or> \<not> is_ok r"
  | (pass) cluster yc v w1 ev r0 t ok cs where
      "external (Get_YandexCluster K ns name) w = (Ok yc, v)" "\<not> IsPaused L cluster (yc_Meta yc)"
      "calls w1 = calls w" "cluster_step L yc ev (cluster_of t)"
      "licensed L (YandexClient sdk) (fetched_state cluster yc w1) ev r0 t"
      "calls (c_world t) = calls w @ cs" "list_all (\<lambda>(c, ok). \<not> is_patch c) cs"
      "calls w' = calls w @ cs @ [(C_PatchCluster (cluster_of t), ok)]"
      "is_ok r \<longleftrightarrow> is_ok r0 \<and> ok" "is_ok r \<Longrightarrow> r = r0" "\<not> is_ok r0 \<Longrightarrow> r = r0"
      "fst (external (GetOwnerCluster K (yc_Meta yc)) v) = Ok (Some cluster)"
  using run
proof (cases rule: YandexCluster_Reconcile_run)
  case idle
  then show thesis by (rule that(1))
next
  case (scoped yc cluster v w1 s')
  let ?C = "YandexClient sdk"
  from scoped(5) show thesis
  proof (rule YandexCluster_scoped_run, fold fetched_state_def)
    fix r0 t ok
    assume b: "cluster_body L ?C (fetched_state cluster yc w1) = (r0, t)"
      and c: "calls (c_world s') = calls (c_world t) @ [(C_PatchCluster (cluster_of t), ok)]"
      and r: "is_ok r \<longleftrightarrow> is_ok r0 \<and> ok" "is_ok r \<Longrightarrow> r = r0" "\<not> is_ok r0 \<Longrightarrow> r = r0"
    from yandex_client.cluster_body_step [OF b] obtain ev where
      ev: "cluster_step L yc ev (cluster_of t)" "licensed L ?C (fetched_state cluster yc w1) ev r0 t"
      by auto
    have "on_c_world cloud_only (fetched_state cluster yc w1) t"
      using every_runD [OF cloud_only_client.run_cluster_body b] .
    then obtain cs where "calls (c_world t) = calls w1 @ cs" and cs: "list_all (\<lambda>(c, ok). \<not> is_patch c) cs"
      by (auto simp: on_c_world_def cloud_only_def)
    with scoped(3,6) c have "calls (c_world t) = calls w @ cs"
      "calls w' = calls w @ cs @ [(C_PatchCluster (cluster_of t), ok)]" by simp_all
    from that(2) [OF scoped(1,2,3) ev this(1) cs this(2) r scoped(7)] show thesis .
  qed
qed

text \<open>The requests of a pass, without its patch.\<close>

lemma mutations_patched:
  "calls w' = calls w @ cs @ [(C_PatchCluster yc, ok)] \<Longrightarrow> calls t = calls w @ cs \<Longrightarrow>
     mutations w' = mutations t"
  by (simp add: mutations_def)

text \<open>The same for a pass whose fetched and patched objects are known.\<close>

lemma cluster_pass_patched:
  assumes run: "YandexCluster_Reconcile L K (YandexClient sdk) ns name w = (r, w')"
    and fetched: "external (Get_YandexCluster K ns name) w = (Ok yc, v)"
    and patched: "calls w' = calls w @ cs @ [(C_PatchCluster yc', ok)]"
  obtains cluster w1 ev r0 t where "cluster_step L yc ev yc'" "calls w1 = calls w"
    "licensed L (YandexClient sdk) (fetched_state cluster yc w1) ev r0 t"
    "calls (c_world t) = calls w @ cs" "mutations w' = mutations (c_world t)"
    "is_ok r \<longleftrightarrow> is_ok r0 \<and> ok"
    "fst (external (GetOwnerCluster K (yc_Meta yc)) v) = Ok (Some cluster)"
  using run
proof (cases rule: cluster_pass)
  case idle
  from idle(1) patched show thesis by simp
next
  case (pass cluster yc0 v' w1 ev r0 t ok' cs')
  from pass(1) fetched have yc0: "yc0 = yc" "v' = v" by simp_all
  from pass(8) patched have t: "cluster_of t = yc'" "cs' = cs" "ok' = ok" by auto
  from that [of ev w1 cluster r0 t] pass(3-6,9,12) mutations_patched [OF pass(8,6)] show thesis
    unfolding t yc0 by blast
qed

end
