(* ===== verification/Cluster_Liveness.thy ===== *)
theory Cluster_Liveness
  imports Cluster_Lifecycle
begin

text \<open>
  Progress of the cluster controller: what repeated reconciliations achieve when the cloud and the API
  server do their part.  Their part is stated over a view of the environment, which says which
  resources a look-up by name finds and which object the server stores; the views themselves are
  arbitrary functions.
\<close>

section \<open>The part of the others\<close>

record 'e View =
  v_yc :: "'e \<Rightarrow> YandexCluster"
  v_lbs :: "'e \<Rightarrow> LoadBalancer list"
  v_bgs :: "'e \<Rightarrow> BackendGroup list"
  v_tgs :: "'e \<Rightarrow> TargetGroup list"
  v_wait :: "'e \<Rightarrow> nat"

definition left_over :: "'e View \<Rightarrow> 'e \<Rightarrow> nat" where
  "left_over V e = length (v_lbs V e) + length (v_bgs V e) + length (v_tgs V e)"

text \<open>
  The cloud: look-ups find what the view holds and change nothing, except that a load balancer found on
  its way out is gone the next time; a deletion that is asked for removes its object, sooner or later
  others of that name, and nothing else.
\<close>

definition obliging_cloud :: "'e SDK \<Rightarrow> ListRequest \<Rightarrow> 'e View \<Rightarrow> bool" where
  "obliging_cloud sdk req V \<longleftrightarrow>
     (\<forall>e. \<exists>e'. LoadBalancer_List sdk req e = (Inr (v_lbs V e), e') \<and> v_yc V e' = v_yc V e \<and>
        v_bgs V e' = v_bgs V e \<and> v_tgs V e' = v_tgs V e \<and>
        (if v_lbs V e \<noteq> [] \<and> lb_going (hd (v_lbs V e))
         then length (v_lbs V e') < length (v_lbs V e) else v_lbs V e' = v_lbs V e)) \<and>
     (\<forall>e. BackendGroup_List sdk req e = (Inr (v_bgs V e), e)) \<and>
     (\<forall>e. TargetGroup_List sdk req e = (Inr (v_tgs V e), e)) \<and>
     (\<forall>e l ls. v_lbs V e = l # ls \<longrightarrow>
        (\<exists>x e'. LoadBalancer_Delete sdk (lb_Id l) e = (Inr x, e') \<and> v_yc V e' = v_yc V e \<and>
           v_bgs V e' = v_bgs V e \<and> v_tgs V e' = v_tgs V e \<and> length (v_lbs V e') \<le> length ls)) \<and>
     (\<forall>e b bs. v_bgs V e = b # bs \<longrightarrow>
        (\<exists>x e'. BackendGroup_Delete sdk (bg_Id b) e = (Inr x, e') \<and> v_yc V e' = v_yc V e \<and>
           v_lbs V e' = v_lbs V e \<and> v_tgs V e' = v_tgs V e \<and> length (v_bgs V e') \<le> length bs)) \<and>
     (\<forall>e t ts. v_tgs V e = t # ts \<longrightarrow>
        (\<exists>x e'. TargetGroup_Delete sdk (tg_Id t) e = (Inr x, e') \<and> v_yc V e' = v_yc V e \<and>
           v_lbs V e' = v_lbs V e \<and> v_bgs V e' = v_bgs V e \<and> length (v_tgs V e') \<le> length ts))"

text \<open>The API server: it serves the stored object and its owner, and stores a patch.\<close>

definition obliging_server ::
    "Lib \<Rightarrow> 'e Kube \<Rightarrow> string \<Rightarrow> string \<Rightarrow> Cluster \<Rightarrow> 'e View \<Rightarrow> bool" where
  "obliging_server L K ns name cluster V \<longleftrightarrow>
     (\<forall>e. Get_YandexCluster K ns name e = (Inr (v_yc V e), e)) \<and>
     (\<forall>e m. GetOwnerCluster K m e = (Inr (Some cluster), e)) \<and>
     (\<forall>e c. NewHelper_YandexCluster K c e = (Inr (), e)) \<and>
     (\<forall>e b c. \<exists>e'. Patch_YandexCluster K b c e = (Inr (), e') \<and> v_yc V e' = c \<and>
        v_lbs V e' = v_lbs V e \<and> v_bgs V e' = v_bgs V e \<and> v_tgs V e' = v_tgs V e \<and>
        v_wait V e' = v_wait V e) \<and>
     (\<forall>m. \<not> IsPaused L cluster m)"

text \<open>The request of every look-up by name.\<close>

definition by_name :: "'e SDK \<Rightarrow> ClusterScope \<Rightarrow> ListRequest" where
  "by_name sdk sc = \<lparr>lr_FolderId = ClusterScope_GetFolderID sc,
     lr_Filter = ResolverFilter sdk ''name'' (ClusterScope_GetLBName sc),
     lr_PageSize = ResolverPageSize sdk\<rparr>"

definition scope_of :: "Cluster \<Rightarrow> YandexCluster \<Rightarrow> ClusterScope" where
  "scope_of cluster yc = \<lparr>cs_Cluster = cluster, cs_YandexCluster = yc, cs_before = yc\<rparr>"

lemma scope_of_spec:
  assumes "yc_Spec a = yc_Spec b"
  shows "by_name sdk (scope_of cluster a) = by_name sdk (scope_of cluster b)"
    and "ClusterScope_GetLBType (scope_of cluster a) = ClusterScope_GetLBType (scope_of cluster b)"
  using assms
  by (simp_all add: by_name_def scope_of_def ClusterScope_GetFolderID_def ClusterScope_GetLBName_def
      generateName_def ClusterScope_Name_def ClusterScope_GetLBType_def)

section \<open>One pass of the service\<close>

lemma answered:
  "f (env w) = (Inr x, e') \<Longrightarrow> \<exists>w'. observed mc (traced c f) w = (Ok x, w') \<and> env w' = e'"
  by (simp add: observed_def traced_def external_def ObserveRequest_def)

lemma head_found:
  assumes "f (env w) = (Inr xs, e')"
  shows "\<exists>w'. bindG (observed mc (traced c f)) (\<lambda>xs. case xs of [] \<Rightarrow> ret None | x # _ \<Rightarrow> ret (Some x)) w =
    (Ok (case xs of [] \<Rightarrow> None | x # _ \<Rightarrow> Some x), w') \<and> env w' = e'"
  using answered [where f = f and w = w, OF assms, of mc c] by (auto split: list.split)

lemma look_ups:
  "LoadBalancer_List sdk (by_name sdk sc) (env w) = (Inr lbs, e1) \<Longrightarrow>
     \<exists>w'. YandexClient_ALBGetByName sdk (ClusterScope_GetFolderID sc) (ClusterScope_GetLBName sc) w =
       (Ok (case lbs of [] \<Rightarrow> None | x # _ \<Rightarrow> Some x), w') \<and> env w' = e1"
  "BackendGroup_List sdk (by_name sdk sc) (env w) = (Inr bgs, e2) \<Longrightarrow>
     \<exists>w'. YandexClient_ALBBackendGroupGetByName sdk (ClusterScope_GetFolderID sc) (ClusterScope_GetLBName sc) w =
       (Ok (case bgs of [] \<Rightarrow> None | x # _ \<Rightarrow> Some x), w') \<and> env w' = e2"
  "TargetGroup_List sdk (by_name sdk sc) (env w) = (Inr tgs, e3) \<Longrightarrow>
     \<exists>w'. YandexClient_ALBTargetGroupGetByName sdk (ClusterScope_GetFolderID sc) (ClusterScope_GetLBName sc) w =
       (Ok (case tgs of [] \<Rightarrow> None | x # _ \<Rightarrow> Some x), w') \<and> env w' = e3"
  unfolding client_method_defs by_name_def [symmetric] Let_def by (rule head_found; assumption)+

lemma deletions:
  "LoadBalancer_Delete sdk i (env w) = (Inr x, e') \<Longrightarrow>
     \<exists>w'. YandexClient_ALBDelete sdk i w = (Ok (), w') \<and> env w' = e'"
  "BackendGroup_Delete sdk i (env w) = (Inr x, e') \<Longrightarrow>
     \<exists>w'. YandexClient_ALBBackendGroupDelete sdk i w = (Ok (), w') \<and> env w' = e'"
  "TargetGroup_Delete sdk i (env w) = (Inr x, e') \<Longrightarrow>
     \<exists>w'. YandexClient_ALBTargetGroupDelete sdk i w = (Ok (), w') \<and> env w' = e'"
  by (simp_all add: client_method_defs observed_def traced_def external_def ObserveRequest_def
      Let_def)

text \<open>One deletion of the three, in terms of the list that its look-up found.\<close>

lemma delete_found_list:
  assumes look: "look w = (Ok (case xs of [] \<Rightarrow> None | x # _ \<Rightarrow> Some x), w1)"
    and del: "\<And>x ys. xs = x # ys \<Longrightarrow> \<not> skip x \<Longrightarrow> \<exists>w2. del x w1 = (Ok (), w2) \<and> P (env w2)"
    and skip: "\<And>x ys. xs = x # ys \<Longrightarrow> skip x \<Longrightarrow> P (env w1)"
  shows "\<exists>w'. delete_found look skip del w = (Ok (xs = []), w') \<and>
    (if xs = [] then w' = w1 else P (env w'))"
proof (cases xs)
  case Nil
  with look show ?thesis by (simp add: delete_found_def)
next
  case (Cons x ys)
  with look del [OF Cons] skip [OF Cons] show ?thesis
    by (cases "skip x") (auto simp: delete_found_def)
qed

definition view_kept :: "'e View \<Rightarrow> 'e \<Rightarrow> 'e \<Rightarrow> bool" where
  "view_kept V e e' \<longleftrightarrow> v_yc V e' = v_yc V e \<and> v_lbs V e' = v_lbs V e \<and>
     v_bgs V e' = v_bgs V e \<and> v_tgs V e' = v_tgs V e"

definition view_less :: "'e View \<Rightarrow> 'e \<Rightarrow> 'e \<Rightarrow> bool" where
  "view_less V e e' \<longleftrightarrow> v_yc V e' = v_yc V e \<and> left_over V e' < left_over V e"

lemma view_trans:
  "view_kept V a b \<Longrightarrow> view_kept V b c \<Longrightarrow> view_kept V a c"
  "view_kept V a b \<Longrightarrow> view_less V b c \<Longrightarrow> view_less V a c"
  by (simp_all add: view_kept_def view_less_def left_over_def)

lemmas delete_shapes = delete_one_shapes [of "YandexClient sdk" sc, simplified YandexClient_sel] for sdk sc

lemma lb_part:
  assumes cloud: "obliging_cloud sdk (by_name sdk sc) V"
  shows "\<exists>w'. deleteApplicationLoadBalancer (YandexClient sdk) sc w = (Ok (v_lbs V (env w) = []), w') \<and>
    (if v_lbs V (env w) = [] then view_kept V (env w) (env w') else view_less V (env w) (env w'))"
proof -
  obtain e1 where e1: "LoadBalancer_List sdk (by_name sdk sc) (env w) = (Inr (v_lbs V (env w)), e1)"
      "v_yc V e1 = v_yc V (env w)" "v_bgs V e1 = v_bgs V (env w)" "v_tgs V e1 = v_tgs V (env w)"
      "if v_lbs V (env w) \<noteq> [] \<and> lb_going (hd (v_lbs V (env w)))
       then length (v_lbs V e1) < length (v_lbs V (env w)) else v_lbs V e1 = v_lbs V (env w)"
    using cloud unfolding obliging_cloud_def by blast
  from look_ups(1) [OF e1(1)] obtain w1 where w1: "env w1 = e1"
      "YandexClient_ALBGetByName sdk (ClusterScope_GetFolderID sc) (ClusterScope_GetLBName sc) w =
        (Ok (case v_lbs V (env w) of [] \<Rightarrow> None | x # _ \<Rightarrow> Some x), w1)" by blast
  have "\<exists>w'. deleteApplicationLoadBalancer (YandexClient sdk) sc w = (Ok (v_lbs V (env w) = []), w') \<and>
      (if v_lbs V (env w) = [] then w' = w1 else view_less V (env w) (env w'))"
    unfolding delete_shapes
  proof (rule delete_found_list [where xs = "v_lbs V (env w)" and P = "view_less V (env w)"], rule w1(2))
    fix l ls assume l: "v_lbs V (env w) = l # ls"
    show "view_less V (env w) (env w1)" if "lb_going l"
      using that l e1 w1(1) by (simp add: left_over_def view_less_def)
    show "\<exists>w2. YandexClient_ALBDelete sdk (lb_Id l) w1 = (Ok (), w2) \<and> view_less V (env w) (env w2)"
      if "\<not> lb_going l"
    proof -
      from that l e1(5) have "v_lbs V e1 = l # ls" by simp
      with cloud obtain x e' where d: "LoadBalancer_Delete sdk (lb_Id l) (env w1) = (Inr x, e')"
        "v_yc V e' = v_yc V e1" "v_bgs V e' = v_bgs V e1" "v_tgs V e' = v_tgs V e1"
        "length (v_lbs V e') \<le> length ls"
        unfolding obliging_cloud_def w1(1) by blast
      from deletions(1) [OF d(1)] d e1 l show ?thesis by (auto simp: left_over_def view_less_def)
    qed
  qed
  with e1 w1(1) show ?thesis by (auto simp: view_kept_def split: if_splits)
qed

lemma bg_part:
  assumes cloud: "obliging_cloud sdk (by_name sdk sc) V"
  shows "\<exists>w'. deleteALBBackendGroup (YandexClient sdk) sc w = (Ok (v_bgs V (env w) = []), w') \<and>
    (if v_bgs V (env w) = [] then env w' = env w else view_less V (env w) (env w'))"
proof -
  have "BackendGroup_List sdk (by_name sdk sc) (env w) = (Inr (v_bgs V (env w)), env w)"
    using cloud unfolding obliging_cloud_def by blast
  from look_ups(2) [OF this] obtain w1 where w1: "env w1 = env w"
    "YandexClient_ALBBackendGroupGetByName sdk (ClusterScope_GetFolderID sc) (ClusterScope_GetLBName sc) w =
      (Ok (case v_bgs V (env w) of [] \<Rightarrow> None | x # _ \<Rightarrow> Some x), w1)" by blast
  have "\<exists>w'. deleteALBBackendGroup (YandexClient sdk) sc w = (Ok (v_bgs V (env w) = []), w') \<and>
      (if v_bgs V (env w) = [] then w' = w1 else view_less V (env w) (env w'))"
    unfolding delete_shapes
  proof (rule delete_found_list [where xs = "v_bgs V (env w)" and P = "view_less V (env w)"], rule w1(2))
    fix b bs assume b: "v_bgs V (env w) = b # bs"
    with cloud obtain x e' where d: "BackendGroup_Delete sdk (bg_Id b) (env w1) = (Inr x, e')"
      "v_yc V e' = v_yc V (env w)" "v_lbs V e' = v_lbs V (env w)" "v_tgs V e' = v_tgs V (env w)"
      "length (v_bgs V e') \<le> length bs"
      unfolding obliging_cloud_def w1(1) by blast
    from deletions(2) [OF d(1)] d b
    show "\<exists>w2. YandexClient_ALBBackendGroupDelete sdk (bg_Id b) w1 = (Ok (), w2) \<and> view_less V (env w) (env w2)"
      by (auto simp: left_over_def view_less_def)
  qed simp
  with w1(1) show ?thesis by (auto split: if_splits)
qed

lemma tg_part:
  assumes cloud: "obliging_cloud sdk (by_name sdk sc) V"
  shows "\<exists>w'. deleteALBTargetGroup (YandexClient sdk) sc w = (Ok (v_tgs V (env w) = []), w') \<and>
    (if v_tgs V (env w) = [] then env w' = env w else view_less V (env w) (env w'))"
proof -
  have "TargetGroup_List sdk (by_name sdk sc) (env w) = (Inr (v_tgs V (env w)), env w)"
    using cloud unfolding obliging_cloud_def by blast
  from look_ups(3) [OF this] obtain w1 where w1: "env w1 = env w"
    "YandexClient_ALBTargetGroupGetByName sdk (ClusterScope_GetFolderID sc) (ClusterScope_GetLBName sc) w =
      (Ok (case v_tgs V (env w) of [] \<Rightarrow> None | x # _ \<Rightarrow> Some x), w1)" by blast
  have "\<exists>w'. deleteALBTargetGroup (YandexClient sdk) sc w = (Ok (v_tgs V (env w) = []), w') \<and>
      (if v_tgs V (env w) = [] then w' = w1 else view_less V (env w) (env w'))"
    unfolding delete_shapes
  proof (rule delete_found_list [where xs = "v_tgs V (env w)" and P = "view_less V (env w)"], rule w1(2))
    fix t ts assume t: "v_tgs V (env w) = t # ts"
    with cloud obtain x e' where d: "TargetGroup_Delete sdk (tg_Id t) (env w1) = (Inr x, e')"
      "v_yc V e' = v_yc V (env w)" "v_lbs V e' = v_lbs V (env w)" "v_bgs V e' = v_bgs V (env w)"
      "length (v_tgs V e') \<le> length ts"
      unfolding obliging_cloud_def w1(1) by blast
    from deletions(3) [OF d(1)] d t
    show "\<exists>w2. YandexClient_ALBTargetGroupDelete sdk (tg_Id t) w1 = (Ok (), w2) \<and> view_less V (env w) (env w2)"
      by (auto simp: left_over_def view_less_def)
  qed simp
  with w1(1) show ?thesis by (auto split: if_splits)
qed

text \<open>The service makes progress with every pass, and says so when nothing is left.\<close>

lemma delete_pass:
  assumes cloud: "obliging_cloud sdk (by_name sdk sc) V"
    and alb: "ClusterScope_GetLBType sc = LoadBalancerTypeALB"
  shows "\<exists>w'. LB_Delete (YandexClient sdk) sc w = (Ok (left_over V (env w) = 0), w') \<and>
    (if left_over V (env w) = 0 then view_kept V (env w) (env w') else view_less V (env w) (env w'))"
proof -
  let ?C = "YandexClient sdk"
  obtain w1 where 1: "deleteApplicationLoadBalancer ?C sc w = (Ok (v_lbs V (env w) = []), w1)"
    "if v_lbs V (env w) = [] then view_kept V (env w) (env w1) else view_less V (env w) (env w1)"
    using lb_part [OF cloud] by blast
  obtain w2 where 2: "deleteALBBackendGroup ?C sc w1 = (Ok (v_bgs V (env w1) = []), w2)"
    "if v_bgs V (env w1) = [] then env w2 = env w1 else view_less V (env w1) (env w2)"
    using bg_part [OF cloud] by blast
  obtain w3 where 3: "deleteALBTargetGroup ?C sc w2 = (Ok (v_tgs V (env w2) = []), w3)"
    "if v_tgs V (env w2) = [] then env w3 = env w2 else view_less V (env w2) (env w3)"
    using tg_part [OF cloud] by blast
  show ?thesis
    using 1 2 3 alb view_trans
    by (cases "v_lbs V (env w) = []"; cases "v_bgs V (env w1) = []"; cases "v_tgs V (env w2) = []")
      (auto simp: LB_Delete_def deleteALBService_def resourceNotDeleted_def resourceDeleted_def
        left_over_def view_kept_def view_less_def)
qed

section \<open>One pass of the controller\<close>

lemma external_at: "f (env w) = (Inr a, env w) \<Longrightarrow> external f w = (Ok a, w)"
  by (simp add: external_def)

text \<open>With an obliging server a pass is its body and the patch.\<close>

lemma served_pass:
  assumes server: "obliging_server L K ns name cluster V"
    and body: "cluster_body L C \<lparr>c_scope = scope_of cluster (v_yc V (env w)), c_world = w\<rparr> = (Ok x, t)"
  shows "\<exists>w'. YandexCluster_Reconcile L K C ns name w = (Ok x, w') \<and>
    v_yc V (env w') = cluster_of t \<and> left_over V (env w') = left_over V (env (c_world t)) \<and>
    v_lbs V (env w') = v_lbs V (env (c_world t)) \<and> v_wait V (env w') = v_wait V (env (c_world t))"
proof -
  let ?yc = "v_yc V (env w)" and ?sc = "scope_of cluster (v_yc V (env w))"
  have fetch: "external (Get_YandexCluster K ns name) w = (Ok ?yc, w)"
    "external (GetOwnerCluster K (yc_Meta ?yc)) w = (Ok (Some cluster), w)"
    "external (NewHelper_YandexCluster K ?yc) w = (Ok (), w)"
    "\<not> IsPaused L cluster (yc_Meta ?yc)"
    using server by (auto simp: obliging_server_def intro!: external_at)
  then have scope: "NewClusterScope \<lparr>csp_Client = Some K, csp_Cluster = Some cluster,
      csp_YandexCluster = Some ?yc, csp_YandexClient = Some C\<rparr> w = (Ok ?sc, w)"
    by (simp add: NewClusterScope_def scope_of_def)
  obtain e' where p: "Patch_YandexCluster K (cs_before (c_scope t)) (cluster_of t) (env (c_world t)) = (Inr (), e')"
    "v_yc V e' = cluster_of t" "v_lbs V e' = v_lbs V (env (c_world t))"
    "v_bgs V e' = v_bgs V (env (c_world t))" "v_tgs V e' = v_tgs V (env (c_world t))"
    "v_wait V e' = v_wait V (env (c_world t))"
    using server unfolding obliging_server_def by blast
  then obtain t' where close: "ClusterScope_Close K t = (Ok (), t')" "env (c_world t') = e'"
    by (fastforce simp: ClusterScope_Close_def ClusterScope_PatchObject_def in_world_def zoomG_def
        traced_def external_def Let_def)
  then have "YandexCluster_scoped L K C \<lparr>c_scope = ?sc, c_world = w\<rparr> = (Ok x, t')"
    using body unfolding YandexCluster_scoped_def cluster_body_def [symmetric]
    by (simp add: deferG_def)
  with fetch scope have "YandexCluster_Reconcile L K C ns name w = (Ok x, c_world t')"
    by (simp add: YandexCluster_Reconcile_def run_cluster_scope_def)
  with close p show ?thesis by (simp add: left_over_def)
qed

lemma deleting_pass:
  assumes server: "obliging_server L K ns name cluster V"
    and cloud: "obliging_cloud sdk (by_name sdk (scope_of cluster (v_yc V (env w)))) V"
    and alb: "ClusterScope_GetLBType (scope_of cluster (v_yc V (env w))) = LoadBalancerTypeALB"
    and leaving: "being_deleted (v_yc V (env w))" "has_finalizer L (v_yc V (env w))"
  shows "\<exists>r w'. YandexCluster_Reconcile L K (YandexClient sdk) ns name w = (r, w') \<and>
    (if left_over V (env w) = 0
     then v_yc V (env w') = yc_finalizers (\<lambda>fs. RemoveFinalizer L fs ClusterFinalizer) (v_yc V (env w)) \<and>
       left_over V (env w') = 0
     else (\<exists>cs. v_yc V (env w') = YandexCluster_SetConditions cs (v_yc V (env w))) \<and>
       left_over V (env w') < left_over V (env w))"
proof -
  let ?sc = "scope_of cluster (v_yc V (env w))"
  let ?s = "\<lparr>c_scope = ?sc, c_world = w\<rparr>"
  have yc: "cs_YandexCluster ?sc = v_yc V (env w)" by (simp add: scope_of_def)
  obtain w1 where d: "LB_Delete (YandexClient sdk) ?sc w = (Ok (left_over V (env w) = 0), w1)"
    "if left_over V (env w) = 0 then view_kept V (env w) (env w1) else view_less V (env w) (env w1)"
    using delete_pass [OF cloud alb] by blast
  show ?thesis
  proof (cases "left_over V (env w) = 0")
    case True
    with d(1) leaving yc have "cluster_body L (YandexClient sdk) ?s = (Ok no_requeue,
        set_yc (yc_finalizers (\<lambda>fs. RemoveFinalizer L fs ClusterFinalizer)) (?s\<lparr>c_world := w1\<rparr>))"
      by (simp add: cluster_body_def YandexCluster_reconcileDelete_def)
    from served_pass [OF server this] True d(2) yc show ?thesis
      by (auto simp: view_kept_def left_over_def)
  next
    case False
    with d(1) have "LB_Delete (YandexClient sdk) ?sc w = (Ok False, w1)" by (simp del: neq0_conv)
    with leaving yc have "cluster_body L (YandexClient sdk) ?s = (Ok requeue_later,
        set_yc (yc_mark (MarkFalse L LoadBalancerReadyCondition (DeletingReason L) (SeverityInfo L) []))
          (?s\<lparr>c_world := w1\<rparr>))"
      by (simp add: cluster_body_def YandexCluster_reconcileDelete_def tryG_def in_world_def zoomG_def)
    from served_pass [OF server this] False d(2) yc show ?thesis
      by (auto simp: view_less_def yc_mark_def)
  qed
qed

section \<open>Repeated passes\<close>

fun reconcile_times :: "nat \<Rightarrow> ('w, Result) go \<Rightarrow> 'w \<Rightarrow> 'w" where
  "reconcile_times 0 m w = w"
| "reconcile_times (Suc n) m w = reconcile_times n m (snd (m w))"

lemma deletion_completes_aux:
  assumes server: "obliging_server L K ns name cluster V"
  shows "obliging_cloud sdk (by_name sdk (scope_of cluster (v_yc V (env w)))) V \<Longrightarrow>
    ClusterScope_GetLBType (scope_of cluster (v_yc V (env w))) = LoadBalancerTypeALB \<Longrightarrow>
    being_deleted (v_yc V (env w)) \<Longrightarrow> has_finalizer L (v_yc V (env w)) \<Longrightarrow>
    \<exists>n \<le> Suc (left_over V (env w)).
      let e = env (reconcile_times n (YandexCluster_Reconcile L K (YandexClient sdk) ns name) w) in
      left_over V e = 0 \<and> (\<exists>yc. v_yc V e = yc_finalizers (\<lambda>fs. RemoveFinalizer L fs ClusterFinalizer) yc)"
proof (induction "left_over V (env w)" arbitrary: w rule: less_induct)
  case less
  let ?m = "YandexCluster_Reconcile L K (YandexClient sdk) ns name"
  obtain r w' where run: "?m w = (r, w')" and
    pass: "if left_over V (env w) = 0
     then v_yc V (env w') = yc_finalizers (\<lambda>fs. RemoveFinalizer L fs ClusterFinalizer) (v_yc V (env w)) \<and>
       left_over V (env w') = 0
     else (\<exists>cs. v_yc V (env w') = YandexCluster_SetConditions cs (v_yc V (env w))) \<and>
       left_over V (env w') < left_over V (env w)"
    using deleting_pass [OF server less.prems] by blast
  show ?case
  proof (cases "left_over V (env w) = 0")
    case True
    with run pass show ?thesis
      by (intro exI [of _ 1]) (auto simp: Let_def)
  next
    case False
    with pass obtain cs where yc: "v_yc V (env w') = YandexCluster_SetConditions cs (v_yc V (env w))"
      and smaller: "left_over V (env w') < left_over V (env w)" by auto
    have spec: "yc_Spec (v_yc V (env w')) = yc_Spec (v_yc V (env w))" by (simp add: yc)
    have prems: "obliging_cloud sdk (by_name sdk (scope_of cluster (v_yc V (env w')))) V"
      "ClusterScope_GetLBType (scope_of cluster (v_yc V (env w'))) = LoadBalancerTypeALB"
      "being_deleted (v_yc V (env w'))" "has_finalizer L (v_yc V (env w'))"
      unfolding scope_of_spec [OF spec] using less.prems yc by simp_all
    obtain n where "n \<le> Suc (left_over V (env w'))"
      "let e = env (reconcile_times n ?m w') in left_over V e = 0 \<and>
        (\<exists>yc. v_yc V e = yc_finalizers (\<lambda>fs. RemoveFinalizer L fs ClusterFinalizer) yc)"
      using less.hyps [OF smaller prems] by blast
    with smaller run show ?thesis
      by (intro exI [of _ "Suc n"]) (auto simp: Let_def)
  qed
qed

text \<open>
  C6: deletion completes.  When the cloud and the API server oblige, a cluster that is marked for deletion
  and carries the finalizer loses it after at most one pass more than there are resources left over,
  duplicates of a name included, and then nothing of it is left in the cloud.
\<close>

theorem cluster_deletion_completes:
  assumes "obliging_server L K ns name cluster V"
    and "obliging_cloud sdk (by_name sdk (scope_of cluster (v_yc V (env w)))) V"
    and "ClusterScope_GetLBType (scope_of cluster (v_yc V (env w))) = LoadBalancerTypeALB"
    and "being_deleted (v_yc V (env w))" "has_finalizer L (v_yc V (env w))"
    and laws: "finalizer_laws L"
  shows "\<exists>n \<le> Suc (left_over V (env w)).
    let e = env (reconcile_times n (YandexCluster_Reconcile L K (YandexClient sdk) ns name) w) in
    left_over V e = 0 \<and> \<not> has_finalizer L (v_yc V e)"
proof -
  have "\<not> has_finalizer L (yc_finalizers (\<lambda>fs. RemoveFinalizer L fs ClusterFinalizer) yc)" for yc
    using laws by (simp add: finalizer_laws_def)
  with deletion_completes_aux [OF assms(1-5)] show ?thesis
    unfolding Let_def by metis
qed

text \<open>The simulated cloud obliges once a load balancer on its way out disappears after it was seen.\<close>

definition sim_view :: "string \<Rightarrow> Sim View" where
  "sim_view n = \<lparr>v_yc = sim_yc, v_lbs = (\<lambda>e. filter (\<lambda>x. lb_Name x = n) (sim_lbs e)),
     v_bgs = (\<lambda>e. filter (\<lambda>x. bg_Name x = n) (sim_bgs e)),
     v_tgs = (\<lambda>e. filter (\<lambda>x. tg_Name x = n) (sim_tgs e)), v_wait = (\<lambda>_. 0)\<rparr>"

definition sim_timed :: "Sim SDK" where
  "sim_timed = sim_sdk\<lparr>LoadBalancer_List := (\<lambda>req e.
     let found = filter (\<lambda>x. lb_Name x = lr_Filter req) (sim_lbs e) in
     (Inr found, if found \<noteq> [] \<and> lb_going (hd found)
       then e\<lparr>sim_lbs := remove1 (hd found) (sim_lbs e)\<rparr> else e))\<rparr>"

lemma filter_head_removed:
  "filter P xs = x # ys \<Longrightarrow> length (filter (\<lambda>v. f v \<noteq> f x \<and> P v) xs) \<le> length ys"
proof -
  assume f: "filter P xs = x # ys"
  have "filter (\<lambda>v. f v \<noteq> f x \<and> P v) xs = filter (\<lambda>v. f v \<noteq> f x) (filter P xs)"
    by (simp add: conj_commute)
  also have "\<dots> = filter (\<lambda>v. f v \<noteq> f x) ys" unfolding f by simp
  finally show ?thesis by (metis length_filter_le)
qed

lemma sim_timed_obliging: "obliging_cloud sim_timed req (sim_view (lr_Filter req))"
proof -
  have gone: "length (filter P (remove1 (hd (filter P xs)) xs)) < length (filter P xs)"
    if "filter P xs \<noteq> []" for P :: "LoadBalancer \<Rightarrow> bool" and xs
    using that by (cases "filter P xs") (simp_all add: filter_remove1)
  show ?thesis
    unfolding obliging_cloud_def sim_timed_def sim_view_def
    by (auto simp: Let_def sim_list_def gone intro!: filter_head_removed)
qed

lemma sim_kube_obliging: "obliging_server sim_lib sim_kube ns name sim_cluster (sim_view n)"
  by (simp add: obliging_server_def sim_view_def sim_cluster_def)

theorem cluster_deletion_completes_witness:
  "\<exists>n \<le> 4. let e = env (reconcile_times n (YandexCluster_Reconcile sim_lib sim_kube (YandexClient sim_timed)
     ''default'' ''c1'') (start (sim_full\<lparr>sim_yc := sim_yc sim_leaving\<rparr>))) in
   left_over (sim_view ''lb1'') e = 0 \<and> \<not> has_finalizer sim_lib (sim_yc e)"
proof -
  let ?w = "start (sim_full\<lparr>sim_yc := sim_yc sim_leaving\<rparr>)" and ?V = "sim_view ''lb1''"
  let ?sc = "scope_of sim_cluster (v_yc ?V (env ?w))"
  have stored: "v_yc ?V (env ?w) = sim_yc sim_leaving" "v_yc ?V = sim_yc"
    by (simp_all add: sim_view_def)
  have "lr_Filter (by_name sim_timed ?sc) = ''lb1''"
    by (simp add: by_name_def scope_of_def stored sim_timed_def sim_starts evaluate)
  then have cloud: "obliging_cloud sim_timed (by_name sim_timed ?sc) ?V"
    by (metis sim_timed_obliging)
  have "ClusterScope_GetLBType ?sc = LoadBalancerTypeALB"
    "being_deleted (v_yc ?V (env ?w))" "has_finalizer sim_lib (v_yc ?V (env ?w))"
    unfolding stored by (simp_all add: scope_of_def sim_starts evaluate)
  moreover have "Suc (left_over ?V (env ?w)) = 4"
    by (simp add: left_over_def sim_view_def sim_full_def sim_lb_def)
  ultimately show ?thesis
    using cluster_deletion_completes [OF sim_kube_obliging cloud _ _ _ sim_lib_finalizer_laws]
    unfolding stored by metis
qed

end
