(* ===== verification/Cluster_Progress.thy ===== *)
theory Cluster_Progress
  imports Cluster_Liveness
begin

text \<open>
  Progress towards a ready cluster: in a cloud that creates what it is asked for and makes a new load
  balancer active after some number of look-ups, repeated reconciliations publish its listener.
\<close>

section \<open>The part of the cloud\<close>

text \<open>An accepted operation ends: its metadata and its response can be read.\<close>

definition finishes :: "'e SDK \<Rightarrow> Operation \<Rightarrow> Meta \<Rightarrow> bool" where
  "finishes sdk op meta \<longleftrightarrow>
     (\<exists>co. \<forall>e. WrapOperation sdk op e = (Inr co, e) \<and> Operation_Metadata sdk co e = (Inr meta, e) \<and>
        Operation_Wait sdk co e = (Inr (), e) \<and> Operation_Response sdk co e = (Inr (), e))"

definition bystander :: "'e View \<Rightarrow> 'e \<Rightarrow> 'e \<Rightarrow> bool" where
  "bystander V e e' \<longleftrightarrow> v_yc V e' = v_yc V e \<and> v_lbs V e' = v_lbs V e \<and> v_wait V e' = v_wait V e"

text \<open>
  Groups are found or created at once.  A load balancer of the name has the listener \<open>x\<close>, is active
  when the wait of its view is over, each look-up shortens the wait, and a new one waits for at most
  \<open>N\<close> look-ups.
\<close>

definition building_cloud ::
    "'e SDK \<Rightarrow> ListRequest \<Rightarrow> 'e View \<Rightarrow> nat \<Rightarrow> string \<times> int32 \<Rightarrow> bool" where
  "building_cloud sdk req V N x \<longleftrightarrow>
     (\<forall>e. \<exists>ts. TargetGroup_List sdk req e = (Inr ts, e)) \<and>
     (\<forall>e. \<exists>bs. BackendGroup_List sdk req e = (Inr bs, e)) \<and>
     (\<forall>e rq. \<exists>op i e'. TargetGroup_Create sdk rq e = (Inr op, e') \<and>
        finishes sdk op (CreateTargetGroupMetadata i) \<and> bystander V e e') \<and>
     (\<forall>e rq. \<exists>op i e'. BackendGroup_Create sdk rq e = (Inr op, e') \<and>
        finishes sdk op (CreateBackendGroupMetadata i) \<and> bystander V e e') \<and>
     (\<forall>e. \<exists>e'. LoadBalancer_List sdk req e = (Inr (v_lbs V e), e') \<and> v_yc V e' = v_yc V e \<and>
        v_wait V e' = v_wait V e - 1 \<and> (v_lbs V e' = [] \<longleftrightarrow> v_lbs V e = [])) \<and>
     (\<forall>e l ls. v_lbs V e = l # ls \<longrightarrow>
        (lb_Status l = LB_ACTIVE \<longleftrightarrow> v_wait V e = 0) \<and> internal_listener (Some l) = Some x) \<and>
     (\<forall>e rq. \<exists>op i e'. LoadBalancer_Create sdk rq e = (Inr op, e') \<and>
        finishes sdk op (CreateLoadBalancerMetadata i) \<and> v_yc V e' = v_yc V e \<and>
        v_lbs V e' \<noteq> [] \<and> v_wait V e' \<le> N)"

text \<open>A listener that the specification does not object to.\<close>

definition fits :: "LoadBalancerSpec \<Rightarrow> string \<times> int32 \<Rightarrow> bool" where
  "fits spec x \<longleftrightarrow> (let l = lbs_Listener spec in
     ls_Address l = [] \<or> (fst x = [] \<or> fst x = ls_Address l) \<and> (snd x = 0 \<or> snd x = ls_Port l))"

lemma fits_verdict:
  "fits (ClusterScope_GetLBSpec sc) x \<Longrightarrow> ls_Address (lbs_Listener (ClusterScope_GetLBSpec sc)) \<noteq> [] \<Longrightarrow>
     listener_verdict sc x = Ok ()"
  by (cases x) (auto simp: fits_def listener_verdict_def Let_def)

section \<open>One pass of the service\<close>

lemma creations:
  "TargetGroup_Create sdk rq (env w) = (Inr op, e') \<Longrightarrow> finishes sdk op (CreateTargetGroupMetadata i) \<Longrightarrow>
     \<exists>w'. YandexClient_ALBTargetGroupCreate sdk rq w = (Ok i, w') \<and> env w' = e'"
  "BackendGroup_Create sdk brq (env w) = (Inr op, e') \<Longrightarrow> finishes sdk op (CreateBackendGroupMetadata i) \<Longrightarrow>
     \<exists>w'. YandexClient_ALBBackendGroupCreate sdk brq w = (Ok i, w') \<and> env w' = e'"
  "LoadBalancer_Create sdk lrq (env w) = (Inr op, e') \<Longrightarrow> finishes sdk op (CreateLoadBalancerMetadata i) \<Longrightarrow>
     \<exists>w'. YandexClient_ALBCreate sdk lrq w = (Ok i, w') \<and> env w' = e'"
  by (auto simp: finishes_def client_method_defs YandexClient_getMeta_def observed_def traced_def
      external_def ObserveRequest_def Let_def)

lemma ensured:
  assumes "look w = (Ok y, w1)" "\<exists>i w2. create w1 = (Ok i, w2) \<and> P w2" "P w1"
  shows "\<exists>i w'. ensure_found look ident create w = (Ok i, w') \<and> P w'"
  using assms by (cases y) (auto simp: ensure_found_def)

lemma group_steps:
  assumes cloud: "building_cloud sdk (by_name sdk sc) V N x"
  shows "\<exists>i w'. reconcileALBTargetGroup (YandexClient sdk) sc w = (Ok i, w') \<and> bystander V (env w) (env w')"
    and "\<exists>i w'. reconcileALBBackendGroup (YandexClient sdk) sc tg w = (Ok i, w') \<and> bystander V (env w) (env w')"
proof -
  have refl: "bystander V e e" for e by (simp add: bystander_def)
  obtain ts where "TargetGroup_List sdk (by_name sdk sc) (env w) = (Inr ts, env w)"
    using cloud unfolding building_cloud_def by blast
  from look_ups(3) [OF this] obtain y w1 where look: "env w1 = env w"
    "YandexClient_ALBTargetGroupGetByName sdk (ClusterScope_GetFolderID sc) (ClusterScope_GetLBName sc) w = (Ok y, w1)"
    by blast
  obtain op i e' where "TargetGroup_Create sdk (target_group_request sc) (env w1) = (Inr op, e')"
    "finishes sdk op (CreateTargetGroupMetadata i)" "bystander V (env w1) e'"
    using cloud unfolding building_cloud_def by blast
  with creations(1) [of sdk "target_group_request sc" w1 op e' i] look refl
  show "\<exists>i w'. reconcileALBTargetGroup (YandexClient sdk) sc w = (Ok i, w') \<and> bystander V (env w) (env w')"
    unfolding ensure_shapes YandexClient_sel
    by (intro ensured [where P = "\<lambda>w'. bystander V (env w) (env w')" and w = w and ?w1.0 = w1 and y = y])
      auto
next
  have refl: "bystander V e e" for e by (simp add: bystander_def)
  obtain bs where "BackendGroup_List sdk (by_name sdk sc) (env w) = (Inr bs, env w)"
    using cloud unfolding building_cloud_def by blast
  from look_ups(2) [OF this] obtain y w1 where look: "env w1 = env w"
    "YandexClient_ALBBackendGroupGetByName sdk (ClusterScope_GetFolderID sc) (ClusterScope_GetLBName sc) w = (Ok y, w1)"
    by blast
  obtain op i e' where "BackendGroup_Create sdk (backend_group_request sc tg) (env w1) = (Inr op, e')"
    "finishes sdk op (CreateBackendGroupMetadata i)" "bystander V (env w1) e'"
    using cloud unfolding building_cloud_def by blast
  with creations(2) [of sdk "backend_group_request sc tg" w1 op e' i] look refl
  show "\<exists>i w'. reconcileALBBackendGroup (YandexClient sdk) sc tg w = (Ok i, w') \<and> bystander V (env w) (env w')"
    unfolding ensure_shapes YandexClient_sel
    by (intro ensured [where P = "\<lambda>w'. bystander V (env w) (env w')" and w = w and ?w1.0 = w1 and y = y])
      auto
qed

text \<open>A look-up of the load balancer.\<close>

lemma lb_look_up:
  assumes cloud: "building_cloud sdk (by_name sdk sc) V N x"
  obtains w1 where "YandexClient_ALBGetByName sdk (ClusterScope_GetFolderID sc) (ClusterScope_GetLBName sc) w =
      (Ok (case v_lbs V (env w) of [] \<Rightarrow> None | l # _ \<Rightarrow> Some l), w1)"
    "v_yc V (env w1) = v_yc V (env w)" "v_wait V (env w1) = v_wait V (env w) - 1"
    "v_lbs V (env w1) = [] \<longleftrightarrow> v_lbs V (env w) = []"
proof -
  obtain e1 where "LoadBalancer_List sdk (by_name sdk sc) (env w) = (Inr (v_lbs V (env w)), e1)"
    "v_yc V e1 = v_yc V (env w)" "v_wait V e1 = v_wait V (env w) - 1" "v_lbs V e1 = [] \<longleftrightarrow> v_lbs V (env w) = []"
    using cloud unfolding building_cloud_def by blast
  with look_ups(1) [OF this(1)] that show thesis by metis
qed

lemma found_load_balancer:
  assumes "building_cloud sdk req V N x" "v_lbs V e = l # ls"
  shows "lb_Status l = LB_ACTIVE \<longleftrightarrow> v_wait V e = 0" "internal_listener (Some l) = Some x"
  using assms unfolding building_cloud_def by blast+

lemma lb_step:
  assumes cloud: "building_cloud sdk (by_name sdk (c_scope s)) V N x"
    and fits: "fits (ClusterScope_GetLBSpec (c_scope s)) x"
    and unset: "\<not> APIEndpoint_IsValid L (ClusterScope_ControlPlaneEndpoint (c_scope s))"
  obtains s' where "reconcileALB L (YandexClient sdk) bg s = (Ok (), s')"
    "only_conditions (c_scope s) (c_scope s')" "v_yc V (env (c_world s')) = v_yc V (env (c_world s))"
    "v_lbs V (env (c_world s')) \<noteq> []"
    "v_wait V (env (c_world s')) \<le>
       (if v_lbs V (env (c_world s)) = [] then N else v_wait V (env (c_world s)) - 1)"
proof -
  let ?w = "c_world s" and ?C = "YandexClient sdk"
  obtain r s' where run: "reconcileALB L ?C bg s = (r, s')" by fastforce
  obtain w1 where look: "YandexClient_ALBGetByName sdk (ClusterScope_GetFolderID (c_scope s))
      (ClusterScope_GetLBName (c_scope s)) ?w = (Ok (case v_lbs V (env ?w) of [] \<Rightarrow> None | l # _ \<Rightarrow> Some l), w1)"
    "v_yc V (env w1) = v_yc V (env ?w)" "v_wait V (env w1) = v_wait V (env ?w) - 1"
    "v_lbs V (env w1) = [] \<longleftrightarrow> v_lbs V (env ?w) = []"
    by (rule lb_look_up [OF cloud])
  from run show thesis
  proof (cases rule: yandex_client.reconcileALB_run)
    case (checked l)
    with look obtain ls where l: "v_lbs V (env ?w) = l # ls" by (auto split: list.splits)
    have "r = listener_verdict (c_scope s) x" using checked(6) found_load_balancer(2) [OF cloud l] .
    with fits_verdict [OF fits checked(5)] checked look l run that show thesis by simp
  next
    case (accepted l)
    with look run that show thesis by (auto split: list.splits)
  next
    case (created w2 q)
    then have "v_lbs V (env ?w) = []" and w2: "w2 = w1" using look by (auto split: list.splits)
    obtain op i e' where c: "LoadBalancer_Create sdk (load_balancer_request (c_scope s) bg) (env w1) = (Inr op, e')"
      "finishes sdk op (CreateLoadBalancerMetadata i)" "v_yc V e' = v_yc V (env w1)" "v_lbs V e' \<noteq> []"
      "v_wait V e' \<le> N"
      using cloud unfolding building_cloud_def by blast
    from creations(3) [OF c(1,2)] created(3) w2 have "is_ok q" "env (c_world s') = e'" by auto
    with created have "is_ok r" "c_scope s' = c_scope (set_yc (yc_mark (MarkTrue L ConditionStatusReady)) s)"
      by simp_all
    then have "r = Ok ()" "only_conditions (c_scope s) (c_scope s')" by (cases r; simp)+
    with run c look \<open>env (c_world s') = e'\<close> \<open>v_lbs V (env ?w) = []\<close> that show thesis by auto
  qed (use look unset in \<open>auto simp: ClusterScope_ControlPlaneEndpoint_def\<close>)
qed

lemma service_step:
  assumes cloud: "building_cloud sdk (by_name sdk (c_scope s)) V N x"
    and fits: "fits (ClusterScope_GetLBSpec (c_scope s)) x"
    and unset: "\<not> APIEndpoint_IsValid L (ClusterScope_ControlPlaneEndpoint (c_scope s))"
    and alb: "ClusterScope_GetLBType (c_scope s) = LoadBalancerTypeALB"
  obtains s' where "LB_Reconcile L (YandexClient sdk) s = (Ok (), s')"
    "only_conditions (c_scope s) (c_scope s')" "v_yc V (env (c_world s')) = v_yc V (env (c_world s))"
    "v_lbs V (env (c_world s')) \<noteq> []"
    "v_wait V (env (c_world s')) \<le>
       (if v_lbs V (env (c_world s)) = [] then N else v_wait V (env (c_world s)) - 1)"
proof -
  obtain i w1 where 1: "reconcileALBTargetGroup (YandexClient sdk) (c_scope s) (c_world s) = (Ok i, w1)"
    "bystander V (env (c_world s)) (env w1)" using group_steps(1) [OF cloud] by blast
  obtain j w2 where 2: "reconcileALBBackendGroup (YandexClient sdk) (c_scope s) i w1 = (Ok j, w2)"
    "bystander V (env w1) (env w2)" using group_steps(2) [OF cloud] by blast
  let ?s = "s\<lparr>c_world := w2\<rparr>"
  obtain s' where 3: "reconcileALB L (YandexClient sdk) j ?s = (Ok (), s')"
    "only_conditions (c_scope ?s) (c_scope s')" "v_yc V (env (c_world s')) = v_yc V (env (c_world ?s))"
    "v_lbs V (env (c_world s')) \<noteq> []"
    "v_wait V (env (c_world s')) \<le>
       (if v_lbs V (env (c_world ?s)) = [] then N else v_wait V (env (c_world ?s)) - 1)"
    by (rule lb_step [of sdk ?s V N x L j]) (use cloud fits unset in simp_all)
  have "LB_Reconcile L (YandexClient sdk) s = (Ok (), s')"
    using alb 1 2 3(1) by (simp add: LB_Reconcile_def reconcileALBService_def Let_def)
  with 1(2) 2(2) 3 that show thesis by (simp add: bystander_def cong: if_cong)
qed

text \<open>After it, either the load balancer is active and is described, or the wait is shorter.\<close>

lemma active_step:
  assumes cloud: "building_cloud sdk (by_name sdk sc) V N x"
    and alb: "ClusterScope_GetLBType sc = LoadBalancerTypeALB" and there: "v_lbs V (env w) \<noteq> []"
  obtains
    (waiting) w1 where "LB_IsActive (YandexClient sdk) sc w = (Ok False, w1)" "v_wait V (env w) \<noteq> 0"
      "v_yc V (env w1) = v_yc V (env w)" "v_lbs V (env w1) \<noteq> []" "v_wait V (env w1) = v_wait V (env w) - 1"
  | (active) w1 w2 where "LB_IsActive (YandexClient sdk) sc w = (Ok True, w1)"
      "LB_Describe (YandexClient sdk) sc w1 =
        (Ok \<lparr>lbst_Name = [], lbst_ListenerAddress = fst x, lbst_ListenerPort = snd x\<rparr>, w2)"
      "v_yc V (env w2) = v_yc V (env w)"
proof -
  obtain l ls where l: "v_lbs V (env w) = l # ls" using there by (cases "v_lbs V (env w)") auto
  obtain w1 where look: "YandexClient_ALBGetByName sdk (ClusterScope_GetFolderID sc)
      (ClusterScope_GetLBName sc) w = (Ok (case v_lbs V (env w) of [] \<Rightarrow> None | l # _ \<Rightarrow> Some l), w1)"
    "v_yc V (env w1) = v_yc V (env w)" "v_wait V (env w1) = v_wait V (env w) - 1"
    "v_lbs V (env w1) = [] \<longleftrightarrow> v_lbs V (env w) = []"
    by (rule lb_look_up [OF cloud])
  from look(1) l alb have a: "LB_IsActive (YandexClient sdk) sc w = (Ok (lb_Status l = LB_ACTIVE), w1)"
    by (simp add: LB_IsActive_def isActiveALB_def GetStatus_def)
  show thesis
  proof (cases "lb_Status l = LB_ACTIVE")
    case False
    with found_load_balancer(1) [OF cloud l] a look there waiting show thesis by simp
  next
    case True
    obtain k ks where k: "v_lbs V (env w1) = k # ks" using look(4) there by (cases "v_lbs V (env w1)") auto
    obtain w2 where again: "YandexClient_ALBGetByName sdk (ClusterScope_GetFolderID sc)
        (ClusterScope_GetLBName sc) w1 = (Ok (case v_lbs V (env w1) of [] \<Rightarrow> None | l # _ \<Rightarrow> Some l), w2)"
      "v_yc V (env w2) = v_yc V (env w1)"
      by (rule lb_look_up [OF cloud])
    from found_load_balancer(2) [OF cloud k] have "internal_listener (Some k) = Some (fst x, snd x)" by simp
    from internal_listener_Some [OF this, of w2] again k alb
    have "LB_Describe (YandexClient sdk) sc w1 =
        (Ok \<lparr>lbst_Name = [], lbst_ListenerAddress = fst x, lbst_ListenerPort = snd x\<rparr>, w2)"
      by (simp add: LB_Describe_def describeALB_def)
    with True a again look(2) active show thesis by simp
  qed
qed

section \<open>One pass of the controller\<close>

definition to_wait :: "'e View \<Rightarrow> nat \<Rightarrow> 'e \<Rightarrow> nat" where
  "to_wait V N e = (if v_lbs V e = [] then N else v_wait V e)"

text \<open>What the object must be like: adopted, alive, without an endpoint, for an ALB with a fitting listener.\<close>

definition expectant :: "Lib \<Rightarrow> string \<times> int32 \<Rightarrow> YandexCluster \<Rightarrow> bool" where
  "expectant L x yc \<longleftrightarrow> \<not> being_deleted yc \<and> endpoint_of yc = zero_endpoint \<and>
     lbs_Type (ycs_LoadBalancer (yc_Spec yc)) = LoadBalancerTypeALB \<and> fits (ycs_LoadBalancer (yc_Spec yc)) x"

lemma progress_pass:
  assumes server: "obliging_server L K ns name cluster V"
    and cloud: "building_cloud sdk (by_name sdk (scope_of cluster (v_yc V (env w)))) V N x"
    and object: "expectant L x (v_yc V (env w))" "has_finalizer L (v_yc V (env w))"
    and zero: "\<not> APIEndpoint_IsValid L zero_endpoint"
  obtains r w' where "YandexCluster_Reconcile L K (YandexClient sdk) ns name w = (r, w')"
    "(\<exists>cs st. settled L st (YandexCluster_SetConditions cs (v_yc V (env w))) (v_yc V (env w')) \<and>
        listener_endpoint st = \<lparr>ep_Host = fst x, ep_Port = snd x\<rparr>) \<or>
     (\<exists>cs. v_yc V (env w') = YandexCluster_SetConditions cs (v_yc V (env w))) \<and>
        to_wait V N (env w') < to_wait V N (env w)"
proof -
  let ?yc = "v_yc V (env w)" and ?C = "YandexClient sdk"
  let ?s = "\<lparr>c_scope = scope_of cluster ?yc, c_world = w\<rparr>"
  note scope = scope_of_def ClusterScope_GetLBSpec_def ClusterScope_ControlPlaneEndpoint_def
    ClusterScope_GetLBType_def
  have pre: "building_cloud sdk (by_name sdk (c_scope ?s)) V N x" "fits (ClusterScope_GetLBSpec (c_scope ?s)) x"
    "\<not> APIEndpoint_IsValid L (ClusterScope_ControlPlaneEndpoint (c_scope ?s))"
    "ClusterScope_GetLBType (c_scope ?s) = LoadBalancerTypeALB"
    using cloud object zero by (simp_all add: expectant_def scope)
  obtain t where t: "LB_Reconcile L ?C ?s = (Ok (), t)" "only_conditions (c_scope ?s) (c_scope t)"
      "v_lbs V (env (c_world t)) \<noteq> []" "v_wait V (env (c_world t)) \<le>
         (if v_lbs V (env (c_world ?s)) = [] then N else v_wait V (env (c_world ?s)) - 1)"
    using service_step [OF pre] by metis
  from t(2) obtain cs where yc: "cluster_of t = YandexCluster_SetConditions cs ?yc"
    and sc: "c_scope t = scope_of cluster ?yc\<lparr>cs_YandexCluster := YandexCluster_SetConditions cs ?yc\<rparr>"
    by (auto simp: only_conditions_def scope_of_def)
  have same: "by_name sdk (c_scope t) = by_name sdk (c_scope ?s)"
    "ClusterScope_GetLBType (c_scope t) = LoadBalancerTypeALB"
    using pre(4) by (simp_all add: sc by_name_def scope_of_def ClusterScope_GetFolderID_def
        ClusterScope_GetLBName_def generateName_def ClusterScope_Name_def ClusterScope_GetLBType_def)
  have alive: "\<not> being_deleted (cluster_of ?s)" "has_finalizer L (cluster_of ?s)"
    using object by (simp_all add: expectant_def scope_of_def)
  have "building_cloud sdk (by_name sdk (c_scope t)) V N x" unfolding same using pre(1) .
  from this same(2) t(3) show thesis
  proof (cases rule: active_step)
    case (waiting w1)
    then have "cluster_body L ?C ?s = (Ok requeue_later, t\<lparr>c_world := w1\<rparr>)"
      using alive t(1) by (simp add: cluster_body_def YandexCluster_reconcile_def tryG_def in_world_def zoomG_def)
    from served_pass [OF server this] obtain w' where
      "YandexCluster_Reconcile L K ?C ns name w = (Ok requeue_later, w')" "v_yc V (env w') = cluster_of t"
      "v_lbs V (env w') = v_lbs V (env w1)" "v_wait V (env w') = v_wait V (env w1)" by auto
    moreover from this waiting t(4) have "to_wait V N (env w') < to_wait V N (env w)"
      by (auto simp: to_wait_def split: if_splits)
    ultimately show thesis using that yc by metis
  next
    case (active w1 w2)
    let ?st = "\<lparr>lbst_Name = [], lbst_ListenerAddress = fst x, lbst_ListenerPort = snd x\<rparr>"
    let ?t' = "set_yc (\<lambda>yc. publish_status L ?st (set_endpoint \<lparr>ep_Host = fst x, ep_Port = snd x\<rparr> yc)) (t\<lparr>c_world := w2\<rparr>)"
    have z: "endpoint_of (cluster_of t) = zero_endpoint" using object by (simp add: yc expectant_def)
    then have "settle_endpoint L ?st (t\<lparr>c_world := w2\<rparr>) = (Ok no_requeue, ?t')"
      by (simp add: settle_endpoint_def zero_endpoint_def Let_def)
    then have "cluster_body L ?C ?s = (Ok no_requeue, ?t')"
      using alive t(1) active(1,2) by (simp add: cluster_body_def YandexCluster_reconcile_def)
    from served_pass [OF server this] obtain w' where
      "YandexCluster_Reconcile L K ?C ns name w = (Ok no_requeue, w')" "v_yc V (env w') = cluster_of ?t'" by auto
    moreover have "settled L ?st (YandexCluster_SetConditions cs ?yc) (cluster_of ?t')"
      using z by (simp add: settled_def yc Let_def)
    moreover have "listener_endpoint ?st = \<lparr>ep_Host = fst x, ep_Port = snd x\<rparr>"
      by (simp add: listener_endpoint_def)
    ultimately show thesis using that by metis
  qed
qed

section \<open>Repeated passes\<close>

definition cluster_published :: "Lib \<Rightarrow> string \<times> int32 \<Rightarrow> YandexCluster \<Rightarrow> bool" where
  "cluster_published L x yc \<longleftrightarrow> has_finalizer L yc \<and> ycst_Ready (yc_Status yc) \<and>
     endpoint_of yc = \<lparr>ep_Host = fst x, ep_Port = snd x\<rparr>"

lemma settled_published:
  "settled L st (YandexCluster_SetConditions cs yc) yc' \<Longrightarrow> has_finalizer L yc \<Longrightarrow>
     listener_endpoint st = \<lparr>ep_Host = fst x, ep_Port = snd x\<rparr> \<Longrightarrow> cluster_published L x yc'"
  using settledD [of L st "YandexCluster_SetConditions cs yc" yc']
  by (simp add: cluster_published_def listener_endpoint_def)

lemma ready_after_adoption:
  assumes server: "obliging_server L K ns name cluster V"
    and zero: "\<not> APIEndpoint_IsValid L zero_endpoint"
  shows "building_cloud sdk (by_name sdk (scope_of cluster (v_yc V (env w)))) V N x \<Longrightarrow>
    expectant L x (v_yc V (env w)) \<Longrightarrow> has_finalizer L (v_yc V (env w)) \<Longrightarrow>
    \<exists>n \<le> Suc (to_wait V N (env w)). cluster_published L x
      (v_yc V (env (reconcile_times n (YandexCluster_Reconcile L K (YandexClient sdk) ns name) w)))"
proof (induction "to_wait V N (env w)" arbitrary: w rule: less_induct)
  case less
  let ?m = "YandexCluster_Reconcile L K (YandexClient sdk) ns name"
  obtain r w' where run: "?m w = (r, w')" and
    pass: "(\<exists>cs st. settled L st (YandexCluster_SetConditions cs (v_yc V (env w))) (v_yc V (env w')) \<and>
        listener_endpoint st = \<lparr>ep_Host = fst x, ep_Port = snd x\<rparr>) \<or>
     (\<exists>cs. v_yc V (env w') = YandexCluster_SetConditions cs (v_yc V (env w))) \<and>
        to_wait V N (env w') < to_wait V N (env w)"
    using progress_pass [OF server less.prems zero] by metis
  from pass show ?case
  proof
    assume "\<exists>cs st. settled L st (YandexCluster_SetConditions cs (v_yc V (env w))) (v_yc V (env w')) \<and>
        listener_endpoint st = \<lparr>ep_Host = fst x, ep_Port = snd x\<rparr>"
    with less.prems(3) have "cluster_published L x (v_yc V (env w'))" by (blast intro: settled_published)
    with run show ?thesis by (intro exI [of _ 1]) simp
  next
    assume "(\<exists>cs. v_yc V (env w') = YandexCluster_SetConditions cs (v_yc V (env w))) \<and>
        to_wait V N (env w') < to_wait V N (env w)"
    then obtain cs where yc: "v_yc V (env w') = YandexCluster_SetConditions cs (v_yc V (env w))"
      and smaller: "to_wait V N (env w') < to_wait V N (env w)" by blast
    have spec: "yc_Spec (v_yc V (env w')) = yc_Spec (v_yc V (env w))" by (simp add: yc)
    have "building_cloud sdk (by_name sdk (scope_of cluster (v_yc V (env w')))) V N x"
      "expectant L x (v_yc V (env w'))" "has_finalizer L (v_yc V (env w'))"
      unfolding scope_of_spec [OF spec] using less.prems yc by (simp_all add: expectant_def)
    from less.hyps [OF smaller this] obtain n where "n \<le> Suc (to_wait V N (env w'))"
      "cluster_published L x (v_yc V (env (reconcile_times n ?m w')))" by blast
    with smaller run show ?thesis by (intro exI [of _ "Suc n"]) auto
  qed
qed

text \<open>The first pass over a cluster that was just created adds the finalizer.\<close>

lemma adoption_pass:
  assumes server: "obliging_server L K ns name cluster V"
    and "\<not> being_deleted (v_yc V (env w))" "\<not> has_finalizer L (v_yc V (env w))"
  obtains r w' where "YandexCluster_Reconcile L K C ns name w = (r, w')"
    "v_yc V (env w') = yc_finalizers (\<lambda>fs. AddFinalizer L fs ClusterFinalizer) (v_yc V (env w))"
    "to_wait V N (env w') = to_wait V N (env w)"
proof -
  let ?s = "\<lparr>c_scope = scope_of cluster (v_yc V (env w)), c_world = w\<rparr>"
  have "cluster_of ?s = v_yc V (env w)" by (simp add: scope_of_def)
  then have "cluster_body L C ?s = (Ok \<lparr>Requeue = True, RequeueAfter = 0\<rparr>,
      set_yc (yc_finalizers (\<lambda>fs. AddFinalizer L fs ClusterFinalizer)) ?s)"
    using assms(2,3) by (simp add: cluster_body_def YandexCluster_reconcile_def)
  from served_pass [OF server this] \<open>cluster_of ?s = v_yc V (env w)\<close> that show thesis
    by (auto simp: to_wait_def)
qed

text \<open>
  C5: a cluster becomes ready.  When the API server obliges and the cloud builds what it is asked for, a
  live cluster without an endpoint is adopted, published and ready after at most two passes more than
  the look-ups a load balancer needs to become active, whatever of it exists already; the endpoint
  is then the listener of the load balancer.
\<close>

theorem cluster_becomes_ready:
  assumes server: "obliging_server L K ns name cluster V"
    and cloud: "building_cloud sdk (by_name sdk (scope_of cluster (v_yc V (env w)))) V N x"
    and object: "expectant L x (v_yc V (env w))"
    and zero: "\<not> APIEndpoint_IsValid L zero_endpoint" and laws: "finalizer_laws L"
  shows "\<exists>n \<le> to_wait V N (env w) + 2. cluster_published L x
    (v_yc V (env (reconcile_times n (YandexCluster_Reconcile L K (YandexClient sdk) ns name) w)))"
proof (cases "has_finalizer L (v_yc V (env w))")
  case True
  from ready_after_adoption [OF server zero cloud object this] obtain n where
    "n \<le> Suc (to_wait V N (env w))" "cluster_published L x (v_yc V (env (reconcile_times n
      (YandexCluster_Reconcile L K (YandexClient sdk) ns name) w)))" by blast
  then show ?thesis by (intro exI [of _ n]) simp
next
  case False
  let ?m = "YandexCluster_Reconcile L K (YandexClient sdk) ns name"
  obtain r w' where run: "?m w = (r, w')" and
    yc: "v_yc V (env w') = yc_finalizers (\<lambda>fs. AddFinalizer L fs ClusterFinalizer) (v_yc V (env w))"
    and wait: "to_wait V N (env w') = to_wait V N (env w)"
    using adoption_pass [OF server _ False] object by (metis expectant_def)
  have spec: "yc_Spec (v_yc V (env w')) = yc_Spec (v_yc V (env w))" by (simp add: yc)
  have "building_cloud sdk (by_name sdk (scope_of cluster (v_yc V (env w')))) V N x"
    "expectant L x (v_yc V (env w'))" "has_finalizer L (v_yc V (env w'))"
    unfolding scope_of_spec [OF spec] using cloud object laws yc
    by (simp_all add: expectant_def finalizer_laws_def)
  from ready_after_adoption [OF server zero this] obtain n where "n \<le> Suc (to_wait V N (env w))"
    "cluster_published L x (v_yc V (env (reconcile_times n ?m w')))" unfolding wait by blast
  with run show ?thesis by (intro exI [of _ "Suc n"]) simp
qed

text \<open>
  A cloud for the witness: the simulated one, whose load balancers all have the same listener and are
  active at once.
\<close>

definition sim_uniform :: "Sim SDK" where
  "sim_uniform = sim_sdk\<lparr>LoadBalancer_List := (\<lambda>req e.
     (Inr (map (\<lambda>_. sim_lb) (filter (\<lambda>x. lb_Name x = lr_Filter req) (sim_lbs e))), e)),
   LoadBalancer_Create := (\<lambda>req e. (Inr \<lparr>op_Id = CHR ''L'' # clb_Name req\<rparr>, e\<lparr>sim_lbs := sim_lb # sim_lbs e\<rparr>))\<rparr>"

definition uniform_view :: "Sim View" where
  "uniform_view = (sim_view ''lb1'')\<lparr>v_lbs := (\<lambda>e. map (\<lambda>_. sim_lb) (filter (\<lambda>x. lb_Name x = ''lb1'') (sim_lbs e)))\<rparr>"

lemma sim_uniform_builds:
  assumes "lr_Filter req = ''lb1''"
  shows "building_cloud sim_uniform req uniform_view 0 (''10.0.0.1'', 8443)"
proof -
  have done_: "finishes sim_uniform op meta \<longleftrightarrow> (\<forall>e. fst (sim_meta op e) = Inr meta)" for op meta
    by (auto simp: finishes_def sim_uniform_def sim_meta_def)
  have "\<exists>i. finishes sim_uniform \<lparr>op_Id = CHR ''T'' # n\<rparr> (CreateTargetGroupMetadata i)"
    "\<exists>i. finishes sim_uniform \<lparr>op_Id = CHR ''B'' # n\<rparr> (CreateBackendGroupMetadata i)"
    "\<exists>i. finishes sim_uniform \<lparr>op_Id = CHR ''L'' # n\<rparr> (CreateLoadBalancerMetadata i)" for n
    by (auto simp: done_ sim_meta_def)
  then show ?thesis
    using assms unfolding building_cloud_def
    by (auto simp: sim_uniform_def uniform_view_def sim_view_def sim_list_def bystander_def sim_lb_def
        map_eq_Cons_conv)
qed

theorem cluster_becomes_ready_witness:
  "\<exists>n \<le> 2. cluster_published sim_lib (''10.0.0.1'', 8443) (sim_yc (env (reconcile_times n
     (YandexCluster_Reconcile sim_lib sim_kube (YandexClient sim_uniform) ''default'' ''c1'') (start sim_fresh))))"
proof -
  let ?yc = "v_yc uniform_view (env (start sim_fresh))"
  have stored: "?yc = sim_yandex_cluster []" "v_yc uniform_view = sim_yc"
    by (simp_all add: uniform_view_def sim_view_def sim_fresh_def)
  have server: "obliging_server sim_lib sim_kube ''default'' ''c1'' sim_cluster uniform_view"
    by (simp add: obliging_server_def uniform_view_def sim_view_def sim_cluster_def)
  have name: "lr_Filter (by_name sim_uniform (scope_of sim_cluster ?yc)) = ''lb1''"
    by (simp add: stored by_name_def scope_of_def sim_uniform_def sim_starts evaluate)
  have object: "expectant sim_lib (''10.0.0.1'', 8443) ?yc"
    by (simp add: stored sim_fresh_def expectant_def fits_def sim_yandex_cluster_def sim_object_def Let_def)
  have zero: "\<not> APIEndpoint_IsValid sim_lib zero_endpoint" by (simp add: zero_endpoint_def)
  have "to_wait uniform_view 0 (env (start sim_fresh)) = 0"
    by (simp add: to_wait_def uniform_view_def sim_view_def)
  with cluster_becomes_ready [OF server sim_uniform_builds [OF name] object zero sim_lib_finalizer_laws]
  show ?thesis unfolding stored by (metis add_0)
qed

end
