(* ===== verification/Machine_Lifecycle.thy ===== *)
theory Machine_Lifecycle
  imports Runs
begin

text \<open>
  One reconciliation of a \<open>YandexMachine\<close> taken apart: the pass over a live machine and the pass over
  one that is being deleted, each with the requests it sends and the object it leaves for the final
  patch.  The machine properties are read off these cases.
\<close>

abbreviation machine_leaving :: "YandexMachine \<Rightarrow> bool" where
  "machine_leaving ym \<equiv> om_DeletionTimestamp (ym_Meta ym) \<noteq> None"

definition adopted :: "Lib \<Rightarrow> YandexMachine \<Rightarrow> YandexMachine" where
  "adopted L ym = ym_finalizers (\<lambda>fs. AddFinalizer L fs MachineFinalizer) ym"

definition released :: "Lib \<Rightarrow> YandexMachine \<Rightarrow> YandexMachine" where
  "released L ym = ym_finalizers (\<lambda>fs. RemoveFinalizer L fs MachineFinalizer) ym"

lemma adopted_simps [simp]:
  "ym_Spec (adopted L ym) = ym_Spec ym" "ym_Status (adopted L ym) = ym_Status ym"
  "MachineScope_GetInstanceID (adopted L ym) = MachineScope_GetInstanceID ym"
  "ym_Spec (released L ym) = ym_Spec ym" "ym_Status (released L ym) = ym_Status ym"
  by (simp_all add: adopted_def released_def)

definition fetched_machine :: "Machine \<Rightarrow> YandexMachine \<Rightarrow> 'w \<Rightarrow> 'w MachineState" where
  "fetched_machine machine ym w =
     \<lparr>m_scope = \<lparr>ms_Machine = machine, ms_YandexMachine = ym, ms_before = ym\<rparr>, m_world = w\<rparr>"

lemma fetched_machine_simps [simp]:
  "m_world (fetched_machine machine ym w) = w" "machine_of (fetched_machine machine ym w) = ym"
  "ms_Machine (m_scope (fetched_machine machine ym w)) = machine"
  by (simp_all add: fetched_machine_def)

section \<open>Relations on worlds through a whole reconciliation\<close>

context respectful_client
begin

lemma on_m_set: "on_m_world R s (set_ym f s)"
  by (simp add: on_m_world_def refl_R)

end

sublocale respectful_client \<subseteq> on_m: run_relation "on_m_world R"
  by unfold_locales (auto simp: on_m_world_def intro: refl_R trans_R)

locale respectful_machine = respectful_client R C for R :: "'e World \<Rightarrow> 'e World \<Rightarrow> bool" and C :: "'e World Client" +
  assumes run_external: "\<And>f :: ('e, string \<rightharpoonup> string) ext. every_run R (external f)"
begin

lemma run_mark: "every_run (on_m_world R) (mark f)"
  unfolding mark_def by (intro on_m.run_intros on_m_set)

lemma run_instance_request: "every_run (on_m_world R) (GetInstanceReq L K cg)"
  by (auto simp: GetInstanceReq_def GetBootstrapData_def Let_def
      intro!: on_m.run_intros run_in_mworld run_external split: option.split)

lemma run_registration:
  "every_run (on_m_world R) (registerControlPlane (loadbalancer_New C sc))"
  "every_run (on_m_world R) (deregisterControlPlane (loadbalancer_New C sc))"
  by (auto simp: registerControlPlane_def deregisterControlPlane_def Let_def
      intro!: on_m.run_intros run_in_mworld run_LB split: list.split)

lemma run_inspection:
  "every_run (on_m_world R) (instanceFound L (loadbalancer_New C sc) vm)"
  "every_run (on_m_world R) (instanceMissing L e :: ('e World MachineState, unit) go)"
  by (auto simp: instanceFound_def instanceMissing_def
      intro!: on_m.run_intros run_mark run_registration on_m_set split: sum.split)

lemma run_ensure: "every_run (on_m_world R) (ensureInstance L K (ClusterScope_getter C sc))"
  by (auto simp: ensureInstance_def createComputeInstance_def ClusterScope_getter_def
      intro!: on_m.run_intros run_in_mworld client_runs run_mark run_instance_request on_m_set)

lemma run_Compute:
  "every_run (on_m_world R) (Compute_Reconcile L K (ClusterScope_getter C sc) (loadbalancer_New C sc))"
  "every_run (on_m_world R) (Compute_Delete L (ClusterScope_getter C sc) (loadbalancer_New C sc))"
  by (auto simp: Compute_Reconcile_def Compute_Delete_def ClusterScope_getter_def Let_def
      intro!: on_m.run_intros run_in_mworld client_runs run_inspection
        run_ensure [unfolded ClusterScope_getter_def] run_registration on_m_set)

lemma run_settle_instance: "every_run (on_m_world R) (settle_instance L)"
  by (auto simp: settle_instance_def intro!: on_m.run_intros on_m_set split: option.split)

lemma run_scoped:
  assumes "\<And>ym f. every_run R (traced (C_PatchMachine ym) f :: ('e World, unit) go)"
  shows "every_run (on_m_world R)
    (YandexMachine_scoped L K (ClusterScope_getter C sc) (loadbalancer_New C sc))"
proof -
  have patch: "every_run (on_m_world R) (MachineScope_PatchObject K)"
    unfolding MachineScope_PatchObject_def Let_def by (intro on_m.run_intros run_in_mworld assms)
  show ?thesis
    unfolding YandexMachine_scoped_def YandexMachine_reconcile_def YandexMachine_reconcileDelete_def
      MachineScope_Close_def
    by (intro on_m.run_intros patch run_Compute run_settle_instance on_m_set)
qed

end
interpretation sync_machine: respectful_machine keeps_sync "YandexClient sdk" for sdk
  by unfold_locales (rule external_keeps_sync)

interpretation cloud_only_machine: respectful_machine cloud_only "YandexClient sdk" for sdk
  by unfold_locales (rule external_cloud_only)

section \<open>One pass\<close>

lemma machine_pass:
  assumes run: "YandexMachine_Reconcile L K (YandexClient sdk) ns name w = (r, w')"
  obtains
    (idle) "calls w' = calls w" "metrics w' = metrics w" "r = Ok no_requeue \<or> \<not> is_ok r"
  | (pass) machine ym v w1 sc r0 t ok where
      "external (Get_YandexMachine K ns name) w = (Ok ym, v)"
      "fst (external (GetOwnerMachine K (ym_Meta ym)) v) = Ok (Some machine)"
      "calls w1 = calls w" "metrics w1 = metrics w"
      "machine_body L K (ClusterScope_getter (YandexClient sdk) sc) (loadbalancer_New (YandexClient sdk) sc)
         (fetched_machine machine ym w1) = (r0, t)"
      "calls w' = calls (m_world t) @ [(C_PatchMachine (machine_of t), ok)]"
      "is_ok r \<longleftrightarrow> is_ok r0 \<and> ok" "is_ok r \<Longrightarrow> r = r0" "\<not> is_ok r0 \<Longrightarrow> r = r0"
  using run
proof (cases rule: YandexMachine_Reconcile_run)
  case idle
  then show thesis by (rule that(1))
next
  case (scoped ym machine cluster yc v w1 s' sc)
  from scoped(7) show thesis
  proof (rule YandexMachine_scoped_run, fold fetched_machine_def)
    fix r0 t ok
    assume b: "machine_body L K (ClusterScope_getter (YandexClient sdk) sc)
        (loadbalancer_New (YandexClient sdk) sc) (fetched_machine machine ym w1) = (r0, t)"
      and c: "calls (m_world s') = calls (m_world t) @ [(C_PatchMachine (machine_of t), ok)]"
      and r: "is_ok r \<longleftrightarrow> is_ok r0 \<and> ok" "is_ok r \<Longrightarrow> r = r0" "\<not> is_ok r0 \<Longrightarrow> r = r0"
    from c scoped(8) have "calls w' = calls (m_world t) @ [(C_PatchMachine (machine_of t), ok)]" by simp
    from that(2) [OF scoped(1,2,4,5) b this r] show thesis .
  qed
qed

text \<open>A pass over a machine that is not being deleted.\<close>

lemma live_body:
  assumes run: "machine_body L K cg LB s = (r, s')" and live: "\<not> machine_leaving (machine_of s)"
  obtains
    (unpatched) "\<not> is_ok r" "machine_of s' = adopted L (machine_of s)"
      "calls (m_world s') = calls (m_world s) @ [(C_PatchMachine (adopted L (machine_of s)), False)]"
  | (waiting) "r = Ok no_requeue" "machine_of s' = adopted L (machine_of s)"
      "calls (m_world s') = calls (m_world s) @ [(C_PatchMachine (adopted L (machine_of s)), True)]"
      "ma_DataSecretName (ms_Machine (m_scope s)) = None"
  | (pass) t q u where "machine_of t = adopted L (machine_of s)"
      "ms_Machine (m_scope t) = ms_Machine (m_scope s)"
      "calls (m_world t) = calls (m_world s) @ [(C_PatchMachine (adopted L (machine_of s)), True)]"
      "Compute_Reconcile L K cg LB t = (q, u)"
      "if is_ok q then settle_instance L u = (r, s') else \<not> is_ok r \<and> s' = u"
      "ma_DataSecretName (ms_Machine (m_scope s)) \<noteq> None"
proof -
  from run live have run': "YandexMachine_reconcile L K cg LB s = (r, s')" by (simp add: machine_body_def)
  then show thesis
  proof (cases rule: YandexMachine_reconcile_run)
    case unpatched
    then show thesis by (intro that(1)) (simp_all add: adopted_def)
  next
    case waiting
    then show thesis by (intro that(2)) (simp_all add: adopted_def)
  next
    case (pass t q u)
    then show thesis by (intro that(3) [of t q u]) (simp_all add: adopted_def)
  qed
qed

text \<open>After a successful pass of the compute service the switch has a status to look at.\<close>

lemma settled_pass:
  assumes "Compute_Reconcile L K cg LB t = (q, u)" "is_ok q" "settle_instance L u = (r, s')"
  obtains v where "MachineScope_GetInstanceStatus (machine_of u) = Some v" "m_world s' = m_world u"
    "instance_settled v r (machine_of u) (machine_of s')"
proof -
  from assms(2) obtain x where "q = Ok x" by (cases q) auto
  with assms(1) obtain v where "MachineScope_GetInstanceStatus (machine_of u) = Some v"
    by (auto elim: Compute_Reconcile_status)
  from that [OF this settle_instance_run [OF assms(3) this]] show thesis .
qed

lemma pass_end:
  assumes "Compute_Reconcile L K cg LB t = (q, u)"
    and "if is_ok q then settle_instance L u = (r, s') else \<not> is_ok r \<and> s' = u"
  shows "m_world s' = m_world u" "ym_Spec (machine_of s') = ym_Spec (machine_of u)"
    "instance_id s' = instance_id u" "\<not> is_ok q \<Longrightarrow> \<not> is_ok r"
    "ym_Meta (machine_of s') = ym_Meta (machine_of t)"
proof -
  have "ym_Meta (machine_of u) = ym_Meta (machine_of t)"
    using every_runD [OF Compute_Reconcile_frame assms(1)] by (simp add: machine_frame_def)
  then show "ym_Meta (machine_of s') = ym_Meta (machine_of t)"
    using assms by (cases "is_ok q"; auto simp: instance_settled_def elim!: settled_pass)
  show "m_world s' = m_world u" and spec: "ym_Spec (machine_of s') = ym_Spec (machine_of u)"
    using assms by (cases "is_ok q"; auto simp: instance_settled_def elim!: settled_pass)+
  from spec show "instance_id s' = instance_id u" by (rule instance_id_spec)
  show "\<not> is_ok r" if "\<not> is_ok q" using assms(2) that by simp
qed

text \<open>The specification after a pass of the compute service.\<close>

lemma Compute_Reconcile_spec:
  assumes run: "Compute_Reconcile L K cg LB t = (q, u)"
  shows "ym_Spec (machine_of u) = ym_Spec (machine_of t) \<or>
    instance_id t = [] \<and> (\<exists>i. ym_Spec (machine_of u) =
      (ym_Spec (machine_of t))\<lparr>yms_ProviderID := Some (ProviderIDPrefix @ i)\<rparr>)"
proof -
  obtain e s1 where e: "ensureInstance L K cg t = (e, s1)" by fastforce
  have "spec_frame s1 u"
  proof (cases "is_ok e")
    case True
    then obtain x where "e = Ok x" by (cases e) auto
    with run e have "withG (\<lambda>s. tryG (in_mworld (ComputeGet (GetClient cg) (instance_id s)))
        (instanceFound L LB) (instanceMissing L)) s1 = (q, u)" by (simp add: Compute_Reconcile_def)
    moreover have "every_run spec_frame (withG (\<lambda>s. tryG (in_mworld (ComputeGet (GetClient cg) (instance_id s)))
        (instanceFound L LB) (instanceMissing L)))"
      by (intro spec_frame_steps spec_frame_parts)
    ultimately show ?thesis by (auto dest: every_runD)
  next
    case False
    with run e have "u = s1" by (cases e) (simp_all add: Compute_Reconcile_def)
    then show ?thesis by (simp add: spec_frame.refl_R)
  qed
  then have "ym_Spec (machine_of u) = ym_Spec (machine_of s1)" by (simp add: spec_frame_def)
  with e show ?thesis
    by (cases rule: ensureInstance_run) (auto simp: MachineScope_SetProviderID_def spec_frame_def)
qed

text \<open>A successful pass that finds the instance running.\<close>

lemma running_pass:
  assumes run: "Compute_Reconcile L K cg LB t = (Ok x, u)"
    and running: "MachineScope_GetInstanceStatus (machine_of u) = Some InstanceStatusRunning"
  obtains vm a v w where "ComputeGet (GetClient cg) (instance_id u) v = (Ok vm, w)"
    "in_Status vm = InstanceStatusRunning" "getInstanceAddress L vm = Inr [a]"
    "MachineScope_GetAddresses (machine_of u) = [a]"
    "IsControlPlaneMachine L (ms_Machine (m_scope t)) \<Longrightarrow>
       \<exists>w'. AddTarget LB (na_Address a)
         (ni_SubnetID (hd (yms_NetworkInterfaces (ym_Spec (machine_of u))))) w = (Ok (), w')"
proof -
  from run obtain s1 where e: "ensureInstance L K cg t = (Ok (), s1)"
    and k: "tryG (in_mworld (ComputeGet (GetClient cg) (instance_id s1))) (instanceFound L LB)
      (instanceMissing L) s1 = (Ok x, u)"
    by (auto simp: Compute_Reconcile_def thenG_def bindG_Ok_iff)
  obtain q w where g: "ComputeGet (GetClient cg) (instance_id s1) (m_world s1) = (q, w)" by fastforce
  let ?s = "s1\<lparr>m_world := w\<rparr>"
  from k g obtain vm where q: "q = Ok vm" and f: "instanceFound L LB vm ?s = (Ok x, u)"
    using running instanceMissing_status
    by (cases q) (fastforce simp: instance_status_defs)+
  have status: "in_Status vm = InstanceStatusRunning"
    using instanceFound_status [OF f] running by simp
  have "machine_frame t s1" using every_runD [OF ensureInstance_frame e] .
  moreover have "spec_frame ?s u" using every_runD [OF spec_frame_parts(1) f] .
  ultimately have same: "ym_Spec (machine_of u) = ym_Spec (machine_of s1)"
      "ms_Machine (m_scope s1) = ms_Machine (m_scope t)"
    by (simp_all add: spec_frame_def machine_frame_def)
  from instance_id_spec [OF same(1)] have i: "instance_id u = instance_id s1" .
  show thesis
    by (rule instanceFound_running [OF f status])
      (use that [of "m_world s1" vm w] g q status same i in
        \<open>fastforce simp: MachineScope_IsControlPlane_def\<close>)
qed

text \<open>A pass over a machine that is being deleted.\<close>

lemma leaving_body:
  assumes run: "machine_body L K cg LB s = (r, s')" and leaving: "machine_leaving (machine_of s)"
  obtains q t where "Compute_Delete L cg LB s = (q, t)" "m_world s' = m_world t"
    "if q = Ok True then r = Ok no_requeue \<and> machine_of s' = released L (machine_of t)
     else machine_of s' = machine_of t \<and> (if q = Ok False then r = Ok requeue_later else \<not> is_ok r)"
proof -
  obtain q t where q: "Compute_Delete L cg LB s = (q, t)" by fastforce
  from run leaving have run': "YandexMachine_reconcileDelete L cg LB s = (r, s')"
    by (auto simp: machine_body_def)
  with q that [OF q] show thesis
    by (cases q) (auto simp: YandexMachine_reconcileDelete_def released_def tryG_def split: if_splits)
qed

section \<open>The calls of a pass\<close>

abbreviation C_of :: "'e SDK \<Rightarrow> ClusterScope \<Rightarrow> 'e World ClusterGetter" where
  "C_of sdk sc \<equiv> ClusterScope_getter (YandexClient sdk) sc"

abbreviation LB_of :: "'e SDK \<Rightarrow> ClusterScope \<Rightarrow> 'e World LoadBalancerI" where
  "LB_of sdk sc \<equiv> loadbalancer_New (YandexClient sdk) sc"

lemma live_calls:
  assumes run: "machine_body L K (C_of sdk sc) (LB_of sdk sc) s = (r, s')"
    and live: "\<not> machine_leaving (machine_of s)"
  obtains ok cs where
    "calls (m_world s') = calls (m_world s) @ (C_PatchMachine (adopted L (machine_of s)), ok) # cs"
    "list_all (\<lambda>(c, ok). \<not> is_patch c) cs" "ok \<or> cs = [] \<and> \<not> is_ok r"
  using run live
proof (cases rule: live_body)
  case (pass t q u)
  have "on_m_world cloud_only t u"
    using every_runD [OF cloud_only_machine.run_Compute(1) pass(4)] .
  moreover have "m_world s' = m_world u" using pass(4,5) by (rule pass_end)
  ultimately show thesis
    using pass(3) that [of True] by (auto simp: on_m_world_def cloud_only_def)
qed (use that in auto)

lemma mutations_machine_patched:
  "calls w' = calls w @ [(C_PatchMachine ym, ok)] \<Longrightarrow> mutations w' = mutations w"
  by (simp add: mutations_def is_mutation_def)

text \<open>A pass whose fetched and patched objects are known.\<close>

lemma machine_pass_patched:
  assumes run: "YandexMachine_Reconcile L K (YandexClient sdk) ns name w = (r, w')"
    and fetched: "external (Get_YandexMachine K ns name) w = (Ok ym, v)"
    and patched: "calls w' = calls w @ cs @ [(C_PatchMachine ym', ok)]"
  obtains machine w1 sc r0 t where
      "fst (external (GetOwnerMachine K (ym_Meta ym)) v) = Ok (Some machine)" "calls w1 = calls w"
      "machine_body L K (C_of sdk sc) (LB_of sdk sc) (fetched_machine machine ym w1) = (r0, t)"
      "calls (m_world t) = calls w @ cs" "machine_of t = ym'" "mutations w' = mutations (m_world t)"
      "is_ok r \<longleftrightarrow> is_ok r0 \<and> ok" "r = r0 \<or> \<not> is_ok r"
  using run
proof (cases rule: machine_pass)
  case idle
  from idle(1) patched show thesis by simp
next
  case (pass machine ym0 v' w1 sc r0 t ok')
  from pass(1) fetched have ym0: "ym0 = ym" "v' = v" by simp_all
  from pass(6) patched have t: "machine_of t = ym'" "calls (m_world t) = calls w @ cs" "ok' = ok"
    by (simp_all flip: append_assoc)
  from mutations_machine_patched [OF pass(6)] have m: "mutations w' = mutations (m_world t)" .
  from that [of machine w1 sc r0 t] pass(2,3,5,7,8) t m show thesis unfolding ym0 t by blast
qed

section \<open>The look-up behind the status\<close>

lemma ComputeGet_traced:
  assumes "YandexClient_ComputeGet sdk i w = (q, w')"
  shows "calls w' = calls w @ [(C_InstanceGet i, is_ok q)]"
  using assms
  by (auto simp: YandexClient_ComputeGet_def Let_def bindG_def tryG_def observed_def ObserveRequest_def
      dest: traced_run split: prod.splits outcome.splits)

text \<open>
  A successful pass of the compute service read the instance exactly as its object remembers it, and
  the status it leaves is the one it read.
\<close>

definition status_read :: "Lib \<Rightarrow> Instance outcome \<Rightarrow> InstanceStatus \<Rightarrow> bool" where
  "status_read L q status \<longleftrightarrow>
     (case q of Ok vm \<Rightarrow> status = in_Status vm
      | Err e \<Rightarrow> IsNotFound L (Some e) \<and> status = InstanceStatusDeleted
      | Panic m \<Rightarrow> False)"

lemma status_pass:
  fixes sdk :: "'e SDK"
  assumes run: "Compute_Reconcile L K (C_of sdk sc) (LB_of sdk sc) t = (Ok x, u)"
  obtains q v1 v2 status where "prefix (calls (m_world t)) (calls v1)"
    "YandexClient_ComputeGet sdk (instance_id u) v1 = (q, v2)" "prefix (calls v2) (calls (m_world u))"
    "MachineScope_GetInstanceStatus (machine_of u) = Some status" "status_read L q status"
proof -
  from run obtain s1 where e: "ensureInstance L K (C_of sdk sc) t = (Ok (), s1)"
    and k: "tryG (in_mworld (ComputeGet (GetClient (C_of sdk sc)) (instance_id s1)))
      (instanceFound L (LB_of sdk sc)) (instanceMissing L) s1 = (Ok x, u)"
    by (auto simp: Compute_Reconcile_def thenG_def bindG_Ok_iff)
  obtain q w where g: "YandexClient_ComputeGet sdk (instance_id s1) (m_world s1) = (q, w)" by fastforce
  let ?s = "s1\<lparr>m_world := w\<rparr>"
  have before: "prefix (calls (m_world t)) (calls (m_world s1))"
    using every_runD [OF sync_machine.run_ensure e] by (simp add: on_m_world_def keeps_sync_def trace_grows_def)
  have after: "prefix (calls w) (calls (m_world u)) \<and> ym_Spec (machine_of u) = ym_Spec (machine_of s1) \<and>
      (\<exists>status. MachineScope_GetInstanceStatus (machine_of u) = Some status \<and> status_read L q status)"
  proof (cases q)
    case (Ok vm)
    with k g have f: "instanceFound L (LB_of sdk sc) vm ?s = (Ok x, u)"
      by (simp add: ClusterScope_getter_def)
    from every_runD [OF sync_machine.run_inspection(1) this] every_runD [OF spec_frame_parts(1) this]
      instanceFound_status [OF this] Ok show ?thesis
      by (simp add: on_m_world_def keeps_sync_def trace_grows_def spec_frame_def status_read_def)
  next
    case (Err e)
    with k g have f: "instanceMissing L e ?s = (Ok x, u)"
      by (simp add: ClusterScope_getter_def)
    from every_runD [OF sync_machine.run_inspection(2) this] every_runD [OF spec_frame_parts(2) this]
      instanceMissing_status [OF this] Err show ?thesis
      by (simp add: on_m_world_def keeps_sync_def trace_grows_def spec_frame_def status_read_def)
  next
    case (Panic m)
    with k g show ?thesis by (simp add: ClusterScope_getter_def)
  qed
  have "instance_id u = instance_id s1" by (rule instance_id_spec) (simp add: after)
  with before g after show thesis using that [of "m_world s1" q w] by auto
qed

section \<open>Requests for a virtual machine\<close>

text \<open>The trace of a creation: what came before it, the request, and what followed.\<close>

lemma GetInstanceReq_calls:
  "GetInstanceReq L K cg s = (r, s') \<Longrightarrow> calls (m_world s') = calls (m_world s)"
  by (auto simp: GetInstanceReq_def GetBootstrapData_def Let_def bindG_def tryG_def in_mworld_def
      zoomG_def dest!: external_run(1) split: option.splits prod.splits outcome.splits)

lemma ComputeCreate_traced:
  assumes "YandexClient_ComputeCreate sdk req w = (q, w')"
  obtains ok where "calls w' = calls w @ [(C_InstanceCreate req, ok)]" "is_ok q \<longrightarrow> ok"
proof -
  obtain p v where o: "observed (NewMetricContext ControllerLabelMachine ServiceLabelCompute)
      (traced (C_InstanceCreate req) (Instance_Create sdk req)) w = (p, v)" by fastforce
  then have v: "calls v = calls w @ [(C_InstanceCreate req, is_ok p)]"
    by (auto simp: observed_def ObserveRequest_def dest: traced_run split: prod.splits)
  have "calls w' = calls v \<and> (is_ok q \<longrightarrow> is_ok p)"
    using assms o
    by (auto simp: YandexClient_ComputeCreate_def Let_def bindG_def tryG_def
        dest!: external_run(1) split: prod.splits outcome.splits Meta.splits)
  with v that show thesis by auto
qed

text \<open>Nothing that follows the answer of the cloud in the pass touches the trace up to it.\<close>

lemma creation_answered:
  fixes sdk :: "'e SDK"
  assumes run: "Compute_Reconcile L K (C_of sdk sc) (LB_of sdk sc) t = (r, u)"
    and new: "instance_id t = []" "GetInstanceReq L K (C_of sdk sc) t = (Ok req, x)"
    and answer: "YandexClient_ComputeCreate sdk req (m_world x) = (q, v)"
  shows "prefix (calls v) (calls (m_world u))"
proof (cases q)
  case (Ok i)
  let ?s = "set_ym (MachineScope_SetProviderID i) (x\<lparr>m_world := v\<rparr>)"
  have "every_run (on_m_world keeps_sync) (withG (\<lambda>s. tryG
      (in_mworld (ComputeGet (GetClient (C_of sdk sc)) (instance_id s)))
      (instanceFound L (LB_of sdk sc)) (instanceMissing L)))"
    by (intro m_sync.run_intros run_in_mworld sync_machine.run_inspection)
      (simp add: ClusterScope_getter_def sync_client.run_ComputeGet [simplified])
  moreover have "withG (\<lambda>s. tryG (in_mworld (ComputeGet (GetClient (C_of sdk sc)) (instance_id s)))
      (instanceFound L (LB_of sdk sc)) (instanceMissing L)) ?s = (r, u)"
    using run new answer Ok
    by (simp add: Compute_Reconcile_def ensureInstance_def createComputeInstance_def ClusterScope_getter_def)
  ultimately have "on_m_world keeps_sync ?s u" by (rule every_runD)
  then show ?thesis by (simp add: on_m_world_def keeps_sync_def trace_grows_def)
qed (use run new answer in \<open>auto simp: Compute_Reconcile_def ensureInstance_def createComputeInstance_def
      ClusterScope_getter_def mark_apply\<close>)

definition is_vm_create :: "ext_call \<Rightarrow> bool" where
  "is_vm_create c \<longleftrightarrow> (case c of C_InstanceCreate _ \<Rightarrow> True | _ \<Rightarrow> False)"

lemma no_vm_create: "list_all is_target_change cs \<Longrightarrow> filter is_vm_create cs = []"
  by (auto simp: list_all_iff filter_empty_conv is_vm_create_def split: ext_call.splits)

text \<open>
  A pass asks for at most one, and for none when the machine is being deleted or remembers an instance;
  \<open>q\<close> is what the client made of the answer, in the worlds of this very pass.
\<close>

lemma vm_requests:
  assumes run: "machine_body L K (C_of sdk sc) (LB_of sdk sc) s = (r, s')"
  obtains
    (none) new where "mutations (m_world s') = mutations (m_world s) @ new" "filter is_vm_create new = []"
  | (one) new req q v v' ok where "mutations (m_world s') = mutations (m_world s) @ new"
      "filter is_vm_create new = [C_InstanceCreate req]" "\<not> machine_leaving (machine_of s)"
      "instance_id s = []" "YandexClient_ComputeCreate sdk req v = (q, v')"
      "prefix (calls (m_world s)) (calls v)" "calls v' = calls v @ [(C_InstanceCreate req, ok)]"
      "is_ok q \<longrightarrow> ok" "prefix (calls v') (calls (m_world s'))"
      "case q of Ok i \<Rightarrow> instance_id s' = i | _ \<Rightarrow> instance_id s' = [] \<and> \<not> is_ok r"
proof (cases "machine_leaving (machine_of s)")
  case True
  obtain q u where d: "Compute_Delete L (C_of sdk sc) (LB_of sdk sc) s = (q, u)" "m_world s' = m_world u"
    by (rule leaving_body [OF run True])
  obtain cs where "mutations (m_world u) = mutations (m_world s) @ cs" "filter is_vm_create cs = []"
    by (cases rule: provider.Compute_Delete_run [OF d(1)])
      (auto simp: grows_by_def is_vm_create_def dest!: no_vm_create)
  with d show thesis by (intro none) auto
next
  case live: False
  from run live show thesis
  proof (cases rule: live_body)
    case (pass t q u)
    then have m: "mutations (m_world t) = mutations (m_world s)" by (intro mutations_machine_patched) simp
    have i: "instance_id t = instance_id s" using pass(1) by simp
    note tu = pass_end(1,3) [OF pass(4,5)] and bad = pass_end(4) [OF pass(4,5)]
    have start: "prefix (calls (m_world s)) (calls (m_world x))"
      if "GetInstanceReq L K (C_of sdk sc) t = (Ok req, x)" for req x
      using GetInstanceReq_calls [OF that] pass(3) by simp
    from pass(4) show thesis
    proof (cases rule: provider.Compute_Reconcile_run)
      case present
      with m tu obtain cs where "mutations (m_world s') = mutations (m_world s) @ cs"
          "filter is_vm_create cs = []"
        by (auto simp: provider.may_add_def is_vm_create_def)
      then show thesis by (rule none)
    next
      case (created req k t' u')
      then obtain cs where "mutations (m_world s') = mutations (m_world s) @ C_InstanceCreate req # cs"
          "filter is_vm_create cs = []"
        using m tu by (auto simp: provider.may_add_def is_vm_create_def)
      moreover from created(3) have c: "YandexClient_ComputeCreate sdk req (m_world t') = (Ok k, m_world u')"
        by simp
      moreover obtain ok where "calls (m_world u') = calls (m_world t') @ [(C_InstanceCreate req, ok)]"
          "is_ok (Ok k) \<longrightarrow> ok" using c by (rule ComputeCreate_traced)
      moreover have "prefix (calls (m_world u')) (calls (m_world s'))"
        using creation_answered [OF pass(4) created(1,2) c] tu(1) by simp
      ultimately show thesis
        using created(1,6) start [OF created(2)] i tu live
        by (intro one [of "C_InstanceCreate req # cs" req "m_world t'" "Ok k" "m_world u'" ok])
          (auto simp: is_vm_create_def)
    next
      case (failed req)
      show thesis
      proof (cases "mutations (m_world u) = mutations (m_world t)")
        case True
        with m tu show thesis by (intro none [of "[]"]) auto
      next
        case False
        with failed(4) obtain p x where g: "GetInstanceReq L K (C_of sdk sc) t = (Ok req, x)"
          and c: "YandexClient_ComputeCreate sdk req (m_world x) = (p, m_world u)" and p: "\<not> is_ok p"
          and new: "mutations (m_world u) = mutations (m_world t) @ [C_InstanceCreate req]" by auto
        obtain ok where ok: "calls (m_world u) = calls (m_world x) @ [(C_InstanceCreate req, ok)]"
          "is_ok p \<longrightarrow> ok" using c by (rule ComputeCreate_traced)
        show thesis
          by (rule one [of "[C_InstanceCreate req]" req "m_world x" p "m_world u" ok])
            (use failed(1-3) start [OF g] c p new ok i m tu bad live in
              \<open>auto simp: is_vm_create_def split: outcome.split\<close>)
      qed
    qed
  next
    case unpatched
    then have "mutations (m_world s') = mutations (m_world s)" by (intro mutations_machine_patched) simp
    then show thesis by (intro none [of "[]"]) simp_all
  next
    case waiting
    then have "mutations (m_world s') = mutations (m_world s)" by (intro mutations_machine_patched) simp
    then show thesis by (intro none [of "[]"]) simp_all
  qed
qed

section \<open>The specification after a pass\<close>

lemma machine_pass_spec:
  fixes sdk :: "'e SDK"
  assumes run: "YandexMachine_Reconcile L K (YandexClient sdk) ns name w = (r, w')"
    and fetched: "external (Get_YandexMachine K ns name) w = (Ok ym, v)"
    and patched: "calls w' = calls w @ cs @ [(C_PatchMachine ym', ok)]"
  shows "ym_Spec ym' = ym_Spec ym \<or>
    MachineScope_GetInstanceID ym = [] \<and>
    (\<exists>i. ym_Spec ym' = (ym_Spec ym)\<lparr>yms_ProviderID := Some (ProviderIDPrefix @ i)\<rparr>)"
proof (rule machine_pass_patched [OF run fetched patched])
  fix machine and w1 :: "'e World" and sc r0 t
  let ?s = "fetched_machine machine ym w1"
  assume body: "machine_body L K (C_of sdk sc) (LB_of sdk sc) ?s = (r0, t)" and t: "machine_of t = ym'"
  show ?thesis
  proof (cases "machine_leaving ym")
    case True
    then have "machine_leaving (machine_of ?s)" by simp
    from body this obtain q u where "Compute_Delete L (C_of sdk sc) (LB_of sdk sc) ?s = (q, u)"
      "machine_of t = released L (machine_of u) \<or> machine_of t = machine_of u"
      by (rule leaving_body) (auto split: if_splits)
    with t show ?thesis
      using every_runD [OF spec_frame_parts(3)] by (fastforce simp: spec_frame_def)
  next
    case False
    then have "\<not> machine_leaving (machine_of ?s)" by simp
    from body this show ?thesis
    proof (cases rule: live_body)
      case (pass s1 q u)
      from Compute_Reconcile_spec [OF pass(4)] pass(1) pass_end(2) [OF pass(4,5)] t show ?thesis by auto
    qed (use t in auto)
  qed
qed

section \<open>A concrete departure\<close>

text \<open>A control plane machine that is being deleted, with its instance and its target.\<close>

definition sim_departing :: Sim where
  "sim_departing = sim_full\<lparr>
     sim_ym := (sim_yandex_machine (Some ''yandex://m1''))\<lparr>
       ym_Meta := (sim_object ''m1'' [MachineFinalizer])\<lparr>om_DeletionTimestamp := Some ''now''\<rparr>,
       ym_Status := (ym_Status (sim_yandex_machine None))\<lparr>
         ymst_Addresses := [\<lparr>na_Type = ''InternalIP'', na_Address = ''10.0.0.5''\<rparr>]\<rparr>\<rparr>,
     sim_tgs := [\<lparr>tg_Id = ''lb1'', tg_Name = ''lb1'', tg_Targets = [target_of ''10.0.0.5'' ''subnet'']\<rparr>]\<rparr>"

end
