(* ===== verification/Machine_Refinement.thy ===== *)
theory Machine_Refinement
  imports Machine_Lifecycle
begin

text \<open>
  The life cycle of a \<open>YandexMachine\<close> as an abstract step relation on the object alone, and the proof that
  one reconciliation refines it: the object its final patch writes is a step of the object it fetched, and
  the requests it sent to the cloud are the ones the step allows.
\<close>

section \<open>The steps\<close>

datatype machine_event =
    Adopted
  | Attempted
  | Observed InstanceStatus
  | Draining
  | Freed

text \<open>
  \<open>worked_on L ym ym'\<close>: the finalizer is there, an instance identifier may have been added to an object
  without one, and the rest of the specification, the ready flag and the failure stay.
\<close>

definition worked_on :: "Lib \<Rightarrow> YandexMachine \<Rightarrow> YandexMachine \<Rightarrow> bool" where
  "worked_on L ym ym' \<longleftrightarrow>
     ym_Meta ym' = ym_Meta (adopted L ym) \<and>
     (ym_Spec ym' = ym_Spec ym \<or> MachineScope_GetInstanceID ym = [] \<and>
       (\<exists>i. ym_Spec ym' = (ym_Spec ym)\<lparr>yms_ProviderID := Some (ProviderIDPrefix @ i)\<rparr>)) \<and>
     ymst_Ready (ym_Status ym') = ymst_Ready (ym_Status ym)"

inductive machine_step :: "Lib \<Rightarrow> YandexMachine \<Rightarrow> machine_event \<Rightarrow> YandexMachine \<Rightarrow> bool"
  for L where
  adopt: "\<not> machine_leaving ym \<Longrightarrow> machine_step L ym Adopted (adopted L ym)"
| attempt: "\<not> machine_leaving ym \<Longrightarrow> worked_on L ym ym' \<Longrightarrow> machine_step L ym Attempted ym'"
| observe: "\<not> machine_leaving ym \<Longrightarrow> worked_on L ym u \<Longrightarrow> instance_settled v r u ym' \<Longrightarrow>
    machine_step L ym (Observed v) ym'"
| drain: "machine_leaving ym \<Longrightarrow> ym' = ym \<or> (\<exists>v. ym' = MachineScope_SetInstanceStatus v ym) \<Longrightarrow>
    machine_step L ym Draining ym'"
| free: "machine_leaving ym \<Longrightarrow> machine_step L ym Freed (released L ym)"

inductive_cases machine_stepE: "machine_step L ym ev ym'"

text \<open>What the steps keep and what they may change, by rule inversion.\<close>

lemma adopted_meta [simp]:
  "om_DeletionTimestamp (ym_Meta (adopted L ym)) = om_DeletionTimestamp (ym_Meta ym)"
  "om_DeletionTimestamp (ym_Meta (released L ym)) = om_DeletionTimestamp (ym_Meta ym)"
  by (simp_all add: adopted_def released_def ym_finalizers_def)

lemma adopted_finalizer: "finalizer_laws L \<Longrightarrow> has_machine_finalizer L (adopted L ym)"
  by (simp add: finalizer_laws_def adopted_def)

lemma machine_step_spec:
  assumes "machine_step L ym ev ym'"
  shows "om_DeletionTimestamp (ym_Meta ym') = om_DeletionTimestamp (ym_Meta ym)"
    and "MachineScope_GetInstanceID ym \<noteq> [] \<Longrightarrow> ym_Spec ym' = ym_Spec ym"
    and "ymst_Ready (ym_Status ym') \<Longrightarrow> ymst_Ready (ym_Status ym) \<or> ev = Observed InstanceStatusRunning"
    and "finalizer_laws L \<Longrightarrow> has_machine_finalizer L ym \<Longrightarrow> ev \<noteq> Freed \<Longrightarrow> has_machine_finalizer L ym'"
proof -
  show "om_DeletionTimestamp (ym_Meta ym') = om_DeletionTimestamp (ym_Meta ym)"
    "MachineScope_GetInstanceID ym \<noteq> [] \<Longrightarrow> ym_Spec ym' = ym_Spec ym"
    "ymst_Ready (ym_Status ym') \<Longrightarrow> ymst_Ready (ym_Status ym) \<or> ev = Observed InstanceStatusRunning"
    using assms by (auto elim!: machine_stepE simp: worked_on_def instance_settled_def)
  show "finalizer_laws L \<Longrightarrow> has_machine_finalizer L ym \<Longrightarrow> ev \<noteq> Freed \<Longrightarrow> has_machine_finalizer L ym'"
    using assms adopted_finalizer by (auto elim!: machine_stepE simp: worked_on_def instance_settled_def)
qed

text \<open>
  Which requests a step may have sent, and its result.  A live machine has at most one instance created, and only when it
  remembers none, and at most one target added, when it is seen running; one that leaves has targets changed
  and then its instance deleted.
\<close>

definition creations :: "YandexMachine \<Rightarrow> ext_call list \<Rightarrow> bool" where
  "creations ym cs \<longleftrightarrow>
     cs = [] \<or> MachineScope_GetInstanceID ym = [] \<and> (\<exists>req. cs = [C_InstanceCreate req])"

definition additions :: "ext_call list \<Rightarrow> bool" where
  "additions cs \<longleftrightarrow> cs = [] \<or> (\<exists>req. cs = [C_AddTargets req])"

definition machine_licensed ::
    "YandexMachine \<Rightarrow> machine_event \<Rightarrow> Result outcome \<Rightarrow> ext_call list \<Rightarrow> bool" where
  "machine_licensed ym ev r new \<longleftrightarrow>
     (case ev of
        Adopted \<Rightarrow> new = [] \<and> (r = Ok no_requeue \<or> \<not> is_ok r)
      | Attempted \<Rightarrow> \<not> is_ok r \<and> (\<exists>cr ad. new = cr @ ad \<and> creations ym cr \<and> additions ad)
      | Observed v \<Rightarrow> r = Ok (if v = InstanceStatusRunning then no_requeue else requeue_later) \<and>
          (\<exists>cr ad. new = cr @ ad \<and> creations ym cr \<and> additions ad \<and>
             (cr = [] \<longrightarrow> MachineScope_GetInstanceID ym \<noteq> []) \<and> (ad \<noteq> [] \<longrightarrow> v = InstanceStatusRunning))
      | Draining \<Rightarrow> (r = Ok requeue_later \<or> \<not> is_ok r) \<and> MachineScope_GetInstanceID ym \<noteq> [] \<and>
          (\<exists>ts. list_all is_target_change ts \<and>
             (new = ts \<or> new = ts @ [C_InstanceDelete (MachineScope_GetInstanceID ym)]))
      | Freed \<Rightarrow> r = Ok no_requeue \<and> list_all is_target_change new \<and>
          (MachineScope_GetInstanceID ym = [] \<longrightarrow> new = []))"

section \<open>The requests of a pass of the compute service\<close>

lemma quiet_pass:
  assumes run: "Compute_Reconcile L K (C_of sdk sc) (LB_of sdk sc) t = (Ok x, u)"
    and v: "MachineScope_GetInstanceStatus (machine_of u) = Some v" "v \<noteq> InstanceStatusRunning"
  shows "mutations (m_world u) = mutations (m_world t) \<or>
    (\<exists>req. mutations (m_world u) = mutations (m_world t) @ [C_InstanceCreate req])"
proof -
  from run obtain s1 where e: "ensureInstance L K (C_of sdk sc) t = (Ok (), s1)"
    and k: "tryG (in_mworld (ComputeGet (GetClient (C_of sdk sc)) (instance_id s1)))
      (instanceFound L (LB_of sdk sc)) (instanceMissing L) s1 = (Ok x, u)"
    by (auto simp: Compute_Reconcile_def thenG_def bindG_Ok_iff)
  obtain q w where g: "ComputeGet (GetClient (C_of sdk sc)) (instance_id s1) (m_world s1) = (q, w)" by fastforce
  then have w: "mutations w = mutations (m_world s1)"
    using emitsD [OF yandex_client.emits_ComputeGet] by (fastforce simp: ClusterScope_getter_def)
  have "mutations (m_world u) = mutations w"
  proof (cases q)
    case (Ok vm)
    with k g have f: "instanceFound L (LB_of sdk sc) vm (s1\<lparr>m_world := w\<rparr>) = (Ok x, u)" by simp
    with v instanceFound_status have "in_Status vm \<noteq> InstanceStatusRunning" by fastforce
    with f show ?thesis by (auto simp: instanceFound_def)
  next
    case (Err e)
    with k g have "instanceMissing L e (s1\<lparr>m_world := w\<rparr>) = (Ok x, u)" by simp
    from provider.instanceMissing_sends [OF this] show ?thesis by simp
  qed (use k g in simp)
  with w have same: "mutations (m_world u) = mutations (m_world s1)" by simp
  from e show ?thesis
    by (cases rule: ensureInstance_run) (use same in \<open>auto elim!: provider.createComputeInstance_sends\<close>)
qed

section \<open>The object a deletion leaves\<close>

definition drained :: "'w MachineState \<Rightarrow> 'w MachineState \<Rightarrow> bool" where
  "drained s s' \<longleftrightarrow> machine_of s' = machine_of s \<or>
     (\<exists>v. machine_of s' = MachineScope_SetInstanceStatus v (machine_of s))"

interpretation drained: run_relation drained
proof unfold_locales
  fix s t u :: "'w MachineState"
  have last: "MachineScope_SetInstanceStatus v (MachineScope_SetInstanceStatus i ym) =
    MachineScope_SetInstanceStatus v ym" for v i ym
    by (simp add: MachineScope_SetInstanceStatus_def)
  show "drained s s" by (simp add: drained_def)
  assume "drained s t" "drained t u"
  then show "drained s u" by (auto simp: drained_def last)
qed

lemma drained_in_mworld: "every_run drained (in_mworld m)"
  by (rule every_runI) (auto simp: in_mworld_apply drained_def)

lemma drained_deregister: "every_run drained (deregisterControlPlane LB)"
  by (auto simp: deregisterControlPlane_def Let_def intro!: drained.run_intros drained_in_mworld split: list.split)

lemma drained_Compute_Delete: "every_run drained (Compute_Delete L cg LB)"
  by (auto simp: Compute_Delete_def Let_def drained_def
      intro!: drained.run_intros drained_in_mworld drained_deregister)

lemma deregister_scope: "deregisterControlPlane LB s = (r, s') \<Longrightarrow> m_scope s' = m_scope s"
  by (auto simp: deregisterControlPlane_def Let_def in_mworld_apply split: list.splits)

lemma deleted_untouched:
  assumes run: "Compute_Delete L cg LB s = (Ok True, t)"
  shows "m_scope t = m_scope s"
proof (cases "instance_id s = []")
  case True
  with run show ?thesis by (simp add: Compute_Delete_def Let_def)
next
  case False
  note run' = run [unfolded Compute_Delete_def Let_def withG_apply instanceNotDeleted_def instanceDeleted_def]
  obtain q w where g: "ComputeGet (GetClient cg) (instance_id s) (m_world s) = (q, w)" by fastforce
  show ?thesis
  proof (cases q)
    case (Ok vm)
    let ?t = "set_ym (MachineScope_SetInstanceStatus (in_Status vm)) (s\<lparr>m_world := w\<rparr>)"
    obtain p u where d: "deregisterControlPlane LB ?t = (p, u)" by fastforce
    have never: "thenG m (ret False) v \<noteq> (Ok True, t)" for m :: "('a World MachineState, unit) go" and v
      by (simp add: thenG_def bindG_Ok_iff)
    from run' False g Ok d never show ?thesis by (cases p) (auto split: if_splits)
  next
    case (Err e)
    obtain p u where d: "deregisterControlPlane LB (s\<lparr>m_world := w\<rparr>) = (p, u)" by fastforce
    with run' False g Err show ?thesis by (cases p) (auto dest: deregister_scope split: if_splits)
  qed (use run' False g in simp)
qed

lemma leaving_refines:
  assumes run: "machine_body L K (C_of sdk sc) (LB_of sdk sc) s = (r, s')"
    and leaving: "machine_leaving (machine_of s)"
  obtains ev new where "machine_step L (machine_of s) ev (machine_of s')"
    "machine_licensed (machine_of s) ev r new" "mutations (m_world s') = mutations (m_world s) @ new"
proof -
  obtain q t where d: "Compute_Delete L (C_of sdk sc) (LB_of sdk sc) s = (q, t)" "m_world s' = m_world t"
    and res: "if q = Ok True then r = Ok no_requeue \<and> machine_of s' = released L (machine_of t)
      else machine_of s' = machine_of t \<and> (if q = Ok False then r = Ok requeue_later else \<not> is_ok r)"
    by (rule leaving_body [OF run leaving])
  show thesis
  proof (cases "q = Ok True")
    case True
    with d(1) deleted_untouched have "m_scope t = m_scope s" by blast
    with True res have s': "machine_of s' = released L (machine_of s)" "r = Ok no_requeue" by simp_all
    have step: "machine_step L (machine_of s) Freed (machine_of s')"
      unfolding s' using leaving by (rule free)
    from d(1) show thesis
    proof (cases rule: provider.Compute_Delete_run)
      case absent
      with step s' d(2) show thesis by (intro that [of Freed "[]"]) (simp_all add: machine_licensed_def)
    next
      case (gone e w)
      with step s' d(2) show thesis by (auto simp: grows_by_def machine_licensed_def intro: that)
    qed (use True in auto)
  next
    case False
    with res have r: "machine_of s' = machine_of t" "r = Ok requeue_later \<or> \<not> is_ok r"
      by (auto split: if_splits)
    have step: "machine_step L (machine_of s) Draining (machine_of s')"
      unfolding r(1) using leaving every_runD [OF drained_Compute_Delete d(1)]
      by (intro drain) (simp_all add: drained_def)
    have id: "instance_id s \<noteq> []"
    proof
      assume "instance_id s = []"
      with d(1) have "q = Ok True" by (simp add: Compute_Delete_def instanceDeleted_def Let_def)
      with False show False by simp
    qed
    from d(1) show thesis
    proof (cases rule: provider.Compute_Delete_run)
      case (asked vm w w')
      then obtain ts where "mutations (m_world s') = mutations (m_world s) @ ts @ [C_InstanceDelete (instance_id s)]"
        "list_all is_target_change ts" using d(2) by (auto simp: grows_by_def)
      with step r id show thesis
        by (intro that [of Draining "ts @ [C_InstanceDelete (instance_id s)]"]) (auto simp: machine_licensed_def)
    next
      case waits
      then obtain ts where "mutations (m_world s') = mutations (m_world s) @ ts" "list_all is_target_change ts"
        using d(2) by (auto simp: grows_by_def)
      with step r id show thesis by (intro that [of Draining ts]) (auto simp: machine_licensed_def)
    qed (use False in auto)
  qed
qed

section \<open>A pass over a live machine\<close>

text \<open>What the compute service leaves, whether it succeeds or fails.\<close>

lemma Compute_Reconcile_works:
  assumes run: "Compute_Reconcile L K (C_of sdk sc) (LB_of sdk sc) t = (q, u)"
    and t: "machine_of t = adopted L ym"
  shows "worked_on L ym (machine_of u)"
    and "\<exists>cr ad. mutations (m_world u) = mutations (m_world t) @ cr @ ad \<and> creations ym cr \<and> additions ad \<and>
      (is_ok q \<and> cr = [] \<longrightarrow> MachineScope_GetInstanceID ym \<noteq> [])"
proof -
  have id: "instance_id t = MachineScope_GetInstanceID ym" using t by simp
  have "machine_frame t u" using every_runD [OF Compute_Reconcile_frame run] .
  with Compute_Reconcile_spec [OF run] t show "worked_on L ym (machine_of u)"
    by (auto simp: worked_on_def machine_frame_def)
  from run show "\<exists>cr ad. mutations (m_world u) = mutations (m_world t) @ cr @ ad \<and> creations ym cr \<and>
      additions ad \<and> (is_ok q \<and> cr = [] \<longrightarrow> MachineScope_GetInstanceID ym \<noteq> [])"
  proof (cases rule: provider.Compute_Reconcile_run)
    case present
    then obtain ad where "mutations (m_world u) = mutations (m_world t) @ ad" "additions ad"
      by (auto simp: provider.may_add_def additions_def)
    with present(1) id show ?thesis by (intro exI [of _ "[]"] exI [of _ ad]) (simp add: creations_def)
  next
    case (created req i v x)
    then obtain ad where "mutations (m_world u) = mutations (m_world t) @ [C_InstanceCreate req] @ ad"
        "additions ad"
      by (auto simp: provider.may_add_def additions_def)
    with created(1) id show ?thesis
      by (intro exI [of _ "[C_InstanceCreate req]"] exI [of _ ad]) (simp add: creations_def)
  next
    case (failed req)
    then obtain cr where "mutations (m_world u) = mutations (m_world t) @ cr" "creations ym cr"
      using id by (auto simp: creations_def)
    with failed(2) show ?thesis by (intro exI [of _ cr] exI [of _ "[]"]) (simp add: additions_def)
  qed
qed

text \<open>The load balancer is asked to add a target only when the instance was seen running.\<close>

lemma added_when_running:
  assumes run: "Compute_Reconcile L K (C_of sdk sc) (LB_of sdk sc) t = (Ok x, u)"
    and v: "MachineScope_GetInstanceStatus (machine_of u) = Some v"
    and new: "mutations (m_world u) = mutations (m_world t) @ cr @ ad" "additions ad" "ad \<noteq> []"
  shows "v = InstanceStatusRunning"
proof (rule ccontr)
  assume "v \<noteq> InstanceStatusRunning"
  from quiet_pass [OF run v this] have "cr @ ad = [] \<or> (\<exists>req. cr @ ad = [C_InstanceCreate req])"
    using new(1) by simp
  with new(2,3) show False by (cases cr) (auto simp: additions_def)
qed

lemma live_refines:
  assumes run: "machine_body L K (C_of sdk sc) (LB_of sdk sc) s = (r, s')"
    and live: "\<not> machine_leaving (machine_of s)"
  obtains ev new where "machine_step L (machine_of s) ev (machine_of s')"
    "machine_licensed (machine_of s) ev r new" "mutations (m_world s') = mutations (m_world s) @ new"
  using run live
proof (cases rule: live_body)
  case unpatched
  with adopt [OF live] mutations_machine_patched [OF unpatched(3)] show thesis
    by (intro that [of Adopted "[]"]) (simp_all add: machine_licensed_def)
next
  case waiting
  with adopt [OF live] mutations_machine_patched [OF waiting(3)] show thesis
    by (intro that [of Adopted "[]"]) (simp_all add: machine_licensed_def)
next
  case (pass t q u)
  let ?ym = "machine_of s"
  note works = Compute_Reconcile_works [OF pass(4,1)]
  from works(2) mutations_machine_patched [OF pass(3)] obtain cr ad where
    new: "mutations (m_world u) = mutations (m_world t) @ cr @ ad" "creations ?ym cr" "additions ad"
      "is_ok q \<and> cr = [] \<longrightarrow> MachineScope_GetInstanceID ?ym \<noteq> []" "mutations (m_world t) = mutations (m_world s)"
    by auto
  have s': "mutations (m_world s') = mutations (m_world s) @ cr @ ad"
    using pass_end(1) [OF pass(4,5)] new(1,5) by simp
  show thesis
  proof (cases "is_ok q")
    case True
    then obtain x where q: "q = Ok x" by (cases q) auto
    from pass(5) True have "settle_instance L u = (r, s')" by simp
    from settled_pass [OF pass(4) True this] obtain v where
      v: "MachineScope_GetInstanceStatus (machine_of u) = Some v" "instance_settled v r (machine_of u) (machine_of s')" .
    have "ad \<noteq> [] \<longrightarrow> v = InstanceStatusRunning"
      using added_when_running [OF pass(4) [unfolded q] v(1) new(1,3)] by blast
    with observe [OF live works(1) v(2)] v(2) new True s' show thesis
      by (intro that [of "Observed v" "cr @ ad"]) (auto simp: machine_licensed_def instance_settled_def)
  next
    case False
    with pass(5) have "\<not> is_ok r" "s' = u" by simp_all
    with attempt [OF live works(1)] new s' show thesis
      by (intro that [of Attempted "cr @ ad"]) (auto simp: machine_licensed_def)
  qed
qed

text \<open>The patches before the last one: a live machine is patched first, to put the finalizer in place.\<close>

lemma body_patches:
  assumes run: "machine_body L K (C_of sdk sc) (LB_of sdk sc) s = (r, s')"
  obtains cs where "calls (m_world s') = calls (m_world s) @ cs"
    "filter is_patch (map fst cs) =
       (if machine_leaving (machine_of s) then [] else [C_PatchMachine (adopted L (machine_of s))])"
proof (cases "machine_leaving (machine_of s)")
  case True
  from run this obtain q u where d: "Compute_Delete L (C_of sdk sc) (LB_of sdk sc) s = (q, u)" "m_world s' = m_world u"
    by (rule leaving_body)
  have "on_m_world cloud_only s u" using every_runD [OF cloud_only_machine.run_Compute(2) d(1)] .
  then obtain cs where "calls (m_world s') = calls (m_world s) @ cs" "list_all (\<lambda>(c, ok). \<not> is_patch c) cs"
    using d(2) by (auto simp: on_m_world_def cloud_only_def)
  with True show thesis by (intro that [of cs]) (auto simp: filter_empty_conv list_all_iff)
next
  case False
  from live_calls [OF run False] obtain ok cs where
    "calls (m_world s') = calls (m_world s) @ (C_PatchMachine (adopted L (machine_of s)), ok) # cs"
    "list_all (\<lambda>(c, ok). \<not> is_patch c) cs" by metis
  with False show thesis
    by (intro that [of "(C_PatchMachine (adopted L (machine_of s)), ok) # cs"])
      (auto simp: filter_empty_conv list_all_iff)
qed

section \<open>Refinement\<close>

text \<open>
  C2: every reconciliation of a machine refines its life cycle.  Either it leaves the trace and the metrics
  alone, or the object was fetched, the last call of the pass is a patch whose object is a step of the fetched
  one, a live machine was patched once before, with the finalizer added, the event of the step
  licenses the changes asked of the cloud, and the pass succeeds with the result of the event exactly
  when the last patch did.
\<close>

theorem machine_refines:
  fixes sdk :: "'e SDK"
  assumes run: "YandexMachine_Reconcile L K (YandexClient sdk) ns name w = (r, w')"
  shows "(calls w' = calls w \<and> metrics w' = metrics w \<and> (r = Ok no_requeue \<or> \<not> is_ok r)) \<or>
    (\<exists>ym v ev r0 ym' ok cs new.
       external (Get_YandexMachine K ns name) w = (Ok ym, v) \<and>
       machine_step L ym ev ym' \<and> machine_licensed ym ev r0 new \<and>
       mutations w' = mutations w @ new \<and>
       calls w' = calls w @ cs @ [(C_PatchMachine ym', ok)] \<and>
       filter is_patch (map fst cs) = (if machine_leaving ym then [] else [C_PatchMachine (adopted L ym)]) \<and>
       (is_ok r \<longleftrightarrow> is_ok r0 \<and> ok) \<and> (is_ok r \<longrightarrow> r = r0) \<and> (\<not> is_ok r0 \<longrightarrow> r = r0))"
  using run
proof (cases rule: machine_pass)
  case idle
  then show ?thesis by blast
next
  case (pass machine ym v w1 sc r0 t ok)
  let ?s = "fetched_machine machine ym w1"
  have m: "mutations w' = mutations (m_world t)" "mutations (m_world ?s) = mutations w"
    using pass(3,6) by (simp_all add: mutations_def is_mutation_def)
  obtain ev new where step: "machine_step L ym ev (machine_of t)" "machine_licensed ym ev r0 new"
    and new: "mutations (m_world t) = mutations (m_world ?s) @ new"
    using live_refines [OF pass(5)] leaving_refines [OF pass(5)] by (metis fetched_machine_simps(2))
  obtain cs where cs: "calls (m_world t) = calls w @ cs"
    and patches: "filter is_patch (map fst cs) =
      (if machine_leaving ym then [] else [C_PatchMachine (adopted L ym)])"
    using body_patches [OF pass(5)] pass(3) by (metis fetched_machine_simps(1,2))
  have "mutations w' = mutations w @ new" "calls w' = calls w @ cs @ [(C_PatchMachine (machine_of t), ok)]"
    using m new cs pass(6) by simp_all
  with pass(1) step patches pass(7-9) show ?thesis by (intro disjI2 exI conjI impI) assumption+
qed

theorem machine_refines_witness:
  "\<exists>ev ym' ok. machine_step sim_lib (sim_ym sim_unborn) ev ym' \<and>
     last (calls (snd (sim_machine_run sim_unborn))) = (C_PatchMachine ym', ok)"
proof -
  have "calls (snd (sim_machine_run sim_unborn)) \<noteq> []"
    by (simp add: sim_unborn_def evaluate evaluate_machine)
  then show ?thesis
    using machine_refines [of sim_lib sim_kube sim_sdk "''default''" "''m1''" "start sim_unborn",
        OF prod.collapse [symmetric]]
    unfolding sim_machine_fetch by (auto simp: append_assoc [symmetric] simp del: append_assoc)
qed

end
