(* ===== verification/Machine_Liveness.thy ===== *)
theory Machine_Liveness
  imports Machine_Lifecycle Cluster_Liveness
begin

text \<open>
  Progress of the machine controller: what repeated reconciliations of a \<open>YandexMachine\<close> achieve when
  the cloud and the API server do their part.  Their part is stated over a view of the environment: the
  stored object, what a look-up of the machine's instance finds, how many look-ups and requests the
  instance still needs, and the target groups that a look-up by name finds.
\<close>

section \<open>The part of the API server\<close>

record 'e MachineView =
  n_ym :: "'e \<Rightarrow> YandexMachine"
  n_vm :: "'e \<Rightarrow> Instance option"
  n_rest :: "'e \<Rightarrow> nat"
  n_tgs :: "'e \<Rightarrow> TargetGroup list"

definition same_cloud :: "'e MachineView \<Rightarrow> 'e \<Rightarrow> 'e \<Rightarrow> bool" where
  "same_cloud V e e' \<longleftrightarrow> n_vm V e' = n_vm V e \<and> n_rest V e' = n_rest V e \<and> n_tgs V e' = n_tgs V e"

definition serving_machine ::
    "Lib \<Rightarrow> 'e Kube \<Rightarrow> string \<Rightarrow> string \<Rightarrow> Machine \<Rightarrow> Cluster \<Rightarrow> YandexCluster \<Rightarrow> 'e MachineView \<Rightarrow> bool" where
  "serving_machine L K ns name machine cluster yc V \<longleftrightarrow>
     (\<forall>e. Get_YandexMachine K ns name e = (Inr (n_ym V e), e)) \<and>
     (\<forall>e m. GetOwnerMachine K m e = (Inr (Some machine), e)) \<and>
     (\<forall>e m. GetClusterFromMetadata K m e = (Inr cluster, e)) \<and>
     (\<forall>e n i. Get_YandexCluster K n i e = (Inr yc, e)) \<and>
     (\<forall>e c. NewHelper_YandexCluster K c e = (Inr (), e)) \<and>
     (\<forall>e m. NewHelper_YandexMachine K m e = (Inr (), e)) \<and>
     (\<forall>e b m. \<exists>e'. Patch_YandexMachine K b m e = (Inr (), e') \<and> n_ym V e' = m \<and> same_cloud V e e') \<and>
     (\<forall>m. \<not> IsPaused L cluster m) \<and> cl_InfrastructureRef cluster \<noteq> None"

text \<open>With such a server a pass is its body and the patch.\<close>

lemma patch_served:
  assumes "serving_machine L K ns name machine cluster yc V"
  obtains t' where "MachineScope_PatchObject K t = (Ok (), t')" "m_scope t' = m_scope t"
    "n_ym V (env (m_world t')) = machine_of t" "same_cloud V (env (m_world t)) (env (m_world t'))"
proof -
  obtain e' where "Patch_YandexMachine K (ms_before (m_scope t)) (machine_of t) (env (m_world t)) = (Inr (), e')"
    "n_ym V e' = machine_of t" "same_cloud V (env (m_world t)) e'"
    using assms unfolding serving_machine_def by blast
  then have "MachineScope_PatchObject K t = (Ok (), t\<lparr>m_world := (m_world t)\<lparr>env := e',
      calls := calls (m_world t) @ [(C_PatchMachine (machine_of t), True)]\<rparr>\<rparr>)"
    by (simp add: MachineScope_PatchObject_def in_mworld_def zoomG_def traced_def external_def Let_def)
  from that [OF this] \<open>n_ym V e' = machine_of t\<close> \<open>same_cloud V (env (m_world t)) e'\<close> show thesis by simp
qed

lemma served_machine_pass:
  assumes server: "serving_machine L K ns name machine cluster yc V"
    and body: "machine_body L K (ClusterScope_getter C (scope_of cluster yc)) (loadbalancer_New C (scope_of cluster yc))
      (fetched_machine machine (n_ym V (env w)) w) = (Ok x, t)"
  shows "\<exists>w'. YandexMachine_Reconcile L K C ns name w = (Ok x, w') \<and>
    n_ym V (env w') = machine_of t \<and> same_cloud V (env (m_world t)) (env w')"
proof -
  let ?ym = "n_ym V (env w)" and ?sc = "scope_of cluster yc"
  obtain infra where infra: "cl_InfrastructureRef cluster = Some infra"
    using server by (auto simp: serving_machine_def)
  have fetch: "external (Get_YandexMachine K ns name) w = (Ok ?ym, w)"
    "external (GetOwnerMachine K (ym_Meta ?ym)) w = (Ok (Some machine), w)"
    "external (GetClusterFromMetadata K (ma_Meta machine)) w = (Ok cluster, w)"
    "external (Get_YandexCluster K (om_Namespace (ym_Meta ?ym)) infra) w = (Ok yc, w)"
    "external (NewHelper_YandexCluster K yc) w = (Ok (), w)"
    "external (NewHelper_YandexMachine K ?ym) w = (Ok (), w)"
    "\<not> IsPaused L cluster (ym_Meta ?ym)"
    using server by (auto simp: serving_machine_def intro!: external_at)
  obtain t' where patch: "MachineScope_PatchObject K t = (Ok (), t')"
    "n_ym V (env (m_world t')) = machine_of t" "same_cloud V (env (m_world t)) (env (m_world t'))"
    using patch_served [OF server] by blast
  have "YandexMachine_scoped L K (ClusterScope_getter C ?sc) (loadbalancer_New C ?sc)
      (fetched_machine machine ?ym w) = (Ok x, t')"
    using body patch(1) unfolding YandexMachine_scoped_def machine_body_def [symmetric] MachineScope_Close_def
    by (simp add: deferG_def)
  with fetch infra have "YandexMachine_Reconcile L K C ns name w = (Ok x, m_world t')"
    by (simp add: YandexMachine_Reconcile_def machine_in_cluster_def NewClusterScope_def NewMachineScope_def
        run_machine_scope_def fetched_machine_def scope_of_def Let_def)
  with patch show ?thesis by blast
qed

section \<open>Targets\<close>

text \<open>
  The cloud keeps target groups: a look-up by name finds those of the view and changes nothing, and a
  request for the first of them changes its targets as asked, and nothing else.
\<close>

definition same_but_groups :: "'e MachineView \<Rightarrow> 'e \<Rightarrow> 'e \<Rightarrow> bool" where
  "same_but_groups V e e' \<longleftrightarrow> n_ym V e' = n_ym V e \<and> n_vm V e' = n_vm V e \<and> n_rest V e' = n_rest V e"

definition first_targets :: "'e MachineView \<Rightarrow> 'e \<Rightarrow> Target list" where
  "first_targets V e = (case n_tgs V e of [] \<Rightarrow> [] | t # _ \<Rightarrow> tg_Targets t)"

definition target_cloud :: "'e SDK \<Rightarrow> ListRequest \<Rightarrow> 'e MachineView \<Rightarrow> bool" where
  "target_cloud sdk req V \<longleftrightarrow>
     (\<forall>e. TargetGroup_List sdk req e = (Inr (n_tgs V e), e)) \<and>
     (\<forall>e t ts rq. n_tgs V e = t # ts \<and> rtr_TargetGroupId rq = tg_Id t \<longrightarrow>
        (\<exists>x e'. TargetGroup_RemoveTargets sdk rq e = (Inr x, e') \<and> same_but_groups V e e' \<and>
           n_tgs V e' \<noteq> [] \<and>
           first_targets V e' = filter (\<lambda>x. x \<notin> set (rtr_Targets rq)) (tg_Targets t))) \<and>
     (\<forall>e t ts rq. n_tgs V e = t # ts \<and> atr_TargetGroupId rq = tg_Id t \<longrightarrow>
        (\<exists>x e'. TargetGroup_AddTargets sdk rq e = (Inr x, e') \<and> same_but_groups V e e' \<and>
           n_tgs V e' \<noteq> [] \<and> first_targets V e' = tg_Targets t @ atr_Targets rq))"

lemma same_but_groups_refl [simp]: "same_but_groups V e e"
  by (simp add: same_but_groups_def)

lemma target_requests:
  "TargetGroup_RemoveTargets sdk rq (env w) = (Inr x, e') \<Longrightarrow>
     \<exists>y w'. YandexClient_ALBRemoveTarget sdk rq w = (Ok y, w') \<and> env w' = e'"
  "TargetGroup_AddTargets sdk arq (env w) = (Inr x, e') \<Longrightarrow>
     \<exists>y w'. YandexClient_ALBAddTarget sdk arq w = (Ok y, w') \<and> env w' = e'"
  by (simp_all add: client_method_defs observed_def traced_def external_def ObserveRequest_def Let_def)

lemma group_look_up:
  assumes cloud: "target_cloud sdk (by_name sdk sc) V"
  obtains w1 where "env w1 = env w"
    "YandexClient_ALBTargetGroupGetByName sdk (ClusterScope_GetFolderID sc) (ClusterScope_GetLBName sc) w =
      (Ok (case n_tgs V (env w) of [] \<Rightarrow> None | t # _ \<Rightarrow> Some t), w1)"
proof -
  have "TargetGroup_List sdk (by_name sdk sc) (env w) = (Inr (n_tgs V (env w)), env w)"
    using cloud unfolding target_cloud_def by blast
  from look_ups(3) [OF this] that show thesis by blast
qed

text \<open>A change of the targets that succeeds, whatever the look-up finds.\<close>

lemma target_changed:
  assumes cloud: "target_cloud sdk (by_name sdk sc) V" and w: "n_tgs V (env w) \<noteq> [] \<or> missing = ret ()"
    and send: "\<And>t ts w1. n_tgs V (env w1) = t # ts \<Longrightarrow>
      \<exists>y w'. send t w1 = (Ok y, w') \<and> same_but_groups V (env w1) (env w') \<and> P (first_targets V (env w'))"
    and skip: "\<And>t ts e. n_tgs V e = t # ts \<Longrightarrow> skip t \<Longrightarrow> P (tg_Targets t)" and none: "n_tgs V (env w) = [] \<Longrightarrow> P []"
  shows "\<exists>w'. change_target (find_group (YandexClient sdk) sc) missing skip send w = (Ok (), w') \<and>
    same_but_groups V (env w) (env w') \<and> P (first_targets V (env w'))"
proof -
  obtain w1 where look: "env w1 = env w" "find_group (YandexClient sdk) sc w =
      (Ok (case n_tgs V (env w) of [] \<Rightarrow> None | t # _ \<Rightarrow> Some t), w1)"
    using group_look_up [OF cloud] unfolding find_group_def YandexClient_sel by blast
  show ?thesis
  proof (cases "n_tgs V (env w)")
    case Nil
    with look w none show ?thesis by (auto simp: change_target_def first_targets_def)
  next
    case (Cons t ts)
    show ?thesis
    proof (cases "skip t")
      case True
      with look Cons skip [OF Cons] show ?thesis by (auto simp: change_target_def first_targets_def)
    next
      case False
      with Cons look(1) obtain y w' where "send t w1 = (Ok y, w')" "same_but_groups V (env w) (env w')"
        "P (first_targets V (env w'))" using send by metis
      with look Cons False show ?thesis by (auto simp: change_target_def)
    qed
  qed
qed

lemma deregistered:
  assumes cloud: "target_cloud sdk (by_name sdk sc) V" and alb: "ClusterScope_GetLBType sc = LoadBalancerTypeALB"
  shows "\<exists>w'. LB_RemoveTarget (YandexClient sdk) sc ip net w = (Ok (), w') \<and>
    same_but_groups V (env w) (env w') \<and> target_of ip net \<notin> set (first_targets V (env w'))"
proof -
  have send: "\<exists>y w'. YandexClient_ALBRemoveTarget sdk (remove_request t ip net) w1 = (Ok y, w') \<and>
      same_but_groups V (env w1) (env w') \<and> target_of ip net \<notin> set (first_targets V (env w'))"
    if "n_tgs V (env w1) = t # ts" for t ts w1
  proof -
    let ?rq = "remove_request t ip net"
    have "rtr_TargetGroupId ?rq = tg_Id t" by (simp add: remove_request_def)
    with cloud that obtain x e' where e: "TargetGroup_RemoveTargets sdk ?rq (env w1) = (Inr x, e')"
      "same_but_groups V (env w1) e'" "first_targets V e' = filter (\<lambda>x. x \<notin> set (rtr_Targets ?rq)) (tg_Targets t)"
      unfolding target_cloud_def by blast
    obtain y w' where "YandexClient_ALBRemoveTarget sdk ?rq w1 = (Ok y, w')" "env w' = e'"
      using target_requests(1) [OF e(1)] by blast
    moreover have "target_of ip net \<notin> set (first_targets V e')"
      unfolding e(3) by (simp add: remove_request_def)
    ultimately show ?thesis using e(2) by blast
  qed
  have shape: "LB_RemoveTarget (YandexClient sdk) sc ip net = change_target (find_group (YandexClient sdk) sc)
      (ret ())
      (\<lambda>tg. \<not> isAddressRegisteredALB ip net tg) (\<lambda>tg. YandexClient_ALBRemoveTarget sdk (remove_request tg ip net))"
    by (simp add: LB_RemoveTarget_def alb target_shapes)
  show ?thesis
    unfolding shape
    by (rule target_changed [OF cloud, where P = "\<lambda>ts. target_of ip net \<notin> set ts"])
      (simp_all add: send registered_iff_target)
qed

lemma registered:
  assumes cloud: "target_cloud sdk (by_name sdk sc) V" and alb: "ClusterScope_GetLBType sc = LoadBalancerTypeALB"
    and some: "n_tgs V (env w) \<noteq> []"
  shows "\<exists>w'. LB_AddTarget (YandexClient sdk) sc ip net w = (Ok (), w') \<and>
    same_but_groups V (env w) (env w') \<and> target_of ip net \<in> set (first_targets V (env w'))"
proof -
  have send: "\<exists>y w'. YandexClient_ALBAddTarget sdk (add_request t ip net) w1 = (Ok y, w') \<and>
      same_but_groups V (env w1) (env w') \<and> target_of ip net \<in> set (first_targets V (env w'))"
    if "n_tgs V (env w1) = t # ts" for t ts w1
  proof -
    let ?rq = "add_request t ip net"
    have "atr_TargetGroupId ?rq = tg_Id t" by (simp add: add_request_def)
    with cloud that obtain x e' where e: "TargetGroup_AddTargets sdk ?rq (env w1) = (Inr x, e')"
      "same_but_groups V (env w1) e'" "first_targets V e' = tg_Targets t @ atr_Targets ?rq"
      unfolding target_cloud_def by blast
    obtain y w' where "YandexClient_ALBAddTarget sdk ?rq w1 = (Ok y, w')" "env w' = e'"
      using target_requests(2) [OF e(1)] by blast
    moreover have "target_of ip net \<in> set (first_targets V e')"
      unfolding e(3) by (simp add: add_request_def)
    ultimately show ?thesis using e(2) by blast
  qed
  have shape: "LB_AddTarget (YandexClient sdk) sc ip net = change_target (find_group (YandexClient sdk) sc)
      (raise (Errorf (''target group with name '' @ ClusterScope_GetLBName sc @ '' not found'')))
      (isAddressRegisteredALB ip net) (\<lambda>tg. YandexClient_ALBAddTarget sdk (add_request tg ip net))"
    by (simp add: LB_AddTarget_def alb target_shapes)
  show ?thesis
    unfolding shape
    by (rule target_changed [OF cloud, where P = "\<lambda>ts. target_of ip net \<in> set ts"])
      (use some in \<open>simp_all add: send registered_iff_target\<close>)
qed

lemma instance_requests:
  "Instance_Get sdk i (env w) = (Inr vm, e') \<Longrightarrow> \<exists>w'. YandexClient_ComputeGet sdk i w = (Ok vm, w') \<and> env w' = e'"
  "Instance_Get sdk i (env w) = (Inl er, e') \<Longrightarrow> \<exists>w'. YandexClient_ComputeGet sdk i w = (Err er, w') \<and> env w' = e'"
  "Instance_Delete sdk i (env w) = (Inr x, e') \<Longrightarrow> \<exists>w'. YandexClient_ComputeDelete sdk i w = (Ok (), w') \<and> env w' = e'"
  by (simp_all add: client_method_defs observed_def traced_def external_def ObserveRequest_def Let_def
      bindG_def tryG_def)

section \<open>Deletion\<close>

text \<open>
  The cloud that removes instance \<open>i\<close>: a look-up finds what the view holds, and \<open>NotFound\<close> when it
  holds none; an instance on its way out comes closer to its end with each look-up, and one that
  is not is put on its way by a deletion.
\<close>

definition removing_cloud :: "Lib \<Rightarrow> 'e SDK \<Rightarrow> string \<Rightarrow> 'e MachineView \<Rightarrow> bool" where
  "removing_cloud L sdk i V \<longleftrightarrow>
     (\<forall>e. n_vm V e = None \<longrightarrow> (\<exists>er. Instance_Get sdk i e = (Inl er, e) \<and> IsNotFound L (Some er))) \<and>
     (\<forall>e vm. n_vm V e = Some vm \<longrightarrow>
        (\<exists>e'. Instance_Get sdk i e = (Inr vm, e') \<and> n_ym V e' = n_ym V e \<and> n_tgs V e' = n_tgs V e \<and>
           (if in_Status vm = InstanceStatusDeleting then n_rest V e' < n_rest V e
            else n_vm V e' = n_vm V e \<and> n_rest V e' = n_rest V e))) \<and>
     (\<forall>e vm. n_vm V e = Some vm \<and> in_Status vm \<noteq> InstanceStatusDeleting \<longrightarrow>
        (\<exists>x e'. Instance_Delete sdk i e = (Inr x, e') \<and> n_ym V e' = n_ym V e \<and> n_tgs V e' = n_tgs V e \<and>
           n_rest V e' < n_rest V e))"

text \<open>The target of a machine: the address it was registered with.\<close>

definition machine_target :: "YandexMachine \<Rightarrow> Target option" where
  "machine_target ym =
     (case MachineScope_GetAddresses ym of [] \<Rightarrow> None
      | a # _ \<Rightarrow> Some (target_of (na_Address a) (ni_SubnetID (hd (yms_NetworkInterfaces (ym_Spec ym))))))"

definition well_connected :: "YandexMachine \<Rightarrow> bool" where
  "well_connected ym \<longleftrightarrow> MachineScope_GetAddresses ym = [] \<or> yms_NetworkInterfaces (ym_Spec ym) \<noteq> []"

lemma deregistration:
  assumes cloud: "target_cloud sdk (by_name sdk sc) V" and alb: "ClusterScope_GetLBType sc = LoadBalancerTypeALB"
    and wired: "well_connected (machine_of s)"
  shows "\<exists>w'. deregisterControlPlane (LB_of sdk sc) s = (Ok (), s\<lparr>m_world := w'\<rparr>) \<and>
    same_but_groups V (env (m_world s)) (env w') \<and>
    (\<forall>t. machine_target (machine_of s) = Some t \<longrightarrow> t \<notin> set (first_targets V (env w')))"
proof (cases "MachineScope_GetAddresses (machine_of s)")
  case Nil
  then have "deregisterControlPlane (LB_of sdk sc) s = (Ok (), s\<lparr>m_world := m_world s\<rparr>)"
    by (simp add: deregisterControlPlane_def)
  with Nil show ?thesis by (intro exI [of _ "m_world s"]) (simp add: machine_target_def)
next
  case (Cons a as)
  with wired obtain ni nis where ni: "yms_NetworkInterfaces (ym_Spec (machine_of s)) = ni # nis"
    by (cases "yms_NetworkInterfaces (ym_Spec (machine_of s))") (auto simp: well_connected_def)
  obtain w' where "LB_RemoveTarget (YandexClient sdk) sc (na_Address a) (ni_SubnetID ni) (m_world s) = (Ok (), w')"
    "same_but_groups V (env (m_world s)) (env w')"
    "target_of (na_Address a) (ni_SubnetID ni) \<notin> set (first_targets V (env w'))"
    using deregistered [OF cloud alb] by blast
  with Cons ni show ?thesis
    by (intro exI [of _ w']) (simp add: deregisterControlPlane_def machine_target_def loadbalancer_New_def)
qed

text \<open>The deregistration as \<open>Delete\<close> calls it: for control plane machines only.\<close>

lemma leaving_deregistered:
  assumes cloud: "target_cloud sdk (by_name sdk sc) V" and alb: "ClusterScope_GetLBType sc = LoadBalancerTypeALB"
    and wired: "well_connected (machine_of s)"
  shows "\<exists>w'. (if MachineScope_IsControlPlane L (m_scope s) then tryG (deregisterControlPlane (LB_of sdk sc)) (\<lambda>_. k) h
      else k) s = k (s\<lparr>m_world := w'\<rparr>) \<and> same_but_groups V (env (m_world s)) (env w') \<and>
    (IsControlPlaneMachine L (ms_Machine (m_scope s)) \<longrightarrow>
       (\<forall>t. machine_target (machine_of s) = Some t \<longrightarrow> t \<notin> set (first_targets V (env w'))))"
proof (cases "IsControlPlaneMachine L (ms_Machine (m_scope s))")
  case True
  with deregistration [OF cloud alb wired] show ?thesis
    by (auto simp: MachineScope_IsControlPlane_def)
next
  case False
  then show ?thesis by (intro exI [of _ "m_world s"]) (simp add: MachineScope_IsControlPlane_def)
qed

definition target_gone :: "Lib \<Rightarrow> Machine \<Rightarrow> YandexMachine \<Rightarrow> 'e MachineView \<Rightarrow> 'e \<Rightarrow> bool" where
  "target_gone L machine ym V e \<longleftrightarrow> (IsControlPlaneMachine L machine \<longrightarrow>
     (\<forall>t. machine_target ym = Some t \<longrightarrow> t \<notin> set (first_targets V e)))"

lemma delete_step:
  fixes s :: "'e World MachineState"
  assumes cloud: "removing_cloud L sdk i V" "target_cloud sdk (by_name sdk sc) V"
    and alb: "ClusterScope_GetLBType sc = LoadBalancerTypeALB"
    and wired: "well_connected (machine_of s)" and id: "instance_id s = i" "i \<noteq> []"
  shows "\<exists>b s'. Compute_Delete L (C_of sdk sc) (LB_of sdk sc) s = (Ok b, s') \<and>
    (if n_vm V (env (m_world s)) = None
     then b \<and> machine_of s' = machine_of s \<and> n_vm V (env (m_world s')) = None \<and>
       target_gone L (ms_Machine (m_scope s)) (machine_of s) V (env (m_world s'))
     else \<not> b \<and> (\<exists>v. machine_of s' = MachineScope_SetInstanceStatus v (machine_of s)) \<and>
       n_rest V (env (m_world s')) < n_rest V (env (m_world s)))"
proof (cases "n_vm V (env (m_world s))")
  case None
  then obtain er where "Instance_Get sdk i (env (m_world s)) = (Inl er, env (m_world s))"
    and missing: "IsNotFound L (Some er)"
    using cloud(1) unfolding removing_cloud_def by blast
  from instance_requests(2) [OF this(1)] obtain w1 where
    g: "YandexClient_ComputeGet sdk i (m_world s) = (Err er, w1)" "env w1 = env (m_world s)" by blast
  let ?s1 = "s\<lparr>m_world := w1\<rparr>" and ?k = "ret instanceDeleted :: ('e World MachineState, bool) go"
  obtain w2 where "(if MachineScope_IsControlPlane L (m_scope ?s1)
      then tryG (deregisterControlPlane (LB_of sdk sc)) (\<lambda>_. ?k)
        (\<lambda>e. raise (wrapf ''failed to deregister controlplane compute instance from load balancer: '' e))
      else ?k) ?s1 = ?k (?s1\<lparr>m_world := w2\<rparr>)"
    "same_but_groups V (env w1) (env w2)"
    "target_gone L (ms_Machine (m_scope s)) (machine_of s) V (env w2)"
    using leaving_deregistered [OF cloud(2) alb, of ?s1 L ?k] wired unfolding target_gone_def by auto
  with g id None missing show ?thesis
    by (intro exI [of _ True] exI [of _ "s\<lparr>m_world := w2\<rparr>"])
      (simp add: Compute_Delete_def ClusterScope_getter_def instanceDeleted_def same_but_groups_def Let_def)
next
  case (Some vm)
  then obtain e1 where e1: "Instance_Get sdk i (env (m_world s)) = (Inr vm, e1)"
    "if in_Status vm = InstanceStatusDeleting then n_rest V e1 < n_rest V (env (m_world s))
     else n_vm V e1 = Some vm \<and> n_rest V e1 = n_rest V (env (m_world s))"
    using cloud(1) unfolding removing_cloud_def by metis
  from instance_requests(1) [OF this(1)] obtain w1 where
    g: "YandexClient_ComputeGet sdk i (m_world s) = (Ok vm, w1)" "env w1 = e1" by blast
  let ?s1 = "set_ym (MachineScope_SetInstanceStatus (in_Status vm)) (s\<lparr>m_world := w1\<rparr>)"
  show ?thesis
  proof (cases "in_Status vm = InstanceStatusDeleting")
    case True
    with g e1(2) id Some show ?thesis
      by (intro exI [of _ False] exI [of _ ?s1])
        (auto simp: Compute_Delete_def ClusterScope_getter_def instanceNotDeleted_def Let_def)
  next
    case False
    let ?k = "thenG (in_mworld (YandexClient_ComputeDelete sdk i)) (ret instanceNotDeleted) :: ('e World MachineState, bool) go"
    have "well_connected (machine_of ?s1)"
      using wired by (simp add: well_connected_def MachineScope_GetAddresses_def)
    then obtain w2 where d: "(if MachineScope_IsControlPlane L (m_scope ?s1)
        then tryG (deregisterControlPlane (LB_of sdk sc)) (\<lambda>_. ?k)
          (\<lambda>e. raise (wrapf ''failed to deregister controlplane compute instance from load balancer: '' e))
        else ?k) ?s1 = ?k (?s1\<lparr>m_world := w2\<rparr>)"
      "same_but_groups V (env w1) (env w2)"
      using leaving_deregistered [OF cloud(2) alb, of ?s1 L ?k] by auto
    with False e1(2) g(2) have "n_vm V (env w2) = Some vm" "n_rest V (env w2) = n_rest V (env (m_world s))"
      by (simp_all add: same_but_groups_def)
    with False cloud(1) obtain x e3 where "Instance_Delete sdk i (env w2) = (Inr x, e3)"
      "n_rest V e3 < n_rest V (env (m_world s))"
      unfolding removing_cloud_def by metis
    with instance_requests(3) [OF this(1)] obtain w3 where "YandexClient_ComputeDelete sdk i w2 = (Ok (), w3)"
      "n_rest V (env w3) < n_rest V (env (m_world s))" by blast
    with False g id Some d(1) show ?thesis
      by (intro exI [of _ False] exI [of _ "?s1\<lparr>m_world := w3\<rparr>"])
        (auto simp: Compute_Delete_def ClusterScope_getter_def instanceNotDeleted_def Let_def)
  qed
qed

text \<open>One pass of the controller over a machine that is being deleted.\<close>

lemma leaving_pass:
  assumes server: "serving_machine L K ns name machine cluster yc V"
    and cloud: "removing_cloud L sdk i V" "target_cloud sdk (by_name sdk (scope_of cluster yc)) V"
    and alb: "ClusterScope_GetLBType (scope_of cluster yc) = LoadBalancerTypeALB"
    and leaving: "machine_leaving (n_ym V (env w))" "well_connected (n_ym V (env w))"
      "MachineScope_GetInstanceID (n_ym V (env w)) = i" "i \<noteq> []"
  shows "\<exists>r w'. YandexMachine_Reconcile L K (YandexClient sdk) ns name w = (r, w') \<and>
    (if n_vm V (env w) = None
     then n_ym V (env w') = released L (n_ym V (env w)) \<and> n_vm V (env w') = None \<and>
       target_gone L machine (n_ym V (env w)) V (env w')
     else (\<exists>v. n_ym V (env w') = MachineScope_SetInstanceStatus v (n_ym V (env w))) \<and>
       n_rest V (env w') < n_rest V (env w))"
proof -
  let ?sc = "scope_of cluster yc" and ?s = "fetched_machine machine (n_ym V (env w)) w"
  obtain b t where d: "Compute_Delete L (C_of sdk ?sc) (LB_of sdk ?sc) ?s = (Ok b, t)"
    "if n_vm V (env w) = None
     then b \<and> machine_of t = n_ym V (env w) \<and> n_vm V (env (m_world t)) = None \<and>
       target_gone L machine (n_ym V (env w)) V (env (m_world t))
     else \<not> b \<and> (\<exists>v. machine_of t = MachineScope_SetInstanceStatus v (n_ym V (env w))) \<and>
       n_rest V (env (m_world t)) < n_rest V (env w)"
    using delete_step [OF cloud alb, of ?s, unfolded fetched_machine_simps, OF leaving(2-4)] by blast
  show ?thesis
  proof (cases "n_vm V (env w) = None")
    case True
    with d have "Compute_Delete L (C_of sdk ?sc) (LB_of sdk ?sc) ?s = (Ok True, t)" by simp
    with leaving have "machine_body L K (C_of sdk ?sc) (LB_of sdk ?sc) ?s =
        (Ok no_requeue, set_ym (ym_finalizers (\<lambda>fs. RemoveFinalizer L fs MachineFinalizer)) t)"
      by (auto simp: machine_body_def YandexMachine_reconcileDelete_def)
    from served_machine_pass [OF server this] True d(2) show ?thesis
      by (auto simp: released_def same_cloud_def target_gone_def first_targets_def)
  next
    case False
    with d have "Compute_Delete L (C_of sdk ?sc) (LB_of sdk ?sc) ?s = (Ok False, t)" by simp
    with leaving have "machine_body L K (C_of sdk ?sc) (LB_of sdk ?sc) ?s = (Ok requeue_later, t)"
      by (auto simp: machine_body_def YandexMachine_reconcileDelete_def tryG_def)
    from served_machine_pass [OF server this] False d(2) show ?thesis
      by (auto simp: same_cloud_def)
  qed
qed

lemma machine_deletion_aux:
  assumes server: "serving_machine L K ns name machine cluster yc V"
    and cloud: "removing_cloud L sdk i V" "target_cloud sdk (by_name sdk (scope_of cluster yc)) V"
    and alb: "ClusterScope_GetLBType (scope_of cluster yc) = LoadBalancerTypeALB" and i: "i \<noteq> []"
  shows "machine_leaving (n_ym V (env w)) \<Longrightarrow> well_connected (n_ym V (env w)) \<Longrightarrow>
    MachineScope_GetInstanceID (n_ym V (env w)) = i \<Longrightarrow>
    \<exists>n \<le> Suc (n_rest V (env w)).
      let e = env (reconcile_times n (YandexMachine_Reconcile L K (YandexClient sdk) ns name) w) in
      n_vm V e = None \<and> target_gone L machine (n_ym V (env w)) V e \<and> (\<exists>ym. n_ym V e = released L ym)"
proof (induction "n_rest V (env w)" arbitrary: w rule: less_induct)
  case less
  let ?m = "YandexMachine_Reconcile L K (YandexClient sdk) ns name"
  obtain r w' where run: "?m w = (r, w')" and pass: "if n_vm V (env w) = None
     then n_ym V (env w') = released L (n_ym V (env w)) \<and> n_vm V (env w') = None \<and>
       target_gone L machine (n_ym V (env w)) V (env w')
     else (\<exists>v. n_ym V (env w') = MachineScope_SetInstanceStatus v (n_ym V (env w))) \<and>
       n_rest V (env w') < n_rest V (env w)"
    using leaving_pass [OF server cloud alb less.prems i] by blast
  show ?case
  proof (cases "n_vm V (env w) = None")
    case True
    with run pass show ?thesis by (intro exI [of _ 1]) (auto simp: Let_def)
  next
    case False
    with pass obtain v where ym: "n_ym V (env w') = MachineScope_SetInstanceStatus v (n_ym V (env w))"
      and smaller: "n_rest V (env w') < n_rest V (env w)" by auto
    have target: "machine_target (n_ym V (env w')) = machine_target (n_ym V (env w))"
      by (simp add: ym machine_target_def MachineScope_GetAddresses_def split: list.split)
    have "MachineScope_GetInstanceID (n_ym V (env w')) = MachineScope_GetInstanceID (n_ym V (env w))"
      by (rule instance_id_spec) (simp add: ym)
    then have prems: "machine_leaving (n_ym V (env w'))" "well_connected (n_ym V (env w'))"
      "MachineScope_GetInstanceID (n_ym V (env w')) = i"
      using less.prems by (simp_all add: ym well_connected_def MachineScope_GetAddresses_def)
    obtain n where "n \<le> Suc (n_rest V (env w'))"
      "let e = env (reconcile_times n ?m w') in n_vm V e = None \<and>
        target_gone L machine (n_ym V (env w')) V e \<and> (\<exists>ym. n_ym V e = released L ym)"
      using less.hyps [OF smaller prems] by blast
    with smaller run show ?thesis
      by (intro exI [of _ "Suc n"]) (auto simp: Let_def target_gone_def target)
  qed
qed

text \<open>
  C8: deletion of a machine completes.  When the cloud and the API server oblige, a machine that is marked
  for deletion and remembers an instance loses the finalizer after at most one pass more than the
  instance needs look-ups and requests to be gone; then the instance is gone, and the address of a
  control plane machine is no target of the load balancer any more.
\<close>

theorem machine_deletion_completes:
  assumes server: "serving_machine L K ns name machine cluster yc V"
    and cloud: "removing_cloud L sdk (MachineScope_GetInstanceID (n_ym V (env w))) V"
      "target_cloud sdk (by_name sdk (scope_of cluster yc)) V"
    and alb: "ClusterScope_GetLBType (scope_of cluster yc) = LoadBalancerTypeALB"
    and leaving: "machine_leaving (n_ym V (env w))" "well_connected (n_ym V (env w))"
      "MachineScope_GetInstanceID (n_ym V (env w)) \<noteq> []"
    and laws: "finalizer_laws L"
  shows "\<exists>n \<le> Suc (n_rest V (env w)).
    let e = env (reconcile_times n (YandexMachine_Reconcile L K (YandexClient sdk) ns name) w) in
    n_vm V e = None \<and> target_gone L machine (n_ym V (env w)) V e \<and>
    \<not> ContainsFinalizer L (om_Finalizers (ym_Meta (n_ym V e))) MachineFinalizer"
proof -
  have "\<not> ContainsFinalizer L (om_Finalizers (ym_Meta (released L ym))) MachineFinalizer" for ym
    using laws by (simp add: finalizer_laws_def released_def ym_finalizers_def)
  with machine_deletion_aux [OF server cloud alb leaving(3,1,2) refl] show ?thesis
    unfolding Let_def by metis
qed

text \<open>The simulated cloud obliges once an instance on its way out disappears after it was seen.\<close>

definition sim_fading :: "Sim SDK" where
  "sim_fading = sim_sdk\<lparr>Instance_Get := (\<lambda>i e.
     case filter (\<lambda>v. in_Id v = i) (sim_vms e) of
       [] \<Rightarrow> (Inl sim_not_found, e)
     | v # _ \<Rightarrow> (Inr v, if in_Status v = InstanceStatusDeleting
         then e\<lparr>sim_vms := remove1 v (sim_vms e)\<rparr> else e))\<rparr>"

definition sim_machine_view :: "string \<Rightarrow> string \<Rightarrow> Sim MachineView" where
  "sim_machine_view i n = \<lparr>n_ym = sim_ym,
     n_vm = (\<lambda>e. case filter (\<lambda>v. in_Id v = i) (sim_vms e) of [] \<Rightarrow> None | v # _ \<Rightarrow> Some v),
     n_rest = (\<lambda>e. length (filter (\<lambda>v. in_Id v = i) (sim_vms e))),
     n_tgs = (\<lambda>e. filter (\<lambda>t. tg_Name t = n) (sim_tgs e))\<rparr>"

definition sim_settled_kube :: "Sim Kube" where
  "sim_settled_kube = sim_kube\<lparr>Get_YandexCluster := (\<lambda>ns n e. (Inr (sim_yandex_cluster [ClusterFinalizer]), e))\<rparr>"

lemma sim_fading_removes: "removing_cloud sim_lib sim_fading i (sim_machine_view i n)"
proof -
  let ?V = "sim_machine_view i n" and ?vms = "\<lambda>e. filter (\<lambda>v. in_Id v = i) (sim_vms e)"
  have sel: "n_ym ?V = sim_ym" "n_rest ?V = (\<lambda>e. length (?vms e))"
    "n_tgs ?V = (\<lambda>e. filter (\<lambda>t. tg_Name t = n) (sim_tgs e))"
    "n_vm ?V e = (case ?vms e of [] \<Rightarrow> None | v # _ \<Rightarrow> Some v)" for e
    by (simp_all add: sim_machine_view_def)
  have some: "n_vm ?V e = Some vm \<longleftrightarrow> (\<exists>vs. ?vms e = vm # vs)" for e vm
    by (simp add: sel split: list.split)
  have absent: "n_vm ?V e = None \<longleftrightarrow> ?vms e = []" for e
    by (simp add: sel split: list.split)
  have gone: "IsNotFound sim_lib (Some sim_not_found)" by (simp add: IsNotFound_def)
  have get: "\<exists>e'. Instance_Get sim_fading i e = (Inr vm, e') \<and> sim_ym e' = sim_ym e \<and> sim_tgs e' = sim_tgs e \<and>
      (if in_Status vm = InstanceStatusDeleting then length (?vms e') < length (?vms e) else e' = e)"
    if vs: "?vms e = vm # vs" for e vm vs
  proof -
    from vs have "in_Id vm = i" by (auto simp: filter_eq_Cons_iff)
    then have "filter (\<lambda>v. in_Id v = i) (remove1 vm (sim_vms e)) = vs"
      using vs by (simp add: filter_remove1)
    with vs show ?thesis by (simp add: sim_fading_def)
  qed
  have delete: "Instance_Delete sim_fading i e = (Inr sim_done, e\<lparr>sim_vms := filter (\<lambda>v. in_Id v \<noteq> i) (sim_vms e)\<rparr>)" for e
    by (simp add: sim_fading_def)
  show ?thesis
    unfolding removing_cloud_def
  proof (intro conjI allI impI)
    fix e assume "n_vm ?V e = None"
    with absent [of e] have "?vms e = []" by blast
    then have "Instance_Get sim_fading i e = (Inl sim_not_found, e)" by (simp add: sim_fading_def)
    with gone show "\<exists>er. Instance_Get sim_fading i e = (Inl er, e) \<and> IsNotFound sim_lib (Some er)" by blast
  next
    fix e vm assume "n_vm ?V e = Some vm"
    then obtain vs where "?vms e = vm # vs" by (auto simp: some)
    from get [OF this] show "\<exists>e'. Instance_Get sim_fading i e = (Inr vm, e') \<and> n_ym ?V e' = n_ym ?V e \<and>
        n_tgs ?V e' = n_tgs ?V e \<and> (if in_Status vm = InstanceStatusDeleting then n_rest ?V e' < n_rest ?V e
          else n_vm ?V e' = n_vm ?V e \<and> n_rest ?V e' = n_rest ?V e)"
      by (auto simp: sel(1-3) split: if_splits)
  next
    fix e vm assume "n_vm ?V e = Some vm \<and> in_Status vm \<noteq> InstanceStatusDeleting"
    then obtain vs where "?vms e = vm # vs" by (auto simp: some)
    then show "\<exists>x e'. Instance_Delete sim_fading i e = (Inr x, e') \<and> n_ym ?V e' = n_ym ?V e \<and>
        n_tgs ?V e' = n_tgs ?V e \<and> n_rest ?V e' < n_rest ?V e"
      by (simp add: sel(1-3) delete)
  qed
qed

lemma filter_map_names: "filter (\<lambda>t. tg_Name t = n) (map (\<lambda>t. if P t then t\<lparr>tg_Targets := f t\<rparr> else t) ts) =
    map (\<lambda>t. if P t then t\<lparr>tg_Targets := f t\<rparr> else t) (filter (\<lambda>t. tg_Name t = n) ts)"
  by (induction ts) auto

lemma sim_fading_targets: "target_cloud sim_fading req (sim_machine_view i (lr_Filter req))"
  unfolding target_cloud_def sim_fading_def sim_machine_view_def
  by (auto simp: sim_list_def same_but_groups_def first_targets_def filter_map_names)

lemma sim_settled_serving: "serving_machine sim_lib sim_settled_kube ns name sim_machine sim_cluster
    (sim_yandex_cluster [ClusterFinalizer]) (sim_machine_view i n)"
  by (simp add: serving_machine_def sim_settled_kube_def sim_machine_view_def same_cloud_def sim_cluster_def)

theorem machine_deletion_completes_witness:
  "\<exists>n \<le> 2. let e = env (reconcile_times n (YandexMachine_Reconcile sim_lib sim_settled_kube (YandexClient sim_fading)
     ''default'' ''m1'') (start sim_departing)) in
   filter (\<lambda>v. in_Id v = ''m1'') (sim_vms e) = [] \<and>
   target_of ''10.0.0.5'' ''subnet'' \<notin> set (first_targets (sim_machine_view ''m1'' ''lb1'') e) \<and>
   MachineFinalizer \<notin> set (om_Finalizers (ym_Meta (sim_ym e)))"
proof -
  let ?w = "start sim_departing" and ?V = "sim_machine_view ''m1'' ''lb1''"
  let ?yc = "sim_yandex_cluster [ClusterFinalizer]" let ?sc = "scope_of sim_cluster ?yc"
  have ym: "n_ym ?V (env ?w) = sim_ym sim_departing" by (simp add: sim_machine_view_def)
  have id: "MachineScope_GetInstanceID (sim_ym sim_departing) = ''m1''"
    by (simp add: sim_departing_def evaluate_machine evaluate)
  have "lr_Filter (by_name sim_fading ?sc) = ''lb1''"
    by (simp add: by_name_def scope_of_def sim_fading_def evaluate)
  then have "target_cloud sim_fading (by_name sim_fading ?sc) ?V"
    by (metis sim_fading_targets)
  moreover have "removing_cloud sim_lib sim_fading (MachineScope_GetInstanceID (n_ym ?V (env ?w))) ?V"
    unfolding ym id by (rule sim_fading_removes)
  moreover have "ClusterScope_GetLBType ?sc = LoadBalancerTypeALB"
    by (simp add: scope_of_def evaluate)
  moreover have "machine_leaving (n_ym ?V (env ?w))" "well_connected (n_ym ?V (env ?w))"
    "MachineScope_GetInstanceID (n_ym ?V (env ?w)) \<noteq> []"
    unfolding ym id by (simp_all add: sim_departing_def sim_yandex_machine_def well_connected_def)
  moreover have "Suc (n_rest ?V (env ?w)) = 2"
    by (simp add: sim_machine_view_def sim_departing_def sim_full_def sim_vm_def)
  ultimately obtain k where k: "k \<le> 2" and pass: "let e = env (reconcile_times k (YandexMachine_Reconcile sim_lib
      sim_settled_kube (YandexClient sim_fading) ''default'' ''m1'') ?w) in
    n_vm ?V e = None \<and> target_gone sim_lib sim_machine (n_ym ?V (env ?w)) ?V e \<and>
    \<not> ContainsFinalizer sim_lib (om_Finalizers (ym_Meta (n_ym ?V e))) MachineFinalizer"
    using machine_deletion_completes [OF sim_settled_serving _ _ _ _ _ _ sim_lib_finalizer_laws] by metis
  have "n_vm ?V e = None \<longleftrightarrow> filter (\<lambda>v. in_Id v = ''m1'') (sim_vms e) = []" for e
    by (simp add: sim_machine_view_def split: list.split)
  moreover have "target_gone sim_lib sim_machine (n_ym ?V (env ?w)) ?V e \<longleftrightarrow>
      target_of ''10.0.0.5'' ''subnet'' \<notin> set (first_targets ?V e)" for e
    unfolding ym by (simp add: target_gone_def machine_target_def sim_departing_def sim_machine_def
        sim_yandex_machine_def MachineScope_GetAddresses_def sim_object_def)
  moreover have "n_ym ?V = sim_ym" by (simp add: sim_machine_view_def)
  ultimately show ?thesis using pass unfolding Let_def
    by (intro exI [of _ k] conjI k) simp_all
qed

end
