(* ===== verification/Machine_Progress.thy ===== *)
theory Machine_Progress
  imports Machine_Liveness
begin

text \<open>
  Progress towards a running machine: in a cloud that creates the virtual machine it is asked for and
  boots it in some number of look-ups, repeated reconciliations make the machine ready.
\<close>

section \<open>The part of the others\<close>

text \<open>
  The instance \<open>i\<close> is booting, or runs with the address \<open>a\<close> when nothing of its rest is left; each look-up
  shortens the rest.  A creation is accepted, yields \<open>i\<close>, and the new instance boots within \<open>N\<close> look-ups.
\<close>

definition boots :: "Lib \<Rightarrow> NodeAddress \<Rightarrow> nat \<Rightarrow> Instance \<Rightarrow> bool" where
  "boots L a rest vm \<longleftrightarrow>
     (if rest = 0 then in_Status vm = InstanceStatusRunning \<and> getInstanceAddress L vm = Inr [a]
      else in_Status vm = InstanceStatusProvisioning \<or> in_Status vm = InstanceStatusStarting)"

definition hosting_cloud :: "Lib \<Rightarrow> 'e SDK \<Rightarrow> string \<Rightarrow> 'e MachineView \<Rightarrow> nat \<Rightarrow> NodeAddress \<Rightarrow> bool" where
  "hosting_cloud L sdk i V N a \<longleftrightarrow>
     (\<forall>e vm. n_vm V e = Some vm \<longrightarrow> boots L a (n_rest V e) vm \<and>
        (\<exists>e'. Instance_Get sdk i e = (Inr vm, e') \<and> n_tgs V e' = n_tgs V e \<and>
           n_vm V e' \<noteq> None \<and> n_rest V e' = n_rest V e - 1)) \<and>
     (\<forall>e rq. n_vm V e = None \<longrightarrow> (\<exists>op co e'. Instance_Create sdk rq e = (Inr op, e') \<and>
        (\<forall>e. WrapOperation sdk op e = (Inr co, e) \<and>
           Operation_Metadata sdk co e = (Inr (CreateInstanceMetadata i), e)) \<and>
        n_tgs V e' = n_tgs V e \<and> n_vm V e' \<noteq> None \<and> n_rest V e' \<le> N))"

text \<open>What a creation request needs of the objects.\<close>

definition requestable :: "Lib \<Rightarrow> 'e Kube \<Rightarrow> Machine \<Rightarrow> YandexMachine \<Rightarrow> bool" where
  "requestable L K machine ym \<longleftrightarrow> (let spec = ym_Spec ym in
     (\<exists>name. ma_DataSecretName machine = Some name \<and>
        (\<exists>data. \<forall>e. Get_Secret K (om_Namespace (ym_Meta ym)) name e = (Inr data, e) \<and> data ''value'' \<noteq> None)) \<and>
     Quantity_AsInt64 L (re_Memory (yms_Resources spec)) \<noteq> None \<and>
     yms_ZoneID spec \<noteq> None \<and> yms_PlatformID spec \<noteq> None \<and> yms_NetworkInterfaces spec \<noteq> [] \<and>
     (\<exists>disk. yms_BootDisk spec = Some disk \<and> di_TypeID disk \<noteq> None \<and>
        Quantity_AsInt64 L (di_Size disk) \<noteq> None))"

definition to_boot :: "'e MachineView \<Rightarrow> nat \<Rightarrow> 'e \<Rightarrow> nat" where
  "to_boot V N e = (if n_vm V e = None then N else n_rest V e)"

section \<open>The steps of a pass\<close>

lemma request_built:
  assumes "requestable L K (ms_Machine (m_scope s)) (machine_of s)"
  shows "\<exists>rq. GetInstanceReq L K cg s = (Ok rq, s)"
  using assms
  by (auto simp: requestable_def GetInstanceReq_def GetBootstrapData_def external_def MachineScope_Namespace_def
      Let_def)

lemma instance_created:
  assumes "Instance_Create sdk rq (env w) = (Inr op, e')"
    and "\<forall>e. WrapOperation sdk op e = (Inr co, e) \<and> Operation_Metadata sdk co e = (Inr (CreateInstanceMetadata i), e)"
  shows "\<exists>w'. YandexClient_ComputeCreate sdk rq w = (Ok i, w') \<and> env w' = e'"
  using assms
  by (simp add: client_method_defs observed_def traced_def external_def ObserveRequest_def Let_def)

text \<open>After \<open>ensureInstance\<close> there is an instance, and the machine remembers it.\<close>

lemma ensured_instance:
  fixes s :: "'e World MachineState"
  assumes cloud: "hosting_cloud L sdk i V N a" and objects: "requestable L K (ms_Machine (m_scope s)) (machine_of s)"
    and id: "instance_id s = (if n_vm V (env (m_world s)) = None then [] else i)" and i: "i \<noteq> []"
  shows "\<exists>s'. ensureInstance L K (C_of sdk sc) s = (Ok (), s') \<and> instance_id s' = i \<and>
    ms_Machine (m_scope s') = ms_Machine (m_scope s) \<and>
    (machine_of s' = machine_of s \<or> machine_of s' = MachineScope_SetProviderID i (machine_of s)) \<and>
    n_tgs V (env (m_world s')) = n_tgs V (env (m_world s)) \<and>
    n_vm V (env (m_world s')) \<noteq> None \<and> n_rest V (env (m_world s')) \<le> to_boot V N (env (m_world s))"
proof (cases "n_vm V (env (m_world s))")
  case None
  obtain rq where rq: "GetInstanceReq L K (C_of sdk sc) s = (Ok rq, s)"
    using request_built [OF objects] by blast
  obtain op co e' where op: "Instance_Create sdk rq (env (m_world s)) = (Inr op, e')"
    "\<forall>e. WrapOperation sdk op e = (Inr co, e) \<and> Operation_Metadata sdk co e = (Inr (CreateInstanceMetadata i), e)"
    "n_tgs V e' = n_tgs V (env (m_world s))" "n_vm V e' \<noteq> None" "n_rest V e' \<le> N"
    using cloud None unfolding hosting_cloud_def by blast
  obtain w' where w': "YandexClient_ComputeCreate sdk rq (m_world s) = (Ok i, w')" "env w' = e'"
    using instance_created [OF op(1,2)] by blast
  have "ensureInstance L K (C_of sdk sc) s = (Ok (), set_ym (MachineScope_SetProviderID i) (s\<lparr>m_world := w'\<rparr>))"
    using id None rq w'(1)
    by (simp add: ensureInstance_def createComputeInstance_def ClusterScope_getter_def)
  with op(3-5) w'(2) None show ?thesis
    by (intro exI [of _ "set_ym (MachineScope_SetProviderID i) (s\<lparr>m_world := w'\<rparr>)"]) (simp add: to_boot_def)
next
  case (Some vm)
  with id i have "ensureInstance L K (C_of sdk sc) s = (Ok (), s)" by (simp add: ensureInstance_def)
  with Some id show ?thesis by (intro exI [of _ s]) (simp add: to_boot_def)
qed

lemma registration:
  assumes cloud: "target_cloud sdk (by_name sdk sc) V" and alb: "ClusterScope_GetLBType sc = LoadBalancerTypeALB"
    and some: "n_tgs V (env (m_world s)) \<noteq> []" and target: "machine_target (machine_of s) = Some t"
    and wired: "yms_NetworkInterfaces (ym_Spec (machine_of s)) \<noteq> []"
  shows "\<exists>w'. registerControlPlane (LB_of sdk sc) s = (Ok (), s\<lparr>m_world := w'\<rparr>) \<and>
    t \<in> set (first_targets V (env w'))"
proof -
  obtain b bs where b: "MachineScope_GetAddresses (machine_of s) = b # bs"
    "t = target_of (na_Address b) (ni_SubnetID (hd (yms_NetworkInterfaces (ym_Spec (machine_of s)))))"
    using target by (auto simp: machine_target_def split: list.splits)
  obtain ni nis where ni: "yms_NetworkInterfaces (ym_Spec (machine_of s)) = ni # nis"
    using wired by (cases "yms_NetworkInterfaces (ym_Spec (machine_of s))") auto
  obtain w' where "LB_AddTarget (YandexClient sdk) sc (na_Address b) (ni_SubnetID ni) (m_world s) = (Ok (), w')"
    "target_of (na_Address b) (ni_SubnetID ni) \<in> set (first_targets V (env w'))"
    using registered [OF cloud alb some] by blast
  with b ni show ?thesis
    by (intro exI [of _ w']) (simp add: registerControlPlane_def loadbalancer_New_def)
qed

text \<open>What the machine has when it is up.\<close>

definition machine_up :: "Lib \<Rightarrow> Machine \<Rightarrow> string \<Rightarrow> NodeAddress \<Rightarrow> 'e MachineView \<Rightarrow> 'e \<Rightarrow> bool" where
  "machine_up L machine i a V e \<longleftrightarrow> (let ym = n_ym V e in
     ymst_Ready (ym_Status ym) \<and> MachineScope_GetInstanceID ym = i \<and> MachineScope_GetAddresses ym = [a] \<and>
     MachineScope_GetInstanceStatus ym = Some InstanceStatusRunning \<and>
     (IsControlPlaneMachine L machine \<longrightarrow>
        (\<forall>t. machine_target ym = Some t \<longrightarrow> t \<in> set (first_targets V e))))"

lemma found_running:
  fixes s :: "'e World MachineState"
  assumes cloud: "target_cloud sdk (by_name sdk sc) V" and alb: "ClusterScope_GetLBType sc = LoadBalancerTypeALB"
    and some: "MachineScope_IsControlPlane L (m_scope s) \<Longrightarrow> n_tgs V (env (m_world s)) \<noteq> []"
    and wired: "yms_NetworkInterfaces (ym_Spec (machine_of s)) \<noteq> []"
    and vm: "in_Status vm = InstanceStatusRunning" "getInstanceAddress L vm = Inr [a]"
  defines "up \<equiv> \<lambda>ym. MachineScope_SetInstanceStatus InstanceStatusRunning
      (ym_mark (MarkTrue L ConditionStatusRunning) (MachineScope_SetAddresses [a] ym))"
  shows "\<exists>w'. instanceFound L (LB_of sdk sc) vm s = (Ok (), (set_ym up s)\<lparr>m_world := w'\<rparr>) \<and>
    (MachineScope_IsControlPlane L (m_scope s) \<longrightarrow>
       (\<forall>t. machine_target (up (machine_of s)) = Some t \<longrightarrow> t \<in> set (first_targets V (env w'))))"
proof -
  let ?s = "set_ym (MachineScope_SetAddresses [a]) s"
  let ?t = "target_of (na_Address a) (ni_SubnetID (hd (yms_NetworkInterfaces (ym_Spec (machine_of s)))))"
  have target: "machine_target (machine_of ?s) = Some ?t" "machine_target (up (machine_of s)) = Some ?t"
    by (simp_all add: machine_target_def up_def MachineScope_GetAddresses_def MachineScope_SetAddresses_def)
  have cp: "MachineScope_IsControlPlane L (m_scope ?s) = MachineScope_IsControlPlane L (m_scope s)"
    by (simp add: MachineScope_IsControlPlane_def)
  show ?thesis
  proof (cases "MachineScope_IsControlPlane L (m_scope s)")
    case True
    then obtain w' where "registerControlPlane (LB_of sdk sc) ?s = (Ok (), ?s\<lparr>m_world := w'\<rparr>)"
      "?t \<in> set (first_targets V (env w'))"
      using registration [OF cloud alb, of ?s ?t] some wired target(1) by auto
    with vm True cp target(2) show ?thesis
      by (intro exI [of _ w']) (simp add: instanceFound_def mark_apply set_ym_def up_def)
  next
    case False
    with vm cp show ?thesis
      by (intro exI [of _ "m_world s"]) (simp add: instanceFound_def mark_apply set_ym_def up_def)
  qed
qed

section \<open>One pass\<close>

text \<open>A machine that waits for its instance.\<close>

definition machine_waiting ::
    "Lib \<Rightarrow> 'e Kube \<Rightarrow> Machine \<Rightarrow> string \<Rightarrow> 'e MachineView \<Rightarrow> 'e \<Rightarrow> bool" where
  "machine_waiting L K machine i V e \<longleftrightarrow>
     \<not> machine_leaving (n_ym V e) \<and> requestable L K machine (n_ym V e) \<and>
     MachineScope_GetInstanceID (n_ym V e) = (if n_vm V e = None then [] else i) \<and>
     (IsControlPlaneMachine L machine \<longrightarrow> n_tgs V e \<noteq> [])"

lemma requestable_kept [simp]:
  "requestable L K machine (adopted L' ym) = requestable L K machine ym"
  "requestable L K machine (MachineScope_SetProviderID i ym) = requestable L K machine ym"
  "requestable L K machine (MachineScope_SetInstanceStatus v ym) = requestable L K machine ym"
  by (simp_all add: requestable_def Let_def MachineScope_SetProviderID_def adopted_def ym_finalizers_def)

lemma leaving_adopted [simp]:
  "om_DeletionTimestamp (ym_Meta (adopted L ym)) = om_DeletionTimestamp (ym_Meta ym)"
  by (simp add: adopted_def ym_finalizers_def)

lemma requestable_wired: "requestable L K machine ym \<Longrightarrow> yms_NetworkInterfaces (ym_Spec ym) \<noteq> []"
  by (simp add: requestable_def Let_def)

lemma compute_step:
  fixes s :: "'e World MachineState"
  assumes cloud: "hosting_cloud L sdk i V N a" "target_cloud sdk (by_name sdk sc) V"
    and alb: "ClusterScope_GetLBType sc = LoadBalancerTypeALB" and i: "i \<noteq> []"
    and objects: "requestable L K (ms_Machine (m_scope s)) (machine_of s)"
    and id: "instance_id s = (if n_vm V (env (m_world s)) = None then [] else i)"
    and groups: "IsControlPlaneMachine L (ms_Machine (m_scope s)) \<Longrightarrow> n_tgs V (env (m_world s)) \<noteq> []"
  obtains
    (running) s' where "Compute_Reconcile L K (C_of sdk sc) (LB_of sdk sc) s = (Ok (), s')"
      "MachineScope_GetInstanceStatus (machine_of s') = Some InstanceStatusRunning"
      "instance_id s' = i" "MachineScope_GetAddresses (machine_of s') = [a]"
      "IsControlPlaneMachine L (ms_Machine (m_scope s)) \<Longrightarrow>
         \<forall>t. machine_target (machine_of s') = Some t \<longrightarrow> t \<in> set (first_targets V (env (m_world s')))"
  | (booting) s' v ym where "Compute_Reconcile L K (C_of sdk sc) (LB_of sdk sc) s = (Ok (), s')"
      "v = InstanceStatusProvisioning \<or> v = InstanceStatusStarting"
      "machine_of s' = MachineScope_SetInstanceStatus v ym" "MachineScope_GetInstanceID ym = i"
      "ym = machine_of s \<or> ym = MachineScope_SetProviderID i (machine_of s)"
      "n_vm V (env (m_world s')) \<noteq> None" "n_tgs V (env (m_world s')) = n_tgs V (env (m_world s))"
      "n_rest V (env (m_world s')) < to_boot V N (env (m_world s))"
proof -
  obtain s1 where e: "ensureInstance L K (C_of sdk sc) s = (Ok (), s1)" "instance_id s1 = i"
    "ms_Machine (m_scope s1) = ms_Machine (m_scope s)"
    "machine_of s1 = machine_of s \<or> machine_of s1 = MachineScope_SetProviderID i (machine_of s)"
    "n_tgs V (env (m_world s1)) = n_tgs V (env (m_world s))"
    "n_vm V (env (m_world s1)) \<noteq> None" "n_rest V (env (m_world s1)) \<le> to_boot V N (env (m_world s))"
    using ensured_instance [OF cloud(1) objects id i] by blast
  from e(6) obtain vm where vm: "n_vm V (env (m_world s1)) = Some vm" by blast
  with cloud(1) obtain e' where boots: "boots L a (n_rest V (env (m_world s1))) vm"
    and get: "Instance_Get sdk i (env (m_world s1)) = (Inr vm, e')" "n_tgs V e' = n_tgs V (env (m_world s1))"
      "n_vm V e' \<noteq> None" "n_rest V e' = n_rest V (env (m_world s1)) - 1"
    unfolding hosting_cloud_def by blast
  obtain w1 where w1: "YandexClient_ComputeGet sdk i (m_world s1) = (Ok vm, w1)" "env w1 = e'"
    using instance_requests(1) [OF get(1)] by blast
  let ?s = "s1\<lparr>m_world := w1\<rparr>"
  have compute: "Compute_Reconcile L K (C_of sdk sc) (LB_of sdk sc) s = instanceFound L (LB_of sdk sc) vm ?s"
    using e(1,2) w1(1) by (simp add: Compute_Reconcile_def ClusterScope_getter_def)
  have cp: "MachineScope_IsControlPlane L (m_scope ?s) = IsControlPlaneMachine L (ms_Machine (m_scope s))"
    by (simp add: MachineScope_IsControlPlane_def e(3))
  show thesis
  proof (cases "n_rest V (env (m_world s1)) = 0")
    case True
    with boots have run: "in_Status vm = InstanceStatusRunning" "getInstanceAddress L vm = Inr [a]"
      by (simp_all add: boots_def)
    have wired: "yms_NetworkInterfaces (ym_Spec (machine_of ?s)) \<noteq> []"
      using e(4) requestable_wired [OF objects] by (auto simp: MachineScope_SetProviderID_def)
    have some: "n_tgs V (env (m_world ?s)) \<noteq> []" if "MachineScope_IsControlPlane L (m_scope ?s)"
      using that groups e(5) get(2) w1(2) unfolding cp by simp
    let ?up = "\<lambda>ym. MachineScope_SetInstanceStatus InstanceStatusRunning
      (ym_mark (MarkTrue L ConditionStatusRunning) (MachineScope_SetAddresses [a] ym))"
    obtain w' where f: "instanceFound L (LB_of sdk sc) vm ?s = (Ok (), (set_ym ?up ?s)\<lparr>m_world := w'\<rparr>)"
      "MachineScope_IsControlPlane L (m_scope ?s) \<longrightarrow>
         (\<forall>t. machine_target (?up (machine_of ?s)) = Some t \<longrightarrow> t \<in> set (first_targets V (env w')))"
      using found_running [OF cloud(2) alb some wired run] by blast
    have "MachineScope_GetInstanceID (?up (machine_of ?s)) = MachineScope_GetInstanceID (machine_of s1)"
      by (rule instance_id_spec) simp
    moreover have "MachineScope_GetAddresses (?up ym) = [a]" for ym
      by (simp add: MachineScope_GetAddresses_def MachineScope_SetAddresses_def)
    moreover have "Compute_Reconcile L K (C_of sdk sc) (LB_of sdk sc) s = (Ok (), (set_ym ?up ?s)\<lparr>m_world := w'\<rparr>)"
      using compute f(1) by (rule trans)
    ultimately show thesis using f(2) cp e(2)
      by (intro running [of "(set_ym ?up ?s)\<lparr>m_world := w'\<rparr>"]) simp_all
  next
    case False
    with boots have v: "in_Status vm = InstanceStatusProvisioning \<or> in_Status vm = InstanceStatusStarting"
      by (simp add: boots_def)
    then have "in_Status vm \<noteq> InstanceStatusRunning" by (auto simp: instance_status_defs)
    then have "instanceFound L (LB_of sdk sc) vm ?s =
        (Ok (), set_ym (MachineScope_SetInstanceStatus (in_Status vm)) ?s)"
      by (simp add: instanceFound_def)
    with compute have "Compute_Reconcile L K (C_of sdk sc) (LB_of sdk sc) s =
        (Ok (), set_ym (MachineScope_SetInstanceStatus (in_Status vm)) ?s)" by (rule trans)
    with False v e get w1(2) show thesis
      by (intro booting [of "set_ym (MachineScope_SetInstanceStatus (in_Status vm)) ?s" "in_Status vm" "machine_of s1"])
        simp_all
  qed
qed

lemma settled_cases:
  assumes "MachineScope_GetInstanceStatus (machine_of s) = Some v"
  shows "v = InstanceStatusRunning \<Longrightarrow> settle_instance L s = (Ok no_requeue, set_ym MachineScope_SetReady s)"
    and "v = InstanceStatusProvisioning \<or> v = InstanceStatusStarting \<Longrightarrow> settle_instance L s = (Ok requeue_later, s)"
  using assms by (auto simp: settle_instance_def instance_status_defs)

lemma waiting_pass:
  assumes server: "serving_machine L K ns name machine cluster yc V"
    and cloud: "hosting_cloud L sdk i V N a" "target_cloud sdk (by_name sdk (scope_of cluster yc)) V"
    and alb: "ClusterScope_GetLBType (scope_of cluster yc) = LoadBalancerTypeALB" and i: "i \<noteq> []"
    and waiting: "machine_waiting L K machine i V (env w)"
  shows "\<exists>r w'. YandexMachine_Reconcile L K (YandexClient sdk) ns name w = (r, w') \<and>
    (r = Ok no_requeue \<and> machine_up L machine i a V (env w') \<or>
     r = Ok requeue_later \<and> machine_waiting L K machine i V (env w') \<and> n_vm V (env w') \<noteq> None \<and>
     n_rest V (env w') < to_boot V N (env w))"
proof -
  let ?ym = "n_ym V (env w)" and ?sc = "scope_of cluster yc"
  let ?s = "fetched_machine machine ?ym w" and ?m = "YandexMachine_Reconcile L K (YandexClient sdk) ns name"
  let ?s1 = "set_ym (ym_finalizers (\<lambda>fs. AddFinalizer L fs MachineFinalizer)) ?s"
  have live: "\<not> machine_leaving ?ym" and req: "requestable L K machine ?ym"
    and id: "MachineScope_GetInstanceID ?ym = (if n_vm V (env w) = None then [] else i)"
    and groups: "IsControlPlaneMachine L machine \<Longrightarrow> n_tgs V (env w) \<noteq> []"
    using waiting by (auto simp: machine_waiting_def)
  obtain t where t: "MachineScope_PatchObject K ?s1 = (Ok (), t)" "m_scope t = m_scope ?s1"
    "same_cloud V (env w) (env (m_world t))"
    using patch_served [OF server, of ?s1] by auto
  have at: "machine_of t = adopted L ?ym" "ms_Machine (m_scope t) = machine"
    by (simp_all add: t(2) adopted_def)
  have same: "n_vm V (env (m_world t)) = n_vm V (env w)" "n_tgs V (env (m_world t)) = n_tgs V (env w)"
    "n_rest V (env (m_world t)) = n_rest V (env w)"
    using t(3) by (simp_all add: same_cloud_def)
  have body: "machine_body L K (C_of sdk ?sc) (LB_of sdk ?sc) ?s = settle_instance L u"
    if "Compute_Reconcile L K (C_of sdk ?sc) (LB_of sdk ?sc) t = (Ok (), u)" for u
    using that t(1) at live req
    by (auto simp: machine_body_def YandexMachine_reconcile_def requestable_def Let_def)
  note step = compute_step [OF cloud alb i, of K t]
  show ?thesis
  proof (rule step)
    show "requestable L K (ms_Machine (m_scope t)) (machine_of t)" by (simp add: at req)
    show "instance_id t = (if n_vm V (env (m_world t)) = None then [] else i)"
      by (simp only: at adopted_simps same id)
    show "n_tgs V (env (m_world t)) \<noteq> []" if "IsControlPlaneMachine L (ms_Machine (m_scope t))"
      using that groups by (simp add: at same)
  next
    fix u assume u: "Compute_Reconcile L K (C_of sdk ?sc) (LB_of sdk ?sc) t = (Ok (), u)"
      "MachineScope_GetInstanceStatus (machine_of u) = Some InstanceStatusRunning"
      "instance_id u = i" "MachineScope_GetAddresses (machine_of u) = [a]"
      "IsControlPlaneMachine L (ms_Machine (m_scope t)) \<Longrightarrow>
         \<forall>tg. machine_target (machine_of u) = Some tg \<longrightarrow> tg \<in> set (first_targets V (env (m_world u)))"
    have "machine_body L K (C_of sdk ?sc) (LB_of sdk ?sc) ?s = (Ok no_requeue, set_ym MachineScope_SetReady u)"
      using body [OF u(1)] settled_cases(1) [OF u(2)] by simp
    from served_machine_pass [OF server this] obtain w' where w': "?m w = (Ok no_requeue, w')"
      "n_ym V (env w') = MachineScope_SetReady (machine_of u)" "same_cloud V (env (m_world u)) (env w')" by auto
    have "machine_target (MachineScope_SetReady ym) = machine_target ym"
      "MachineScope_GetInstanceID (MachineScope_SetReady ym) = MachineScope_GetInstanceID ym" for ym
      by (simp_all add: machine_target_def MachineScope_SetReady_def MachineScope_GetAddresses_def
          MachineScope_GetInstanceID_def MachineScope_GetProviderID_def split: list.split)
    with u w'(2,3) have "machine_up L machine i a V (env w')"
      by (auto simp: machine_up_def at same_cloud_def first_targets_def MachineScope_SetReady_def
          MachineScope_GetAddresses_def MachineScope_GetInstanceStatus_def)
    with w'(1) show ?thesis by blast
  next
    fix u v ym assume u: "Compute_Reconcile L K (C_of sdk ?sc) (LB_of sdk ?sc) t = (Ok (), u)"
      "v = InstanceStatusProvisioning \<or> v = InstanceStatusStarting"
      "machine_of u = MachineScope_SetInstanceStatus v ym" "MachineScope_GetInstanceID ym = i"
      "ym = machine_of t \<or> ym = MachineScope_SetProviderID i (machine_of t)"
      "n_vm V (env (m_world u)) \<noteq> None" "n_tgs V (env (m_world u)) = n_tgs V (env (m_world t))"
      "n_rest V (env (m_world u)) < to_boot V N (env (m_world t))"
    have "MachineScope_GetInstanceStatus (machine_of u) = Some v" by (simp add: u(3))
    with u(1,2) have "machine_body L K (C_of sdk ?sc) (LB_of sdk ?sc) ?s = (Ok requeue_later, u)"
      using body settled_cases(2) by simp
    from served_machine_pass [OF server this] obtain w' where w': "?m w = (Ok requeue_later, w')"
      "n_ym V (env w') = MachineScope_SetInstanceStatus v ym" "same_cloud V (env (m_world u)) (env w')"
      by (auto simp: u(3))
    have "MachineScope_GetInstanceID (MachineScope_SetInstanceStatus v ym) = i"
      using u(4) instance_id_spec [of "MachineScope_SetInstanceStatus v ym" ym] by simp
    moreover have "requestable L K machine ym" "\<not> machine_leaving ym"
      using u(5) req live by (auto simp: at)
    ultimately have "machine_waiting L K machine i V (env w')"
      using w'(2,3) u(6,7) groups by (auto simp: machine_waiting_def same_cloud_def same)
    with w'(1,3) u(6,8) show ?thesis
      by (auto simp: same_cloud_def to_boot_def same)
  qed
qed

section \<open>Repeated passes\<close>

text \<open>
  C7: a machine becomes ready.  When the API server obliges, the cloud creates what it is asked for, and a
  control plane machine finds its target group, a live machine with bootstrap data and a complete
  specification is ready after at most one pass more than the look-ups its instance needs to boot;
  then it remembers that instance and its address, and a control plane machine is a target of the
  load balancer.  Every pass before the last one asks to be run again later, and the last one does not,
  so the passes that are needed do take place.
\<close>

theorem machine_becomes_ready:
  assumes server: "serving_machine L K ns name machine cluster yc V"
    and cloud: "hosting_cloud L sdk i V N a" "target_cloud sdk (by_name sdk (scope_of cluster yc)) V"
    and alb: "ClusterScope_GetLBType (scope_of cluster yc) = LoadBalancerTypeALB" and i: "i \<noteq> []"
    and waiting: "machine_waiting L K machine i V (env w)"
  defines "pass \<equiv> YandexMachine_Reconcile L K (YandexClient sdk) ns name"
  shows "\<exists>n \<le> to_boot V N (env w).
    machine_up L machine i a V (env (reconcile_times (Suc n) pass w)) \<and>
    (\<forall>k < n. fst (pass (reconcile_times k pass w)) = Ok requeue_later) \<and>
    fst (pass (reconcile_times n pass w)) = Ok no_requeue"
  using waiting
proof (induction "to_boot V N (env w)" arbitrary: w rule: less_induct)
  case less
  obtain r w' where run: "pass w = (r, w')" and step: "r = Ok no_requeue \<and> machine_up L machine i a V (env w') \<or>
     r = Ok requeue_later \<and> machine_waiting L K machine i V (env w') \<and> n_vm V (env w') \<noteq> None \<and>
     n_rest V (env w') < to_boot V N (env w)"
    using waiting_pass [OF server cloud alb i less.prems] unfolding pass_def by blast
  show ?case
  proof (cases "r = Ok no_requeue \<and> machine_up L machine i a V (env w')")
    case True
    with run show ?thesis by (intro exI [of _ 0]) simp
  next
    case False
    with step have r: "r = Ok requeue_later" and left: "to_boot V N (env w') < to_boot V N (env w)"
        "machine_waiting L K machine i V (env w')"
      by (auto simp: to_boot_def)
    from less.hyps [OF left] obtain n where n: "n \<le> to_boot V N (env w')"
      "machine_up L machine i a V (env (reconcile_times (Suc n) pass w'))"
      "\<forall>k < n. fst (pass (reconcile_times k pass w')) = Ok requeue_later"
      "fst (pass (reconcile_times n pass w')) = Ok no_requeue" by blast
    have "fst (pass (reconcile_times k pass w)) = Ok requeue_later" if "k < Suc n" for k
      using that n(3) run r by (cases k) simp_all
    with run n(1,2,4) left show ?thesis by (intro exI [of _ "Suc n"]) simp
  qed
qed

text \<open>A simulated cloud in which the instance \<open>m1\<close> provisions until its second look-up.\<close>

definition sim_booting_vm :: Instance where
  "sim_booting_vm = sim_vm\<lparr>in_Status := InstanceStatusProvisioning\<rparr>"

definition sim_slow :: "Sim SDK" where
  "sim_slow = sim_sdk\<lparr>
     Instance_Get := (\<lambda>i e. case sim_vms e of
       [] \<Rightarrow> (Inl sim_not_found, e)
     | [v] \<Rightarrow> (Inr sim_vm, e)
     | _ # vs \<Rightarrow> (Inr sim_booting_vm, e\<lparr>sim_vms := vs\<rparr>)),
     Instance_Create := (\<lambda>rq e. (Inr \<lparr>op_Id = ''Im1''\<rparr>, e\<lparr>sim_vms := [sim_booting_vm, sim_vm]\<rparr>))\<rparr>"

definition sim_slow_view :: "Sim MachineView" where
  "sim_slow_view = (sim_machine_view ''m1'' ''lb1'')\<lparr>
     n_vm := (\<lambda>e. case sim_vms e of [] \<Rightarrow> None | [v] \<Rightarrow> Some sim_vm | _ \<Rightarrow> Some sim_booting_vm),
     n_rest := (\<lambda>e. length (sim_vms e) - 1)\<rparr>"

definition sim_address :: NodeAddress where
  "sim_address = \<lparr>na_Type = ''InternalIP'', na_Address = ''10.0.0.5''\<rparr>"

lemma sim_slow_hosts: "hosting_cloud sim_lib sim_slow ''m1'' sim_slow_view 1 sim_address"
proof -
  have "getInstanceAddress sim_lib sim_vm = Inr [sim_address]"
    by (simp add: getInstanceAddress_def sim_vm_def GetPrimaryAddress_def sim_address_def Let_def)
  then show ?thesis
    unfolding hosting_cloud_def sim_slow_def sim_slow_view_def sim_machine_view_def
    by (auto simp: boots_def sim_booting_vm_def sim_meta_def split: list.splits) (auto simp: sim_vm_def)
qed

lemma sim_slow_targets:
  assumes "lr_Filter req = ''lb1''"
  shows "target_cloud sim_slow req sim_slow_view"
  using assms unfolding target_cloud_def sim_slow_def sim_slow_view_def sim_machine_view_def
  by (auto simp: sim_list_def same_but_groups_def first_targets_def filter_map_names)

lemma sim_slow_serving: "serving_machine sim_lib sim_settled_kube ns name sim_machine sim_cluster
    (sim_yandex_cluster [ClusterFinalizer]) sim_slow_view"
  by (simp add: serving_machine_def sim_settled_kube_def sim_slow_view_def sim_machine_view_def
      same_cloud_def sim_cluster_def)

text \<open>A control plane machine without an instance, and the target group of its load balancer.\<close>

definition sim_awaiting :: Sim where
  "sim_awaiting = sim_empty\<lparr>sim_tgs := [\<lparr>tg_Id = ''lb1'', tg_Name = ''lb1'', tg_Targets = []\<rparr>]\<rparr>"

theorem machine_becomes_ready_witness:
  "let pass = YandexMachine_Reconcile sim_lib sim_settled_kube (YandexClient sim_slow) ''default'' ''m1'' in
   \<exists>n \<le> 1. let e = env (reconcile_times (Suc n) pass (start sim_awaiting)) in
   ymst_Ready (ym_Status (sim_ym e)) \<and> MachineScope_GetInstanceID (sim_ym e) = ''m1'' \<and>
   MachineScope_GetAddresses (sim_ym e) = [sim_address] \<and>
   (\<forall>k < n. fst (pass (reconcile_times k pass (start sim_awaiting))) = Ok requeue_later) \<and>
   fst (pass (reconcile_times n pass (start sim_awaiting))) = Ok no_requeue"
proof -
  let ?w = "start sim_awaiting" and ?V = sim_slow_view
  let ?yc = "sim_yandex_cluster [ClusterFinalizer]" let ?sc = "scope_of sim_cluster ?yc"
  have stored: "n_ym ?V = sim_ym" by (simp add: sim_slow_view_def sim_machine_view_def)
  have "lr_Filter (by_name sim_slow ?sc) = ''lb1''"
    by (simp add: by_name_def scope_of_def sim_slow_def evaluate)
  then have target: "target_cloud sim_slow (by_name sim_slow ?sc) ?V" by (rule sim_slow_targets)
  have alb: "ClusterScope_GetLBType ?sc = LoadBalancerTypeALB" by (simp add: scope_of_def evaluate)
  have none: "n_vm ?V (env ?w) = None" by (simp add: sim_slow_view_def sim_awaiting_def sim_empty_def)
  have "requestable sim_lib sim_settled_kube sim_machine (sim_ym sim_awaiting)"
    by (simp add: requestable_def sim_settled_kube_def sim_awaiting_def sim_empty_def sim_machine_def
        sim_yandex_machine_def Let_def)
  then have waiting: "machine_waiting sim_lib sim_settled_kube sim_machine ''m1'' ?V (env ?w)"
    unfolding machine_waiting_def stored none
    by (simp add: sim_slow_view_def sim_machine_view_def sim_awaiting_def sim_empty_def sim_yandex_machine_def
        sim_object_def GetInstanceID_None)
  have one: "to_boot ?V 1 (env ?w) = 1" unfolding to_boot_def none by simp
  have "''m1'' \<noteq> []" by simp
  from machine_becomes_ready [OF sim_slow_serving sim_slow_hosts target alb this waiting,
      where ns = "''default''" and name = "''m1''"]
  show ?thesis
    unfolding one machine_up_def stored Let_def by blast
qed

end
