(* ===== verification/Evidence.thy ===== *)
theory Evidence
  imports Cluster_Lifecycle Machine_Lifecycle
begin

text \<open>
  On what evidence a request is made.  \<open>justified\<close> says of every request which requests must have been made
  before it, in the same pass; \<open>asks\<close> is a small program logic, with one rule per
  combinator, in which one triple per client method, service operation and controller body shows that a
  whole reconciliation makes justified requests only.
\<close>

section \<open>Grounded traces\<close>

text \<open>In a grounded trace every entry has its grounds, by \<open>J\<close>, among the entries before it.\<close>

primrec grounded_from :: "('c set \<Rightarrow> 'c \<Rightarrow> bool) \<Rightarrow> 'c set \<Rightarrow> 'c list \<Rightarrow> bool" where
  "grounded_from J S [] = True"
| "grounded_from J S (c # cs) = (J S c \<and> grounded_from J (insert c S) cs)"

abbreviation grounded :: "('c set \<Rightarrow> 'c \<Rightarrow> bool) \<Rightarrow> 'c list \<Rightarrow> bool" where
  "grounded J \<equiv> grounded_from J {}"

lemma grounded_append:
  "grounded_from J S (xs @ ys) \<longleftrightarrow> grounded_from J S xs \<and> grounded_from J (S \<union> set xs) ys"
  by (induction xs arbitrary: S) auto

lemma grounded_snoc: "grounded J (xs @ [c]) \<longleftrightarrow> grounded J xs \<and> J (set xs) c"
  by (simp add: grounded_append)

lemma grounded_prefix: "grounded J ys \<Longrightarrow> prefix xs ys \<Longrightarrow> grounded J xs"
  by (auto simp: prefix_def grounded_append)

lemma grounded_at: "grounded J (xs @ c # ys) \<Longrightarrow> J (set xs) c"
  by (simp add: grounded_append)

text \<open>
  \<open>asks tr J D m R\<close>: started with a grounded trace that holds the evidence \<open>D\<close>, \<open>m\<close> leaves a grounded trace,
  however it ends; the evidence stays, and a success \<open>a\<close> adds the evidence \<open>R a\<close>.
\<close>

definition asks ::
    "('s \<Rightarrow> 'c list) \<Rightarrow> ('c set \<Rightarrow> 'c \<Rightarrow> bool) \<Rightarrow> 'c set \<Rightarrow> ('s, 'a) go \<Rightarrow> ('a \<Rightarrow> 'c set) \<Rightarrow> bool" where
  "asks tr J D m R \<longleftrightarrow> (\<forall>s r s'. m s = (r, s') \<longrightarrow> grounded J (tr s) \<longrightarrow> D \<subseteq> set (tr s) \<longrightarrow>
     grounded J (tr s') \<and> D \<subseteq> set (tr s') \<and> (\<forall>a. r = Ok a \<longrightarrow> R a \<subseteq> set (tr s')))"

lemma asksD:
  assumes "asks tr J D m R" "m s = (r, s')" "grounded J (tr s)" "D \<subseteq> set (tr s)"
  shows "grounded J (tr s')" "D \<subseteq> set (tr s')" "r = Ok a \<Longrightarrow> R a \<subseteq> set (tr s')"
  using assms unfolding asks_def by blast+

lemma asksI:
  assumes "\<And>s r s'. m s = (r, s') \<Longrightarrow> grounded J (tr s) \<Longrightarrow> D \<subseteq> set (tr s) \<Longrightarrow>
     grounded J (tr s') \<and> D \<subseteq> set (tr s') \<and> (\<forall>a. r = Ok a \<longrightarrow> R a \<subseteq> set (tr s'))"
  shows "asks tr J D m R"
  using assms unfolding asks_def by blast

lemma asks_pure:
  "R a \<subseteq> D \<Longrightarrow> asks tr J D (ret a) R" "asks tr J D (raise e) R" "asks tr J D (panic p) R"
  by (auto simp: asks_def)

lemma asks_modifyG:
  "(\<And>s. tr (f s) = tr s) \<Longrightarrow> R () \<subseteq> D \<Longrightarrow> asks tr J D (modifyG f) R"
  by (auto simp: asks_def)

lemma asks_withG: "(\<And>s. asks tr J D (f s) R) \<Longrightarrow> asks tr J D (withG f) R"
  unfolding asks_def by (metis withG_apply)

text \<open>The same at one state, for an operation that reads the state it starts in.\<close>

lemma asks_at:
  assumes "withG f s = (r, s')" "asks tr J D (f s) R" "grounded J (tr s)" "D \<subseteq> set (tr s)"
  shows "grounded J (tr s')" "D \<subseteq> set (tr s')" "r = Ok a \<Longrightarrow> R a \<subseteq> set (tr s')"
  using asksD [OF assms(2) _ assms(3,4)] assms(1) by simp_all

lemma asks_tryG:
  assumes m: "asks tr J D m R" and k: "\<And>a. asks tr J (D \<union> R a) (k a) Q" and h: "\<And>e. asks tr J D (h e) Q"
  shows "asks tr J D (tryG m k h) Q"
proof (rule asksI)
  fix s r s'
  assume run: "tryG m k h s = (r, s')" and s: "grounded J (tr s)" "D \<subseteq> set (tr s)"
  obtain q t where q: "m s = (q, t)" by fastforce
  note t = asksD [OF m q s]
  show "grounded J (tr s') \<and> D \<subseteq> set (tr s') \<and> (\<forall>a. r = Ok a \<longrightarrow> Q a \<subseteq> set (tr s'))"
  proof (cases q)
    case (Ok a)
    with run q have "k a t = (r, s')" by simp
    with t Ok asksD [OF k this] show ?thesis by auto
  next
    case (Err e)
    with run q have "h e t = (r, s')" by simp
    with t asksD [OF h this] show ?thesis by auto
  next
    case (Panic p)
    with run q t show ?thesis by auto
  qed
qed

lemma asks_bindG:
  "asks tr J D m R \<Longrightarrow> (\<And>a. asks tr J (D \<union> R a) (k a) Q) \<Longrightarrow> asks tr J D (bindG m k) Q"
  unfolding bindG_def by (intro asks_tryG asks_pure)

lemma asks_thenG:
  "asks tr J D m (\<lambda>_. {}) \<Longrightarrow> asks tr J D k Q \<Longrightarrow> asks tr J D (thenG m k) Q"
  unfolding thenG_def by (rule asks_bindG) auto

lemma asks_deferG:
  assumes c: "asks tr J D c (\<lambda>_. {})" and m: "asks tr J D m (\<lambda>_. {})"
  shows "asks tr J D (deferG c m) (\<lambda>_. {})"
proof (rule asksI)
  fix s r s'
  assume run: "deferG c m s = (r, s')" and s: "grounded J (tr s)" "D \<subseteq> set (tr s)"
  from run obtain q t p where "m s = (q, t)" "c t = (p, s')" by (rule deferG_run)
  with asksD [OF m this(1) s] asksD [OF c this(2)]
  show "grounded J (tr s') \<and> D \<subseteq> set (tr s') \<and> (\<forall>a. r = Ok a \<longrightarrow> {} \<subseteq> set (tr s'))" by auto
qed

lemma asks_less:
  assumes m: "asks tr J D m R" and less: "\<And>a. Q a \<subseteq> R a \<union> D"
  shows "asks tr J D m Q"
proof (rule asksI)
  fix s r s'
  assume "m s = (r, s')" "grounded J (tr s)" "D \<subseteq> set (tr s)"
  note post = asksD [OF m this]
  show "grounded J (tr s') \<and> D \<subseteq> set (tr s') \<and> (\<forall>a. r = Ok a \<longrightarrow> Q a \<subseteq> set (tr s'))"
    using post(1,2) post(3) less by blast
qed

lemma asks_if: "(b \<Longrightarrow> asks tr J D m R) \<Longrightarrow> (\<not> b \<Longrightarrow> asks tr J D n R) \<Longrightarrow> asks tr J D (if b then m else n) R"
  by simp

lemma asks_option:
  "(opt = None \<Longrightarrow> asks tr J D m R) \<Longrightarrow> (\<And>x. opt = Some x \<Longrightarrow> asks tr J D (n x) R) \<Longrightarrow>
     asks tr J D (case opt of None \<Rightarrow> m | Some x \<Rightarrow> n x) R"
  by (cases opt) auto

lemma asks_list:
  "asks tr J D m R \<Longrightarrow> (\<And>x xs. asks tr J D (n x xs) R) \<Longrightarrow>
     asks tr J D (case l of [] \<Rightarrow> m | x # xs \<Rightarrow> n x xs) R"
  by (cases l) auto

lemma asks_sum:
  "(\<And>x. asks tr J D (m x) R) \<Longrightarrow> (\<And>y. asks tr J D (n y) R) \<Longrightarrow>
     asks tr J D (case v of Inl x \<Rightarrow> m x | Inr y \<Rightarrow> n y) R"
  by (cases v) auto

locale evidence =
  fixes J :: "'c set \<Rightarrow> 'c \<Rightarrow> bool"
  assumes more: "J S c \<Longrightarrow> S \<subseteq> T \<Longrightarrow> J T c"
begin

lemma grounded_more: "grounded_from J S cs \<Longrightarrow> S \<subseteq> T \<Longrightarrow> grounded_from J T cs"
proof (induction cs arbitrary: S T)
  case (Cons c cs)
  then show ?case using more [of S c T] Cons.IH [of "insert c S" "insert c T"] by auto
qed simp

text \<open>Interleaving two grounded traces gives a grounded trace.\<close>

lemma grounded_shuffle:
  "zs \<in> shuffles xs ys \<Longrightarrow> grounded_from J S xs \<Longrightarrow> grounded_from J S ys \<Longrightarrow> grounded_from J S zs"
proof (induction xs ys arbitrary: zs S rule: shuffles.induct)
  case (3 x xs y ys)
  from "3.prems"(1) consider t where "zs = x # t" "t \<in> shuffles xs (y # ys)"
    | t where "zs = y # t" "t \<in> shuffles (x # xs) ys" by auto
  then show ?case
  proof cases
    case 1
    with 3 grounded_more [OF "3.prems"(3), of "insert x S"] show ?thesis by auto
  next
    case 2
    with 3 grounded_more [OF "3.prems"(2), of "insert y S"] show ?thesis by auto
  qed
qed auto

lemma grounded_concat: "grounded J xs \<Longrightarrow> grounded J ys \<Longrightarrow> grounded J (xs @ ys)"
  by (auto simp: grounded_append intro: grounded_more)

end

section \<open>What justifies a request\<close>

type_synonym request = "ext_call \<times> bool"

definition named :: "'e SDK \<Rightarrow> string \<Rightarrow> string \<Rightarrow> ListRequest" where
  "named sdk folder name =
     \<lparr>lr_FolderId = folder, lr_Filter = ResolverFilter sdk ''name'' name, lr_PageSize = ResolverPageSize sdk\<rparr>"

definition target_groups_listed :: "request set \<Rightarrow> ListRequest \<Rightarrow> bool" where
  "target_groups_listed S = (\<lambda>q. (C_TargetGroupList q, True) \<in> S)"

definition backend_groups_listed :: "request set \<Rightarrow> ListRequest \<Rightarrow> bool" where
  "backend_groups_listed S = (\<lambda>q. (C_BackendGroupList q, True) \<in> S)"

definition balancers_listed :: "request set \<Rightarrow> ListRequest \<Rightarrow> bool" where
  "balancers_listed S = (\<lambda>q. (C_LoadBalancerList q, True) \<in> S)"

text \<open>
  A machine on record: the API server has accepted the object with the finalizer of the provider, while it
  was not being deleted.
\<close>

definition on_record :: "Lib \<Rightarrow> request set \<Rightarrow> YandexMachine \<Rightarrow> bool" where
  "on_record L S ym \<longleftrightarrow> (C_PatchMachine ym, True) \<in> S \<and> has_machine_finalizer L ym \<and> \<not> machine_leaving ym"

text \<open>
  The grounds of a request.  Look-ups by name and patches need none; look-ups of balancers and groups by
  identifier and everything about network load balancers are never sent.
\<close>

fun justified :: "Lib \<Rightarrow> 'e SDK \<Rightarrow> request set \<Rightarrow> request \<Rightarrow> bool" where
  "justified L sdk S (C_InstanceCreate req, ok) \<longleftrightarrow>
     (\<exists>ym. on_record L S ym \<and> MachineScope_GetInstanceID ym = [] \<and> cir_Name req = om_Name (ym_Meta ym))"
| "justified L sdk S (C_InstanceDelete i, ok) \<longleftrightarrow> i \<noteq> [] \<and> (C_InstanceGet i, True) \<in> S"
| "justified L sdk S (C_AddTargets req, ok) \<longleftrightarrow>
     (\<exists>q. target_groups_listed S q) \<and> (\<exists>i. (C_InstanceGet i, True) \<in> S) \<and> (\<exists>ym. on_record L S ym)"
| "justified L sdk S (C_RemoveTargets req, ok) \<longleftrightarrow> (\<exists>q. target_groups_listed S q)"
| "justified L sdk S (C_TargetGroupCreate req, ok) \<longleftrightarrow>
     target_groups_listed S (named sdk (ctg_FolderId req) (ctg_Name req))"
| "justified L sdk S (C_BackendGroupCreate req, ok) \<longleftrightarrow>
     (let q = named sdk (cbg_FolderId req) (cbg_Name req) in
      target_groups_listed S q \<and> backend_groups_listed S q)"
| "justified L sdk S (C_LoadBalancerCreate req, ok) \<longleftrightarrow>
     (let q = named sdk (clb_FolderId req) (clb_Name req) in
      target_groups_listed S q \<and> backend_groups_listed S q \<and> balancers_listed S q)"
| "justified L sdk S (C_LoadBalancerDelete i, ok) \<longleftrightarrow> (\<exists>q. balancers_listed S q)"
| "justified L sdk S (C_BackendGroupDelete i, ok) \<longleftrightarrow>
     (\<exists>q. balancers_listed S q \<and> backend_groups_listed S q)"
| "justified L sdk S (C_TargetGroupDelete i, ok) \<longleftrightarrow>
     (\<exists>q. balancers_listed S q \<and> backend_groups_listed S q \<and> target_groups_listed S q)"
| "justified L sdk S (C_TargetGroupGet i, ok) \<longleftrightarrow> False"
| "justified L sdk S (C_BackendGroupGet i, ok) \<longleftrightarrow> False"
| "justified L sdk S (C_LoadBalancerGet i, ok) \<longleftrightarrow> False"
| "justified L sdk S (C_NlbTargetGroupGet i, ok) \<longleftrightarrow> False"
| "justified L sdk S (C_NlbAddTargets r, ok) \<longleftrightarrow> False"
| "justified L sdk S (C_NlbRemoveTargets r, ok) \<longleftrightarrow> False"
| "justified L sdk S _ \<longleftrightarrow> True"

lemmas listed_defs = target_groups_listed_def backend_groups_listed_def balancers_listed_def

lemma evidence_more:
  "target_groups_listed S q \<Longrightarrow> S \<subseteq> T \<Longrightarrow> target_groups_listed T q"
  "backend_groups_listed S q \<Longrightarrow> S \<subseteq> T \<Longrightarrow> backend_groups_listed T q"
  "balancers_listed S q \<Longrightarrow> S \<subseteq> T \<Longrightarrow> balancers_listed T q"
  "on_record L S ym \<Longrightarrow> S \<subseteq> T \<Longrightarrow> on_record L T ym"
  by (auto simp: listed_defs on_record_def)

interpretation just: evidence "justified L sdk" for L and sdk :: "'e SDK"
proof
  fix S T :: "request set" and c
  assume "justified L sdk S c" "S \<subseteq> T"
  then show "justified L sdk T c"
    by (cases "(L, sdk, S, c)" rule: justified.cases) (auto simp: Let_def intro: evidence_more)
qed

section \<open>The client\<close>

lemma asks_external:
  "R = (\<lambda>_. {}) \<Longrightarrow> asks calls J D (external f) R"
  by (auto simp: asks_def external_def split: prod.splits sum.splits)

lemma asks_request:
  fixes sdk :: "'e SDK"
  assumes "\<And>ok. justified L sdk D (c, ok)"
  shows "asks calls (justified L sdk) D (observed mc (traced c f)) (\<lambda>_. {(c, True)})"
proof (rule asksI)
  fix w r w'
  assume run: "observed mc (traced c f) w = (r, w')" and w: "grounded (justified L sdk) (calls w)"
    and D: "D \<subseteq> set (calls w)"
  from run have "calls w' = calls w @ [(c, is_ok r)]"
    by (auto simp: observed_def traced_def external_def ObserveRequest_def split: prod.splits sum.splits)
  with w D just.more [OF assms D, of "is_ok r"] show "grounded (justified L sdk) (calls w') \<and>
      D \<subseteq> set (calls w') \<and> (\<forall>a. r = Ok a \<longrightarrow> {(c, True)} \<subseteq> set (calls w'))"
    by (cases r) (auto simp: grounded_snoc)
qed

text \<open>The methods of the client the services call: look-ups give evidence, the others need it.\<close>

lemma asks_look_ups:
  fixes sdk :: "'e SDK"
  shows "asks calls (justified L sdk) D (YandexClient_ComputeGet sdk i) (\<lambda>_. {(C_InstanceGet i, True)})"
    "asks calls (justified L sdk) D (YandexClient_ALBTargetGroupGetByName sdk f n)
       (\<lambda>_. {(C_TargetGroupList (named sdk f n), True)})"
    "asks calls (justified L sdk) D (YandexClient_ALBBackendGroupGetByName sdk f n)
       (\<lambda>_. {(C_BackendGroupList (named sdk f n), True)})"
    "asks calls (justified L sdk) D (YandexClient_ALBGetByName sdk f n)
       (\<lambda>_. {(C_LoadBalancerList (named sdk f n), True)})"
  unfolding client_method_defs Let_def named_def [symmetric]
  by (rule asks_request asks_bindG asks_list asks_pure | simp)+

lemma asks_changes:
  fixes sdk :: "'e SDK"
  shows "(\<And>ok. justified L sdk D (C_InstanceCreate req, ok)) \<Longrightarrow>
      asks calls (justified L sdk) D (YandexClient_ComputeCreate sdk req) (\<lambda>_. {})"
    "(\<And>ok. justified L sdk D (C_InstanceDelete i, ok)) \<Longrightarrow>
      asks calls (justified L sdk) D (YandexClient_ComputeDelete sdk i) (\<lambda>_. {})"
    "(\<And>ok. justified L sdk D (C_TargetGroupCreate tc, ok)) \<Longrightarrow>
      asks calls (justified L sdk) D (YandexClient_ALBTargetGroupCreate sdk tc) (\<lambda>_. {})"
    "(\<And>ok. justified L sdk D (C_TargetGroupDelete i, ok)) \<Longrightarrow>
      asks calls (justified L sdk) D (YandexClient_ALBTargetGroupDelete sdk i) (\<lambda>_. {})"
    "(\<And>ok. justified L sdk D (C_BackendGroupCreate bc, ok)) \<Longrightarrow>
      asks calls (justified L sdk) D (YandexClient_ALBBackendGroupCreate sdk bc) (\<lambda>_. {})"
    "(\<And>ok. justified L sdk D (C_BackendGroupDelete i, ok)) \<Longrightarrow>
      asks calls (justified L sdk) D (YandexClient_ALBBackendGroupDelete sdk i) (\<lambda>_. {})"
    "(\<And>ok. justified L sdk D (C_LoadBalancerCreate lc, ok)) \<Longrightarrow>
      asks calls (justified L sdk) D (YandexClient_ALBCreate sdk lc) (\<lambda>_. {})"
    "(\<And>ok. justified L sdk D (C_LoadBalancerDelete i, ok)) \<Longrightarrow>
      asks calls (justified L sdk) D (YandexClient_ALBDelete sdk i) (\<lambda>_. {})"
    "(\<And>ok. justified L sdk D (C_AddTargets ta, ok)) \<Longrightarrow>
      asks calls (justified L sdk) D (YandexClient_ALBAddTarget sdk ta) (\<lambda>_. {})"
    "(\<And>ok. justified L sdk D (C_RemoveTargets tr, ok)) \<Longrightarrow>
      asks calls (justified L sdk) D (YandexClient_ALBRemoveTarget sdk tr) (\<lambda>_. {})"
  unfolding client_method_defs Let_def YandexClient_getMeta_def
  by (auto intro!: asks_bindG asks_pure asks_external asks_less [OF asks_request] split: Meta.split)

section \<open>The load balancer service\<close>

abbreviation c_calls :: "'e World ClusterState \<Rightarrow> request list" where
  "c_calls s \<equiv> calls (c_world s)"

abbreviation m_calls :: "'e World MachineState \<Rightarrow> request list" where
  "m_calls s \<equiv> calls (m_world s)"

lemma asks_zoomG:
  assumes m: "asks tr J D m R" and put: "\<And>t s. get (put t s) = t"
  shows "asks (\<lambda>s. tr (get s)) J D (zoomG get put m) R"
proof (rule asksI)
  fix s r s'
  assume run: "zoomG get put m s = (r, s')" and s: "grounded J (tr (get s))" "D \<subseteq> set (tr (get s))"
  obtain q t where q: "m (get s) = (q, t)" by fastforce
  with run have "r = q" "get s' = t" by (auto simp: put)
  with asksD [OF m q s] show "grounded J (tr (get s')) \<and> D \<subseteq> set (tr (get s')) \<and>
      (\<forall>a. r = Ok a \<longrightarrow> R a \<subseteq> set (tr (get s')))" by auto
qed

lemma asks_in_world: "asks calls J D m R \<Longrightarrow> asks c_calls J D (in_world m) R"
  unfolding in_world_def by (rule asks_zoomG) simp_all

lemma asks_in_mworld: "asks calls J D m R \<Longrightarrow> asks m_calls J D (in_mworld m) R"
  unfolding in_mworld_def by (rule asks_zoomG) simp_all

lemma asks_listener:
  "asks calls J D (getInternalAddress lb) (\<lambda>_. {})" "asks calls J D (getInternalPort lb) (\<lambda>_. {})"
  by (auto simp: asks_def dest: listener_reads)

text \<open>Reconciliation: the groups are looked up under the name under which they are created.\<close>

lemma asks_reconcile_groups:
  fixes sdk :: "'e SDK" and sc :: ClusterScope
  defines "q \<equiv> named sdk (ClusterScope_GetFolderID sc) (ClusterScope_GetLBName sc)"
  shows "asks calls (justified L sdk) D (reconcileALBTargetGroup (YandexClient sdk) sc)
      (\<lambda>_. {(C_TargetGroupList q, True)})"
    "target_groups_listed D q \<Longrightarrow>
     asks calls (justified L sdk) D (reconcileALBBackendGroup (YandexClient sdk) sc i)
      (\<lambda>_. {(C_BackendGroupList q, True)})"
  unfolding q_def reconcileALBTargetGroup_def reconcileALBBackendGroup_def Let_def YandexClient_sel
  by (auto simp: TG_Build_fields BG_Build_def tg_builder_defs bg_builder_defs listed_defs Let_def
      intro!: asks_bindG asks_look_ups asks_option asks_pure asks_changes split: option.split)

lemma ALB_Build_named:
  "clb_FolderId (ALB_Build a) = ab_folderID a" "clb_Name (ALB_Build a) = ab_name a"
  by (auto simp: ALB_Build_def Let_def split: option.split)

lemma asks_create_balancer:
  fixes sdk :: "'e SDK"
  assumes "q = named sdk (ClusterScope_GetFolderID sc) (ClusterScope_GetLBName sc)"
    "{(C_TargetGroupList q, True), (C_BackendGroupList q, True), (C_LoadBalancerList q, True)} \<subseteq> D"
  shows "asks calls (justified L sdk) D (YandexClient_ALBCreate sdk (ALB_Build (alb_builder sc i))) (\<lambda>_. {})"
  using assms
  by (intro asks_changes) (auto simp: ALB_Build_named alb_builder_def alb_builder_defs listed_defs Let_def)

lemma reconcileALB_grounded:
  fixes sdk :: "'e SDK"
  assumes run: "reconcileALB L (YandexClient sdk) i s = (r, s')"
    and g: "grounded (justified L sdk) (c_calls s)"
    and D: "D \<union> {(C_TargetGroupList q, True), (C_BackendGroupList q, True)} \<subseteq> set (c_calls s)"
    and q: "q = named sdk (ClusterScope_GetFolderID (c_scope s)) (ClusterScope_GetLBName (c_scope s))"
  shows "grounded (justified L sdk) (c_calls s')" "D \<subseteq> set (c_calls s')"
proof -
  let ?D = "D \<union> {(C_TargetGroupList q, True), (C_BackendGroupList q, True)}"
  note run' = run [unfolded reconcileALB_def Let_def YandexClient_sel]
  note rules = asks_if asks_bindG asks_in_world asks_look_ups asks_listener asks_modifyG asks_pure
    asks_create_balancer [OF q]
  note name = alb_builder_def alb_builder_defs set_yc_def
  show "grounded (justified L sdk) (c_calls s')"
    by (rule asks_at(1) [where tr = c_calls and R = "\<lambda>_. {}", OF run' _ g D]) (rule rules | simp add: name q)+
  have "?D \<subseteq> set (c_calls s')"
    by (rule asks_at(2) [where tr = c_calls and R = "\<lambda>_. {}", OF run' _ g D]) (rule rules | simp add: name q)+
  then show "D \<subseteq> set (c_calls s')" by simp
qed

lemma asks_service:
  fixes sdk :: "'e SDK"
  shows "asks c_calls (justified L sdk) D (reconcileALBService L (YandexClient sdk)) (\<lambda>_. {})"
proof (rule asksI)
  let ?C = "YandexClient sdk" and ?J = "justified L sdk"
  fix s r s'
  assume run: "reconcileALBService L ?C s = (r, s')" and s: "grounded ?J (c_calls s)" "D \<subseteq> set (c_calls s)"
  let ?sc = "c_scope s"
  let ?q = "named sdk (ClusterScope_GetFolderID ?sc) (ClusterScope_GetLBName ?sc)"
  obtain t w1 where tg: "reconcileALBTargetGroup ?C ?sc (c_world s) = (t, w1)" by fastforce
  note t = asksD [OF asks_reconcile_groups(1) tg s]
  have "grounded ?J (c_calls s') \<and> D \<subseteq> set (c_calls s')"
  proof (cases t)
    case (Ok i)
    let ?D = "insert (C_TargetGroupList ?q, True) D"
    obtain b w2 where bg: "reconcileALBBackendGroup ?C ?sc i w1 = (b, w2)" by fastforce
    have "?D \<subseteq> set (calls w1)" using t(2) t(3) [OF Ok] by auto
    note b = asksD [OF asks_reconcile_groups(2) bg t(1) this, unfolded listed_defs, simplified]
    show ?thesis
    proof (cases b)
      case (Ok j)
      with run tg bg \<open>t = Ok i\<close> have "reconcileALB L ?C j (s\<lparr>c_world := w2\<rparr>) = (r, s')"
        by (simp add: reconcileALBService_def in_world_apply Let_def)
      from reconcileALB_grounded [OF this, of D] b(1,2) b(3) [OF Ok] show ?thesis by auto
    qed (use run tg bg Ok b in \<open>auto simp: reconcileALBService_def in_world_apply Let_def\<close>)
  qed (use run tg t in \<open>auto simp: reconcileALBService_def in_world_apply Let_def\<close>)
  then show "grounded ?J (c_calls s') \<and> D \<subseteq> set (c_calls s') \<and> (\<forall>a. r = Ok a \<longrightarrow> {} \<subseteq> set (c_calls s'))"
    by simp
qed

lemma asks_deletions:
  fixes sdk :: "'e SDK" and sc :: ClusterScope
  defines "q \<equiv> named sdk (ClusterScope_GetFolderID sc) (ClusterScope_GetLBName sc)"
  shows "asks calls (justified L sdk) D (deleteApplicationLoadBalancer (YandexClient sdk) sc)
      (\<lambda>_. {(C_LoadBalancerList q, True)})"
    "balancers_listed D q \<Longrightarrow>
     asks calls (justified L sdk) D (deleteALBBackendGroup (YandexClient sdk) sc)
      (\<lambda>_. {(C_BackendGroupList q, True)})"
    "balancers_listed D q \<Longrightarrow> backend_groups_listed D q \<Longrightarrow>
     asks calls (justified L sdk) D (deleteALBTargetGroup (YandexClient sdk) sc)
      (\<lambda>_. {(C_TargetGroupList q, True)})"
  unfolding q_def deleteApplicationLoadBalancer_def deleteALBBackendGroup_def deleteALBTargetGroup_def
    Let_def YandexClient_sel
  by (auto simp: tg_builder_defs bg_builder_defs listed_defs ex_disj_distrib
      intro!: asks_bindG asks_thenG asks_look_ups asks_option asks_pure asks_changes)

lemma asks_deleteALBService:
  fixes sdk :: "'e SDK"
  shows "asks calls (justified L sdk) D (deleteALBService (YandexClient sdk) sc) (\<lambda>_. {})"
  unfolding deleteALBService_def
  by (rule asks_bindG asks_deletions asks_if asks_pure | simp add: listed_defs)+

lemma asks_targets:
  fixes sdk :: "'e SDK"
  shows "(\<exists>i. (C_InstanceGet i, True) \<in> D) \<Longrightarrow> (\<exists>ym. on_record L D ym) \<Longrightarrow>
      asks calls (justified L sdk) D (LB_AddTarget (YandexClient sdk) sc a n) (\<lambda>_. {})"
    "asks calls (justified L sdk) D (LB_RemoveTarget (YandexClient sdk) sc a n) (\<lambda>_. {})"
  unfolding LB_AddTarget_def LB_RemoveTarget_def addTargetALB_def removeTargetALB_def nlb_defs Let_def
    YandexClient_sel
  by (rule asks_if asks_bindG asks_look_ups asks_option asks_thenG asks_pure asks_changes
      | fastforce simp: listed_defs intro: evidence_more)+

lemma asks_LB:
  fixes sdk :: "'e SDK"
  shows "asks calls (justified L sdk) D (LB_Delete (YandexClient sdk) sc) (\<lambda>_. {})"
    "asks calls (justified L sdk) D (LB_IsActive (YandexClient sdk) sc) (\<lambda>_. {})"
    "asks calls (justified L sdk) D (LB_Describe (YandexClient sdk) sc) (\<lambda>_. {})"
    "asks c_calls (justified L sdk) D (LB_Reconcile L (YandexClient sdk)) (\<lambda>_. {})"
  unfolding lb_service_defs isActiveALB_def describeALB_def nlb_defs Let_def YandexClient_sel
  by (rule asks_withG asks_if asks_deleteALBService asks_service asks_bindG asks_look_ups asks_listener
      asks_pure | simp)+

section \<open>The cluster controller\<close>

lemma asks_patch:
  assumes "is_patch c"
  shows "asks calls (justified L sdk) D (traced c f) (\<lambda>_. {})"
proof (rule asksI)
  fix w r w'
  assume run: "traced c f w = (r, w')" and w: "grounded (justified L sdk) (calls w)" "D \<subseteq> set (calls w)"
  from run have "calls w' = calls w @ [(c, is_ok r)]" by (rule traced_run)
  with w assms show "grounded (justified L sdk) (calls w') \<and> D \<subseteq> set (calls w') \<and>
      (\<forall>a. r = Ok a \<longrightarrow> {} \<subseteq> set (calls w'))"
    by (cases c) (auto simp: grounded_snoc)
qed

lemma asks_cluster_body:
  fixes sdk :: "'e SDK"
  shows "asks c_calls (justified L sdk) D (cluster_body L (YandexClient sdk)) (\<lambda>_. {})"
  unfolding cluster_body_def YandexCluster_reconcile_def YandexCluster_reconcileDelete_def
    lb_reconcile_error_def settle_endpoint_def Let_def
  by (rule asks_withG asks_if asks_tryG asks_thenG asks_in_world asks_LB asks_modifyG asks_pure
      | simp add: set_yc_def)+

lemma asks_cluster_scoped:
  fixes sdk :: "'e SDK"
  shows "asks c_calls (justified L sdk) D (YandexCluster_scoped L K (YandexClient sdk)) (\<lambda>_. {})"
  unfolding YandexCluster_scoped_def cluster_body_def [symmetric] ClusterScope_Close_def
    ClusterScope_PatchObject_def Let_def
  by (intro asks_deferG asks_withG asks_in_world asks_patch asks_cluster_body) simp

lemma cluster_pass_grounded:
  fixes sdk :: "'e SDK"
  assumes run: "YandexCluster_Reconcile L K (YandexClient sdk) ns name w = (r, w')"
    and g: "grounded (justified L sdk) (calls w)"
  shows "grounded (justified L sdk) (calls w')"
  using run
proof (cases rule: YandexCluster_Reconcile_run)
  case idle
  with g show ?thesis by simp
next
  case (scoped yc cluster v w1 s')
  with asksD(1) [OF asks_cluster_scoped [where D = "{}"] scoped(5)] g show ?thesis by simp
qed

section \<open>The compute service and the machine controller\<close>

lemma asks_registration:
  fixes sdk :: "'e SDK"
  shows "(\<exists>i. (C_InstanceGet i, True) \<in> D) \<Longrightarrow> (\<exists>ym. on_record L D ym) \<Longrightarrow>
      asks m_calls (justified L sdk) D (registerControlPlane (loadbalancer_New (YandexClient sdk) sc)) (\<lambda>_. {})"
    "asks m_calls (justified L sdk) D (deregisterControlPlane (loadbalancer_New (YandexClient sdk) sc)) (\<lambda>_. {})"
  unfolding registerControlPlane_def deregisterControlPlane_def Let_def loadbalancer_New_sel
  by (rule asks_withG asks_list asks_in_mworld asks_targets asks_pure | simp)+

lemma asks_mark: "asks m_calls J D (mark f) (\<lambda>_. {})"
  unfolding mark_def by (rule asks_modifyG) (simp_all add: set_ym_def)

lemma asks_Compute_Delete:
  fixes sdk :: "'e SDK"
  shows "asks m_calls (justified L sdk) D (Compute_Delete L' (C_of sdk sc) (LB_of sdk sc)) (\<lambda>_. {})"
  unfolding Compute_Delete_def Let_def ClusterScope_getter_def
  by (rule asks_withG asks_if asks_tryG asks_thenG asks_in_mworld asks_look_ups asks_modifyG asks_pure
      asks_registration asks_changes | simp add: set_ym_def)+

lemma asks_instance_request: "asks m_calls J D (GetInstanceReq L K cg) (\<lambda>_. {})"
proof -
  have "asks m_calls J D (GetBootstrapData K) (\<lambda>_. {})"
    unfolding GetBootstrapData_def Let_def
    by (rule asks_withG asks_option asks_tryG asks_in_mworld asks_external asks_pure | simp)+
  then show ?thesis
    unfolding GetInstanceReq_def Let_def
    by (rule asks_bindG) (auto intro!: asks_withG asks_pure split: option.split)
qed

text \<open>A virtual machine is asked for under the name of the object, which is on record and has none.\<close>

lemma create_instance_grounded:
  fixes sdk :: "'e SDK"
  assumes run: "createComputeInstance L K (C_of sdk sc) s = (r, s')"
    and g: "grounded (justified L sdk) (m_calls s)" and D: "D \<subseteq> set (m_calls s)"
    and ym: "on_record L D (machine_of s)" "instance_id s = []"
  shows "grounded (justified L sdk) (m_calls s')" "D \<subseteq> set (m_calls s')"
proof -
  obtain q t where q: "GetInstanceReq L K (C_of sdk sc) s = (q, t)" by fastforce
  note t = asksD [OF asks_instance_request q g D]
  have "grounded (justified L sdk) (m_calls s') \<and> D \<subseteq> set (m_calls s')"
  proof (cases q)
    case (Ok req)
    with q have name: "cir_Name req = om_Name (ym_Meta (machine_of s))"
      by (auto elim!: GetInstanceReq_Ok simp: instance_request_def)
    from run q Ok have "in_mworld (YandexClient_ComputeCreate sdk req) t = (r, s')"
      by (simp add: createComputeInstance_def ClusterScope_getter_def)
    note c = asksD [OF asks_in_mworld [OF asks_changes(1)] this t(1,2)]
    show ?thesis using c(1,2) ym name by auto
  qed (use run q t in \<open>auto simp: createComputeInstance_def\<close>)
  then show "grounded (justified L sdk) (m_calls s')" "D \<subseteq> set (m_calls s')" by simp_all
qed

lemma getter_client: "ComputeGet (GetClient (C_of sdk sc)) = YandexClient_ComputeGet sdk"
  by (simp add: ClusterScope_getter_def)

lemma asks_inspect:
  fixes sdk :: "'e SDK"
  assumes "\<exists>ym. on_record L D ym"
  shows "asks m_calls (justified L sdk) D
    (withG (\<lambda>s. tryG (in_mworld (ComputeGet (GetClient (C_of sdk sc)) (instance_id s)))
      (instanceFound L' (LB_of sdk sc)) (instanceMissing L'))) (\<lambda>_. {})"
  unfolding instanceFound_def instanceMissing_def getter_client
  using assms
  by - (rule asks_withG asks_if asks_sum asks_tryG asks_thenG asks_in_mworld asks_look_ups asks_modifyG
      asks_pure asks_registration asks_mark | fastforce simp: set_ym_def intro: evidence_more)+

lemma Compute_Reconcile_grounded:
  fixes sdk :: "'e SDK"
  assumes run: "Compute_Reconcile L K (C_of sdk sc) (LB_of sdk sc) t = (q, u)"
    and g: "grounded (justified L sdk) (m_calls t)" and ym: "on_record L (set (m_calls t)) (machine_of t)"
  shows "grounded (justified L sdk) (m_calls u)"
proof -
  let ?J = "justified L sdk" and ?D = "set (m_calls t)"
  obtain e s1 where e: "ensureInstance L K (C_of sdk sc) t = (e, s1)" by fastforce
  have s1: "grounded ?J (m_calls s1) \<and> ?D \<subseteq> set (m_calls s1)"
    using e create_instance_grounded [OF _ g subset_refl ym]
    by (cases rule: ensureInstance_run) (use g in auto)
  show ?thesis
  proof (cases "is_ok e")
    case True
    let ?rest = "withG (\<lambda>s. tryG (in_mworld (ComputeGet (GetClient (C_of sdk sc)) (instance_id s)))
      (instanceFound L (LB_of sdk sc)) (instanceMissing L))"
    from True e run have k: "?rest s1 = (q, u)" by (cases e) (simp_all add: Compute_Reconcile_def)
    have "asks m_calls ?J ?D ?rest (\<lambda>_. {})" using ym by (intro asks_inspect) blast
    from asksD(1) [OF this k] s1 show ?thesis by simp
  next
    case False
    with e run have "u = s1" by (cases e) (simp_all add: Compute_Reconcile_def)
    with s1 show ?thesis by simp
  qed
qed

lemma machine_body_grounded:
  fixes sdk :: "'e SDK"
  assumes run: "machine_body L K (C_of sdk sc) (LB_of sdk sc) s = (r, s')"
    and g: "grounded (justified L sdk) (m_calls s)" and laws: "finalizer_laws L"
  shows "grounded (justified L sdk) (m_calls s')"
proof (cases "machine_leaving (machine_of s)")
  case True
  from run this obtain q u where "Compute_Delete L (C_of sdk sc) (LB_of sdk sc) s = (q, u)" "m_world s' = m_world u"
    by (rule leaving_body)
  with asksD(1) [OF asks_Compute_Delete this(1) g] show ?thesis by auto
next
  case live: False
  let ?ym = "adopted L (machine_of s)"
  have patched: "grounded (justified L sdk) (m_calls s @ [(C_PatchMachine ?ym, ok)])" for ok
    using g by (simp add: grounded_snoc)
  from run live show ?thesis
  proof (cases rule: live_body)
    case (pass t q u)
    have "on_record L (set (m_calls t)) (machine_of t)"
      using pass(1,3) live laws
      by (simp add: on_record_def adopted_def ym_finalizers_def finalizer_laws_def)
    with pass(3,4) patched have "grounded (justified L sdk) (m_calls u)"
      by (metis Compute_Reconcile_grounded)
    with pass_end(1) [OF pass(4,5)] show ?thesis by simp
  qed (use patched in auto)
qed

lemma machine_pass_grounded:
  fixes sdk :: "'e SDK"
  assumes run: "YandexMachine_Reconcile L K (YandexClient sdk) ns name w = (r, w')"
    and g: "grounded (justified L sdk) (calls w)" and laws: "finalizer_laws L"
  shows "grounded (justified L sdk) (calls w')"
  using run
proof (cases rule: machine_pass)
  case idle
  with g show ?thesis by simp
next
  case (pass machine ym v w1 sc r0 t ok)
  from machine_body_grounded [OF pass(5) _ laws] g pass(3) pass(6) show ?thesis
    by (simp add: grounded_snoc)
qed

end
