(* ===== verification/Cluster_Properties.thy ===== *)
theory Cluster_Properties
  imports Cluster_Lifecycle
begin

text \<open>
  What one reconciliation of a \<open>YandexCluster\<close> promises, read off the abstract step relation it refines,
  and how its patches fare with the admission webhook.
\<close>

section \<open>Refinement\<close>

text \<open>
  C1: every reconciliation refines the life cycle.  Either it leaves the world's trace and metrics alone (the
  object is gone, has no owner, is paused, or a helper failed), or the object was fetched and not
  paused, the last call of the pass is its only patch, the patched object is a step of the fetched
  one, the event of the step licenses the requests sent before the patch, and the pass succeeds with
  the result of the event exactly when that patch did.
\<close>

theorem cluster_refines:
  fixes sdk :: "'e SDK"
  assumes run: "YandexCluster_Reconcile L K (YandexClient sdk) ns name w = (r, w')"
  shows "(calls w' = calls w \<and> metrics w' = metrics w \<and> (r = Ok no_requeue \<or> \<not> is_ok r)) \<or>
    (\<exists>cluster yc v w1 ev r0 t ok cs.
       external (Get_YandexCluster K ns name) w = (Ok yc, v) \<and> \<not> IsPaused L cluster (yc_Meta yc) \<and>
       calls w1 = calls w \<and> cluster_step L yc ev (cluster_of t) \<and>
       licensed L (YandexClient sdk) (fetched_state cluster yc w1) ev r0 t \<and>
       calls (c_world t) = calls w @ cs \<and> list_all (\<lambda>(c, ok). \<not> is_patch c) cs \<and>
       calls w' = calls w @ cs @ [(C_PatchCluster (cluster_of t), ok)] \<and>
       (is_ok r \<longleftrightarrow> is_ok r0 \<and> ok) \<and> (is_ok r \<longrightarrow> r = r0) \<and> (\<not> is_ok r0 \<longrightarrow> r = r0))"
  using run by (cases rule: cluster_pass) metis+

theorem cluster_refines_witness:
  "\<exists>ev yc' ok. cluster_step sim_lib (sim_yandex_cluster [ClusterFinalizer]) ev yc' \<and>
     last (calls (snd (sim_cluster_run sim_empty))) = (C_PatchCluster yc', ok)"
proof -
  have "calls (snd (sim_cluster_run sim_empty)) \<noteq> []"
    by (simp add: evaluate)
  moreover have "sim_yc sim_empty = sim_yandex_cluster [ClusterFinalizer]"
    by (simp add: sim_empty_def)
  ultimately show ?thesis
    using cluster_refines [of sim_lib sim_kube sim_sdk "''default''" "''c1''" "start sim_empty",
        OF prod.collapse [symmetric]]
    unfolding sim_fetch by (auto simp: append_assoc [symmetric] simp del: append_assoc)
qed

section \<open>The finalizer\<close>

text \<open>
  C13: nothing is asked of the cloud for a cluster that does not carry the finalizer.  Such a pass sends
  at most one patch: it adds the finalizer and asks to be run again at once, or, when the object is
  being deleted, leaves it as it is.
\<close>

theorem cluster_finalizer_first:
  fixes sdk :: "'e SDK"
  assumes run: "YandexCluster_Reconcile L K (YandexClient sdk) ns name w = (r, w')"
    and fetched: "external (Get_YandexCluster K ns name) w = (Ok yc, v)"
    and bare: "\<not> has_finalizer L yc"
  shows "mutations w' = mutations w \<and>
    (calls w' = calls w \<or>
     (\<exists>ok. calls w' = calls w @ [(C_PatchCluster (if being_deleted yc then yc
            else yc_finalizers (\<lambda>fs. AddFinalizer L fs ClusterFinalizer) yc), ok)] \<and>
        (is_ok r \<longrightarrow> ok \<and> r = Ok \<lparr>Requeue = \<not> being_deleted yc, RequeueAfter = 0\<rparr>)))"
  using run
proof (cases rule: cluster_pass)
  case idle
  then show ?thesis by (simp add: mutations_def)
next
  case (pass cluster yc' v' w1 ev r0 t ok cs)
  from pass(1) fetched have yc': "yc' = yc" by simp
  from pass(4) bare have ev: "if being_deleted yc then ev = Untouched \<and> cluster_of t = yc
      else ev = Finalized \<and> cluster_of t = yc_finalizers (\<lambda>fs. AddFinalizer L fs ClusterFinalizer) yc"
    unfolding yc' by (cases rule: cluster_stepE) auto
  with pass(5) have t: "c_world t = w1" "r0 = Ok \<lparr>Requeue = \<not> being_deleted yc, RequeueAfter = 0\<rparr>"
    by (auto simp: licensed_def result_defs split: if_splits)
  with pass(3,6) have "cs = []" by simp
  with pass(8) ev have "calls w' = calls w @ [(C_PatchCluster (if being_deleted yc then yc
            else yc_finalizers (\<lambda>fs. AddFinalizer L fs ClusterFinalizer) yc), ok)]"
    by (simp split: if_splits)
  moreover from this have "mutations w' = mutations w"
    by (simp add: mutations_def is_mutation_def)
  ultimately show ?thesis
    using pass(9,10) t(2) by blast
qed

theorem cluster_finalizer_first_witness:
  "mutations (snd (sim_cluster_run sim_fresh)) = [] \<and> length (calls (snd (sim_cluster_run sim_fresh))) \<le> 1"
proof -
  have "\<not> has_finalizer sim_lib (sim_yc sim_fresh)"
    by (simp add: sim_starts evaluate)
  from cluster_finalizer_first [OF prod.collapse [symmetric] sim_fetch this,
      of sim_sdk "''default''" "''c1''"]
  show ?thesis by auto
qed

text \<open>
  C9: the finalizer is given up only when nothing is left.  If a pass over an object that carries it
  patches one that does not, the object was being deleted and in this very pass the look-ups found no
  load balancer, no backend group and no target group, one after the other; nothing was asked of the
  cloud.
\<close>

theorem cluster_release:
  fixes sdk :: "'e SDK"
  assumes run: "YandexCluster_Reconcile L K (YandexClient sdk) ns name w = (r, w')"
    and fetched: "external (Get_YandexCluster K ns name) w = (Ok yc, v)"
    and carried: "has_finalizer L yc"
    and patched: "calls w' = calls w @ cs @ [(C_PatchCluster yc', ok)]" "\<not> has_finalizer L yc'"
  shows "being_deleted yc \<and> mutations w' = mutations w \<and>
    (\<exists>sc w0 w1 w2 w3.
       cs_YandexCluster sc = yc \<and> calls w3 = calls w @ cs \<and>
       YandexClient_ALBGetByName sdk (ClusterScope_GetFolderID sc) (ClusterScope_GetLBName sc) w0 = (Ok None, w1) \<and>
       YandexClient_ALBBackendGroupGetByName sdk (ClusterScope_GetFolderID sc) (ClusterScope_GetLBName sc) w1 = (Ok None, w2) \<and>
       YandexClient_ALBTargetGroupGetByName sdk (ClusterScope_GetFolderID sc) (ClusterScope_GetLBName sc) w2 = (Ok None, w3))"
proof -
  obtain cluster w1 ev r0 t where step: "cluster_step L yc ev yc'" and w1: "calls w1 = calls w"
    and licence: "licensed L (YandexClient sdk) (fetched_state cluster yc w1) ev r0 t"
    and t: "calls (c_world t) = calls w @ cs" "mutations w' = mutations (c_world t)"
    by (rule cluster_pass_patched [OF run fetched patched(1)])
  from step have ev: "ev = Released"
    using cluster_step_keeps_finalizer carried patched(2) by blast
  with step have del: "being_deleted yc" by (auto elim!: cluster_stepE)
  let ?s = "fetched_state cluster yc w1"
  from licence have "LB_Delete (YandexClient sdk) (c_scope ?s) w1 = (Ok True, c_world t)"
    unfolding ev by (simp add: licensed_def)
  then have alb: "deleteALBService (YandexClient sdk) (c_scope ?s) w1 = (Ok True, c_world t)"
    by (auto simp: LB_Delete_def deleteNLBService_def Let_def split: if_splits)
  obtain v1 v2 where
    looks: "mutations (c_world t) = mutations w1"
      "YandexClient_ALBGetByName sdk (ClusterScope_GetFolderID (c_scope ?s)) (ClusterScope_GetLBName (c_scope ?s)) w1 = (Ok None, v1)"
      "YandexClient_ALBBackendGroupGetByName sdk (ClusterScope_GetFolderID (c_scope ?s)) (ClusterScope_GetLBName (c_scope ?s)) v1 = (Ok None, v2)"
      "YandexClient_ALBTargetGroupGetByName sdk (ClusterScope_GetFolderID (c_scope ?s)) (ClusterScope_GetLBName (c_scope ?s)) v2 = (Ok None, c_world t)"
    by (cases rule: yandex_client.deleteALBService_run [OF alb]) auto
  have "mutations w' = mutations w" using w1 looks(1) t(2) by (simp add: mutations_def)
  with del looks t(1) show ?thesis
    by (intro conjI exI [of _ "c_scope ?s"] exI [of _ w1] exI [of _ v1] exI [of _ v2]
        exI [of _ "c_world t"]) simp_all
qed

theorem cluster_release_witness:
  "being_deleted (sim_yc sim_leaving) \<and> mutations (snd (sim_cluster_run sim_leaving)) = []"
proof -
  let ?w = "snd (sim_cluster_run sim_leaving)"
  have f: "has_finalizer sim_lib (sim_yc sim_leaving)"
    by (simp add: sim_starts evaluate)
  have c: "calls ?w = calls (start sim_leaving) @ butlast (calls ?w) @ [(C_PatchCluster
      (yc_finalizers (\<lambda>_. []) (sim_yc sim_leaving)), True)]"
    by (simp add: sim_starts evaluate)
  have n: "\<not> has_finalizer sim_lib (yc_finalizers (\<lambda>_. []) (sim_yc sim_leaving))"
    by (simp add: evaluate)
  from cluster_release [OF prod.collapse [symmetric] sim_fetch f c n] show ?thesis by simp
qed

section \<open>The endpoint and the ready flag\<close>

text \<open>
  C11: of the specification a pass changes nothing but the endpoint, and an endpoint that is set stays;
  of the metadata it changes nothing but the finalizers.  It sets an endpoint, and raises the ready
  flag, only with the listener that it read in this pass, for the fetched cluster and its owner, from a
  load balancer it had just found active; the published endpoint and status are that listener.
\<close>

theorem cluster_publishes:
  fixes sdk :: "'e SDK"
  assumes run: "YandexCluster_Reconcile L K (YandexClient sdk) ns name w = (r, w')"
    and fetched: "external (Get_YandexCluster K ns name) w = (Ok yc, v)"
    and patched: "calls w' = calls w @ cs @ [(C_PatchCluster yc', ok)]"
  shows "yc_Spec yc' = (yc_Spec yc)\<lparr>ycs_ControlPlaneEndpoint := endpoint_of yc'\<rparr> \<and>
    yc_Meta yc' = (yc_Meta yc)\<lparr>om_Finalizers := om_Finalizers (yc_Meta yc')\<rparr> \<and>
    (endpoint_of yc \<noteq> zero_endpoint \<longrightarrow> endpoint_of yc' = endpoint_of yc) \<and>
    (endpoint_of yc' \<noteq> endpoint_of yc \<or> ycst_Ready (yc_Status yc') \<and> \<not> ycst_Ready (yc_Status yc) \<longrightarrow>
      (\<exists>st sc w1 w2 w3. endpoint_of yc' = listener_endpoint st \<and>
         ycst_LoadBalancer (yc_Status yc') =
           \<lparr>lbst_Name = [], lbst_ListenerAddress = lbst_ListenerAddress st, lbst_ListenerPort = lbst_ListenerPort st\<rparr> \<and>
         ycst_Ready (yc_Status yc') \<and>
         fst (external (GetOwnerCluster K (yc_Meta yc)) v) = Ok (Some (cs_Cluster sc)) \<and>
         yc_Spec (cs_YandexCluster sc) = yc_Spec yc \<and> yc_Meta (cs_YandexCluster sc) = yc_Meta yc \<and>
         prefix (calls w) (calls w1) \<and>
         LB_IsActive (YandexClient sdk) sc w1 = (Ok True, w2) \<and>
         LB_Describe (YandexClient sdk) sc w2 = (Ok st, w3) \<and> calls w3 = calls w @ cs))"
proof (rule cluster_pass_patched [OF run fetched patched])
  fix cluster and w1 :: "'e World" and ev r0 t
  let ?s = "fetched_state cluster yc w1"
  assume step: "cluster_step L yc ev yc'" and w1: "calls w1 = calls w"
    and licence: "licensed L (YandexClient sdk) ?s ev r0 t"
    and t: "calls (c_world t) = calls w @ cs"
    and owner: "fst (external (GetOwnerCluster K (yc_Meta yc)) v) = Ok (Some cluster)"
  have "\<exists>sc w1 w2 w3. fst (external (GetOwnerCluster K (yc_Meta yc)) v) = Ok (Some (cs_Cluster sc)) \<and>
         yc_Spec (cs_YandexCluster sc) = yc_Spec yc \<and> yc_Meta (cs_YandexCluster sc) = yc_Meta yc \<and>
         prefix (calls w) (calls w1) \<and> LB_IsActive (YandexClient sdk) sc w1 = (Ok True, w2) \<and>
         LB_Describe (YandexClient sdk) sc w2 = (Ok st, w3) \<and> calls w3 = calls w @ cs"
    if "ev = Settled st" for st
  proof -
    from licence that obtain u x where u: "LB_Reconcile L (YandexClient sdk) ?s = (Ok (), u)"
      "LB_IsActive (YandexClient sdk) (c_scope u) (c_world u) = (Ok True, x)"
      "LB_Describe (YandexClient sdk) (c_scope u) x = (Ok st, c_world t)"
      by (auto simp: licensed_def)
    have "only_conditions (c_scope ?s) (c_scope u)" using u(1) by (rule yandex_client.LB_Reconcile_sends)
    note same = only_conditionsD [OF this]
    have "prefix (calls w) (calls (c_world u))"
      using every_runD [OF sync_client.run_LB_Reconcile u(1)] w1
      by (simp add: on_c_world_def keeps_sync_def trace_grows_def)
    with u(2,3) same owner t show ?thesis
      by - (rule exI [of _ "c_scope u"], rule exI [of _ "c_world u"], rule exI [of _ x],
          rule exI [of _ "c_world t"], simp)
  qed
  with cluster_step_frame(1,2) [OF step] cluster_step_frame(3) [OF step] cluster_step_spec(4-6) [OF step]
  show ?thesis by metis
qed

definition sim_published :: YandexCluster where
  "sim_published = sim_yc (env (snd (sim_cluster_run sim_full)))"

lemma sim_published_patch:
  "calls (snd (sim_cluster_run sim_full)) = calls (start sim_full) @
     butlast (calls (snd (sim_cluster_run sim_full))) @ [(C_PatchCluster sim_published, True)]"
  by (simp add: sim_published_def evaluate)

theorem cluster_publishes_witness:
  "endpoint_of sim_published = \<lparr>ep_Host = ''10.0.0.1'', ep_Port = 8443\<rparr> \<and>
   ycst_Ready (yc_Status sim_published) \<and>
   yc_Spec sim_published = (yc_Spec (sim_yc sim_full))\<lparr>ycs_ControlPlaneEndpoint := endpoint_of sim_published\<rparr> \<and>
   (\<exists>st sc w1 w2 w3. listener_endpoint st = endpoint_of sim_published \<and>
      cs_Cluster sc = sim_cluster \<and> LB_IsActive (YandexClient sim_sdk) sc w1 = (Ok True, w2) \<and>
      LB_Describe (YandexClient sim_sdk) sc w2 = (Ok st, w3))"
proof -
  have e: "endpoint_of sim_published = \<lparr>ep_Host = ''10.0.0.1'', ep_Port = 8443\<rparr>"
    "endpoint_of (sim_yc sim_full) = zero_endpoint"
    by (simp_all add: sim_published_def evaluate)
  then have new: "endpoint_of sim_published \<noteq> endpoint_of (sim_yc sim_full)" by (simp add: zero_endpoint_def)
  have o: "fst (external (GetOwnerCluster sim_kube meta) (start sim_full)) = Ok (Some sim_cluster)" for meta
    by (simp add: external_def)
  note here = cluster_publishes [OF prod.collapse [symmetric] sim_fetch sim_published_patch]
  note spec = here [THEN conjunct1]
    and raised = here [THEN conjunct2, THEN conjunct2, THEN conjunct2, THEN mp, OF disjI1, OF new]
  from raised have "\<exists>st sc w1 w2 w3. listener_endpoint st = endpoint_of sim_published \<and>
      cs_Cluster sc = sim_cluster \<and> LB_IsActive (YandexClient sim_sdk) sc w1 = (Ok True, w2) \<and>
      LB_Describe (YandexClient sim_sdk) sc w2 = (Ok st, w3)" "ycst_Ready (yc_Status sim_published)"
    unfolding o outcome.inject option.inject by metis+
  with e(1) spec show ?thesis by (intro conjI)
qed

text \<open>
  C20: the patch of a pass is an update that the admission webhook lets through exactly when it leaves the
  endpoint alone or sets one that is valid: the controller never asks for anything else the webhook
  would refuse.
\<close>

theorem cluster_patch_admitted:
  fixes sdk :: "'e SDK"
  assumes run: "YandexCluster_Reconcile L K (YandexClient sdk) ns name w = (r, w')"
    and fetched: "external (Get_YandexCluster K ns name) w = (Ok yc, v)"
    and patched: "calls w' = calls w @ cs @ [(C_PatchCluster yc', ok)]"
  shows "YandexCluster_ValidateUpdate lookupHost yc' (Obj_YandexCluster yc) = Allowed \<longleftrightarrow>
    endpoint_of yc' = endpoint_of yc \<or> valid_endpoint lookupHost (endpoint_of yc')"
  unfolding ValidateUpdate_iff Let_def
  by (rule cluster_pass_patched [OF run fetched patched]) (metis cluster_step_spec(1,4))

theorem cluster_patch_admitted_witness:
  "YandexCluster_ValidateUpdate (\<lambda>_. False) sim_published (Obj_YandexCluster (sim_yc sim_full)) = Allowed"
proof -
  have "valid_endpoint (\<lambda>_. False) (endpoint_of sim_published)"
  proof -
    have "endpoint_of sim_published = \<lparr>ep_Host = ''10.0.0.1'', ep_Port = 8443\<rparr>"
      by (simp add: sim_published_def evaluate)
    moreover have "isIPv4 (\<lambda>_. False) ''10.0.0.1''" by code_simp
    ultimately show ?thesis by (simp add: valid_endpoint_def)
  qed
  with cluster_patch_admitted [OF prod.collapse [symmetric] sim_fetch sim_published_patch]
  show ?thesis by simp
qed

section \<open>Skipped passes\<close>

text \<open>
  A pass whose object is gone or unreadable, has no owner yet, or is paused ends at once, with no
  request at all: with success, except for a failed read, whose error is returned.
\<close>

theorem cluster_skips:
  assumes "external (Get_YandexCluster K ns name) w = (q, w1)"
    and "\<And>yc. q = Ok yc \<Longrightarrow> external (GetOwnerCluster K (yc_Meta yc)) w1 = (o1, w2) \<and>
      (\<forall>cluster. o1 = Ok (Some cluster) \<longrightarrow> IsPaused L cluster (yc_Meta yc))"
  shows "\<exists>w'. YandexCluster_Reconcile L K C ns name w =
      (case q of
         Err e \<Rightarrow> (if Apierrors_IsNotFound L e then Ok no_requeue else Err e)
       | Panic m \<Rightarrow> Panic m
       | Ok yc \<Rightarrow> (case o1 of Ok x \<Rightarrow> Ok no_requeue | Err e \<Rightarrow> Err e | Panic m \<Rightarrow> Panic m), w') \<and>
    calls w' = calls w"
proof (cases q)
  case (Ok yc)
  with assms have o1: "external (GetOwnerCluster K (yc_Meta yc)) w1 = (o1, w2)"
    "\<forall>cluster. o1 = Ok (Some cluster) \<longrightarrow> IsPaused L cluster (yc_Meta yc)" by auto
  have "calls w2 = calls w" using external_run(1) [OF assms(1)] external_run(1) [OF o1(1)] by simp
  with assms(1) o1 Ok show ?thesis
    by (cases o1) (auto simp: YandexCluster_Reconcile_def split: option.split)
qed (use assms(1) external_run(1) [OF assms(1)] in \<open>auto simp: YandexCluster_Reconcile_def\<close>)

theorem cluster_skips_witness:
  "fst (YandexCluster_Reconcile sim_lib (sim_kube\<lparr>GetOwnerCluster := (\<lambda>m e. (Inr None, e))\<rparr>)
     (YandexClient sim_sdk) ''default'' ''c1'' (start sim_full)) = Ok no_requeue"
  (is "fst (YandexCluster_Reconcile _ ?K _ _ _ _) = _")
proof -
  have f: "external (Get_YandexCluster ?K ''default'' ''c1'') (start sim_full) =
      (Ok (sim_yc sim_full), start sim_full)"
    by (simp add: external_def start_def)
  have o1: "external (GetOwnerCluster ?K (yc_Meta yc)) (start sim_full) = (Ok None, start sim_full) \<and>
      (\<forall>cluster. Ok None = Ok (Some cluster) \<longrightarrow> IsPaused sim_lib cluster (yc_Meta yc))" for yc
    by (simp add: external_def start_def)
  from cluster_skips [OF f o1, of "YandexClient sim_sdk"] show ?thesis by auto
qed

section \<open>Metrics\<close>

text \<open>
  The request metrics never lose a request: if they agree with the trace before a reconciliation they
  agree with it after, on every path, failures included.
\<close>

lemma cluster_pass_metrics:
  fixes sdk :: "'e SDK"
  assumes run: "YandexCluster_Reconcile L K (YandexClient sdk) ns name w = (r, w')"
    and sync: "metrics_in_sync w"
  shows "metrics_in_sync w'"
  using run
proof (cases rule: YandexCluster_Reconcile_run)
  case idle
  with sync show ?thesis by (simp add: metrics_in_sync_def)
next
  case (scoped yc cluster v w1 s')
  have close: "every_run (on_c_world keeps_sync) (ClusterScope_Close K)"
    unfolding ClusterScope_Close_def ClusterScope_PatchObject_def Let_def
    by (intro c_sync.run_intros run_in_world traced_patch_keeps_sync) simp
  have "every_run (on_c_world keeps_sync) (YandexCluster_scoped L K (YandexClient sdk))"
    unfolding YandexCluster_scoped_def cluster_body_def [symmetric]
    by (intro c_sync.run_deferG close sync_client.run_cluster_body)
  from every_runD [OF this scoped(5)] have "keeps_sync w1 w'"
    using scoped(6) by (simp add: on_c_world_def)
  with sync scoped(3,4) show ?thesis by (simp add: keeps_sync_def metrics_in_sync_def)
qed

end
