(* ===== verification/Machine_Properties.thy ===== *)
theory Machine_Properties
  imports Machine_Lifecycle
begin

text \<open>
  What one reconciliation of a \<open>YandexMachine\<close> promises: the order of its patches and requests, that it
  never makes a second virtual machine while it remembers the first, what it needs to call a
  machine ready, and when it lets a deleted machine go.
\<close>

section \<open>A concrete run\<close>

definition sim_ready :: YandexMachine where
  "sim_ready = sim_ym (env (snd (sim_machine_run sim_full)))"

lemma sim_ready_run:
  "sim_machine_run sim_full = (Ok no_requeue, snd (sim_machine_run sim_full))"
  "calls (snd (sim_machine_run sim_full)) = calls (start sim_full) @
     butlast (calls (snd (sim_machine_run sim_full))) @ [(C_PatchMachine sim_ready, True)]"
  "ymst_Ready (ym_Status sim_ready)"
  by (simp_all add: sim_ready_def evaluate evaluate_machine)

lemma sim_full_machine:
  "\<not> machine_leaving (sim_ym sim_full)" "\<not> ymst_Ready (ym_Status (sim_ym sim_full))"
  by (simp_all add: evaluate)

lemma sim_ready_worked: "calls (snd (sim_machine_run sim_full)) \<noteq> calls (start sim_full)"
  using sim_ready_run(2) by (metis append_Nil snoc_eq_iff_butlast start_simps(2))

section \<open>The finalizer comes first\<close>

text \<open>
  C14: a pass over a live machine begins with the patch that adds the finalizer, before any request to
  the cloud; when that patch is refused nothing is asked of the cloud and the pass fails.
\<close>

theorem machine_finalizer_first:
  fixes sdk :: "'e SDK"
  assumes run: "YandexMachine_Reconcile L K (YandexClient sdk) ns name w = (r, w')"
    and fetched: "external (Get_YandexMachine K ns name) w = (Ok ym, v)"
    and live: "\<not> machine_leaving ym"
  shows "calls w' = calls w \<or>
    (\<exists>ok cs ym' ok'. calls w' = calls w @ [(C_PatchMachine (adopted L ym), ok)] @ cs @ [(C_PatchMachine ym', ok')] \<and>
       list_all (\<lambda>(c, ok). \<not> is_patch c) cs \<and> (ok \<or> cs = [] \<and> \<not> is_ok r))"
  using run
proof (cases rule: machine_pass)
  case (pass machine ym0 v' w1 sc r0 t ok')
  from pass(1) fetched have ym0: "ym0 = ym" by simp
  with live have "\<not> machine_leaving (machine_of (fetched_machine machine ym0 w1))" by simp
  from pass(5) this show ?thesis
  proof (rule live_calls)
    fix ok cs
    assume "calls (m_world t) = calls (m_world (fetched_machine machine ym0 w1)) @
        (C_PatchMachine (adopted L (machine_of (fetched_machine machine ym0 w1))), ok) # cs"
      and "list_all (\<lambda>(c, ok). \<not> is_patch c) cs" "ok \<or> cs = [] \<and> \<not> is_ok r0"
    with pass(3,6,7) ym0 show ?thesis
      by (intro disjI2 exI [of _ ok] exI [of _ cs] exI [of _ "machine_of t"] exI [of _ ok']) auto
  qed
qed simp

theorem machine_finalizer_first_witness:
  "\<exists>ok. hd (calls (snd (sim_machine_run sim_full))) = (C_PatchMachine (adopted sim_lib (sim_ym sim_full)), ok)"
  using machine_finalizer_first [OF prod.collapse [symmetric] sim_machine_fetch sim_full_machine(1),
      of sim_lib sim_sdk "''default''" "''m1''"] sim_ready_worked
  by auto

section \<open>At most one virtual machine\<close>

text \<open>
  C4: a pass asks for at most one virtual machine, and for none when the machine is being deleted or
  remembers an instance.  When the client returns an identifier for that request, the cloud having
  accepted it, the identifier is in the object of the last patch, however the rest of the pass goes.
  When the client returns none, because the request was refused or because it was accepted and the
  metadata of its operation could not be read, the pass fails and its last patch remembers no
  instance: in the second case the virtual machine is lost to the provider.
\<close>

theorem machine_created_once:
  fixes sdk :: "'e SDK"
  assumes run: "YandexMachine_Reconcile L K (YandexClient sdk) ns name w = (r, w')"
    and fetched: "external (Get_YandexMachine K ns name) w = (Ok ym, v)"
  shows "\<exists>new. mutations w' = mutations w @ new \<and>
    (filter is_vm_create new = [] \<or>
     (\<exists>req before x q x' accepted after ym' ok. filter is_vm_create new = [C_InstanceCreate req] \<and>
        \<not> machine_leaving ym \<and> MachineScope_GetInstanceID ym = [] \<and>
        calls x = calls w @ before \<and> YandexClient_ComputeCreate sdk req x = (q, x') \<and>
        calls x' = calls x @ [(C_InstanceCreate req, accepted)] \<and>
        calls w' = calls x' @ after @ [(C_PatchMachine ym', ok)] \<and>
        (case q of Ok i \<Rightarrow> accepted \<and> MachineScope_GetInstanceID ym' = i
         | _ \<Rightarrow> MachineScope_GetInstanceID ym' = [] \<and> \<not> is_ok r)))"
  using run
proof (cases rule: machine_pass)
  case idle
  then show ?thesis by (intro exI [of _ "[]"]) (simp add: mutations_def)
next
  case (pass machine ym0 v' w1 sc r0 t ok')
  from pass(1) fetched have ym0: "ym0 = ym" by simp
  let ?s = "fetched_machine machine ym w1"
  have m: "mutations w' = mutations (m_world t)" "mutations w1 = mutations w"
    using pass(3,6) by (simp_all add: mutations_def is_mutation_def)
  from pass(5) [unfolded ym0] show ?thesis
  proof (cases rule: vm_requests)
    case (none new)
    with m show ?thesis by auto
  next
    case (one new req q x x' accepted)
    obtain before where before: "calls x = calls w @ before"
      using one(6) pass(3) by (auto simp: prefix_def)
    obtain after where "calls (m_world t) = calls x' @ after"
      using one(9) by (auto simp: prefix_def)
    with pass(6) have after: "calls w' = calls x' @ after @ [(C_PatchMachine (machine_of t), ok')]" by simp
    have "case q of Ok i \<Rightarrow> accepted \<and> instance_id t = i | _ \<Rightarrow> instance_id t = [] \<and> \<not> is_ok r"
      using one(8,10) pass(7) by (cases q) auto
    moreover have "\<not> machine_leaving ym" "MachineScope_GetInstanceID ym = []" "mutations w' = mutations w @ new"
      using one(1,3,4) m by simp_all
    ultimately show ?thesis
      using one(2,5,7) before after
      by - (rule exI [of _ new], intro conjI disjI2, assumption, rule exI [of _ req], rule exI [of _ before],
          rule exI [of _ x], rule exI [of _ q], rule exI [of _ x'], rule exI [of _ accepted],
          rule exI [of _ after], rule exI [of _ "machine_of t"], rule exI [of _ ok'], intro conjI; assumption)
  qed
qed

text \<open>The first pass over a machine in an empty cloud asks once and remembers the answer.\<close>

theorem machine_created_once_witness:
  "\<exists>req ym'. filter is_vm_create (mutations (snd (sim_machine_run sim_empty))) = [C_InstanceCreate req] \<and>
     last (calls (snd (sim_machine_run sim_empty))) = (C_PatchMachine ym', True) \<and>
     MachineScope_GetInstanceID ym' = ''m1''"
proof -
  let ?w = "snd (sim_machine_run sim_empty)"
  let ?name = "\<lambda>c. case c of C_InstanceCreate req \<Rightarrow> cir_Name req | _ \<Rightarrow> []"
  have asked: "map ?name (filter is_vm_create (mutations ?w)) = [''m1'']" "snd (last (calls ?w))"
    by (simp_all add: is_vm_create_def evaluate evaluate_machine)
  have answer: "fst (YandexClient_ComputeCreate sim_sdk req x) = Ok (cir_Name req)" for req x
    by (simp add: evaluate)
  from machine_created_once [OF prod.collapse [symmetric] sim_machine_fetch,
      of sim_lib sim_sdk "''default''" "''m1''" sim_empty]
  show ?thesis
  proof (elim exE conjE disjE)
    fix new
    assume "mutations ?w = mutations (start sim_empty) @ new" "filter is_vm_create new = []"
    with asked(1) show ?thesis by simp
  next
    fix new req x q x' accepted ym' ok after
    assume new: "mutations ?w = mutations (start sim_empty) @ new"
        "filter is_vm_create new = [C_InstanceCreate req]"
      and answered: "YandexClient_ComputeCreate sim_sdk req x = (q, x')"
        "case q of Ok i \<Rightarrow> accepted \<and> MachineScope_GetInstanceID ym' = i
         | _ \<Rightarrow> MachineScope_GetInstanceID ym' = [] \<and> \<not> is_ok (fst (sim_machine_run sim_empty))"
      and patched: "calls ?w = calls x' @ after @ [(C_PatchMachine ym', ok)]"
    from new have f: "filter is_vm_create (mutations ?w) = [C_InstanceCreate req]" by simp
    with asked(1) have "cir_Name req = ''m1''" by simp
    with answer [of req x] answered have "MachineScope_GetInstanceID ym' = ''m1''" by simp
    moreover from patched have "last (calls ?w) = (C_PatchMachine ym', ok)" by simp
    with asked(2) have "last (calls ?w) = (C_PatchMachine ym', True)" by simp
    ultimately show ?thesis using f by (intro exI [of _ req] exI [of _ ym'] conjI)
  qed
qed

section \<open>Deletion\<close>

text \<open>
  C17: a pass over a machine that is being deleted changes targets only, and asks for the deletion of the
  instance at most once, last, for the instance it remembers, when that instance was found and is not
  already going, and after a control plane machine was taken out of the load balancer.
\<close>

theorem machine_delete_order:
  fixes sdk :: "'e SDK"
  assumes run: "YandexMachine_Reconcile L K (YandexClient sdk) ns name w = (r, w')"
    and fetched: "external (Get_YandexMachine K ns name) w = (Ok ym, v)"
    and leaving: "machine_leaving ym"
  shows "\<exists>ts. list_all is_target_change ts \<and>
    (mutations w' = mutations w @ ts \<or>
     (\<exists>machine sc vm v1 v2 v3. fst (external (GetOwnerMachine K (ym_Meta ym)) v) = Ok (Some machine) \<and>
        mutations w' = mutations w @ ts @ [C_InstanceDelete (MachineScope_GetInstanceID ym)] \<and>
        YandexClient_ComputeGet sdk (MachineScope_GetInstanceID ym) v1 = (Ok vm, v2) \<and>
        in_Status vm \<noteq> InstanceStatusDeleting \<and>
        deregistered L (LB_of sdk sc) \<lparr>ms_Machine = machine, ms_YandexMachine = ym, ms_before = ym\<rparr> v2 v3 \<and>
        mutations v3 = mutations w @ ts))"
  using run
proof (cases rule: machine_pass)
  case idle
  then show ?thesis by (intro exI [of _ "[]"]) (simp add: mutations_def)
next
  case (pass machine ym0 v' w1 sc r0 t ok')
  from pass(1) fetched have ym0: "ym0 = ym" "v' = v" by simp_all
  let ?s = "fetched_machine machine ym w1"
  have m: "mutations w' = mutations (m_world t)" "mutations w1 = mutations w"
    using pass(3,6) by (simp_all add: mutations_def is_mutation_def)
  from leaving have "machine_leaving (machine_of ?s)" by simp
  from pass(5) [unfolded ym0] this obtain q u where d: "Compute_Delete L (C_of sdk sc) (LB_of sdk sc) ?s = (q, u)"
    "m_world t = m_world u" by (rule leaving_body)
  from d(1) show ?thesis
  proof (cases rule: provider.Compute_Delete_run)
    case absent
    with m d(2) show ?thesis by (intro exI [of _ "[]"]) simp
  next
    case (gone e x)
    with m d(2) show ?thesis by (auto simp: grows_by_def)
  next
    case waits
    with m d(2) show ?thesis by (auto simp: grows_by_def)
  next
    case (asked vm x x')
    from asked(5) m obtain ts where ts: "mutations x' = mutations w @ ts" "list_all is_target_change ts"
      by (auto simp: grows_by_def)
    with asked m d(2) pass(2) ym0 show ?thesis
      by (intro exI [of _ ts] conjI disjI2 exI [of _ machine] exI [of _ sc] exI [of _ vm]
          exI [of _ w1] exI [of _ x] exI [of _ x']) (simp_all add: fetched_machine_def)
  qed
qed

theorem machine_delete_order_witness:
  "mutations (snd (sim_machine_run sim_departing)) =
     [C_RemoveTargets \<lparr>rtr_TargetGroupId = ''lb1'', rtr_Targets = [target_of ''10.0.0.5'' ''subnet'']\<rparr>,
      C_InstanceDelete ''m1''] \<and>
   (\<exists>sc vm v1 v2 v3. YandexClient_ComputeGet sim_sdk ''m1'' v1 = (Ok vm, v2) \<and>
      deregistered sim_lib (LB_of sim_sdk sc) \<lparr>ms_Machine = sim_machine, ms_YandexMachine = sim_ym sim_departing,
        ms_before = sim_ym sim_departing\<rparr> v2 v3 \<and>
      mutations v3 = [C_RemoveTargets \<lparr>rtr_TargetGroupId = ''lb1'',
        rtr_Targets = [target_of ''10.0.0.5'' ''subnet'']\<rparr>])"
  (is "mutations ?w = [?out, _] \<and> _")
proof -
  have m: "mutations ?w = [?out, C_InstanceDelete ''m1'']"
    by (simp add: sim_departing_def target_of_def evaluate evaluate_machine)
  have i: "MachineScope_GetInstanceID (sim_ym sim_departing) = ''m1''" "machine_leaving (sim_ym sim_departing)"
    by (simp_all add: sim_departing_def evaluate evaluate_machine)
  have o: "fst (external (GetOwnerMachine sim_kube meta) (start e)) = Ok (Some sim_machine)" for meta e
    by (simp add: external_def)
  from machine_delete_order [OF prod.collapse [symmetric] sim_machine_fetch i(2),
      of sim_lib sim_sdk "''default''" "''m1''"] m i(1) o
  show ?thesis
    by (auto simp: list_all_iff) blast
qed

text \<open>
  C10: the finalizer of a machine is given up only by a pass over a machine that is being deleted, and
  only when it remembers no instance, or its instance was looked up in this pass and not found and
  a control plane machine was taken out of the load balancer.  No instance is deleted in that pass.
\<close>

theorem machine_release:
  fixes sdk :: "'e SDK"
  assumes run: "YandexMachine_Reconcile L K (YandexClient sdk) ns name w = (r, w')"
    and fetched: "external (Get_YandexMachine K ns name) w = (Ok ym, v)"
    and patched: "calls w' = calls w @ cs @ [(C_PatchMachine ym', ok)]"
    and dropped: "has_machine_finalizer L ym" "\<not> has_machine_finalizer L ym'"
    and laws: "finalizer_laws L"
  shows "machine_leaving ym \<and> C_InstanceDelete i \<notin> set (drop (length (mutations w)) (mutations w')) \<and>
    (MachineScope_GetInstanceID ym = [] \<or>
     (\<exists>machine sc e v1 v2 v3. fst (external (GetOwnerMachine K (ym_Meta ym)) v) = Ok (Some machine) \<and>
        YandexClient_ComputeGet sdk (MachineScope_GetInstanceID ym) v1 = (Err e, v2) \<and> IsNotFound L (Some e) \<and>
        deregistered L (LB_of sdk sc) \<lparr>ms_Machine = machine, ms_YandexMachine = ym, ms_before = ym\<rparr> v2 v3 \<and>
        calls v3 = calls w @ cs))"
proof (rule machine_pass_patched [OF run fetched patched])
  fix machine and w1 :: "'e World" and sc r0 t
  let ?s = "fetched_machine machine ym w1"
  assume owner: "fst (external (GetOwnerMachine K (ym_Meta ym)) v) = Ok (Some machine)"
    and w1: "calls w1 = calls w" and body: "machine_body L K (C_of sdk sc) (LB_of sdk sc) ?s = (r0, t)"
    and t: "calls (m_world t) = calls w @ cs" "machine_of t = ym'" "mutations w' = mutations (m_world t)"
  have keeps: "has_machine_finalizer L (adopted L ym)"
    using laws by (simp add: adopted_def finalizer_laws_def)
  have leaving: "machine_leaving ym"
  proof (rule ccontr)
    assume "\<not> machine_leaving ym"
    then have "\<not> machine_leaving (machine_of ?s)" by simp
    from body this have "om_Finalizers (ym_Meta (machine_of t)) = om_Finalizers (ym_Meta (adopted L ym))"
      by (cases rule: live_body) (auto dest: pass_end(5))
    with keeps dropped(2) t(2) show False by simp
  qed
  then have "machine_leaving (machine_of ?s)" by simp
  from body this obtain q u where d: "Compute_Delete L (C_of sdk sc) (LB_of sdk sc) ?s = (q, u)"
      "m_world t = m_world u" and res: "if q = Ok True then r0 = Ok no_requeue \<and> machine_of t = released L (machine_of u)
        else machine_of t = machine_of u \<and> (if q = Ok False then r0 = Ok requeue_later else \<not> is_ok r0)"
    by (rule leaving_body)
  have "ym_Meta (machine_of u) = ym_Meta ym"
    using every_runD [OF spec_frame_parts(3) d(1)] by (simp add: spec_frame_def machine_frame_def)
  with res dropped t(2) have q: "q = Ok True" by (auto split: if_splits)
  have m1: "mutations w1 = mutations w" using w1 by (simp add: mutations_def)
  from d(1) show ?thesis
  proof (cases rule: provider.Compute_Delete_run)
    case absent
    with leaving t(3) d(2) m1 show ?thesis by simp
  next
    case (gone e x)
    from gone(6) m1 t(3) d(2) obtain ts where "mutations w' = mutations w @ ts" "list_all is_target_change ts"
      by (auto simp: grows_by_def)
    then have "C_InstanceDelete i \<notin> set (drop (length (mutations w)) (mutations w'))"
      by (auto simp: list_all_iff)
    with leaving gone owner t(1) d(2) show ?thesis
      by (intro conjI disjI2 exI [of _ machine] exI [of _ sc] exI [of _ e] exI [of _ w1]
          exI [of _ x] exI [of _ "m_world u"]) (simp_all add: fetched_machine_def)
  qed (use q in auto)
qed

theorem machine_release_witness:
  "machine_leaving (sim_ym sim_unborn) \<and> C_InstanceDelete ''m1'' \<notin> set (mutations (snd (sim_machine_run sim_unborn)))"
proof -
  let ?gone = "released sim_lib (sim_ym sim_unborn)"
  have c: "calls (snd (sim_machine_run sim_unborn)) = calls (start sim_unborn) @ [] @ [(C_PatchMachine ?gone, True)]"
    by (simp add: sim_unborn_def released_def evaluate evaluate_machine)
  have f: "has_machine_finalizer sim_lib (sim_ym sim_unborn)" "\<not> has_machine_finalizer sim_lib ?gone"
    by (simp_all add: sim_unborn_def released_def evaluate)
  from machine_release [OF prod.collapse [symmetric] sim_machine_fetch c f sim_lib_finalizer_laws]
  show ?thesis by simp
qed

section \<open>Readiness\<close>

text \<open>
  C12: the ready flag of a machine is raised only in a pass that read its instance, by the identifier the
  object carries, found it running with exactly one address, recorded that address, and, for a
  control plane machine, registered it with the subnet of its first interface at the load balancer.
\<close>

theorem machine_ready:
  fixes sdk :: "'e SDK"
  assumes run: "YandexMachine_Reconcile L K (YandexClient sdk) ns name w = (r, w')"
    and fetched: "external (Get_YandexMachine K ns name) w = (Ok ym, v)"
    and patched: "calls w' = calls w @ cs @ [(C_PatchMachine ym', ok)]"
    and raised: "\<not> ymst_Ready (ym_Status ym)" "ymst_Ready (ym_Status ym')"
  shows "\<not> machine_leaving ym \<and>
    (\<exists>machine sc vm a v1 v2. fst (external (GetOwnerMachine K (ym_Meta ym)) v) = Ok (Some machine) \<and>
       YandexClient_ComputeGet sdk (MachineScope_GetInstanceID ym') v1 = (Ok vm, v2) \<and>
       in_Status vm = InstanceStatusRunning \<and> getInstanceAddress L vm = Inr [a] \<and>
       MachineScope_GetAddresses ym' = [a] \<and>
       (IsControlPlaneMachine L machine \<longrightarrow>
          is_ok (fst (LB_AddTarget (YandexClient sdk) sc (na_Address a)
            (ni_SubnetID (hd (yms_NetworkInterfaces (ym_Spec ym')))) v2))))"
proof (rule machine_pass_patched [OF run fetched patched])
  fix machine and w1 :: "'e World" and sc r0 t
  let ?s = "fetched_machine machine ym w1"
  assume owner: "fst (external (GetOwnerMachine K (ym_Meta ym)) v) = Ok (Some machine)"
    and body: "machine_body L K (C_of sdk sc) (LB_of sdk sc) ?s = (r0, t)" and t: "machine_of t = ym'"
  have live: "\<not> machine_leaving ym"
  proof
    assume "machine_leaving ym"
    then have "machine_leaving (machine_of ?s)" by simp
    from body this obtain q u where "Compute_Delete L (C_of sdk sc) (LB_of sdk sc) ?s = (q, u)"
      "machine_of t = released L (machine_of u) \<or> machine_of t = machine_of u"
      by (rule leaving_body) (auto split: if_splits)
    then have "ymst_Ready (ym_Status (machine_of t)) = ymst_Ready (ym_Status ym)"
      using every_runD [OF spec_frame_parts(3)] by (fastforce simp: spec_frame_def machine_frame_def)
    with raised t show False by simp
  qed
  then have "\<not> machine_leaving (machine_of ?s)" by simp
  from body this show ?thesis
  proof (cases rule: live_body)
    case (pass s1 q u)
    have same: "ymst_Ready (ym_Status (machine_of u)) = ymst_Ready (ym_Status ym)"
      using every_runD [OF Compute_Reconcile_frame pass(4)] pass(1) by (simp add: machine_frame_def)
    show ?thesis
    proof (cases "is_ok q")
      case True
      then obtain x where q: "q = Ok x" by (cases q) auto
      from pass(5) True have "settle_instance L u = (r0, t)" by simp
      from settled_pass [OF pass(4) True this] obtain j where
        j: "MachineScope_GetInstanceStatus (machine_of u) = Some j" "instance_settled j r0 (machine_of u) (machine_of t)" .
      with same raised t have run: "j = InstanceStatusRunning" by (auto simp: instance_settled_def)
      from running_pass [OF pass(4) [unfolded q]] j(1) [unfolded run] obtain vm a y z where
        vm: "ComputeGet (GetClient (C_of sdk sc)) (instance_id u) y = (Ok vm, z)"
        "in_Status vm = InstanceStatusRunning" "getInstanceAddress L vm = Inr [a]"
        "MachineScope_GetAddresses (machine_of u) = [a]"
        "IsControlPlaneMachine L (ms_Machine (m_scope s1)) \<Longrightarrow>
           \<exists>w'. AddTarget (LB_of sdk sc) (na_Address a)
             (ni_SubnetID (hd (yms_NetworkInterfaces (ym_Spec (machine_of u))))) z = (Ok (), w')"
        by metis
      from pass_end(2,3) [OF pass(4,5)] j(2) t have
        "ym_Spec ym' = ym_Spec (machine_of u)" "MachineScope_GetInstanceID ym' = instance_id u"
        "MachineScope_GetAddresses ym' = MachineScope_GetAddresses (machine_of u)"
        by (auto simp: instance_settled_def)
      with vm live owner pass(2) show ?thesis
        by (intro conjI exI [of _ machine] exI [of _ sc] exI [of _ vm] exI [of _ a] exI [of _ y]
            exI [of _ z]) (auto simp: ClusterScope_getter_def)
    next
      case False
      with pass(5) same raised t show ?thesis by simp
    qed
  qed (use raised t in auto)
qed

theorem machine_ready_witness:
  "\<exists>vm v1 v2. YandexClient_ComputeGet sim_sdk (MachineScope_GetInstanceID sim_ready) v1 = (Ok vm, v2) \<and>
     in_Status vm = InstanceStatusRunning"
  using machine_ready [OF prod.collapse [symmetric] sim_machine_fetch sim_ready_run(2)
      sim_full_machine(2) sim_ready_run(3)]
  by blast

section \<open>The verdict of a pass\<close>

text \<open>
  C30: a pass over a live machine that succeeds ends with a successful patch.  While the owner has no
  bootstrap data the pass does no more than add the finalizer and is not run again.  Once there is
  bootstrap data the pass looks its instance up, after the finalizer was persisted and by the
  identifier that the patched object carries, and the patched object carries the status so read, or
  the status of a deleted instance when the look-up found none; the pass is run again later unless
  that status is running, and an instance that is neither starting, provisioning nor running leaves a
  failure message.
\<close>

theorem machine_verdict:
  fixes sdk :: "'e SDK"
  assumes run: "YandexMachine_Reconcile L K (YandexClient sdk) ns name w = (Ok x, w')"
    and fetched: "external (Get_YandexMachine K ns name) w = (Ok ym, v)"
    and live: "\<not> machine_leaving ym" and worked: "calls w' \<noteq> calls w"
  shows "\<exists>machine ym'. fst (external (GetOwnerMachine K (ym_Meta ym)) v) = Ok (Some machine) \<and>
    last (calls w') = (C_PatchMachine ym', True) \<and>
    (if ma_DataSecretName machine = None
     then x = no_requeue \<and> ym' = adopted L ym \<and>
       calls w' = calls w @ [(C_PatchMachine ym', True), (C_PatchMachine ym', True)]
     else \<exists>q v1 v2 status. prefix (calls w @ [(C_PatchMachine (adopted L ym), True)]) (calls v1) \<and>
       YandexClient_ComputeGet sdk (MachineScope_GetInstanceID ym') v1 = (q, v2) \<and>
       prefix (calls v2) (calls w') \<and> status_read L q status \<and>
       MachineScope_GetInstanceStatus ym' = Some status \<and>
       x = (if status = InstanceStatusRunning then no_requeue else requeue_later) \<and>
       (status \<notin> {InstanceStatusRunning, InstanceStatusStarting, InstanceStatusProvisioning} \<longrightarrow>
         ymst_FailureMessage (ym_Status ym') =
           Some (''YandexMachine instance state '' @ status @ '' is unexpected'')))"
  using run
proof (cases rule: machine_pass)
  case idle
  from idle(1) worked show ?thesis by simp
next
  case (pass machine ym0 v' w1 sc r0 t ok)
  from pass(1) fetched have ym0: "ym0 = ym" "v' = v" by simp_all
  have last: "calls w' = calls (m_world t) @ [(C_PatchMachine (machine_of t), True)]" and r0: "r0 = Ok x"
    using pass(6-8) by auto
  from live have "\<not> machine_leaving (machine_of (fetched_machine machine ym w1))" by simp
  from pass(5) [unfolded ym0 r0] this show ?thesis
  proof (cases rule: live_body)
    case waiting
    with last pass(2,3) ym0 show ?thesis
      by (intro exI [of _ machine] exI [of _ "adopted L ym"]) auto
  next
    case p: (pass s1 q u)
    from p(5) have q: "is_ok q" "settle_instance L u = (Ok x, t)" by (auto split: if_splits)
    then obtain y where y: "q = Ok y" by (cases q) auto
    from settled_pass [OF p(4) q] obtain j where j: "MachineScope_GetInstanceStatus (machine_of u) = Some j"
      "instance_settled j (Ok x) (machine_of u) (machine_of t)" .
    obtain a v1 v2 status where look: "prefix (calls (m_world s1)) (calls v1)"
      "YandexClient_ComputeGet sdk (instance_id u) v1 = (a, v2)" "prefix (calls v2) (calls (m_world u))"
      "MachineScope_GetInstanceStatus (machine_of u) = Some status" "status_read L a status"
      using p(4) [unfolded y] by (rule status_pass)
    note fin = pass_end [OF p(4,5)]
    have "prefix (calls v2) (calls w')" using look(3) fin(1) last by simp
    moreover have "prefix (calls w @ [(C_PatchMachine (adopted L ym), True)]) (calls v1)"
      using look(1) p(3) pass(3) by simp
    moreover have "YandexClient_ComputeGet sdk (instance_id t) v1 = (a, v2)" using look(2) fin(3) by simp
    moreover have "status = j" using look(4) j(1) by simp
    ultimately have verdict: "\<exists>q v1 v2 status. prefix (calls w @ [(C_PatchMachine (adopted L ym), True)]) (calls v1) \<and>
        YandexClient_ComputeGet sdk (instance_id t) v1 = (q, v2) \<and> prefix (calls v2) (calls w') \<and>
        status_read L q status \<and> MachineScope_GetInstanceStatus (machine_of t) = Some status \<and>
        x = (if status = InstanceStatusRunning then no_requeue else requeue_later) \<and>
        (status \<notin> {InstanceStatusRunning, InstanceStatusStarting, InstanceStatusProvisioning} \<longrightarrow>
          ymst_FailureMessage (ym_Status (machine_of t)) =
            Some (''YandexMachine instance state '' @ status @ '' is unexpected''))"
      using look(5) j(2) unfolding instance_settled_def
      by - (rule exI [of _ a], rule exI [of _ v1], rule exI [of _ v2], rule exI [of _ j], simp)
    have boot: "ma_DataSecretName machine \<noteq> None" using p(6) by simp
    show ?thesis
    proof (intro exI [of _ machine] exI [of _ "machine_of t"] conjI)
      show "fst (external (GetOwnerMachine K (ym_Meta ym)) v) = Ok (Some machine)" using pass(2) ym0 by simp
      show "last (calls w') = (C_PatchMachine (machine_of t), True)" using last by simp
    qed (simp only: if_not_P [OF boot], rule verdict)
  qed simp
qed

theorem machine_verdict_witness:
  "last (calls (snd (sim_machine_run sim_full))) = (C_PatchMachine sim_ready, True) \<and>
   (\<exists>q v1 v2. YandexClient_ComputeGet sim_sdk (MachineScope_GetInstanceID sim_ready) v1 = (q, v2) \<and>
     status_read sim_lib q InstanceStatusRunning) \<and>
   MachineScope_GetInstanceStatus sim_ready = Some InstanceStatusRunning"
proof -
  have l: "last (calls (snd (sim_machine_run sim_full))) = (C_PatchMachine sim_ready, True)"
    by (subst sim_ready_run(2)) simp
  have i: "MachineScope_GetInstanceStatus sim_ready = Some InstanceStatusRunning"
    by (simp add: sim_ready_def evaluate evaluate_machine)
  have o: "fst (external (GetOwnerMachine sim_kube meta) (start e)) = Ok (Some sim_machine)"
    "ma_DataSecretName sim_machine \<noteq> None" for meta e
    by (simp_all add: external_def sim_machine_def)
  from machine_verdict [OF sim_ready_run(1) sim_machine_fetch sim_full_machine(1) sim_ready_worked]
  obtain machine ym' where "Ok (Some sim_machine) = Ok (Some machine)" "sim_ready = ym'"
    and "ma_DataSecretName machine = None \<or> (\<exists>q v1 v2 status.
      YandexClient_ComputeGet sim_sdk (MachineScope_GetInstanceID ym') v1 = (q, v2) \<and>
      status_read sim_lib q status \<and> MachineScope_GetInstanceStatus ym' = Some status)"
    unfolding o(1) l by (metis (no_types, lifting) Pair_inject ext_call.inject(22))
  with l i o(2) show ?thesis by auto
qed

text \<open>
  C31: the switch over the status of the instance never panics on a nil status.  The handler panics
  exactly when the finalizer was persisted, the owner has bootstrap data, and the compute service
  itself panics on the state in which that patch left the pass, with the same panic in the same final
  state; and the compute service never succeeds without leaving a status.
\<close>

theorem machine_status_present:
  "(YandexMachine_reconcile L K cg LB s = (Panic m, s') \<longleftrightarrow>
     (\<exists>t. MachineScope_PatchObject K (set_ym (ym_finalizers (\<lambda>fs. AddFinalizer L fs MachineFinalizer)) s) = (Ok (), t) \<and>
        ma_DataSecretName (ms_Machine (m_scope s)) \<noteq> None \<and> Compute_Reconcile L K cg LB t = (Panic m, s'))) \<and>
   \<not> (\<exists>t u. Compute_Reconcile L K cg LB t = (Ok (), u) \<and> MachineScope_GetInstanceStatus (machine_of u) = None)"
proof (intro conjI)
  let ?s1 = "set_ym (ym_finalizers (\<lambda>fs. AddFinalizer L fs MachineFinalizer)) s"
  obtain p t where p: "MachineScope_PatchObject K ?s1 = (p, t)" by fastforce
  have kept: "ms_Machine (m_scope t) = ms_Machine (m_scope s)"
    using PatchObject_run(2) [OF p] by simp
  obtain q v where q: "Compute_Reconcile L K cg LB t = (q, v)" by fastforce
  have run: "YandexMachine_reconcile L K cg LB s =
      (case p of
         Ok _ \<Rightarrow>
           if ma_DataSecretName (ms_Machine (m_scope s)) = None then (Ok no_requeue, t)
           else (case q of Ok _ \<Rightarrow> settle_instance L v
             | Err e \<Rightarrow> (Err (wrapf ''error reconciling instance resources: '' e), v) | Panic m \<Rightarrow> (Panic m, v))
       | Err e \<Rightarrow> (Err (wrapf ''failed to add finalizer: '' e), t) | Panic m \<Rightarrow> (Panic m, t))"
    using p q kept by (cases p; cases q) (simp_all add: YandexMachine_reconcile_def)
  have calm: "settle_instance L v \<noteq> (Panic m, s')" if "is_ok q"
    using settled_pass [OF q that] by (fastforce simp: instance_settled_def)
  have "YandexMachine_reconcile L K cg LB s = (Panic m, s') \<longleftrightarrow>
      p = Ok () \<and> ma_DataSecretName (ms_Machine (m_scope s)) \<noteq> None \<and> q = Panic m \<and> v = s'"
    unfolding run using calm PatchObject_run(3) [OF p] by (simp split: outcome.split)
  then show "YandexMachine_reconcile L K cg LB s = (Panic m, s') \<longleftrightarrow>
     (\<exists>t. MachineScope_PatchObject K ?s1 = (Ok (), t) \<and>
        ma_DataSecretName (ms_Machine (m_scope s)) \<noteq> None \<and> Compute_Reconcile L K cg LB t = (Panic m, s'))"
    using q unfolding p by auto
  show "\<not> (\<exists>t u. Compute_Reconcile L K cg LB t = (Ok (), u) \<and> MachineScope_GetInstanceStatus (machine_of u) = None)"
    by (auto elim: Compute_Reconcile_status)
qed

section \<open>Metrics\<close>

text \<open>
  The request metrics that agree with the trace before a reconciliation of a machine agree with it
  after, on every path.
\<close>

lemma machine_pass_metrics:
  fixes sdk :: "'e SDK"
  assumes run: "YandexMachine_Reconcile L K (YandexClient sdk) ns name w = (r, w')"
    and sync: "metrics_in_sync w"
  shows "metrics_in_sync w'"
  using run
proof (cases rule: YandexMachine_Reconcile_run)
  case idle
  with sync show ?thesis by (simp add: metrics_in_sync_def)
next
  case (scoped ym machine cluster yc v w1 s' sc)
  have "every_run (on_m_world keeps_sync) (YandexMachine_scoped L K (C_of sdk sc) (LB_of sdk sc))"
    by (rule sync_machine.run_scoped) (simp add: traced_patch_keeps_sync)
  from every_runD [OF this scoped(7)] have "keeps_sync w1 w'"
    using scoped(8) by (simp add: on_m_world_def)
  with sync scoped(4,5) show ?thesis by (simp add: keeps_sync_def metrics_in_sync_def)
qed

section \<open>From a cluster to its machines\<close>

text \<open>
  A change of a \<open>YandexCluster\<close> enqueues, in order, one request for every machine of its owner that
  has an infrastructure reference, named after that reference and in the machine's namespace; any
  failed look-up, a missing owner or another kind of object enqueues nothing, and no failure escapes.
\<close>

theorem cluster_to_machines:
  fixes K :: "'e Kube"
  shows "\<exists>w'. YandexClusterToYandexMachines K ob w = (Ok (
      case ob of
        Obj_YandexCluster c \<Rightarrow>
          (case external (GetOwnerCluster K (yc_Meta c)) w of
             (Ok (Some cluster), w1) \<Rightarrow>
               (case external (List_Machines K (om_Namespace (yc_Meta c))
                   [ClusterNameLabel \<mapsto> om_Name (cl_Meta cluster)]) w1 of
                  (Ok ms, w2) \<Rightarrow> map (\<lambda>m. (om_Namespace (ma_Meta m), ma_InfrastructureRef m))
                    (filter (\<lambda>m. ma_InfrastructureRef m \<noteq> []) ms)
                | _ \<Rightarrow> [])
           | _ \<Rightarrow> [])
      | _ \<Rightarrow> []), w') \<and> calls w' = calls w"
proof (cases ob)
  case (Obj_YandexCluster c)
  obtain q w1 where q: "external (GetOwnerCluster K (yc_Meta c)) w = (q, w1)" by fastforce
  note qs = external_run(1,3) [OF q]
  show ?thesis
  proof (cases "\<exists>cluster. q = Ok (Some cluster)")
    case True
    then obtain cluster where cl: "q = Ok (Some cluster)" ..
    obtain l w2 where l: "external (List_Machines K (om_Namespace (yc_Meta c))
        [ClusterNameLabel \<mapsto> om_Name (cl_Meta cluster)]) w1 = (l, w2)" by fastforce
    note ls = external_run(1,3) [OF l]
    from Obj_YandexCluster q cl l qs ls show ?thesis
      by (cases l) (auto simp: YandexClusterToYandexMachines_def machine_requests_map Let_def)
  next
    case False
    with Obj_YandexCluster q qs show ?thesis
      by (cases q) (auto simp: YandexClusterToYandexMachines_def split: option.split)
  qed
qed (simp_all add: YandexClusterToYandexMachines_def)

end
