(* ===== verification/Provider_Runs.thy ===== *)
theory Provider_Runs
  imports Evidence Cluster_Properties Machine_Properties
begin

text \<open>
  The provider as a whole.  One process runs the two controllers at the same time, each with passes of its
  own: its trace is an interleaving of the traces of passes, which start at any moment, in any state of the
  environment.  The process may be killed at any request and started again; the history of the provider
  is made of the traces of its processes, each cut short somewhere.
\<close>

section \<open>Processes and histories\<close>

lemma append_in_shuffles: "xs @ ys \<in> shuffles xs ys"
  by (induction xs) (auto intro: Cons_in_shuffles_leftI)

text \<open>The counters are shared by the passes of a process, which increment them one at a time.\<close>

definition add_metrics :: "YcMetrics \<Rightarrow> YcMetrics \<Rightarrow> YcMetrics" where
  "add_metrics m n = \<lparr>APIDuration = (\<lambda>l. APIDuration m l + APIDuration n l),
     APIRequests = (\<lambda>l. APIRequests m l + APIRequests n l)\<rparr>"

inductive process_run :: "Lib \<Rightarrow> 'e Kube \<Rightarrow> 'e SDK \<Rightarrow> request list \<Rightarrow> YcMetrics \<Rightarrow> bool"
  for L K and sdk :: "'e SDK" where
  started: "process_run L K sdk [] no_metrics"
| cluster: "process_run L K sdk T m \<Longrightarrow>
    YandexCluster_Reconcile L K (YandexClient sdk) ns name (start e) = (r, w) \<Longrightarrow>
    T' \<in> shuffles T (calls w) \<Longrightarrow> process_run L K sdk T' (add_metrics m (metrics w))"
| machine: "process_run L K sdk T m \<Longrightarrow>
    YandexMachine_Reconcile L K (YandexClient sdk) ns name (start e) = (r, w) \<Longrightarrow>
    T' \<in> shuffles T (calls w) \<Longrightarrow> process_run L K sdk T' (add_metrics m (metrics w))"
| requests: "process_run L K sdk T m \<Longrightarrow>
    YandexClusterToYandexMachines K ob (start e) = (ms, w) \<Longrightarrow>
    T' \<in> shuffles T (calls w) \<Longrightarrow> process_run L K sdk T' (add_metrics m (metrics w))"

inductive provider_history :: "Lib \<Rightarrow> 'e Kube \<Rightarrow> 'e SDK \<Rightarrow> request list \<Rightarrow> bool"
  for L K and sdk :: "'e SDK" where
  installed: "provider_history L K sdk []"
| restarted: "provider_history L K sdk H \<Longrightarrow> process_run L K sdk T m \<Longrightarrow> prefix U T \<Longrightarrow>
    provider_history L K sdk (H @ U)"

text \<open>The map from a cluster to its machines reads the API server only.\<close>

definition silent :: "'e World \<Rightarrow> 'e World \<Rightarrow> bool" where
  "silent w w' \<longleftrightarrow> calls w' = calls w \<and> metrics w' = metrics w"

interpretation silent: run_relation silent
  by unfold_locales (auto simp: silent_def)

lemma external_silent: "every_run silent (external f)"
  by (rule every_runI) (auto simp: silent_def dest: external_run)

lemma map_pass_silent: "every_run silent (YandexClusterToYandexMachines K ob)"
  by (auto simp: YandexClusterToYandexMachines_def Let_def intro!: silent.run_intros external_silent
      split: runtime_object.split option.split)

section \<open>Every request has its grounds\<close>

lemma process_grounded:
  assumes "process_run L K sdk T m" "finalizer_laws L"
  shows "grounded (justified L sdk) T"
  using assms
proof (induction rule: process_run.induct)
  case (cluster T m ns name e r w T')
  then show ?case using cluster_pass_grounded just.grounded_shuffle by fastforce
next
  case (machine T m ns name e r w T')
  then show ?case using machine_pass_grounded just.grounded_shuffle by fastforce
next
  case (requests T m ob e ms w T')
  then have "calls w = []" using every_runD [OF map_pass_silent] by (fastforce simp: silent_def)
  with requests show ?case by simp
qed simp

lemma history_grounded:
  assumes "provider_history L K sdk H" "finalizer_laws L"
  shows "grounded (justified L sdk) H"
  using assms
proof (induction rule: provider_history.induct)
  case (restarted H T m U)
  then show ?case by (meson grounded_prefix just.grounded_concat process_grounded)
qed simp

text \<open>
  C3: in every history of the provider, however its passes interleave and wherever its processes were killed,
  each request has its grounds among the requests before it.  A virtual machine is asked for only after the
  API server took the object of that name with the finalizer, not being deleted and without an
  instance; it is deleted, and its address added to a target group, only after a successful look-up of
  an instance.  A target group, backend group or load balancer is created only after it and the
  resources before it were looked up under the same name, and deleted only after the
  resources before it in the order of deletion were looked up.  Requests by identifier for groups and balancers
  and all requests for network load balancers are never sent.
\<close>

theorem requests_justified:
  assumes "provider_history L K sdk (before @ (c, ok) # after)" "finalizer_laws L"
  shows "justified L sdk (set before) (c, ok)"
  using history_grounded [OF assms] by (rule grounded_at)

text \<open>
  A process on the simulated cloud: a pass over the fresh cluster runs within a pass over a machine, after the
  first request of the latter.
\<close>

definition sim_interleaved :: "request list" where
  "sim_interleaved =
     (let c = calls (snd (sim_cluster_run sim_empty)); m = calls (snd (sim_machine_run sim_full)) in
      hd m # c @ tl m)"

lemma sim_process:
  "\<exists>m. process_run sim_lib sim_kube sim_sdk sim_interleaved m"
proof -
  let ?c = "calls (snd (sim_cluster_run sim_empty))" and ?m = "calls (snd (sim_machine_run sim_full))"
  have "?c \<in> shuffles [] ?c" by simp
  from process_run.cluster [OF process_run.started prod.collapse [symmetric] this]
  have "process_run sim_lib sim_kube sim_sdk ?c
    (add_metrics no_metrics (metrics (snd (sim_cluster_run sim_empty))))" .
  moreover have "sim_interleaved \<in> shuffles ?c (hd ?m # tl ?m)"
    unfolding sim_interleaved_def Let_def by (intro Cons_in_shuffles_rightI append_in_shuffles)
  moreover have "hd ?m # tl ?m = ?m" using sim_ready_worked by simp
  ultimately show ?thesis using process_run.machine [OF _ prod.collapse [symmetric]] by metis
qed

lemma sim_interleaved_creates:
  "\<exists>before req after. sim_interleaved = before @ (C_LoadBalancerCreate req, True) # after"
proof -
  have "\<exists>req. (C_LoadBalancerCreate req, True) \<in> set (calls (snd (sim_cluster_run sim_empty)))"
    by (simp add: evaluate)
  then obtain req where "(C_LoadBalancerCreate req, True) \<in> set sim_interleaved"
    unfolding sim_interleaved_def Let_def by auto
  then show ?thesis by (meson split_list)
qed

theorem requests_justified_witness:
  "\<exists>before req after. sim_interleaved = before @ (C_LoadBalancerCreate req, True) # after \<and>
     justified sim_lib sim_sdk (set before) (C_LoadBalancerCreate req, True)"
proof -
  obtain m where "process_run sim_lib sim_kube sim_sdk sim_interleaved m" using sim_process by blast
  from provider_history.restarted [OF provider_history.installed this prefix_order.refl]
  have h: "provider_history sim_lib sim_kube sim_sdk sim_interleaved" by simp
  obtain before req after where at: "sim_interleaved = before @ (C_LoadBalancerCreate req, True) # after"
    using sim_interleaved_creates by blast
  from requests_justified [OF h [unfolded at] sim_lib_finalizer_laws] at show ?thesis by blast
qed

section \<open>The counters\<close>

lemma length_filter_shuffle:
  "zs \<in> shuffles xs ys \<Longrightarrow> length (filter P zs) = length (filter P xs) + length (filter P ys)"
  using filter_shuffles [of P xs ys] length_shuffles by blast

lemma metrics_of_shuffle:
  "T' \<in> shuffles T cs \<Longrightarrow> metrics_of T' = add_metrics (metrics_of T) (metrics_of cs)"
  by (simp add: metrics_of_def add_metrics_def Let_def length_filter_shuffle fun_eq_iff)

lemma add_metrics_none [simp]: "add_metrics m no_metrics = m"
  by (simp add: add_metrics_def no_metrics_def)

lemma process_metrics: "process_run L K sdk T m \<Longrightarrow> m = metrics_of T"
proof (induction rule: process_run.induct)
  case started
  then show ?case by (simp add: metrics_of_Nil)
next
  case (cluster T m ns name e r w T')
  then have "metrics w = metrics_of (calls w)"
    using cluster_pass_metrics start_in_sync by (fastforce simp: metrics_in_sync_def)
  with cluster show ?case by (simp add: metrics_of_shuffle)
next
  case (machine T m ns name e r w T')
  then have "metrics w = metrics_of (calls w)"
    using machine_pass_metrics start_in_sync by (fastforce simp: metrics_in_sync_def)
  with machine show ?case by (simp add: metrics_of_shuffle)
next
  case (requests T m ob e ms w T')
  then have "calls w = []" "metrics w = no_metrics"
    using every_runD [OF map_pass_silent] by (fastforce simp: silent_def start_def)+
  with requests show ?case by (simp add: metrics_of_shuffle metrics_of_Nil)
qed

text \<open>
  C32: in a process the counters and histograms of the cloud requests agree with the trace, however the passes
  interleave: every request was observed once, under its labels and with its outcome, and nothing else was;
  and each observation has one value for each label of its collector, so that prometheus does not panic.
\<close>

theorem process_metrics_in_sync:
  assumes "process_run L K sdk T m"
  shows "m = metrics_of T \<and> fits_labels m"
  using process_metrics [OF assms] metrics_of_labels by simp

theorem process_metrics_in_sync_witness:
  "\<exists>m. process_run sim_lib sim_kube sim_sdk sim_interleaved m \<and> m = metrics_of sim_interleaved \<and> fits_labels m"
  using sim_process process_metrics_in_sync by blast

end
