(* ===== verification/Admission_Properties.thy ===== *)
theory Admission_Properties
  imports Machine_Properties
begin

text \<open>
  What the admission webhooks accept and refuse, over the whole of their input and over the history of
  an object, and how the machine controller's patches fare with them.
\<close>

section \<open>Addresses\<close>

text \<open>
  C40: the parser behind the address checks accepts as an IPv4 address exactly the dotted quads: four
  decimal numbers up to 255 without leading zeros, separated by dots, and nothing else.
\<close>

theorem ipv4_dotted_quads:
  "isIPv4 lookupHost s \<longleftrightarrow>
     (\<exists>a b c d. a \<le> 255 \<and> b \<le> 255 \<and> c \<le> 255 \<and> d \<le> 255 \<and>
        s = utoa a @ ''.'' @ utoa b @ ''.'' @ utoa c @ ''.'' @ utoa d)"
proof -
  have four: "length fs = 4 \<longleftrightarrow> (\<exists>a b c d. fs = [a, b, c, d])" for fs :: "nat list"
    by (auto simp: numeral_eq_Suc length_Suc_conv)
  have "(\<exists>fs. length fs = 4 \<and> list_all (\<lambda>f. f \<le> 255) fs \<and> s = dotted fs) \<longleftrightarrow>
      (\<exists>a b c d. list_all (\<lambda>f. f \<le> 255) [a, b, c, d] \<and> s = dotted [a, b, c, d])"
    unfolding four by blast
  then show ?thesis by (simp add: isIPv4_iff dotted_def)
qed

section \<open>YandexCluster\<close>

text \<open>
  C25: a \<open>YandexCluster\<close> is accepted at creation exactly when it does not ask for a network load balancer,
  its listener address is absent or an IPv4 address, and its endpoint is absent or names a port from
  1 to 65535 on an IPv4 address or on a name that resolves and does not parse as an address.
\<close>

theorem cluster_create_admitted:
  "YandexCluster_ValidateCreate lookupHost c = Allowed \<longleftrightarrow>
     lbs_Type (ycs_LoadBalancer (yc_Spec c)) \<noteq> LoadBalancerTypeNLB \<and>
     (let a = ls_Address (lbs_Listener (ycs_LoadBalancer (yc_Spec c))) in a = [] \<or> isIPv4 lookupHost a) \<and>
     (let ep = ycs_ControlPlaneEndpoint (yc_Spec c) in
        ep = zero_endpoint \<or>
        ep_Host ep \<noteq> [] \<and> 1 \<le> sint (ep_Port ep) \<and> sint (ep_Port ep) \<le> 65535 \<and>
        (isIPv4 lookupHost (ep_Host ep) \<or> ParseAddr (ep_Host ep) = None \<and> lookupHost (ep_Host ep)))"
  unfolding ValidateCreate_iff valid_endpoint_def by (simp add: Let_def)

text \<open>
  C22: along every history of accepted updates, whoever makes them, the load balancer specification is
  the one of the creation, the endpoint is absent or valid by one of the resolvers that the history
  used, which may change from one request to the next, and an endpoint that was there when the object
  was created is still there.
\<close>

theorem cluster_history:
  assumes "history R c d"
  shows "ycs_LoadBalancer (yc_Spec d) = ycs_LoadBalancer (yc_Spec c) \<and>
    (let now = ycs_ControlPlaneEndpoint (yc_Spec d); first = ycs_ControlPlaneEndpoint (yc_Spec c) in
       (now = zero_endpoint \<or> (\<exists>lookupHost \<in> R. valid_endpoint lookupHost now)) \<and> (first \<noteq> zero_endpoint \<longrightarrow> now = first))"
proof -
  have "ycs_ControlPlaneEndpoint (yc_Spec c) \<noteq> zero_endpoint \<Longrightarrow>
      ycs_ControlPlaneEndpoint (yc_Spec d) = ycs_ControlPlaneEndpoint (yc_Spec c)"
    using assms by (induction rule: history.induct) (auto dest: admitted_endpoint)
  with history_load_balancer [OF assms] history_endpoint [OF assms] show ?thesis by (simp add: Let_def)
qed

text \<open>The steps of the controller that the webhook lets through are part of the history.\<close>

theorem cluster_history_witness:
  "history {\<lambda>_. False} (sim_yandex_cluster [])
     (set_endpoint \<lparr>ep_Host = ''10.0.0.1'', ep_Port = 8443\<rparr> (sim_yandex_cluster [])) \<and>
   ycs_LoadBalancer (yc_Spec (set_endpoint \<lparr>ep_Host = ''10.0.0.1'', ep_Port = 8443\<rparr> (sim_yandex_cluster []))) =
     ycs_LoadBalancer (yc_Spec (sim_yandex_cluster [])) \<and>
   valid_endpoint (\<lambda>_. False) \<lparr>ep_Host = ''10.0.0.1'', ep_Port = 8443\<rparr>"
proof -
  let ?c = "sim_yandex_cluster []" and ?ep = "\<lparr>ep_Host = ''10.0.0.1'', ep_Port = 8443\<rparr>"
  have quad: "isIPv4 (\<lambda>_. False) ''10.0.0.1''" by code_simp
  have "YandexCluster_ValidateCreate (\<lambda>_. False) ?c = Allowed"
    by (simp add: ValidateCreate_iff sim_yandex_cluster_def LoadBalancerTypeALB_def LoadBalancerTypeNLB_def)
  moreover have "YandexCluster_ValidateUpdate (\<lambda>_. False) (set_endpoint ?ep ?c) (Obj_YandexCluster ?c) = Allowed"
    using quad by (simp add: ValidateUpdate_iff valid_endpoint_def set_endpoint_def sim_yandex_cluster_def)
  ultimately have h: "history {\<lambda>_. False} ?c (set_endpoint ?ep ?c)"
    by (blast intro: history.intros admitted.intros)
  from cluster_history [OF h] have "ycs_LoadBalancer (yc_Spec (set_endpoint ?ep ?c)) = ycs_LoadBalancer (yc_Spec ?c)"
    "?ep = zero_endpoint \<or> valid_endpoint (\<lambda>_. False) ?ep"
    by (simp_all add: Let_def set_endpoint_def)
  with h show ?thesis by (simp add: zero_endpoint_def)
qed

text \<open>
  What is refused is refused with its reasons.  An update that changes the load balancer, and moves
  an endpoint that was set, is answered with both field errors, in order, under the object's name, and
  an old object of another kind with a bad request.
\<close>

theorem cluster_update_refused:
  assumes "ycs_LoadBalancer (yc_Spec c) \<noteq> ycs_LoadBalancer (yc_Spec old)"
    and "ycs_ControlPlaneEndpoint (yc_Spec old) \<notin> {zero_endpoint, ycs_ControlPlaneEndpoint (yc_Spec c)}"
    and "\<And>x. ob \<noteq> Obj_YandexCluster x"
  shows "YandexCluster_ValidateUpdate lookupHost c (Obj_YandexCluster old) =
      NewInvalid ''YandexCluster'' (om_Name (yc_Meta c))
        [Invalid ''spec.loadBalancer'' (BadLoadBalancer (ycs_LoadBalancer (yc_Spec c))) ''field is immutable'',
         Invalid ''spec.controlPlaneEndpoint'' (BadEndpoint (ycs_ControlPlaneEndpoint (yc_Spec c)))
           ''field is immutable''] \<and>
    YandexCluster_ValidateUpdate lookupHost c ob =
      NewBadRequest ''failed to convert runtime Object to YandexCluster''"
  using assms
  by (cases ob) (auto simp: YandexCluster_ValidateUpdate_def verdict_def Let_def)

theorem cluster_update_refused_witness:
  "YandexCluster_ValidateUpdate (\<lambda>_. True) (sim_yandex_cluster []) Obj_Other =
     NewBadRequest ''failed to convert runtime Object to YandexCluster''"
proof -
  let ?c = "sim_yandex_cluster []"
  let ?old = "?c\<lparr>yc_Spec := (yc_Spec ?c)\<lparr>ycs_ControlPlaneEndpoint := \<lparr>ep_Host = ''h'', ep_Port = 1\<rparr>,
    ycs_LoadBalancer := (ycs_LoadBalancer (yc_Spec ?c))\<lparr>lbs_Name := ''other''\<rparr>\<rparr>\<rparr>"
  have "ycs_LoadBalancer (yc_Spec ?c) \<noteq> ycs_LoadBalancer (yc_Spec ?old)"
    "ycs_ControlPlaneEndpoint (yc_Spec ?old) \<notin> {zero_endpoint, ycs_ControlPlaneEndpoint (yc_Spec ?c)}"
    by (simp_all add: sim_yandex_cluster_def zero_endpoint_def)
  from cluster_update_refused [OF this, of Obj_Other] show ?thesis by simp
qed

section \<open>YandexMachineTemplate\<close>

text \<open>
  A template is accepted at creation exactly when it carries no provider identifier and its name is
  1 to 57 lower case letters, digits and hyphens that begin with a letter and do not end with a
  hyphen; the hyphen and five characters that a machine's name adds to it then fit a host name.
\<close>

theorem template_create_admitted:
  "YandexMachineTemplate_ValidateCreate t = Allowed \<longleftrightarrow>
     (let name = om_Name (ymt_Meta t) in
      yms_ProviderID (ymtr_Spec (ymts_Template (ymt_Spec t))) = None \<and>
      name \<noteq> [] \<and> is_lower (hd name) \<and> length name + 6 \<le> 63 \<and>
      list_all (\<lambda>c. c = CHR ''-'' \<or> is_lower c \<or> is_digit c) name \<and> last name \<noteq> CHR ''-'')"
  by (auto simp: YandexMachineTemplate_ValidateCreate_def nameRegex_iff template_name_char_def [abs_def] Let_def)

section \<open>Updates compared as JSON\<close>

text \<open>
  The converter does what its documentation says: an object has a specification, which depends on
  the specification of the machine, and \<open>providerID\<close> is the key of that field alone.
\<close>

definition converts_specs :: "'j converter \<Rightarrow> (YandexMachineSpec \<Rightarrow> (string, 'j) mapping) \<Rightarrow> bool" where
  "converts_specs conv js \<longleftrightarrow>
     (\<forall>ym. \<exists>u. conv (Obj_YandexMachine ym) = Inr u \<and> unstructured_spec u = Some (js (ym_Spec ym))) \<and>
     (\<forall>spec p. Mapping.delete ''providerID'' (js (spec\<lparr>yms_ProviderID := p\<rparr>)) =
        Mapping.delete ''providerID'' (js spec))"

lemma delete_eq_iff:
  "Mapping.delete k m = Mapping.delete k n \<longleftrightarrow> (\<forall>j. j = k \<or> Mapping.lookup n j = Mapping.lookup m j)"
proof
  assume "Mapping.delete k m = Mapping.delete k n"
  then show "\<forall>j. j = k \<or> Mapping.lookup n j = Mapping.lookup m j"
    by (metis lookup_delete_neq)
next
  assume "\<forall>j. j = k \<or> Mapping.lookup n j = Mapping.lookup m j"
  then show "Mapping.delete k m = Mapping.delete k n"
    by (intro mapping_eqI) (metis lookup_delete lookup_delete_neq)
qed

text \<open>
  C26: an update of a machine is accepted exactly when the two specifications agree as JSON outside
  \<open>providerID\<close>; the handler panics exactly when an object converts but has no specification.
\<close>

theorem machine_update_admitted:
  assumes "conv (Obj_YandexMachine ym) = Inr new" "conv oldRaw = Inr old"
  shows "case (unstructured_spec new, unstructured_spec old) of
      (Some n, Some m) \<Rightarrow>
        YandexMachine_ValidateUpdate conv ym oldRaw =
          (if \<forall>k. k = ''providerID'' \<or> Mapping.lookup n k = Mapping.lookup m k then Allowed
           else NewInvalid ''YandexMachine'' (om_Name (ym_Meta ym)) [Forbidden ''spec'' ''cannot be modified''])
    | _ \<Rightarrow> \<exists>p. YandexMachine_ValidateUpdate conv ym oldRaw = AdmissionPanic p"
  using assms by (auto simp: YandexMachine_ValidateUpdate_def delete_eq_iff Let_def split: option.split)

text \<open>A converter for the witnesses: a specification is its provider identifier and its zone.\<close>

definition sim_spec_json :: "YandexMachineSpec \<Rightarrow> (string, string option) mapping" where
  "sim_spec_json spec = Mapping.update ''providerID'' (yms_ProviderID spec)
     (Mapping.update ''zoneID'' (yms_ZoneID spec) Mapping.empty)"

definition sim_converter :: "string option converter" where
  "sim_converter ob = (case ob of
     Obj_YandexMachine ym \<Rightarrow>
       Inr (Mapping.update ''spec'' (JObject (sim_spec_json (ym_Spec ym))) Mapping.empty)
   | _ \<Rightarrow> Inl (Errorf ''unknown kind''))"

lemma sim_converter_converts: "converts_specs sim_converter sim_spec_json"
  by (auto simp: converts_specs_def sim_converter_def sim_spec_json_def unstructured_spec_def
      delete_eq_iff lookup_update')

theorem machine_update_admitted_witness:
  "YandexMachine_ValidateUpdate sim_converter (sim_yandex_machine (Some ''yandex://m1''))
     (Obj_YandexMachine (sim_yandex_machine None)) = Allowed"
proof -
  let ?new = "Obj_YandexMachine (sim_yandex_machine (Some ''yandex://m1''))"
    and ?old = "Obj_YandexMachine (sim_yandex_machine None)"
  obtain n m where "sim_converter ?new = Inr n" "sim_converter ?old = Inr m"
    by (simp add: sim_converter_def)
  from machine_update_admitted [OF this] this show ?thesis
    by (auto simp: sim_converter_def unstructured_spec_def sim_spec_json_def sim_yandex_machine_def
        lookup_update')
qed

text \<open>
  C21: with a converter that does what its documentation says, the webhook admits every patch of the
  machine controller: what a pass writes into a specification is what the webhook lets change.
\<close>

theorem machine_patch_admitted:
  fixes sdk :: "'e SDK"
  assumes run: "YandexMachine_Reconcile L K (YandexClient sdk) ns name w = (r, w')"
    and fetched: "external (Get_YandexMachine K ns name) w = (Ok ym, v)"
    and patched: "calls w' = calls w @ cs @ [(C_PatchMachine ym', ok)]"
    and converts: "converts_specs conv js"
  shows "YandexMachine_ValidateUpdate conv ym' (Obj_YandexMachine ym) = Allowed"
proof -
  have "ym_Spec ym' = ym_Spec ym \<or>
      (\<exists>p. ym_Spec ym' = (ym_Spec ym)\<lparr>yms_ProviderID := p\<rparr>)"
    using machine_pass_spec [OF run fetched patched] by blast
  then have same: "Mapping.delete ''providerID'' (js (ym_Spec ym')) = Mapping.delete ''providerID'' (js (ym_Spec ym))"
    using converts by (auto simp: converts_specs_def)
  obtain n m where "conv (Obj_YandexMachine ym') = Inr n" "unstructured_spec n = Some (js (ym_Spec ym'))"
    "conv (Obj_YandexMachine ym) = Inr m" "unstructured_spec m = Some (js (ym_Spec ym))"
    using converts unfolding converts_specs_def by meson
  with same show ?thesis by (simp add: YandexMachine_ValidateUpdate_def Let_def)
qed

theorem machine_patch_admitted_witness:
  "YandexMachine_ValidateUpdate sim_converter sim_ready (Obj_YandexMachine (sim_ym sim_full)) = Allowed"
  by (rule machine_patch_admitted [OF prod.collapse [symmetric] sim_machine_fetch sim_ready_run(2)
        sim_converter_converts])

end
