(* ===== verification/Naming_Properties.thy ===== *)
theory Naming_Properties
  imports Machine_Lifecycle
begin

text \<open>
  Names, identifiers, labels and the creation request: what the provider derives from an object's own
  fields.
\<close>

section \<open>The name of the load balancer\<close>

text \<open>
  C37: a name that is given is used as it is; a generated one has at most 63 bytes, all of them lower
  case letters, digits or hyphens, and ends in \<open>-api\<close>; when the cluster's own name keeps at most 59
  bytes, the name is those bytes and the suffix.
\<close>

theorem lb_name_wellformed:
  "let name = lbs_Name (ycs_LoadBalancer (yc_Spec (cs_YandexCluster c))) in
   (name \<noteq> [] \<longrightarrow> ClusterScope_GetLBName c = name) \<and>
   (name = [] \<longrightarrow>
      length (ClusterScope_GetLBName c) \<le> 63 \<and> list_all name_char (ClusterScope_GetLBName c) \<and>
      suffix ''-api'' (ClusterScope_GetLBName c) \<and>
      (length (filter name_char (ClusterScope_Name c)) \<le> 59 \<longrightarrow>
         ClusterScope_GetLBName c = filter name_char (ClusterScope_Name c) @ ''-api''))"
  using generateName_length [of c] generateName_chars [of c] generateName_suffix [of c]
    generateName_short [of c]
  by (auto simp: ClusterScope_GetLBName_def Let_def)

theorem lb_name_wellformed_witness:
  "ClusterScope_GetLBName (sim_scope\<lparr>cs_YandexCluster := (sim_yandex_cluster [])\<lparr>yc_Spec :=
     (yc_Spec (sim_yandex_cluster []))\<lparr>ycs_LoadBalancer :=
       (ycs_LoadBalancer (yc_Spec (sim_yandex_cluster [])))\<lparr>lbs_Name := []\<rparr>\<rparr>\<rparr>\<rparr>) = ''c1-api''"
  (is "ClusterScope_GetLBName ?c = _")
proof -
  have "filter name_char (ClusterScope_Name ?c) = ''c1''"
    by (simp add: ClusterScope_Name_def sim_scope_def sim_cluster_def sim_object_def name_char_def is_digit_def)
  moreover have "lbs_Name (ycs_LoadBalancer (yc_Spec (cs_YandexCluster ?c))) = []"
    by (simp add: sim_yandex_cluster_def)
  ultimately show ?thesis
    using lb_name_wellformed [of ?c] by (simp add: Let_def)
qed

text \<open>
  C39: the generated name does not tell clusters apart.  Two clusters of one folder whose balancers are
  of the same type and unnamed, and whose names keep the same bytes, at most 59 of them, when all but
  lower case letters, digits and hyphens are dropped (such as \<open>prod.eu\<close> and \<open>prodeu\<close>), share the name
  of the load balancer and of its groups.  The service cannot tell them apart then: over every client
  it deletes, describes and inspects for one exactly what it does for the other, and so do the two
  target operations; deleting one cluster deletes the other's balancer.
\<close>

theorem lb_name_collision:
  fixes C :: "'w Client"
  assumes "filter name_char (ClusterScope_Name a) = filter name_char (ClusterScope_Name b)"
    and "length (filter name_char (ClusterScope_Name a)) \<le> 59"
    and "lbs_Name (ClusterScope_GetLBSpec a) = []" and "lbs_Name (ClusterScope_GetLBSpec b) = []"
    and "ClusterScope_GetFolderID a = ClusterScope_GetFolderID b"
    and "ClusterScope_GetLBType a = ClusterScope_GetLBType b"
  shows "ClusterScope_GetLBName a = ClusterScope_GetLBName b \<and>
    LB_Delete C a = LB_Delete C b \<and> LB_Describe C a = LB_Describe C b \<and>
    LB_IsActive C a = LB_IsActive C b \<and> LB_AddTarget C a = LB_AddTarget C b \<and>
    LB_RemoveTarget C a = LB_RemoveTarget C b"
proof -
  have name: "ClusterScope_GetLBName a = ClusterScope_GetLBName b"
    using assms(1-4) by (simp add: ClusterScope_GetLBName_def ClusterScope_GetLBSpec_def generateName_short)
  have group: "find_group C a = find_group C b"
    by (simp add: find_group_def name assms(5))
  have "deleteALBService C a = deleteALBService C b" "describeALB C a = describeALB C b"
    "isActiveALB C a = isActiveALB C b" "addTargetALB C a = addTargetALB C b"
    "removeTargetALB C a = removeTargetALB C b"
    by (simp_all add: deleteALBService_def delete_one_shapes describeALB_def isActiveALB_def
        name assms(5) cong: if_cong)
      (intro ext, simp add: target_shapes group name)+
  then show ?thesis
    by (simp add: fun_eq_iff name assms(6) lb_service_defs Let_def)
qed

text \<open>Two clusters of one folder, and a cloud with the balancer of the first.\<close>

definition sim_unnamed :: "string \<Rightarrow> ClusterScope" where
  "sim_unnamed n = sim_scope\<lparr>cs_Cluster := sim_cluster\<lparr>cl_Meta := sim_object n []\<rparr>,
     cs_YandexCluster := (sim_yandex_cluster [])\<lparr>yc_Spec := (yc_Spec (sim_yandex_cluster []))\<lparr>ycs_LoadBalancer :=
       (ycs_LoadBalancer (yc_Spec (sim_yandex_cluster [])))\<lparr>lbs_Name := []\<rparr>\<rparr>\<rparr>\<rparr>"

theorem lb_name_collision_witness:
  "let e = sim_full\<lparr>sim_lbs := [sim_lb\<lparr>lb_Name := ClusterScope_GetLBName (sim_unnamed ''prodeu'')\<rparr>]\<rparr> in
   LB_Delete (YandexClient sim_sdk) (sim_unnamed ''prod.eu'') (start e) =
     LB_Delete (YandexClient sim_sdk) (sim_unnamed ''prodeu'') (start e) \<and>
   mutations (snd (LB_Delete (YandexClient sim_sdk) (sim_unnamed ''prod.eu'') (start e))) =
     [C_LoadBalancerDelete ''lb1'']"
proof -
  have same: "LB_Delete (YandexClient sim_sdk) (sim_unnamed ''prod.eu'') =
      LB_Delete (YandexClient sim_sdk) (sim_unnamed ''prodeu'')"
    by (rule lb_name_collision [THEN conjunct2, THEN conjunct1])
      (simp_all add: sim_unnamed_def ClusterScope_Name_def ClusterScope_GetLBSpec_def
        ClusterScope_GetFolderID_def ClusterScope_GetLBType_def sim_object_def name_char_def is_digit_def
        sim_yandex_cluster_def)
  have f: "ClusterScope_GetFolderID (sim_unnamed n) = ''folder''"
    "ClusterScope_GetLBType (sim_unnamed n) = LoadBalancerTypeALB" for n
    by (simp_all add: sim_unnamed_def ClusterScope_GetFolderID_def ClusterScope_GetLBType_def
        sim_yandex_cluster_def)
  let ?n = "ClusterScope_GetLBName (sim_unnamed ''prodeu'')"
  have "mutations (snd (LB_Delete (YandexClient sim_sdk) (sim_unnamed ''prodeu'')
      (start (sim_full\<lparr>sim_lbs := [sim_lb\<lparr>lb_Name := ?n\<rparr>]\<rparr>)))) = [C_LoadBalancerDelete ''lb1'']"
    by (simp add: LB_Delete_def deleteALBService_def deleteApplicationLoadBalancer_def f Let_def)
      (simp add: evaluate)
  with same show ?thesis by (simp add: Let_def)
qed

section \<open>The provider identifier\<close>

text \<open>
  C36: an instance identifier that is stored in a machine reads back unchanged, whatever it is, and
  storing touches nothing else; a machine without one reads the empty identifier, and an identifier
  without the provider's prefix reads as it stands.
\<close>

theorem provider_id_roundtrip:
  "MachineScope_GetInstanceID (MachineScope_SetProviderID i ym) = i \<and>
   MachineScope_GetProviderID (MachineScope_SetProviderID i ym) = ProviderIDPrefix @ i \<and>
   MachineScope_SetProviderID j (MachineScope_SetProviderID i ym) = MachineScope_SetProviderID j ym \<and>
   MachineScope_GetInstanceID ym =
     (case yms_ProviderID (ym_Spec ym) of
        None \<Rightarrow> []
      | Some p \<Rightarrow> if prefix ProviderIDPrefix p then drop (length ProviderIDPrefix) p else p)"
proof -
  have "MachineScope_GetInstanceID ym =
     (case yms_ProviderID (ym_Spec ym) of
        None \<Rightarrow> []
      | Some p \<Rightarrow> if prefix ProviderIDPrefix p then drop (length ProviderIDPrefix) p else p)"
    by (auto simp: MachineScope_GetInstanceID_def MachineScope_GetProviderID_def parseProviderID_def
        TrimPrefix_other elim!: prefixE split: option.split)
  then show ?thesis
    by (simp add: MachineScope_GetProviderID_def) (simp add: MachineScope_SetProviderID_def)
qed

section \<open>Labels\<close>

text \<open>
  The labels of a virtual machine.  Manager, cluster, folder and the two hashes are always there; the
  control plane or machine deployment label exactly when the machine has that label with a value,
  and the deployment hash covers the machine deployment when both have one.  A hash is 20 hexadecimal
  digits.
\<close>

theorem machine_labels:
  fixes ym :: YandexMachine
  defines "own \<equiv> map_get (om_Labels (ym_Meta ym))"
  defines "cp \<equiv> own MachineControlPlaneNameLabel" and "md \<equiv> own MachineDeploymentNameLabel"
    and "cluster \<equiv> own ClusterNameLabel"
  shows "getMachineLabels cg ym managedByLabel = Some capyControllerManagerName \<and>
    getMachineLabels cg ym yaAnalyticsClusterNameLabel = Some cluster \<and>
    getMachineLabels cg ym yaAnalyticsFolderIDLabel = Some (GetFolderID cg) \<and>
    getMachineLabels cg ym yaAnalyticsControlPlaneNameLabel = (if cp = [] then None else Some cp) \<and>
    getMachineLabels cg ym yaAnalyticsMachineDeploymentNameLabel = (if md = [] then None else Some md) \<and>
    getMachineLabels cg ym yaAnalyticsClusterHashLabel =
      Some (getYaAnalyticsLabelHashValue [GetFolderID cg, cluster]) \<and>
    getMachineLabels cg ym yaAnalyticsMachineDeploymentLabel =
      Some (getYaAnalyticsLabelHashValue [GetFolderID cg, cluster, if md = [] then cp else md]) \<and>
    length (getYaAnalyticsLabelHashValue parts) = 20 \<and> list_all is_hex (getYaAnalyticsLabelHashValue parts)"
  by (simp add: getMachineLabels_def label_key_defs cp_def md_def cluster_def own_def hash_value_hex Let_def)

text \<open>
  The hash is one of the concatenation of its parts, so moving a byte from one part to the next keeps
  it: folder and cluster names that concatenate alike share their hash label.
\<close>

lemma label_hash_ambiguous:
  assumes "concat ps = concat qs"
  shows "getYaAnalyticsLabelHashValue ps = getYaAnalyticsLabelHashValue qs"
  using assms by (rule hash_value_concat)

lemma label_hash_example:
  "getYaAnalyticsLabelHashValue [''folder-a'', ''b''] = getYaAnalyticsLabelHashValue [''folder-'', ''ab'']"
  by (rule label_hash_ambiguous) simp

section \<open>The creation request\<close>

text \<open>
  C33: a creation request that is built carries the fields of the object: name and host name, zone,
  platform, disk, memory, cores, core fraction and graphics cards (absent ones as zero), one interface per
  interface in order with a public address exactly when asked for, the labels, the folder of the
  cluster, and as its only metadata the value of the bootstrap secret of the owner.
\<close>

theorem instance_request_faithful:
  assumes "GetInstanceReq L K cg s = (Ok req, s')"
  shows "let ym = ms_YandexMachine (m_scope s); spec = ym_Spec ym in
    (\<exists>name secret w data. ma_DataSecretName (ms_Machine (m_scope s)) = Some name \<and>
       external (Get_Secret K (om_Namespace (ym_Meta ym)) name) (m_world s) = (Ok secret, w) \<and>
       secret ''value'' = Some data \<and> cir_Metadata req = [''user-data'' \<mapsto> data]) \<and>
    (\<exists>disk. yms_BootDisk spec = Some disk \<and> di_TypeID disk = Some (ad_TypeId (cir_BootDiskSpec req)) \<and>
       ad_ImageId (cir_BootDiskSpec req) = di_ImageID disk \<and> ad_AutoDelete (cir_BootDiskSpec req) \<and>
       Quantity_AsInt64 L (di_Size disk) = Some (ad_Size (cir_BootDiskSpec req))) \<and>
    yms_ZoneID spec = Some (cir_ZoneId req) \<and> yms_PlatformID spec = Some (cir_PlatformId req) \<and>
    Quantity_AsInt64 L (re_Memory (yms_Resources spec)) = Some (rs_Memory (cir_ResourcesSpec req)) \<and>
    rs_Cores (cir_ResourcesSpec req) = re_Cores (yms_Resources spec) \<and>
    rs_CoreFraction (cir_ResourcesSpec req) = (case re_CoreFraction (yms_Resources spec) of None \<Rightarrow> 0 | Some f \<Rightarrow> f) \<and>
    rs_Gpus (cir_ResourcesSpec req) = (case re_GPUs (yms_Resources spec) of None \<Rightarrow> 0 | Some g \<Rightarrow> g) \<and>
    cir_Name req = om_Name (ym_Meta ym) \<and> cir_Hostname req = om_Name (ym_Meta ym) \<and>
    cir_FolderId req = GetFolderID cg \<and> cir_Labels req = getMachineLabels cg ym \<and>
    map nis_SubnetId (cir_NetworkInterfaceSpecs req) = map ni_SubnetID (yms_NetworkInterfaces spec) \<and>
    map nis_OneToOneNat (cir_NetworkInterfaceSpecs req) =
      map (\<lambda>ni. ni_HasPublicIP ni = Some True) (yms_NetworkInterfaces spec)"
proof -
  obtain data memory bytes disk zone platform typeID where b: "GetBootstrapData K s = (Ok data, s')"
    and q: "Quantity_AsInt64 L (re_Memory (yms_Resources (ym_Spec (ms_YandexMachine (m_scope s))))) = Some memory"
      "yms_BootDisk (ym_Spec (ms_YandexMachine (m_scope s))) = Some disk"
      "Quantity_AsInt64 L (di_Size disk) = Some bytes"
      "yms_ZoneID (ym_Spec (ms_YandexMachine (m_scope s))) = Some zone"
      "yms_PlatformID (ym_Spec (ms_YandexMachine (m_scope s))) = Some platform"
      "di_TypeID disk = Some typeID"
    and req: "req = instance_request cg (ms_YandexMachine (m_scope s)) data memory bytes disk zone platform typeID"
    using assms by (rule GetInstanceReq_Ok)
  from b obtain name secret w where "ma_DataSecretName (ms_Machine (m_scope s)) = Some name"
    "external (Get_Secret K (MachineScope_Namespace (m_scope s)) name) (m_world s) = (Ok secret, w)"
    "secret ''value'' = Some data" by (rule GetBootstrapData_Ok)
  with q show ?thesis
    by (auto simp: req instance_request_def resourcesSpec_def networkInterfaceSpec_def
        MachineScope_Namespace_def Let_def split: option.split)
qed

theorem instance_request_faithful_witness:
  "\<exists>req s'. GetInstanceReq sim_lib sim_kube (ClusterScope_getter (YandexClient sim_sdk) sim_scope)
      (fetched_machine sim_machine ((sim_yandex_machine None)\<lparr>ym_Spec := (ym_Spec (sim_yandex_machine None))
        \<lparr>yms_Resources := \<lparr>re_Memory = ''4Gi'', re_Cores = 2, re_CoreFraction = Some 50, re_GPUs = Some 1\<rparr>\<rparr>\<rparr>)
        (start sim_empty)) = (Ok req, s') \<and>
    cir_Name req = ''m1'' \<and> cir_ZoneId req = ''zone'' \<and> rs_Gpus (cir_ResourcesSpec req) = 1 \<and>
    rs_CoreFraction (cir_ResourcesSpec req) = 50 \<and>
    map nis_SubnetId (cir_NetworkInterfaceSpecs req) = [''subnet'']"
  (is "\<exists>req s'. ?run = _ \<and> _")
proof -
  have "is_ok (fst ?run)"
    by (simp add: fetched_machine_def evaluate evaluate_machine)
  then obtain req s' where run: "?run = (Ok req, s')" by (cases ?run; cases "fst ?run") auto
  from instance_request_faithful [OF run] run show ?thesis
    by (intro exI [of _ req] exI [of _ s'])
      (simp add: fetched_machine_def sim_yandex_machine_def sim_object_def Let_def)
qed

end
