(* ===== verification/Startup.thy ===== *)
theory Startup
  imports Runs
begin

text \<open>
  \<open>main.go\<close> and what it calls of the repository: the options, the client's constructor, the
  registration of metrics and API types, and the set-up of controllers and webhooks.  The libraries it
  calls (flags, environment, controller-runtime, the SDK's constructor) are a record of functions; each
  call of one of them is a step in the history of the process.
\<close>

section \<open>Data\<close>

text \<open>The Go types of API objects that are registered, watched or served.\<close>

datatype Kind = K_YandexCluster | K_YandexClusterList | K_YandexMachine | K_YandexMachineList
  | K_YandexMachineTemplate | K_YandexMachineTemplateList | K_Cluster | K_Machine

record GroupVersion =
  gv_Group :: string
  gv_Version :: string

definition InfraGroupVersion :: GroupVersion where
  "InfraGroupVersion = \<lparr>gv_Group = ''infrastructure.cluster.x-k8s.io'', gv_Version = ''v1alpha1''\<rparr>"

text \<open>The \<open>init\<close> functions of the types, run in the order of the files.\<close>

definition register_YandexCluster :: "Kind list \<Rightarrow> Kind list" where
  "register_YandexCluster b = b @ [K_YandexCluster, K_YandexClusterList]"

definition register_YandexMachine :: "Kind list \<Rightarrow> Kind list" where
  "register_YandexMachine b = b @ [K_YandexMachine, K_YandexMachineList]"

definition register_YandexMachineTemplate :: "Kind list \<Rightarrow> Kind list" where
  "register_YandexMachineTemplate b = b @ [K_YandexMachineTemplate, K_YandexMachineTemplateList]"

definition SchemeBuilder :: "Kind list" where
  "SchemeBuilder =
     register_YandexMachineTemplate (register_YandexMachine (register_YandexCluster []))"

text \<open>What is added to the scheme: two library schemes and the provider's own types.\<close>

datatype scheme_part = ClientGoScheme | ClusterAPIScheme | InfraScheme GroupVersion "Kind list"

datatype collector = APIDurationCollector | APIRequestsCollector

record Config =
  cfg_YandexCloudSAKey :: string
  cfg_ReconcileTimeout :: int64

record Flags =
  fl_MetricsAddr :: string
  fl_ProbeAddr :: string
  fl_LeaderElection :: bool

definition flag_defaults :: Flags where
  "flag_defaults = \<lparr>fl_MetricsAddr = '':8080'', fl_ProbeAddr = '':8081'', fl_LeaderElection = False\<rparr>"

record ManagerOptions =
  mo_MetricsBindAddress :: string
  mo_HealthProbeBindAddress :: string
  mo_LeaderElection :: bool
  mo_LeaderElectionID :: string

definition manager_options :: "Flags \<Rightarrow> ManagerOptions" where
  "manager_options fl =
     \<lparr>mo_MetricsBindAddress = fl_MetricsAddr fl, mo_HealthProbeBindAddress = fl_ProbeAddr fl,
      mo_LeaderElection = fl_LeaderElection fl, mo_LeaderElectionID = ''yandex.cluster.x-k8s.io''\<rparr>"

text \<open>
  A watch of a controller: the kind watched, the function from an object to the requests it enqueues,
  and the predicate on events.  The map functions of \<open>util\<close> are named, the provider's own and the one
  \<open>ClusterToTypedObjectsMapper\<close> makes are functions.
\<close>

datatype event_filter = ResourceNotPaused | ClusterUnpaused | ClusterUnpausedAndInfrastructureReady

type_synonym 'e map_func = "runtime_object \<Rightarrow> ('e World, (string \<times> string) list) go"

datatype 'e enqueue =
    EnqueueObject
  | ClusterToInfrastructureMapFunc GroupVersion Kind
  | MachineToInfrastructureMapFunc GroupVersion Kind
  | EnqueueMapped "'e map_func"

record 'e Watch =
  wa_Kind :: Kind
  wa_Enqueue :: "'e enqueue"
  wa_Filters :: "event_filter list"

record 'e Builder =
  bl_For :: Kind
  bl_Filters :: "event_filter list"
  bl_Watches :: "'e Watch list"
  bl_Reconcile :: "string \<Rightarrow> string \<Rightarrow> ('e World, Result) go"

section \<open>Libraries\<close>

text \<open>The calls of libraries made on the way up and down.\<close>

datatype 'e setup_step =
    S_AddToScheme scheme_part
  | S_MustRegister collector
  | S_ParseFlags Flags
  | S_ParseEnv
  | S_GetConfig
  | S_NewManager ManagerOptions
  | S_ReadKey string
  | S_Credentials
  | S_BuildSDK
  | S_Build "'e Builder"
  | S_Mapper Kind
  | S_Watch Kind "'e Watch"
  | S_Webhook Kind
  | S_Healthz string
  | S_Readyz string
  | S_Start
  | S_Shutdown

text \<open>
  \<open>'k\<close>, \<open>'c\<close> and \<open>'r\<close> stand for the types of the SDK's keys and credentials and of a connection to the API
  server.  \<open>Manager_New\<close> returns the manager's client.
\<close>

record ('e, 'k, 'c, 'r) Runtime =
  Scheme_Add :: "scheme_part \<Rightarrow> ('e, unit) ext"
  Registry_Register :: "collector \<Rightarrow> ('e, unit) ext"
  Flag_Parse :: "Flags \<Rightarrow> ('e, Flags) ext"
  Env_Parse :: "('e, Config) ext"
  Config_Get :: "('e, 'r) ext"
  Manager_New :: "'r \<Rightarrow> ManagerOptions \<Rightarrow> ('e, 'e Kube) ext"
  Key_Unmarshal :: "string \<Rightarrow> ('e, 'k) ext"
  ServiceAccountKey :: "'k \<Rightarrow> ('e, 'c) ext"
  SDK_Build :: "'c \<Rightarrow> ('e, 'e SDK) ext"
  Controller_Build :: "'e Builder \<Rightarrow> ('e, unit) ext"
  ClusterToTypedObjectsMapper :: "Kind \<Rightarrow> ('e, 'e map_func) ext"
  Controller_Watch :: "Kind \<Rightarrow> 'e Watch \<Rightarrow> ('e, unit) ext"
  Webhook_Complete :: "Kind \<Rightarrow> ('e, unit) ext"
  Healthz_Add :: "string \<Rightarrow> ('e, unit) ext"
  Readyz_Add :: "string \<Rightarrow> ('e, unit) ext"
  Manager_Start :: "('e, unit) ext"

section \<open>The process\<close>

record 'e Process =
  p_world :: "'e World"
  p_steps :: "('e setup_step \<times> bool) list"
  p_registered :: bool

datatype Exit = Returned | Exited int

definition setup_call :: "'e setup_step \<Rightarrow> ('e World, 'a) go \<Rightarrow> ('e Process, 'a) go" where
  "setup_call st m p =
     (case m (p_world p) of
        (r, w) \<Rightarrow> (r, p\<lparr>p_world := w, p_steps := p_steps p @ [(st, is_ok r)]\<rparr>))"

abbreviation call :: "'e setup_step \<Rightarrow> ('e, 'a) ext \<Rightarrow> ('e Process, 'a) go" where
  "call st f \<equiv> setup_call st (external f)"

text \<open>\<open>if err != nil { setupLog.Error(..); os.Exit(1) }\<close>, and \<open>utilruntime.Must\<close>.\<close>

definition orExit :: "('s, 'a) go \<Rightarrow> ('a \<Rightarrow> ('s, Exit) go) \<Rightarrow> ('s, Exit) go" where
  "orExit m k = tryG m k (\<lambda>_. ret (Exited 1))"

definition Must :: "('s, 'a) go \<Rightarrow> ('s, 'a) go" where
  "Must m = tryG m ret (\<lambda>e. panic (Error e))"

text \<open>
  \<open>defer func() { yandexClient.Close(ctx) }()\<close>: the deferred call runs when the function returns or
  panics; \<open>os.Exit\<close> ends the process without it.  The error of the call is dropped.
\<close>

definition deferClose :: "('s, unit) go \<Rightarrow> ('s, Exit) go \<Rightarrow> ('s, Exit) go" where
  "deferClose close m s =
     (case m s of
        (Ok (Exited n), s') \<Rightarrow> (Ok (Exited n), s')
      | (r, s') \<Rightarrow> (r, snd (close s')))"

section \<open>metrics.go, client.go\<close>

text \<open>\<open>sync.Once\<close> is done after the first call, whether or not it panics.\<close>

definition RegisterAPIMetrics :: "('e, 'k, 'c, 'r) Runtime \<Rightarrow> ('e Process, unit) go" where
  "RegisterAPIMetrics R =
     withG (\<lambda>p. if p_registered p then ret () else
       thenG (modifyG (p_registered_update (\<lambda>_. True)))
       (thenG (Must (call (S_MustRegister APIDurationCollector) (Registry_Register R APIDurationCollector)))
       (Must (call (S_MustRegister APIRequestsCollector) (Registry_Register R APIRequestsCollector)))))"

definition GetClient_New :: "('e, 'k, 'c, 'r) Runtime \<Rightarrow> string \<Rightarrow> ('e Process, 'e World Client) go" where
  "GetClient_New R key =
     bindG (call (S_ReadKey key) (Key_Unmarshal R key)) (\<lambda>saKey.
     bindG (call S_Credentials (ServiceAccountKey R saKey)) (\<lambda>credentials.
     bindG (call S_BuildSDK (SDK_Build R credentials)) (\<lambda>sdk.
     ret (YandexClient sdk))))"

section \<open>Controllers and webhooks\<close>

record 'e YandexClusterReconciler =
  cr_Client :: "'e Kube"
  cr_YandexClient :: "'e World Client"
  cr_Config :: Config

record 'e YandexMachineReconciler =
  mr_Client :: "'e Kube"
  mr_YandexClient :: "'e World Client"

definition cluster_builder :: "Lib \<Rightarrow> 'e YandexClusterReconciler \<Rightarrow> 'e Builder" where
  "cluster_builder L r =
     \<lparr>bl_For = K_YandexCluster, bl_Filters = [ResourceNotPaused], bl_Watches = [],
      bl_Reconcile = YandexCluster_Reconcile L (cr_Client r) (cr_YandexClient r)\<rparr>"

definition cluster_watch :: "'e Watch" where
  "cluster_watch =
     \<lparr>wa_Kind = K_Cluster,
      wa_Enqueue = ClusterToInfrastructureMapFunc InfraGroupVersion K_YandexCluster,
      wa_Filters = [ClusterUnpaused]\<rparr>"

definition YandexCluster_SetupWithManager ::
    "('e, 'k, 'c, 'r) Runtime \<Rightarrow> Lib \<Rightarrow> 'e YandexClusterReconciler \<Rightarrow> ('e Process, unit) go" where
  "YandexCluster_SetupWithManager R L r =
     (let b = cluster_builder L r in
      thenG (call (S_Build b) (Controller_Build R b))
        (call (S_Watch K_YandexCluster cluster_watch) (Controller_Watch R K_YandexCluster cluster_watch)))"

definition machine_builder :: "Lib \<Rightarrow> 'e YandexMachineReconciler \<Rightarrow> 'e Builder" where
  "machine_builder L r =
     \<lparr>bl_For = K_YandexMachine, bl_Filters = [ResourceNotPaused],
      bl_Watches =
        [\<lparr>wa_Kind = K_Machine,
          wa_Enqueue = MachineToInfrastructureMapFunc InfraGroupVersion K_YandexMachine,
          wa_Filters = []\<rparr>,
         \<lparr>wa_Kind = K_YandexCluster,
          wa_Enqueue = EnqueueMapped (YandexClusterToYandexMachines (mr_Client r)),
          wa_Filters = []\<rparr>],
      bl_Reconcile = YandexMachine_Reconcile L (mr_Client r) (mr_YandexClient r)\<rparr>"

definition machine_watch :: "'e map_func \<Rightarrow> 'e Watch" where
  "machine_watch f =
     \<lparr>wa_Kind = K_Cluster, wa_Enqueue = EnqueueMapped f,
      wa_Filters = [ClusterUnpausedAndInfrastructureReady]\<rparr>"

definition YandexMachine_SetupWithManager ::
    "('e, 'k, 'c, 'r) Runtime \<Rightarrow> Lib \<Rightarrow> 'e YandexMachineReconciler \<Rightarrow> ('e Process, unit) go" where
  "YandexMachine_SetupWithManager R L r =
     (let b = machine_builder L r in
      tryG (call (S_Build b) (Controller_Build R b))
        (\<lambda>_. tryG (call (S_Mapper K_YandexMachineList) (ClusterToTypedObjectsMapper R K_YandexMachineList))
           (\<lambda>clusterToObjectFunc.
              tryG (call (S_Watch K_YandexMachine (machine_watch clusterToObjectFunc))
                     (Controller_Watch R K_YandexMachine (machine_watch clusterToObjectFunc)))
                ret
                (\<lambda>e. raise (wrapf ''failed adding a watch for ready clusters: '' e)))
           (\<lambda>e. raise (wrapf ''failed to create mapper for Cluster to YandexMachines: '' e)))
        (\<lambda>e. raise (wrapf ''error creating controller: '' e)))"

definition YandexCluster_SetupWebhookWithManager :: "('e, 'k, 'c, 'r) Runtime \<Rightarrow> ('e Process, unit) go" where
  "YandexCluster_SetupWebhookWithManager R =
     call (S_Webhook K_YandexCluster) (Webhook_Complete R K_YandexCluster)"

definition YandexMachine_SetupWebhookWithManager :: "('e, 'k, 'c, 'r) Runtime \<Rightarrow> ('e Process, unit) go" where
  "YandexMachine_SetupWebhookWithManager R =
     call (S_Webhook K_YandexMachine) (Webhook_Complete R K_YandexMachine)"

definition YandexMachineTemplate_SetupWebhookWithManager ::
    "('e, 'k, 'c, 'r) Runtime \<Rightarrow> ('e Process, unit) go" where
  "YandexMachineTemplate_SetupWebhookWithManager R =
     call (S_Webhook K_YandexMachineTemplate) (Webhook_Complete R K_YandexMachineTemplate)"

section \<open>main.go\<close>

text \<open>The function \<open>init\<close> of the package; \<open>AddToScheme\<close> of the API package adds what \<open>SchemeBuilder\<close> holds.\<close>

definition main_init :: "('e, 'k, 'c, 'r) Runtime \<Rightarrow> ('e Process, unit) go" where
  "main_init R =
     (let add = (\<lambda>part. Must (call (S_AddToScheme part) (Scheme_Add R part))) in
      thenG (add ClientGoScheme)
      (thenG (add ClusterAPIScheme)
      (thenG (add (InfraScheme InfraGroupVersion SchemeBuilder))
      (RegisterAPIMetrics R))))"

text \<open>\<open>flag.Parse\<close> exits with status 0 when help was asked for and with status 2 on any other error.\<close>

definition flag_ErrHelp :: err where
  "flag_ErrHelp = Errorf ''flag: help requested''"

definition run_manager ::
    "('e, 'k, 'c, 'r) Runtime \<Rightarrow> Lib \<Rightarrow> Config \<Rightarrow> 'e Kube \<Rightarrow> 'e World Client \<Rightarrow> ('e Process, Exit) go" where
  "run_manager R L cfg mgr yandexClient =
     orExit (YandexCluster_SetupWithManager R L
       \<lparr>cr_Client = mgr, cr_YandexClient = yandexClient, cr_Config = cfg\<rparr>) (\<lambda>_.
     orExit (YandexMachine_SetupWithManager R L
       \<lparr>mr_Client = mgr, mr_YandexClient = yandexClient\<rparr>) (\<lambda>_.
     orExit (YandexMachine_SetupWebhookWithManager R) (\<lambda>_.
     orExit (YandexMachineTemplate_SetupWebhookWithManager R) (\<lambda>_.
     orExit (YandexCluster_SetupWebhookWithManager R) (\<lambda>_.
     orExit (call (S_Healthz ''healthz'') (Healthz_Add R ''healthz'')) (\<lambda>_.
     orExit (call (S_Readyz ''readyz'') (Readyz_Add R ''readyz'')) (\<lambda>_.
     orExit (call S_Start (Manager_Start R)) (\<lambda>_.
     ret Returned))))))))"

definition main :: "('e, 'k, 'c, 'r) Runtime \<Rightarrow> Lib \<Rightarrow> ('e Process, Exit) go" where
  "main R L =
     tryG (call (S_ParseFlags flag_defaults) (Flag_Parse R flag_defaults))
       (\<lambda>fl.
     orExit (call S_ParseEnv (Env_Parse R)) (\<lambda>cfg.
     orExit (call S_GetConfig (Config_Get R)) (\<lambda>rest.
     orExit (call (S_NewManager (manager_options fl)) (Manager_New R rest (manager_options fl))) (\<lambda>mgr.
     orExit (GetClient_New R (cfg_YandexCloudSAKey cfg)) (\<lambda>yandexClient.
     deferClose (setup_call S_Shutdown (Client_Close yandexClient))
       (run_manager R L cfg mgr yandexClient))))))
       (\<lambda>e. ret (Exited (if e = flag_ErrHelp then 0 else 2)))"

text \<open>The process: the package is initialised, then \<open>main\<close> runs; a panic in \<open>init\<close> ends it.\<close>

definition program :: "('e, 'k, 'c, 'r) Runtime \<Rightarrow> Lib \<Rightarrow> ('e Process, Exit) go" where
  "program R L = thenG (main_init R) (main R L)"

section \<open>The order of start-up\<close>

text \<open>What \<open>program\<close> is meant to do, as a list: every step, in order, given what the libraries answer.\<close>

definition init_plan :: "'e setup_step list" where
  "init_plan =
     [S_AddToScheme ClientGoScheme, S_AddToScheme ClusterAPIScheme,
      S_AddToScheme (InfraScheme InfraGroupVersion SchemeBuilder),
      S_MustRegister APIDurationCollector, S_MustRegister APIRequestsCollector]"

definition serving_plan ::
    "Lib \<Rightarrow> Config \<Rightarrow> 'e Kube \<Rightarrow> 'e World Client \<Rightarrow> 'e map_func \<Rightarrow> 'e setup_step list" where
  "serving_plan L cfg K C f =
     [S_Build (cluster_builder L \<lparr>cr_Client = K, cr_YandexClient = C, cr_Config = cfg\<rparr>),
      S_Watch K_YandexCluster cluster_watch,
      S_Build (machine_builder L \<lparr>mr_Client = K, mr_YandexClient = C\<rparr>),
      S_Mapper K_YandexMachineList, S_Watch K_YandexMachine (machine_watch f),
      S_Webhook K_YandexMachine, S_Webhook K_YandexMachineTemplate, S_Webhook K_YandexCluster,
      S_Healthz ''healthz'', S_Readyz ''readyz'', S_Start]"

definition open_plan :: "Flags \<Rightarrow> Config \<Rightarrow> 'e setup_step list" where
  "open_plan fl cfg =
     [S_ParseFlags flag_defaults, S_ParseEnv, S_GetConfig, S_NewManager (manager_options fl),
      S_ReadKey (cfg_YandexCloudSAKey cfg), S_Credentials, S_BuildSDK]"

definition startup_plan ::
    "Lib \<Rightarrow> Flags \<Rightarrow> Config \<Rightarrow> 'e Kube \<Rightarrow> 'e SDK \<Rightarrow> 'e map_func \<Rightarrow> 'e setup_step list" where
  "startup_plan L fl cfg K sdk f =
     init_plan @ open_plan fl cfg @ serving_plan L cfg K (YandexClient sdk) f"

abbreviation accomplished :: "'e setup_step list \<Rightarrow> ('e setup_step \<times> bool) list" where
  "accomplished \<equiv> map (\<lambda>st. (st, True))"

text \<open>How the process ends when a step fails.\<close>

fun panics :: "'e setup_step \<Rightarrow> bool" where
  "panics (S_AddToScheme x) = True"
| "panics (S_MustRegister x) = True"
| "panics _ = False"

definition stopped :: "'e setup_step \<Rightarrow> Exit outcome \<Rightarrow> bool" where
  "stopped st r \<longleftrightarrow>
     (if panics st then \<exists>m. r = Panic m
      else if st = S_ParseFlags flag_defaults then r \<in> {Ok (Exited 0), Ok (Exited 2)}
      else r = Ok (Exited 1))"

text \<open>
  \<open>scripted b D W m\<close>: some list satisfies \<open>W\<close>, and \<open>m\<close> takes the steps of such a list until one fails, with
  \<open>D\<close> for what follows the last.  With \<open>b\<close> unset only processes without registered metrics count.
\<close>

definition verdict_of ::
    "('e setup_step \<times> bool) list set \<Rightarrow> 'e setup_step list \<Rightarrow> ('e setup_step \<times> bool) list \<Rightarrow> Exit outcome \<Rightarrow> bool"
  where
  "verdict_of D w new r \<longleftrightarrow>
     (r = Ok Returned \<and> (\<exists>d \<in> D. new = accomplished w @ d)) \<or>
     (\<exists>n < length w. new = accomplished (take n w) @ [(w ! n, False)] \<and> stopped (w ! n) r)"

definition scripted ::
    "bool \<Rightarrow> ('e setup_step \<times> bool) list set \<Rightarrow> ('e setup_step list \<Rightarrow> bool) \<Rightarrow> ('e Process, Exit) go \<Rightarrow> bool"
  where
  "scripted b D W m \<longleftrightarrow> (\<exists>w. W w) \<and>
     (\<forall>p r p'. m p = (r, p') \<and> (b \<or> \<not> p_registered p) \<longrightarrow>
        (\<exists>w new. W w \<and> p_steps p' = p_steps p @ new \<and> verdict_of D w new r))"

lemma verdict_step:
  assumes "verdict_of D w new r"
  shows "verdict_of D (st # w) ((st, True) # new) r"
proof (cases "r = Ok Returned \<and> (\<exists>d \<in> D. new = accomplished w @ d)")
  case True
  then show ?thesis by (auto simp: verdict_of_def)
next
  case False
  with assms obtain n where "n < length w" "new = accomplished (take n w) @ [(w ! n, False)]"
    "stopped (w ! n) r" by (auto simp: verdict_of_def)
  then show ?thesis unfolding verdict_of_def
    by (intro disjI2 exI [of _ "Suc n"]) simp
qed

lemma verdict_stop: "stopped st r \<Longrightarrow> verdict_of D (st # w) [(st, False)] r"
  unfolding verdict_of_def by (intro disjI2 exI [of _ 0]) simp

lemma scripted_step:
  assumes next_steps: "\<And>a. scripted b D (\<lambda>w. W (st # w)) (k a)"
    and stops: "\<And>e p. \<exists>r. h e p = (r, p) \<and> stopped st r"
  shows "scripted b D W (tryG (call st f) k h)"
proof -
  have some: "\<exists>w. W (st # w)" using next_steps by (auto simp: scripted_def)
  have "\<exists>w new. W w \<and> p_steps p' = p_steps p @ new \<and> verdict_of D w new r"
    if run: "tryG (call st f) k h p = (r, p')" and pre: "b \<or> \<not> p_registered p" for p r p'
  proof -
    obtain q v where q: "external f (p_world p) = (q, v)" by fastforce
    let ?p = "p\<lparr>p_world := v, p_steps := p_steps p @ [(st, is_ok q)]\<rparr>"
    have c: "call st f p = (q, ?p)" using q by (simp add: setup_call_def)
    show ?thesis
    proof (cases q)
      case (Ok a)
      with run c have "k a ?p = (r, p')" by simp
      moreover have "b \<or> \<not> p_registered ?p" using pre by simp
      ultimately obtain w new where "W (st # w)" "p_steps p' = p_steps ?p @ new" "verdict_of D w new r"
        using next_steps [of a] unfolding scripted_def by blast
      with Ok show ?thesis
        by (intro exI [of _ "st # w"] exI [of _ "(st, True) # new"]) (simp add: verdict_step)
    next
      case (Err e)
      then obtain t where t: "h e ?p = (t, ?p)" "stopped st t" using stops by blast
      from run c Err t have "r = t" "p' = ?p" by simp_all
      moreover obtain w where "W (st # w)" using some by blast
      ultimately show ?thesis using t Err
        by (intro exI [of _ "st # w"] exI [of _ "[(st, False)]"]) (simp add: verdict_stop)
    next
      case (Panic m)
      with external_run(3) [OF q] show ?thesis by blast
    qed
  qed
  with some show ?thesis by (auto simp: scripted_def)
qed

lemma scripted_returns: "W [] \<Longrightarrow> [] \<in> D \<Longrightarrow> scripted b D W (ret Returned)"
  by (force simp: scripted_def verdict_of_def)

lemma scripted_close:
  assumes body: "scripted b {[]} W m" and exits: "\<And>w st. W w \<Longrightarrow> st \<in> set w \<Longrightarrow> \<not> panics st"
    and code: "\<And>w. W w \<Longrightarrow> S_ParseFlags flag_defaults \<notin> set w"
  shows "scripted b {[(S_Shutdown, ok)] |ok. True} W (deferClose (setup_call S_Shutdown c) m)"
proof -
  have "\<exists>w new. W w \<and> p_steps p' = p_steps p @ new \<and> verdict_of {[(S_Shutdown, ok)] |ok. True} w new r"
    if run: "deferClose (setup_call S_Shutdown c) m p = (r, p')" and pre: "b \<or> \<not> p_registered p" for p r p'
  proof -
    obtain q v where q: "m p = (q, v)" by fastforce
    from q pre body obtain w new where w: "W w" "p_steps v = p_steps p @ new" "verdict_of {[]} w new q"
      unfolding scripted_def by blast
    from w(3) consider (through) "q = Ok Returned" "new = accomplished w"
      | (stop) n where "n < length w" "new = accomplished (take n w) @ [(w ! n, False)]" "stopped (w ! n) q"
      by (auto simp: verdict_of_def)
    then show ?thesis
    proof cases
      case through
      with run q w show ?thesis
        by (force simp: deferClose_def setup_call_def verdict_of_def split: prod.splits)
    next
      case stop
      then have "q = Ok (Exited 1)"
        using exits [OF w(1)] code [OF w(1)] by (metis nth_mem stopped_def)
      with run q w stop show ?thesis
        by (force simp: deferClose_def verdict_of_def)
    qed
  qed
  with body show ?thesis by (auto simp: scripted_def)
qed

text \<open>Exits flow through nested calls, so that a run is one chain of steps.\<close>

lemma tryG_assoc:
  "tryG (tryG m k h) k' h' = tryG m (\<lambda>a. tryG (k a) k' h') (\<lambda>e. tryG (h e) k' h')"
  by (rule ext) (auto simp: tryG_def split: prod.splits outcome.splits)

lemma tryG_ret: "tryG (ret a) k h = k a"
  by (rule ext) (simp add: tryG_def)

lemma tryG_raise: "tryG (raise e) k h = h e"
  by (rule ext) (simp add: tryG_def)

lemma tryG_panic: "tryG (panic m) k h = panic m"
  by (rule ext) (simp add: tryG_def)

lemmas startup_chain = orExit_def Must_def bindG_def thenG_def tryG_assoc tryG_ret tryG_raise tryG_panic

abbreviation register_both :: "('e, 'k, 'c, 'r) Runtime \<Rightarrow> ('e Process, unit) go" where
  "register_both R \<equiv> thenG
      (Must (call (S_MustRegister APIDurationCollector) (Registry_Register R APIDurationCollector)))
      (Must (call (S_MustRegister APIRequestsCollector) (Registry_Register R APIRequestsCollector)))"

lemma scripted_once:
  assumes "scripted True D W (tryG (register_both R) k h)"
  shows "scripted False D W (tryG (RegisterAPIMetrics R) k h)"
proof -
  have "tryG (RegisterAPIMetrics R) k h p = tryG (register_both R) k h (p\<lparr>p_registered := True\<rparr>)"
    if "\<not> p_registered p" for p
    using that by (simp add: RegisterAPIMetrics_def tryG_def thenG_def [of "modifyG f" for f] bindG_def)
  with assms show ?thesis by (fastforce simp: scripted_def)
qed

lemma run_manager_scripted:
  assumes "\<And>f. W (serving_plan L cfg K C f)"
  shows "scripted b {[]} W (run_manager R L cfg K C)"
  unfolding run_manager_def YandexCluster_SetupWithManager_def YandexMachine_SetupWithManager_def
    YandexMachine_SetupWebhookWithManager_def YandexMachineTemplate_SetupWebhookWithManager_def
    YandexCluster_SetupWebhookWithManager_def Let_def startup_chain
  by (intro scripted_step scripted_returns)
    (use assms in \<open>auto simp: serving_plan_def stopped_def\<close>)

definition main_plans :: "Lib \<Rightarrow> 'e setup_step list \<Rightarrow> bool" where
  "main_plans L w \<longleftrightarrow>
     (\<exists>fl cfg K sdk f. w = open_plan fl cfg @ serving_plan L cfg K (YandexClient sdk) f)"

lemma main_scripted:
  "scripted b {[(S_Shutdown, ok)] |ok. True} (main_plans L) (main R L)"
proof -
  have serve: "scripted b {[(S_Shutdown, ok)] |ok. True}
      (\<lambda>w. main_plans L (open_plan fl cfg @ w))
      (deferClose (setup_call S_Shutdown c) (run_manager R L cfg K (YandexClient sdk)))"
    for fl cfg K sdk and c :: "('a World, unit) go"
  proof -
    let ?W = "\<lambda>w. \<exists>f. w = serving_plan L cfg K (YandexClient sdk) f"
    have "scripted b {[(S_Shutdown, ok)] |ok. True} ?W
        (deferClose (setup_call S_Shutdown c) (run_manager R L cfg K (YandexClient sdk)))"
      by (rule scripted_close, rule run_manager_scripted) (auto simp: serving_plan_def)
    then show ?thesis unfolding scripted_def main_plans_def by metis
  qed
  show ?thesis
    unfolding main_def GetClient_New_def startup_chain
    by (intro scripted_step) (use serve in \<open>auto simp: open_plan_def stopped_def\<close>)
qed

lemma init_scripted:
  assumes "scripted True D (\<lambda>w. W (init_plan @ w)) m"
  shows "scripted False D W (thenG (main_init R) m)"
proof -
  let ?Q = "\<lambda>w. W (take 3 init_plan @ w)"
  have "scripted True D ?Q (tryG (register_both R) (\<lambda>_. m) raise)"
    unfolding startup_chain
    by (intro scripted_step) (use assms in \<open>auto simp: init_plan_def stopped_def\<close>)
  then have "scripted False D ?Q (tryG (RegisterAPIMetrics R) (\<lambda>_. m) raise)"
    by (rule scripted_once)
  then show ?thesis
    unfolding main_init_def Let_def startup_chain
    by (intro scripted_step) (auto simp: init_plan_def stopped_def)
qed

section \<open>Properties\<close>

text \<open>
  C23: start-up is orderly.  The steps a process takes are those of the plan, in order, until one fails: then
  nothing more is done and the process panics or exits, as that step says.  The manager is started only
  when types, metrics, both controllers, the three webhooks and both checks are in place, over one
  client made from the key of the environment; the SDK is shut down exactly when the manager stopped
  without an error, and not on the way out of a failed start.
\<close>

theorem startup_in_order:
  assumes "program R L p = (r, p')" and "\<not> p_registered p"
  shows "\<exists>fl cfg K sdk f. let plan = startup_plan L fl cfg K sdk f in
    (r = Ok Returned \<and> (\<exists>ok. p_steps p' = p_steps p @ accomplished plan @ [(S_Shutdown, ok)])) \<or>
    (\<exists>n < length plan. p_steps p' = p_steps p @ accomplished (take n plan) @ [(plan ! n, False)] \<and>
       stopped (plan ! n) r)"
proof -
  let ?W = "\<lambda>w. \<exists>fl cfg K sdk f. w = startup_plan L fl cfg K sdk f"
  have plans: "main_plans L = (\<lambda>w. ?W (init_plan @ w))"
    by (rule ext) (simp add: main_plans_def startup_plan_def)
  have "scripted True {[(S_Shutdown, ok)] |ok. True} (main_plans L) (main R L)"
    by (rule main_scripted)
  then have "scripted True {[(S_Shutdown, ok)] |ok. True} (\<lambda>w. ?W (init_plan @ w)) (main R L)"
    unfolding plans .
  then have "scripted False {[(S_Shutdown, ok)] |ok. True} ?W (program R L)"
    unfolding program_def by (rule init_scripted)
  with assms obtain w new where w: "?W w" and new: "p_steps p' = p_steps p @ new"
    "verdict_of {[(S_Shutdown, ok)] |ok. True} w new r"
    unfolding scripted_def by blast
  from w obtain fl cfg K sdk f where "w = startup_plan L fl cfg K sdk f" by blast
  with new show ?thesis unfolding Let_def verdict_of_def
    by (intro exI [of _ fl] exI [of _ cfg] exI [of _ K] exI [of _ sdk] exI [of _ f]) fastforce
qed

definition sim_runtime :: "(Sim, string, string, unit) Runtime" where
  "sim_runtime =
     \<lparr>Scheme_Add = (\<lambda>_ e. (Inr (), e)), Registry_Register = (\<lambda>_ e. (Inr (), e)),
      Flag_Parse = (\<lambda>fl e. (Inr fl, e)),
      Env_Parse = (\<lambda>e. (Inr \<lparr>cfg_YandexCloudSAKey = ''key'', cfg_ReconcileTimeout = 60 * time_Second\<rparr>, e)),
      Config_Get = (\<lambda>e. (Inr (), e)), Manager_New = (\<lambda>_ _ e. (Inr sim_kube, e)),
      Key_Unmarshal = (\<lambda>k e. (Inr k, e)), ServiceAccountKey = (\<lambda>k e. (Inr k, e)),
      SDK_Build = (\<lambda>_ e. (Inr sim_sdk, e)), Controller_Build = (\<lambda>_ e. (Inr (), e)),
      ClusterToTypedObjectsMapper = (\<lambda>_ e. (Inr (\<lambda>_. ret []), e)),
      Controller_Watch = (\<lambda>_ _ e. (Inr (), e)), Webhook_Complete = (\<lambda>_ e. (Inr (), e)),
      Healthz_Add = (\<lambda>_ e. (Inr (), e)), Readyz_Add = (\<lambda>_ e. (Inr (), e)),
      Manager_Start = (\<lambda>e. (Inr (), e))\<rparr>"

definition sim_process :: "Sim Process" where
  "sim_process = \<lparr>p_world = start sim_empty, p_steps = [], p_registered = False\<rparr>"

lemmas startup_run_defs = program_def main_init_def main_def RegisterAPIMetrics_def run_manager_def
  GetClient_New_def YandexCluster_SetupWithManager_def YandexMachine_SetupWithManager_def
  YandexMachine_SetupWebhookWithManager_def YandexMachineTemplate_SetupWebhookWithManager_def
  YandexCluster_SetupWebhookWithManager_def orExit_def Must_def deferClose_def setup_call_def
  YandexClient_Close_def external_def sim_runtime_def sim_process_def start_def Let_def

lemma startup_in_order_witness:
  "fst (program sim_runtime sim_lib sim_process) = Ok Returned \<and>
   (\<exists>fl cfg K sdk f ok. p_steps (snd (program sim_runtime sim_lib sim_process)) =
      accomplished (startup_plan sim_lib fl cfg K sdk f) @ [(S_Shutdown, ok)])"
proof -
  let ?x = "program sim_runtime sim_lib sim_process"
  have "fst ?x = Ok Returned" by (simp add: startup_run_defs go_core)
  then have "\<not> stopped st (fst ?x)" for st :: "Sim setup_step" by (simp add: stopped_def)
  moreover have "\<not> p_registered sim_process" "p_steps sim_process = []"
    by (simp_all add: sim_process_def)
  ultimately show ?thesis
    using startup_in_order [OF prod.collapse [symmetric], where R = sim_runtime and L = sim_lib and p = sim_process]
      \<open>fst ?x = Ok Returned\<close> unfolding Let_def by auto
qed

end
