(* ===== verification/Go_Memory.thy ===== *)
theory Go_Memory
  imports Prelude
begin

text \<open>
  Memory with addresses, for the code whose point is which parts of two objects share memory: cells of any
  type \<open>'c\<close>, allocation, what a struct with pointers represents and which cells it owns, and the contract of
  a deep copy with the rules by which deep copies are put together.
\<close>

section \<open>Cells\<close>

type_synonym addr = nat

record 'c Memory =
  next_free :: addr
  cells :: "addr \<rightharpoonup> 'c"

text \<open>
  \<open>reserve\<close> is \<open>new(T)\<close> or \<open>make([]T, n)\<close>: a new cell, written before it is read.  Reading a cell of another
  type, or one that was never written, does not happen in Go; here it panics.
\<close>

definition reserve :: "('c Memory, addr) go" where
  "reserve m = (Ok (next_free m), m\<lparr>next_free := Suc (next_free m)\<rparr>)"

definition write_cell :: "addr \<Rightarrow> 'c \<Rightarrow> ('c Memory, unit) go" where
  "write_cell a c m = (Ok (), m\<lparr>cells := (cells m)(a \<mapsto> c)\<rparr>)"

definition read_cell :: "('c \<Rightarrow> 'a option) \<Rightarrow> addr \<Rightarrow> ('c Memory, 'a) go" where
  "read_cell get a m =
     (case cells m a of
        None \<Rightarrow> (Panic ''invalid memory address'', m)
      | Some c \<Rightarrow> (case get c of None \<Rightarrow> (Panic ''invalid memory address'', m) | Some x \<Rightarrow> (Ok x, m)))"

text \<open>Nothing that was allocated changes.\<close>

definition extends :: "'c Memory \<Rightarrow> 'c Memory \<Rightarrow> bool" where
  "extends m m' \<longleftrightarrow> next_free m \<le> next_free m' \<and> (\<forall>a < next_free m. cells m' a = cells m a)"

interpretation extends: run_relation extends
  by unfold_locales (auto simp: extends_def)

section \<open>What a value in memory stands for\<close>

text \<open>
  \<open>R m x v A\<close>: in the memory \<open>m\<close> the Go value \<open>x\<close> stands for \<open>v\<close>, and \<open>A\<close> are the cells reached from it.  What it
  stands for depends on these cells only.
\<close>

locale owned =
  fixes R :: "'c Memory \<Rightarrow> 'a \<Rightarrow> 'v \<Rightarrow> addr set \<Rightarrow> bool"
  assumes local: "R m x v A \<Longrightarrow> (\<And>a. a \<in> A \<Longrightarrow> cells m' a = cells m a) \<Longrightarrow> R m' x v A"
begin

lemma kept:
  assumes "R m x v A" "A \<subseteq> {..<next_free m}" "extends m m'"
  shows "R m' x v A"
  using local [OF assms(1), of m'] assms(2,3) by (auto simp: extends_def)

text \<open>
  What was made afterwards shares no cell with what was there, and writes to the cells of the one leave the other as it
  was.
\<close>

lemma apart:
  assumes x: "R m x v A" "A \<subseteq> {..<next_free m}" "extends m m'"
    and y: "R m' y w B" "B \<subseteq> {next_free m..<next_free m'}"
  shows "A \<inter> B = {}"
    and "(\<And>a. a \<notin> B \<Longrightarrow> cells m2 a = cells m' a) \<Longrightarrow> R m2 x v A"
    and "(\<And>a. a \<notin> A \<Longrightarrow> cells m2 a = cells m' a) \<Longrightarrow> R m2 y w B"
proof -
  show disjoint: "A \<inter> B = {}" using x(2) y(2) by fastforce
  show "R m2 x v A" if "\<And>a. a \<notin> B \<Longrightarrow> cells m2 a = cells m' a"
    using local [OF kept [OF x], of m2] that disjoint by blast
  show "R m2 y w B" if "\<And>a. a \<notin> A \<Longrightarrow> cells m2 a = cells m' a"
    using local [OF y(1), of m2] that disjoint by blast
qed

end

text \<open>A deep copy stands for the same value, in new cells.\<close>

locale deep_copier = owned R for R :: "'c Memory \<Rightarrow> 'a \<Rightarrow> 'v \<Rightarrow> addr set \<Rightarrow> bool" +
  fixes copy :: "'a \<Rightarrow> ('c Memory, 'a) go"
  assumes copies: "R m x v A \<Longrightarrow> A \<subseteq> {..<next_free m} \<Longrightarrow>
    \<exists>y m' B. copy x m = (Ok y, m') \<and> extends m m' \<and> R m' y v B \<and> B \<subseteq> {next_free m..<next_free m'}"

section \<open>Plain values and pairs\<close>

definition plain :: "'c Memory \<Rightarrow> 'a \<Rightarrow> 'a \<Rightarrow> addr set \<Rightarrow> bool" where
  "plain m x v A \<longleftrightarrow> v = x \<and> A = {}"

interpretation plain: deep_copier plain ret
  by unfold_locales (auto simp: plain_def intro: extends.refl_R)

fun both ::
    "('c Memory \<Rightarrow> 'a \<Rightarrow> 'v \<Rightarrow> addr set \<Rightarrow> bool) \<Rightarrow> ('c Memory \<Rightarrow> 'b \<Rightarrow> 'w \<Rightarrow> addr set \<Rightarrow> bool) \<Rightarrow>
       'c Memory \<Rightarrow> 'a \<times> 'b \<Rightarrow> 'v \<times> 'w \<Rightarrow> addr set \<Rightarrow> bool" where
  "both R S m (x, y) (v, w) A \<longleftrightarrow> (\<exists>B C. R m x v B \<and> S m y w C \<and> A = B \<union> C)"

lemma both_intro: "R m x v B \<Longrightarrow> S m y w C \<Longrightarrow> both R S m (x, y) (v, w) (B \<union> C)"
  by auto

fun copy_both ::
    "('a \<Rightarrow> ('c Memory, 'a) go) \<Rightarrow> ('b \<Rightarrow> ('c Memory, 'b) go) \<Rightarrow> 'a \<times> 'b \<Rightarrow> ('c Memory, 'a \<times> 'b) go" where
  "copy_both c d (x, y) = bindG (c x) (\<lambda>x'. bindG (d y) (\<lambda>y'. ret (x', y')))"

lemma owned_both: "owned R \<Longrightarrow> owned S \<Longrightarrow> owned (both R S)"
  unfolding owned_def by (auto elim!: both.elims) (metis UnI1 UnI2)

lemma copier_both:
  assumes c: "deep_copier R c" and d: "deep_copier S d"
  shows "deep_copier (both R S) (copy_both c d)"
proof (rule deep_copier.intro)
  show "owned (both R S)" using c d by (intro owned_both deep_copier.axioms)
  show "deep_copier_axioms (both R S) (copy_both c d)"
  proof
    fix m p v A
    assume r: "both R S m p v A" and A: "A \<subseteq> {..<next_free m}"
    then obtain x y v1 v2 B C where p: "p = (x, y)" "v = (v1, v2)" "R m x v1 B" "S m y v2 C" "A = B \<union> C"
      by (auto elim: both.elims)
    from deep_copier.copies [OF c p(3)] A p(5) obtain x' m1 B' where
      x: "c x m = (Ok x', m1)" "extends m m1" "R m1 x' v1 B'" "B' \<subseteq> {next_free m..<next_free m1}" by blast
    have C: "C \<subseteq> {..<next_free m1}" "C \<subseteq> {..<next_free m}" using A p(5) x(2) by (auto simp: extends_def)
    have "S m1 y v2 C" using owned.kept [OF deep_copier.axioms(1) [OF d] p(4) C(2) x(2)] .
    from deep_copier.copies [OF d this C(1)] obtain y' m2 C' where
      y: "d y m1 = (Ok y', m2)" "extends m1 m2" "S m2 y' v2 C'" "C' \<subseteq> {next_free m1..<next_free m2}" by blast
    have "R m2 x' v1 B'"
      using x(4) by (intro owned.kept [OF deep_copier.axioms(1) [OF c] x(3) _ y(2)]) auto
    moreover have "extends m m2" using x(2) y(2) by (rule extends.trans_R)
    moreover have "B' \<union> C' \<subseteq> {next_free m..<next_free m2}"
      using x(2,4) y(2,4) by (fastforce simp: extends_def)
    moreover have "copy_both c d p m = (Ok (x', y'), m2)" using p(1) x(1) y(1) by simp
    ultimately show "\<exists>q m' D. copy_both c d p m = (Ok q, m') \<and> extends m m' \<and> both R S m' q v D \<and>
        D \<subseteq> {next_free m..<next_free m'}"
      using p(2) y(3) by (intro exI [of _ "(x', y')"] exI [of _ m2] exI [of _ "B' \<union> C'"]) auto
  qed
qed

section \<open>Slices: the elements\<close>

fun elements ::
    "('c Memory \<Rightarrow> 'a \<Rightarrow> 'v \<Rightarrow> addr set \<Rightarrow> bool) \<Rightarrow> 'c Memory \<Rightarrow> 'a list \<Rightarrow> 'v list \<Rightarrow> addr set \<Rightarrow> bool" where
  "elements R m [] vs A \<longleftrightarrow> vs = [] \<and> A = {}"
| "elements R m (x # xs) vs A \<longleftrightarrow>
     (\<exists>v ws B C. vs = v # ws \<and> R m x v B \<and> elements R m xs ws C \<and> A = B \<union> C)"

text \<open>\<open>for i := range *in\<close>: each element is copied in turn.\<close>

fun copy_elements :: "('a \<Rightarrow> ('c Memory, 'a) go) \<Rightarrow> 'a list \<Rightarrow> ('c Memory, 'a list) go" where
  "copy_elements c [] = ret []"
| "copy_elements c (x # xs) = bindG (c x) (\<lambda>y. bindG (copy_elements c xs) (\<lambda>ys. ret (y # ys)))"

lemma owned_elements:
  assumes "owned R"
  shows "owned (elements R)"
proof
  fix m m' :: "'a Memory" and xs vs A
  assume "elements R m xs vs A" "\<And>a. a \<in> A \<Longrightarrow> cells m' a = cells m a"
  then show "elements R m' xs vs A"
  proof (induction xs arbitrary: vs A)
    case (Cons x xs)
    then obtain v ws B C where p: "vs = v # ws" "R m x v B" "elements R m xs ws C" "A = B \<union> C" by auto
    with Cons.prems(2) have "R m' x v B" using owned.local [OF assms p(2), of m'] by blast
    moreover have "elements R m' xs ws C" using Cons.IH [OF p(3)] Cons.prems(2) p(4) by blast
    ultimately show ?case using p by auto
  qed simp
qed

lemma copier_elements:
  assumes c: "deep_copier R c"
  shows "deep_copier (elements R) (copy_elements c)"
proof (rule deep_copier.intro)
  show "owned (elements R)" using c by (intro owned_elements deep_copier.axioms)
  show "deep_copier_axioms (elements R) (copy_elements c)"
  proof
    fix m xs vs A
    assume "elements R m xs vs A" "A \<subseteq> {..<next_free m}"
    then show "\<exists>ys m' B. copy_elements c xs m = (Ok ys, m') \<and> extends m m' \<and> elements R m' ys vs B \<and>
        B \<subseteq> {next_free m..<next_free m'}"
    proof (induction xs arbitrary: m vs A)
      case Nil
      then show ?case by (auto intro: extends.refl_R)
    next
      case (Cons x xs)
      then obtain v ws A1 A2 where p: "vs = v # ws" "R m x v A1" "elements R m xs ws A2" "A = A1 \<union> A2" by auto
      with Cons.prems(2) deep_copier.copies [OF c p(2)] obtain y m1 B where
        y: "c x m = (Ok y, m1)" "extends m m1" "R m1 y v B" "B \<subseteq> {next_free m..<next_free m1}" by blast
      have A2: "A2 \<subseteq> {..<next_free m}" "A2 \<subseteq> {..<next_free m1}"
        using Cons.prems(2) p(4) y(2) by (auto simp: extends_def)
      have "owned (elements R)" using c by (intro owned_elements deep_copier.axioms)
      from owned.kept [OF this p(3) A2(1) y(2)] have "elements R m1 xs ws A2" .
      from Cons.IH [OF this A2(2)] obtain ys m2 C where
        ys: "copy_elements c xs m1 = (Ok ys, m2)" "extends m1 m2" "elements R m2 ys ws C"
          "C \<subseteq> {next_free m1..<next_free m2}" by blast
      have "R m2 y v B"
        using y(4) by (intro owned.kept [OF deep_copier.axioms(1) [OF c] y(3) _ ys(2)]) auto
      moreover have "extends m m2" using y(2) ys(2) by (rule extends.trans_R)
      moreover have "B \<union> C \<subseteq> {next_free m..<next_free m2}"
        using y(2,4) ys(2,4) by (fastforce simp: extends_def)
      ultimately show ?case
        using p(1) y(1) ys(1,3) by (intro exI [of _ "y # ys"] exI [of _ m2] exI [of _ "B \<union> C"]) auto
    qed
  qed
qed

section \<open>Pointers\<close>

text \<open>
  A pointer that may be nil, to a cell of the type that \<open>get\<close> recognises.  \<open>copy_pointer\<close> is the code of a
  generated \<open>DeepCopy\<close> and of the block for a pointer field: nil stays nil, otherwise a new cell is made and the
  contents are copied into it.
\<close>

definition pointer ::
    "('c \<Rightarrow> 'a option) \<Rightarrow> ('c Memory \<Rightarrow> 'a \<Rightarrow> 'v \<Rightarrow> addr set \<Rightarrow> bool) \<Rightarrow>
       'c Memory \<Rightarrow> addr option \<Rightarrow> 'v option \<Rightarrow> addr set \<Rightarrow> bool" where
  "pointer get R m p v A \<longleftrightarrow>
     (case p of
        None \<Rightarrow> v = None \<and> A = {}
      | Some a \<Rightarrow> (\<exists>c x w B. cells m a = Some c \<and> get c = Some x \<and> R m x w B \<and> v = Some w \<and> A = insert a B))"

definition copy_pointer ::
    "('a \<Rightarrow> 'c) \<Rightarrow> ('c \<Rightarrow> 'a option) \<Rightarrow> ('a \<Rightarrow> ('c Memory, 'a) go) \<Rightarrow> addr option \<Rightarrow> ('c Memory, addr option) go" where
  "copy_pointer put get copy p =
     (case p of
        None \<Rightarrow> ret None
      | Some a \<Rightarrow>
          bindG reserve (\<lambda>b.
          bindG (read_cell get a) (\<lambda>x.
          bindG (copy x) (\<lambda>y.
          thenG (write_cell b (put y)) (ret (Some b))))))"

lemma owned_pointer:
  assumes "owned R"
  shows "owned (pointer get R)"
proof
  fix m m' :: "'a Memory" and p v A
  assume r: "pointer get R m p v A" and same: "\<And>a. a \<in> A \<Longrightarrow> cells m' a = cells m a"
  show "pointer get R m' p v A"
  proof (cases p)
    case (Some a)
    with r obtain c x w B where q: "cells m a = Some c" "get c = Some x" "R m x w B" "v = Some w" "A = insert a B"
      by (auto simp: pointer_def)
    have "R m' x w B" using owned.local [OF assms q(3), of m'] same q(5) by blast
    with Some q same show ?thesis by (auto simp: pointer_def)
  qed (use r in \<open>simp add: pointer_def\<close>)
qed

lemma copier_pointer:
  assumes c: "deep_copier R copy" and put: "\<And>x. get (put x) = Some x"
  shows "deep_copier (pointer get R) (copy_pointer put get copy)"
proof (rule deep_copier.intro)
  show "owned (pointer get R)" using c by (intro owned_pointer deep_copier.axioms)
  show "deep_copier_axioms (pointer get R) (copy_pointer put get copy)"
  proof
    fix m p v A
    assume r: "pointer get R m p v A" and A: "A \<subseteq> {..<next_free m}"
    show "\<exists>q m' B. copy_pointer put get copy p m = (Ok q, m') \<and> extends m m' \<and> pointer get R m' q v B \<and>
        B \<subseteq> {next_free m..<next_free m'}"
    proof (cases p)
      case None
      with r show ?thesis by (auto simp: pointer_def copy_pointer_def intro: extends.refl_R)
    next
      case (Some a)
      with r obtain d x w B where q: "cells m a = Some d" "get d = Some x" "R m x w B" "v = Some w" "A = insert a B"
        by (auto simp: pointer_def)
      let ?b = "next_free m" and ?m = "m\<lparr>next_free := Suc (next_free m)\<rparr>"
      have "extends m ?m" by (simp add: extends_def)
      then have "R ?m x w B" "B \<subseteq> {..<next_free ?m}"
        using A q(5) owned.kept [OF deep_copier.axioms(1) [OF c] q(3)] by auto
      from deep_copier.copies [OF c this] obtain y m1 B' where
        y: "copy x ?m = (Ok y, m1)" "extends ?m m1" "R m1 y w B'" "B' \<subseteq> {Suc ?b..<next_free m1}" by auto
      let ?m2 = "m1\<lparr>cells := (cells m1)(?b \<mapsto> put y)\<rparr>"
      have "R ?m2 y w B'"
        using owned.local [OF deep_copier.axioms(1) [OF c] y(3), of ?m2] y(4) by fastforce
      then have "pointer get R ?m2 (Some ?b) v (insert ?b B')"
        using q(4) put by (auto simp: pointer_def)
      moreover have "copy_pointer put get copy p m = (Ok (Some ?b), ?m2)"
        using Some q(1,2) y(1) by (simp add: copy_pointer_def reserve_def read_cell_def write_cell_def bindG_def
            tryG_def thenG_def)
      moreover have "extends m ?m2" "insert ?b B' \<subseteq> {?b..<next_free ?m2}"
        using y(2,4) by (auto simp: extends_def)
      ultimately show ?thesis by blast
    qed
  qed
qed

section \<open>Maps\<close>

text \<open>
  \<open>for key, val := range *in { (*out)[key] = val }\<close>, over the entries in the order in which \<open>range\<close> visits them,
  which Go leaves open: \<open>visits entries\<close> says that it visits each entry of a finite map.
\<close>

fun copy_entries ::
    "(('k \<rightharpoonup> 'v) \<Rightarrow> 'c) \<Rightarrow> ('c \<Rightarrow> ('k \<rightharpoonup> 'v) option) \<Rightarrow> addr \<Rightarrow> ('k \<times> 'v) list \<Rightarrow> ('c Memory, unit) go" where
  "copy_entries put get b [] = ret ()"
| "copy_entries put get b ((k, v) # es) =
     bindG (read_cell get b) (\<lambda>out.
     thenG (write_cell b (put (out(k \<mapsto> v)))) (copy_entries put get b es))"

definition copy_map ::
    "(('k \<rightharpoonup> 'v) \<Rightarrow> 'c) \<Rightarrow> ('c \<Rightarrow> ('k \<rightharpoonup> 'v) option) \<Rightarrow> (('k \<rightharpoonup> 'v) \<Rightarrow> ('k \<times> 'v) list) \<Rightarrow>
       addr option \<Rightarrow> ('c Memory, addr option) go" where
  "copy_map put get entries p =
     (case p of
        None \<Rightarrow> ret None
      | Some a \<Rightarrow>
          bindG reserve (\<lambda>b.
          thenG (write_cell b (put Map.empty))
          (bindG (read_cell get a) (\<lambda>src.
          thenG (copy_entries put get b (entries src)) (ret (Some b))))))"

definition visits :: "(('k \<rightharpoonup> 'v) \<Rightarrow> ('k \<times> 'v) list) \<Rightarrow> bool" where
  "visits entries \<longleftrightarrow> (\<forall>f. finite (dom f) \<longrightarrow> set (entries f) = Map.graph f)"

definition finite_map :: "'c Memory \<Rightarrow> ('k \<rightharpoonup> 'v) \<Rightarrow> ('k \<rightharpoonup> 'v) \<Rightarrow> addr set \<Rightarrow> bool" where
  "finite_map m x v A \<longleftrightarrow> v = x \<and> A = {} \<and> finite (dom x)"

lemma copy_entries_run:
  assumes put: "\<And>x. get (put x) = Some x"
  shows "cells m b = Some (put f) \<Longrightarrow> set es \<subseteq> Map.graph src \<Longrightarrow>
    copy_entries put get b es m =
      (Ok (), m\<lparr>cells := (cells m)(b \<mapsto> put (\<lambda>k. if k \<in> fst ` set es then src k else f k))\<rparr>)"
proof (induction es arbitrary: m f)
  case Nil
  then show ?case by (simp add: fun_upd_idem)
next
  case (Cons e es)
  obtain k v where e: "e = (k, v)" by fastforce
  with Cons.prems(2) have src: "src k = Some v" "set es \<subseteq> Map.graph src" by (auto simp: in_graphD)
  let ?m = "m\<lparr>cells := (cells m)(b \<mapsto> put (f(k \<mapsto> v)))\<rparr>"
  have "copy_entries put get b (e # es) m = copy_entries put get b es ?m"
    using Cons.prems(1) put e by (simp add: read_cell_def write_cell_def bindG_def tryG_def thenG_def)
  also have "\<dots> = (Ok (), ?m\<lparr>cells := (cells ?m)(b \<mapsto> put (\<lambda>i. if i \<in> fst ` set es then src i else (f(k \<mapsto> v)) i))\<rparr>)"
    by (rule Cons.IH [OF _ src(2)]) (simp add: fun_upd_same del: fun_upd_apply)
  also have "(\<lambda>i. if i \<in> fst ` set es then src i else (f(k \<mapsto> v)) i) =
      (\<lambda>i. if i \<in> fst ` set (e # es) then src i else f i)"
    using e src(1) by auto
  finally show ?case by (simp del: fun_upd_apply)
qed

lemma graph_keys: "(\<lambda>k. if k \<in> fst ` Map.graph f then f k else None) = f"
  by (auto simp: fun_eq_iff image_iff graph_def domIff)

interpretation finite_map: owned finite_map
  by unfold_locales (simp add: finite_map_def)

lemmas owned_finite_map = finite_map.owned_axioms

lemma copier_map:
  assumes put: "\<And>x. get (put x) = Some x" and visits: "visits entries"
  shows "deep_copier (pointer get finite_map) (copy_map put get entries)"
proof (rule deep_copier.intro)
  show "owned (pointer get finite_map)" by (intro owned_pointer owned_finite_map)
  show "deep_copier_axioms (pointer get finite_map) (copy_map put get entries)"
  proof
    fix m p v A
    assume r: "pointer get finite_map m p v A" and A: "A \<subseteq> {..<next_free m}"
    show "\<exists>q m' B. copy_map put get entries p m = (Ok q, m') \<and> extends m m' \<and> pointer get finite_map m' q v B \<and>
        B \<subseteq> {next_free m..<next_free m'}"
    proof (cases p)
      case None
      with r show ?thesis by (auto simp: pointer_def copy_map_def intro: extends.refl_R)
    next
      case (Some a)
      with r obtain c src where q: "cells m a = Some c" "get c = Some src" "finite (dom src)" "v = Some src" "A = {a}"
        by (auto simp: pointer_def finite_map_def)
      let ?b = "next_free m"
      let ?m = "m\<lparr>next_free := Suc ?b, cells := (cells m)(?b \<mapsto> put Map.empty)\<rparr>"
      let ?m2 = "m\<lparr>next_free := Suc ?b, cells := (cells m)(?b \<mapsto> put src)\<rparr>"
      have es: "set (entries src) = Map.graph src" using visits q(3) by (simp add: visits_def)
      have "copy_entries put get ?b (entries src) ?m = (Ok (), ?m2)"
        using copy_entries_run [of get put ?m ?b Map.empty "entries src" src] put es by (simp add: graph_keys)
      moreover have "a \<noteq> ?b" using A q(5) by auto
      ultimately have "copy_map put get entries p m = (Ok (Some ?b), ?m2)"
        using Some q(1,2) by (simp add: copy_map_def reserve_def read_cell_def write_cell_def bindG_def tryG_def
            thenG_def)
      moreover have "pointer get finite_map ?m2 (Some ?b) v {?b}"
        using q(3,4) put by (simp add: pointer_def finite_map_def)
      moreover have "extends m ?m2" "{?b} \<subseteq> {?b..<next_free ?m2}" by (simp_all add: extends_def)
      ultimately show ?thesis by blast
    qed
  qed
qed

section \<open>Structs\<close>

text \<open>
  A struct some of whose fields hold memory: \<open>parts\<close> takes these, \<open>build\<close> puts new ones in their place, and \<open>value\<close>
  makes what the struct stands for from its other fields and from what these stand for.
\<close>

definition struct ::
    "('s \<Rightarrow> 'f) \<Rightarrow> ('s \<Rightarrow> 'u \<Rightarrow> 'v) \<Rightarrow> ('c Memory \<Rightarrow> 'f \<Rightarrow> 'u \<Rightarrow> addr set \<Rightarrow> bool) \<Rightarrow>
       'c Memory \<Rightarrow> 's \<Rightarrow> 'v \<Rightarrow> addr set \<Rightarrow> bool" where
  "struct parts val R m s v A \<longleftrightarrow> (\<exists>u. R m (parts s) u A \<and> v = val s u)"

lemma structI: "R m (parts s) u A \<Longrightarrow> v = val s u \<Longrightarrow> struct parts val R m s v A"
  by (auto simp: struct_def)

lemma owned_struct: "owned R \<Longrightarrow> owned (struct parts val R)"
  unfolding owned_def struct_def by blast

lemma copier_struct:
  assumes c: "deep_copier R c"
    and copy: "\<And>s. copy s = bindG (c (parts s)) (\<lambda>f. ret (build s f))"
    and build: "\<And>s f. parts (build s f) = f" "\<And>s f u. val (build s f) u = val s u"
  shows "deep_copier (struct parts val R) copy"
proof (rule deep_copier.intro)
  show "owned (struct parts val R)" using c by (intro owned_struct deep_copier.axioms)
  show "deep_copier_axioms (struct parts val R) copy"
  proof
    fix m s v A
    assume "struct parts val R m s v A" and A: "A \<subseteq> {..<next_free m}"
    then obtain u where u: "R m (parts s) u A" "v = val s u" by (auto simp: struct_def)
    from deep_copier.copies [OF c u(1) A] obtain f m' B where
      f: "c (parts s) m = (Ok f, m')" "extends m m'" "R m' f u B" "B \<subseteq> {next_free m..<next_free m'}" by blast
    then have "copy s m = (Ok (build s f), m')" "struct parts val R m' (build s f) v B"
      using u(2) by (auto simp: copy struct_def build)
    with f show "\<exists>y m' B. copy s m = (Ok y, m') \<and> extends m m' \<and> struct parts val R m' y v B \<and>
        B \<subseteq> {next_free m..<next_free m'}" by blast
  qed
qed

lemma bindG_assoc: "bindG (bindG m k) h = bindG m (\<lambda>a. bindG (k a) h)"
  by (rule ext) (simp add: bindG_def tryG_def split: prod.split outcome.split)

lemma bindG_ret: "bindG (ret a) k = k a" "bindG m ret = m"
  by (rule ext, simp add: bindG_def tryG_def split: prod.split outcome.split)+

end
