(* ===== verification/Api_Memory.thy ===== *)
theory Api_Memory
  imports Go_Memory Api
begin

text \<open>
  The types of \<open>api/v1alpha1\<close> as they lie in memory, for the generated deep copies: a pointer, a slice and a map are
  addresses of cells (\<open>None\<close> is nil), and the library's types (\<open>resource.Quantity\<close>, \<open>metav1.ObjectMeta\<close>,
  \<open>clusterv1.ObjectMeta\<close>, \<open>metav1.ListMeta\<close>, \<open>clusterv1.Condition\<close>), whose fields the repository does not declare, are values of the type
  parameter \<open>'l\<close>.  A struct without pointers is the record of \<open>Api\<close>.  For each type \<open>repr_<T>\<close> says which record of
  \<open>Api\<close> a struct in memory stands for, and which cells it reaches.
\<close>

section \<open>Structs with pointers\<close>

record 'l DiskM =
  diM_TypeID :: "addr option"
  diM_Size :: 'l
  diM_ImageID :: string

record NetworkInterfaceM =
  niM_SubnetID :: string
  niM_HasPublicIP :: "addr option"

record 'l ResourcesM =
  reM_Memory :: 'l
  reM_Cores :: int64
  reM_CoreFraction :: "addr option"
  reM_GPUs :: "addr option"

record LoadBalancerSpecM =
  lbsM_Type :: LoadBalancerType
  lbsM_Name :: string
  lbsM_Listener :: ListenerSpec
  lbsM_BackendPort :: int32
  lbsM_Healthcheck :: HealtcheckSpec
  lbsM_SecurityGroups :: "addr option"

record YandexClusterSpecM =
  ycsM_NetworkSpec :: NetworkSpec
  ycsM_ControlPlaneEndpoint :: APIEndpoint
  ycsM_FolderID :: string
  ycsM_LoadBalancer :: LoadBalancerSpecM
  ycsM_Labels :: "addr option"

record YandexClusterStatusM =
  ycstM_Ready :: bool
  ycstM_LoadBalancer :: LoadBalancerStatus
  ycstM_Conditions :: "addr option"

record TypeMeta =
  tm_Kind :: string
  tm_APIVersion :: string

record 'l YandexClusterM =
  ycM_TypeMeta :: TypeMeta
  ycM_Meta :: 'l
  ycM_Spec :: YandexClusterSpecM
  ycM_Status :: YandexClusterStatusM

record 'l YandexMachineSpecM =
  ymsM_ProviderID :: "addr option"
  ymsM_ZoneID :: "addr option"
  ymsM_PlatformID :: "addr option"
  ymsM_BootDisk :: "addr option"
  ymsM_Resources :: "'l ResourcesM"
  ymsM_NetworkInterfaces :: "addr option"

record YandexMachineStatusM =
  ymstM_Ready :: bool
  ymstM_Addresses :: "addr option"
  ymstM_InstanceStatus :: "addr option"
  ymstM_FailureReason :: "addr option"
  ymstM_FailureMessage :: "addr option"
  ymstM_Conditions :: "addr option"

record 'l YandexMachineM =
  ymM_TypeMeta :: TypeMeta
  ymM_Meta :: 'l
  ymM_Spec :: "'l YandexMachineSpecM"
  ymM_Status :: YandexMachineStatusM

record 'l YandexMachineTemplateResourceM =
  ymtrM_Meta :: 'l
  ymtrM_Spec :: "'l YandexMachineSpecM"

record 'l YandexMachineTemplateSpecM =
  ymtsM_Template :: "'l YandexMachineTemplateResourceM"

record 'l YandexMachineTemplateM =
  ymtM_TypeMeta :: TypeMeta
  ymtM_Meta :: 'l
  ymtM_Spec :: "'l YandexMachineTemplateSpecM"

text \<open>\<open>YandexClusterList\<close>, \<open>YandexMachineList\<close> and \<open>YandexMachineTemplateList\<close> have the same three fields.\<close>

record 'l ObjectListM =
  li_TypeMeta :: TypeMeta
  li_ListMeta :: 'l
  li_Items :: "addr option"

type_synonym 'l YandexClusterListM = "'l ObjectListM"
type_synonym 'l YandexMachineListM = "'l ObjectListM"
type_synonym 'l YandexMachineTemplateListM = "'l ObjectListM"

section \<open>Cells\<close>

text \<open>
  A cell holds one value: a string (also of the string types \<open>InstanceStatus\<close> and \<open>MachineStatusError\<close>), the array
  of a slice, the entries of a map, or a struct.
\<close>

datatype 'l cell =
    C_string (un_string: string)
  | C_bool (un_bool: bool)
  | C_int64 (un_int64: int64)
  | C_strings (un_strings: "string list")
  | C_labels (un_labels: "string \<rightharpoonup> string")
  | C_addresses (un_addresses: "NodeAddress list")
  | C_conditions (un_conditions: "'l list")
  | C_interfaces (un_interfaces: "NetworkInterfaceM list")
  | C_Disk (un_Disk: "'l DiskM")
  | C_HealtcheckSpec (un_HealtcheckSpec: HealtcheckSpec)
  | C_ListenerSpec (un_ListenerSpec: ListenerSpec)
  | C_LoadBalancerSpec (un_LoadBalancerSpec: LoadBalancerSpecM)
  | C_LoadBalancerStatus (un_LoadBalancerStatus: LoadBalancerStatus)
  | C_NetworkInterface (un_NetworkInterface: NetworkInterfaceM)
  | C_NetworkSpec (un_NetworkSpec: NetworkSpec)
  | C_Resources (un_Resources: "'l ResourcesM")
  | C_SubnetSpec (un_SubnetSpec: SubnetSpec)
  | C_YandexCluster (un_YandexCluster: "'l YandexClusterM")
  | C_clusters (un_clusters: "'l YandexClusterM list")
  | C_YandexClusterList (un_YandexClusterList: "'l YandexClusterListM")
  | C_YandexClusterSpec (un_YandexClusterSpec: YandexClusterSpecM)
  | C_YandexClusterStatus (un_YandexClusterStatus: YandexClusterStatusM)
  | C_YandexMachine (un_YandexMachine: "'l YandexMachineM")
  | C_machines (un_machines: "'l YandexMachineM list")
  | C_YandexMachineList (un_YandexMachineList: "'l YandexMachineListM")
  | C_YandexMachineSpec (un_YandexMachineSpec: "'l YandexMachineSpecM")
  | C_YandexMachineStatus (un_YandexMachineStatus: YandexMachineStatusM)
  | C_YandexMachineTemplate (un_YandexMachineTemplate: "'l YandexMachineTemplateM")
  | C_templates (un_templates: "'l YandexMachineTemplateM list")
  | C_YandexMachineTemplateList (un_YandexMachineTemplateList: "'l YandexMachineTemplateListM")
  | C_YandexMachineTemplateResource (un_YandexMachineTemplateResource: "'l YandexMachineTemplateResourceM")
  | C_YandexMachineTemplateSpec (un_YandexMachineTemplateSpec: "'l YandexMachineTemplateSpecM")
  | C_library (un_library: 'l)

definition view :: "('c \<Rightarrow> bool) \<Rightarrow> ('c \<Rightarrow> 'a) \<Rightarrow> 'c \<Rightarrow> 'a option" where
  "view is un c = (if is c then Some (un c) else None)"

section \<open>What the structs stand for\<close>

text \<open>
  A parameter: what the library's values stand for, the object metadata and the conditions as the records of \<open>Api\<close>,
  a quantity and the list metadata as their serialised texts.
\<close>

record 'l Reprs =
  rp_Quantity :: "'l cell Memory \<Rightarrow> 'l \<Rightarrow> Quantity \<Rightarrow> addr set \<Rightarrow> bool"
  rp_ObjectMeta :: "'l cell Memory \<Rightarrow> 'l \<Rightarrow> ObjectMeta \<Rightarrow> addr set \<Rightarrow> bool"
  rp_TemplateMeta :: "'l cell Memory \<Rightarrow> 'l \<Rightarrow> TemplateMeta \<Rightarrow> addr set \<Rightarrow> bool"
  rp_ListMeta :: "'l cell Memory \<Rightarrow> 'l \<Rightarrow> string \<Rightarrow> addr set \<Rightarrow> bool"
  rp_Condition :: "'l cell Memory \<Rightarrow> 'l \<Rightarrow> Condition \<Rightarrow> addr set \<Rightarrow> bool"

type_synonym ('l, 'a, 'v) repr = "'l cell Memory \<Rightarrow> 'a \<Rightarrow> 'v \<Rightarrow> addr set \<Rightarrow> bool"

abbreviation string_ptr :: "('l, addr option, string option) repr" where
  "string_ptr \<equiv> pointer (view is_C_string un_string) plain"

abbreviation bool_ptr :: "('l, addr option, bool option) repr" where
  "bool_ptr \<equiv> pointer (view is_C_bool un_bool) plain"

abbreviation int64_ptr :: "('l, addr option, int64 option) repr" where
  "int64_ptr \<equiv> pointer (view is_C_int64 un_int64) plain"

abbreviation strings_slice :: "('l, addr option, string list option) repr" where
  "strings_slice \<equiv> pointer (view is_C_strings un_strings) plain"

abbreviation labels_map :: "('l, addr option, Labels) repr" where
  "labels_map \<equiv> pointer (view is_C_labels un_labels) finite_map"

abbreviation addresses_slice :: "('l, addr option, NodeAddress list option) repr" where
  "addresses_slice \<equiv> pointer (view is_C_addresses un_addresses) plain"

abbreviation conditions_slice :: "'l Reprs \<Rightarrow> ('l, addr option, Condition list option) repr" where
  "conditions_slice rp \<equiv> pointer (view is_C_conditions un_conditions) (elements (rp_Condition rp))"

text \<open>The records of \<open>Api\<close> do not tell a nil slice of conditions, addresses or interfaces from an empty one.\<close>

definition slice_items :: "'v list option \<Rightarrow> 'v list" where
  "slice_items p = (case p of None \<Rightarrow> [] | Some xs \<Rightarrow> xs)"

definition repr_NetworkInterface :: "('l, NetworkInterfaceM, NetworkInterface) repr" where
  "repr_NetworkInterface = struct niM_HasPublicIP
     (\<lambda>s ip. \<lparr>ni_SubnetID = niM_SubnetID s, ni_HasPublicIP = ip\<rparr>) bool_ptr"

definition repr_LoadBalancerSpec :: "('l, LoadBalancerSpecM, LoadBalancerSpec) repr" where
  "repr_LoadBalancerSpec = struct lbsM_SecurityGroups
     (\<lambda>s sgs. \<lparr>lbs_Type = lbsM_Type s, lbs_Name = lbsM_Name s, lbs_Listener = lbsM_Listener s,
        lbs_BackendPort = lbsM_BackendPort s, lbs_Healthcheck = lbsM_Healthcheck s, lbs_SecurityGroups = sgs\<rparr>)
     strings_slice"

definition repr_YandexClusterSpec :: "('l, YandexClusterSpecM, YandexClusterSpec) repr" where
  "repr_YandexClusterSpec = struct (\<lambda>s. (ycsM_LoadBalancer s, ycsM_Labels s))
     (\<lambda>s (lb, labels). \<lparr>ycs_NetworkSpec = ycsM_NetworkSpec s,
        ycs_ControlPlaneEndpoint = ycsM_ControlPlaneEndpoint s, ycs_FolderID = ycsM_FolderID s,
        ycs_LoadBalancer = lb, ycs_Labels = labels\<rparr>)
     (both repr_LoadBalancerSpec labels_map)"

definition repr_YandexClusterStatus :: "'l Reprs \<Rightarrow> ('l, YandexClusterStatusM, YandexClusterStatus) repr" where
  "repr_YandexClusterStatus rp = struct ycstM_Conditions
     (\<lambda>s cs. \<lparr>ycst_Ready = ycstM_Ready s, ycst_LoadBalancer = ycstM_LoadBalancer s,
        ycst_Conditions = slice_items cs\<rparr>)
     (conditions_slice rp)"

definition repr_YandexCluster :: "'l Reprs \<Rightarrow> ('l, 'l YandexClusterM, TypeMeta \<times> YandexCluster) repr" where
  "repr_YandexCluster rp = struct (\<lambda>s. (ycM_Meta s, ycM_Spec s, ycM_Status s))
     (\<lambda>s (meta, spec, status). (ycM_TypeMeta s, \<lparr>yc_Meta = meta, yc_Spec = spec, yc_Status = status\<rparr>))
     (both (rp_ObjectMeta rp) (both repr_YandexClusterSpec (repr_YandexClusterStatus rp)))"

definition repr_Disk :: "'l Reprs \<Rightarrow> ('l, 'l DiskM, Disk) repr" where
  "repr_Disk rp = struct (\<lambda>s. (diM_TypeID s, diM_Size s))
     (\<lambda>s (type, size'). \<lparr>di_TypeID = type, di_Size = size', di_ImageID = diM_ImageID s\<rparr>)
     (both string_ptr (rp_Quantity rp))"

definition repr_Resources :: "'l Reprs \<Rightarrow> ('l, 'l ResourcesM, Resources) repr" where
  "repr_Resources rp = struct (\<lambda>s. (reM_Memory s, reM_CoreFraction s, reM_GPUs s))
     (\<lambda>s (memory, fraction, gpus). \<lparr>re_Memory = memory, re_Cores = reM_Cores s, re_CoreFraction = fraction,
        re_GPUs = gpus\<rparr>)
     (both (rp_Quantity rp) (both int64_ptr int64_ptr))"

abbreviation disk_ptr :: "'l Reprs \<Rightarrow> ('l, addr option, Disk option) repr" where
  "disk_ptr rp \<equiv> pointer (view is_C_Disk un_Disk) (repr_Disk rp)"

abbreviation interfaces_slice :: "('l, addr option, NetworkInterface list option) repr" where
  "interfaces_slice \<equiv> pointer (view is_C_interfaces un_interfaces) (elements repr_NetworkInterface)"

definition repr_YandexMachineSpec :: "'l Reprs \<Rightarrow> ('l, 'l YandexMachineSpecM, YandexMachineSpec) repr" where
  "repr_YandexMachineSpec rp = struct
     (\<lambda>s. (ymsM_ProviderID s, ymsM_ZoneID s, ymsM_PlatformID s, ymsM_BootDisk s, ymsM_Resources s,
        ymsM_NetworkInterfaces s))
     (\<lambda>s (provider, zone, platform, disk, resources, interfaces).
        \<lparr>yms_ProviderID = provider, yms_ZoneID = zone, yms_PlatformID = platform, yms_BootDisk = disk,
         yms_Resources = resources, yms_NetworkInterfaces = slice_items interfaces\<rparr>)
     (both string_ptr (both string_ptr (both string_ptr (both (disk_ptr rp) (both (repr_Resources rp)
       interfaces_slice)))))"

definition repr_YandexMachineStatus :: "'l Reprs \<Rightarrow> ('l, YandexMachineStatusM, YandexMachineStatus) repr" where
  "repr_YandexMachineStatus rp = struct
     (\<lambda>s. (ymstM_Addresses s, ymstM_InstanceStatus s, ymstM_FailureReason s, ymstM_FailureMessage s,
        ymstM_Conditions s))
     (\<lambda>s (addrs, status, reason, message, cs).
        \<lparr>ymst_Ready = ymstM_Ready s, ymst_Addresses = slice_items addrs, ymst_InstanceStatus = status,
         ymst_FailureReason = reason, ymst_FailureMessage = message, ymst_Conditions = slice_items cs\<rparr>)
     (both addresses_slice (both string_ptr (both string_ptr (both string_ptr (conditions_slice rp)))))"

definition repr_YandexMachine :: "'l Reprs \<Rightarrow> ('l, 'l YandexMachineM, TypeMeta \<times> YandexMachine) repr" where
  "repr_YandexMachine rp = struct (\<lambda>s. (ymM_Meta s, ymM_Spec s, ymM_Status s))
     (\<lambda>s (meta, spec, status). (ymM_TypeMeta s, \<lparr>ym_Meta = meta, ym_Spec = spec, ym_Status = status\<rparr>))
     (both (rp_ObjectMeta rp) (both (repr_YandexMachineSpec rp) (repr_YandexMachineStatus rp)))"

definition repr_YandexMachineTemplateResource ::
    "'l Reprs \<Rightarrow> ('l, 'l YandexMachineTemplateResourceM, YandexMachineTemplateResource) repr" where
  "repr_YandexMachineTemplateResource rp = struct (\<lambda>s. (ymtrM_Meta s, ymtrM_Spec s))
     (\<lambda>s (meta, spec). \<lparr>ymtr_Meta = meta, ymtr_Spec = spec\<rparr>)
     (both (rp_TemplateMeta rp) (repr_YandexMachineSpec rp))"

definition repr_YandexMachineTemplateSpec ::
    "'l Reprs \<Rightarrow> ('l, 'l YandexMachineTemplateSpecM, YandexMachineTemplateSpec) repr" where
  "repr_YandexMachineTemplateSpec rp = struct ymtsM_Template (\<lambda>s t. \<lparr>ymts_Template = t\<rparr>)
     (repr_YandexMachineTemplateResource rp)"

definition repr_YandexMachineTemplate ::
    "'l Reprs \<Rightarrow> ('l, 'l YandexMachineTemplateM, TypeMeta \<times> YandexMachineTemplate) repr" where
  "repr_YandexMachineTemplate rp = struct (\<lambda>s. (ymtM_Meta s, ymtM_Spec s))
     (\<lambda>s (meta, spec). (ymtM_TypeMeta s, \<lparr>ymt_Meta = meta, ymt_Spec = spec\<rparr>))
     (both (rp_ObjectMeta rp) (repr_YandexMachineTemplateSpec rp))"

text \<open>A list object stands for its type, its metadata and its items.\<close>

definition repr_List ::
    "'l Reprs \<Rightarrow> ('l, addr option, 'v list option) repr \<Rightarrow>
       ('l, 'l ObjectListM, TypeMeta \<times> string \<times> 'v list option) repr" where
  "repr_List rp items = struct (\<lambda>s. (li_ListMeta s, li_Items s)) (\<lambda>s (meta, vs). (li_TypeMeta s, meta, vs))
     (both (rp_ListMeta rp) items)"

definition repr_YandexClusterList ::
    "'l Reprs \<Rightarrow> ('l, 'l YandexClusterListM, TypeMeta \<times> string \<times> (TypeMeta \<times> YandexCluster) list option) repr" where
  "repr_YandexClusterList rp =
     repr_List rp (pointer (view is_C_clusters un_clusters) (elements (repr_YandexCluster rp)))"

definition repr_YandexMachineList ::
    "'l Reprs \<Rightarrow> ('l, 'l YandexMachineListM, TypeMeta \<times> string \<times> (TypeMeta \<times> YandexMachine) list option) repr" where
  "repr_YandexMachineList rp =
     repr_List rp (pointer (view is_C_machines un_machines) (elements (repr_YandexMachine rp)))"

definition repr_YandexMachineTemplateList ::
    "'l Reprs \<Rightarrow> ('l, 'l YandexMachineTemplateListM, TypeMeta \<times> string \<times> (TypeMeta \<times> YandexMachineTemplate) list option) repr" where
  "repr_YandexMachineTemplateList rp =
     repr_List rp (pointer (view is_C_templates un_templates) (elements (repr_YandexMachineTemplate rp)))"

end
