(* ===== verification/Deep_Copy.thy ===== *)
theory Deep_Copy
  imports Api_Memory "HOL-Library.List_Lexorder" "HOL-Library.Char_ord"
begin

text \<open>
  \<open>api/v1alpha1/zz_generated.deepcopy.go\<close>: the deep copies of the custom resources, function by function over the
  memory of \<open>Api_Memory\<close>.  \<open>in.DeepCopyInto(out)\<close> returns the struct it leaves in \<open>*out\<close>, and the caller puts it
  where \<open>out\<close> points (a field of its own struct, an element of its new slice, a new cell); \<open>*out = *in\<close> is the record
  the fields are then replaced in.  The deep copies of the library's types are the parameter \<open>cp\<close>.  The lemmas show,
  bottom up, that every one of these functions makes a deep copy, and the property states it for the six API objects.
\<close>

section \<open>The library's deep copies\<close>

text \<open>
  The last one is the order in which \<open>range\<close> visits the entries of a map with string keys, which Go leaves open.
\<close>

record 'l Copies =
  Quantity_DeepCopy :: "'l \<Rightarrow> ('l cell Memory, 'l) go"
  ObjectMeta_DeepCopyInto :: "'l \<Rightarrow> ('l cell Memory, 'l) go"
  TemplateMeta_DeepCopyInto :: "'l \<Rightarrow> ('l cell Memory, 'l) go"
  ListMeta_DeepCopyInto :: "'l \<Rightarrow> ('l cell Memory, 'l) go"
  Condition_DeepCopyInto :: "'l \<Rightarrow> ('l cell Memory, 'l) go"
  Labels_range :: "(string \<rightharpoonup> string) \<Rightarrow> (string \<times> string) list"

text \<open>What the code relies on: these are deep copies, and \<open>range\<close> visits every entry.\<close>

definition library_copies :: "'l Reprs \<Rightarrow> 'l Copies \<Rightarrow> bool" where
  "library_copies rp cp \<longleftrightarrow>
     deep_copier (rp_Quantity rp) (Quantity_DeepCopy cp) \<and>
     deep_copier (rp_ObjectMeta rp) (ObjectMeta_DeepCopyInto cp) \<and>
     deep_copier (rp_TemplateMeta rp) (TemplateMeta_DeepCopyInto cp) \<and>
     deep_copier (rp_ListMeta rp) (ListMeta_DeepCopyInto cp) \<and>
     deep_copier (rp_Condition rp) (Condition_DeepCopyInto cp) \<and>
     visits (Labels_range cp)"

type_synonym ('l, 'a) copy = "'a \<Rightarrow> ('l cell Memory, 'a) go"

section \<open>The blocks for pointers, slices and maps\<close>

text \<open>
  \<open>*out = new(string); **out = **in\<close> and its like for \<open>bool\<close> and \<open>int64\<close>; \<open>*out = make([]string, len(*in)); copy(*out, *in)\<close>;
  \<open>*out = make(Conditions, len(*in))\<close> and the loop over the elements; \<open>make(Labels, len(*in))\<close> and the loop over the entries.
\<close>

definition copy_string :: "('l, addr option) copy" where
  "copy_string = copy_pointer C_string (view is_C_string un_string) ret"

definition copy_bool :: "('l, addr option) copy" where
  "copy_bool = copy_pointer C_bool (view is_C_bool un_bool) ret"

definition copy_int64 :: "('l, addr option) copy" where
  "copy_int64 = copy_pointer C_int64 (view is_C_int64 un_int64) ret"

definition copy_strings :: "('l, addr option) copy" where
  "copy_strings = copy_pointer C_strings (view is_C_strings un_strings) ret"

definition copy_addresses :: "('l, addr option) copy" where
  "copy_addresses = copy_pointer C_addresses (view is_C_addresses un_addresses) ret"

definition copy_conditions :: "'l Copies \<Rightarrow> ('l, addr option) copy" where
  "copy_conditions cp = copy_pointer C_conditions (view is_C_conditions un_conditions)
     (copy_elements (Condition_DeepCopyInto cp))"

definition copy_labels :: "'l Copies \<Rightarrow> ('l, addr option) copy" where
  "copy_labels cp = copy_map C_labels (view is_C_labels un_labels) (Labels_range cp)"

section \<open>Structs without pointers\<close>

definition HealtcheckSpec_DeepCopyInto :: "('l, HealtcheckSpec) copy" where
  "HealtcheckSpec_DeepCopyInto src = ret src"

definition ListenerSpec_DeepCopyInto :: "('l, ListenerSpec) copy" where
  "ListenerSpec_DeepCopyInto src = ret (src\<lparr>ls_Subnet := ls_Subnet src\<rparr>)"

definition LoadBalancerStatus_DeepCopyInto :: "('l, LoadBalancerStatus) copy" where
  "LoadBalancerStatus_DeepCopyInto src = ret src"

definition NetworkSpec_DeepCopyInto :: "('l, NetworkSpec) copy" where
  "NetworkSpec_DeepCopyInto src = ret src"

definition SubnetSpec_DeepCopyInto :: "('l, SubnetSpec) copy" where
  "SubnetSpec_DeepCopyInto src = ret src"

section \<open>Labels\<close>

text \<open>
  \<open>DeepCopyInto\<close> ranges over its receiver without looking whether it is nil: the copy of a nil map is an empty one.
  \<open>DeepCopy\<close> looks first; the cell of its \<open>out\<close> is not reached by what it returns and is left out.
\<close>

definition Labels_DeepCopyInto :: "'l Copies \<Rightarrow> ('l, addr option) copy" where
  "Labels_DeepCopyInto cp src =
     bindG reserve (\<lambda>out.
     thenG (write_cell out (C_labels Map.empty))
     (bindG (case src of None \<Rightarrow> ret Map.empty | Some a \<Rightarrow> read_cell (view is_C_labels un_labels) a) (\<lambda>entries.
      thenG (copy_entries C_labels (view is_C_labels un_labels) out (Labels_range cp entries)) (ret (Some out)))))"

definition Labels_DeepCopy :: "'l Copies \<Rightarrow> ('l, addr option) copy" where
  "Labels_DeepCopy cp src = (case src of None \<Rightarrow> ret None | Some a \<Rightarrow> Labels_DeepCopyInto cp (Some a))"

section \<open>The cluster\<close>

definition LoadBalancerSpec_DeepCopyInto :: "('l, LoadBalancerSpecM) copy" where
  "LoadBalancerSpec_DeepCopyInto src =
     (let out = src\<lparr>lbsM_Listener := lbsM_Listener src, lbsM_Healthcheck := lbsM_Healthcheck src\<rparr>
      in bindG (copy_strings (lbsM_SecurityGroups src)) (\<lambda>sgs. ret (out\<lparr>lbsM_SecurityGroups := sgs\<rparr>)))"

definition YandexClusterSpec_DeepCopyInto :: "'l Copies \<Rightarrow> ('l, YandexClusterSpecM) copy" where
  "YandexClusterSpec_DeepCopyInto cp src =
     (let out = src\<lparr>ycsM_NetworkSpec := ycsM_NetworkSpec src,
                    ycsM_ControlPlaneEndpoint := ycsM_ControlPlaneEndpoint src\<rparr>
      in bindG (LoadBalancerSpec_DeepCopyInto (ycsM_LoadBalancer src)) (\<lambda>lb.
         bindG (copy_labels cp (ycsM_Labels src)) (\<lambda>labels.
         ret (out\<lparr>ycsM_LoadBalancer := lb, ycsM_Labels := labels\<rparr>))))"

definition YandexClusterStatus_DeepCopyInto :: "'l Copies \<Rightarrow> ('l, YandexClusterStatusM) copy" where
  "YandexClusterStatus_DeepCopyInto cp src =
     (let out = src\<lparr>ycstM_LoadBalancer := ycstM_LoadBalancer src\<rparr>
      in bindG (copy_conditions cp (ycstM_Conditions src)) (\<lambda>cs. ret (out\<lparr>ycstM_Conditions := cs\<rparr>)))"

definition YandexCluster_DeepCopyInto :: "'l Copies \<Rightarrow> ('l, 'l YandexClusterM) copy" where
  "YandexCluster_DeepCopyInto cp src =
     (let out = src\<lparr>ycM_TypeMeta := ycM_TypeMeta src\<rparr>
      in bindG (ObjectMeta_DeepCopyInto cp (ycM_Meta src)) (\<lambda>meta.
         bindG (YandexClusterSpec_DeepCopyInto cp (ycM_Spec src)) (\<lambda>spec.
         bindG (YandexClusterStatus_DeepCopyInto cp (ycM_Status src)) (\<lambda>status.
         ret (out\<lparr>ycM_Meta := meta, ycM_Spec := spec, ycM_Status := status\<rparr>)))))"

section \<open>The machine\<close>

definition Disk_DeepCopyInto :: "'l Copies \<Rightarrow> ('l, 'l DiskM) copy" where
  "Disk_DeepCopyInto cp src =
     bindG (copy_string (diM_TypeID src)) (\<lambda>type.
     bindG (Quantity_DeepCopy cp (diM_Size src)) (\<lambda>sz.
     ret (src\<lparr>diM_TypeID := type, diM_Size := sz\<rparr>)))"

definition NetworkInterface_DeepCopyInto :: "('l, NetworkInterfaceM) copy" where
  "NetworkInterface_DeepCopyInto src =
     bindG (copy_bool (niM_HasPublicIP src)) (\<lambda>ip. ret (src\<lparr>niM_HasPublicIP := ip\<rparr>))"

definition Resources_DeepCopyInto :: "'l Copies \<Rightarrow> ('l, 'l ResourcesM) copy" where
  "Resources_DeepCopyInto cp src =
     bindG (Quantity_DeepCopy cp (reM_Memory src)) (\<lambda>memory.
     bindG (copy_int64 (reM_CoreFraction src)) (\<lambda>fraction.
     bindG (copy_int64 (reM_GPUs src)) (\<lambda>gpus.
     ret (src\<lparr>reM_Memory := memory, reM_CoreFraction := fraction, reM_GPUs := gpus\<rparr>))))"

definition YandexMachineSpec_DeepCopyInto :: "'l Copies \<Rightarrow> ('l, 'l YandexMachineSpecM) copy" where
  "YandexMachineSpec_DeepCopyInto cp src =
     bindG (copy_string (ymsM_ProviderID src)) (\<lambda>provider.
     bindG (copy_string (ymsM_ZoneID src)) (\<lambda>zone.
     bindG (copy_string (ymsM_PlatformID src)) (\<lambda>platform.
     bindG (copy_pointer C_Disk (view is_C_Disk un_Disk) (Disk_DeepCopyInto cp) (ymsM_BootDisk src)) (\<lambda>disk.
     bindG (Resources_DeepCopyInto cp (ymsM_Resources src)) (\<lambda>resources.
     bindG (copy_pointer C_interfaces (view is_C_interfaces un_interfaces)
              (copy_elements NetworkInterface_DeepCopyInto) (ymsM_NetworkInterfaces src)) (\<lambda>interfaces.
     ret (src\<lparr>ymsM_ProviderID := provider, ymsM_ZoneID := zone, ymsM_PlatformID := platform,
       ymsM_BootDisk := disk, ymsM_Resources := resources, ymsM_NetworkInterfaces := interfaces\<rparr>)))))))"

definition YandexMachineStatus_DeepCopyInto :: "'l Copies \<Rightarrow> ('l, YandexMachineStatusM) copy" where
  "YandexMachineStatus_DeepCopyInto cp src =
     bindG (copy_addresses (ymstM_Addresses src)) (\<lambda>addrs.
     bindG (copy_string (ymstM_InstanceStatus src)) (\<lambda>status.
     bindG (copy_string (ymstM_FailureReason src)) (\<lambda>reason.
     bindG (copy_string (ymstM_FailureMessage src)) (\<lambda>message.
     bindG (copy_conditions cp (ymstM_Conditions src)) (\<lambda>cs.
     ret (src\<lparr>ymstM_Addresses := addrs, ymstM_InstanceStatus := status, ymstM_FailureReason := reason,
       ymstM_FailureMessage := message, ymstM_Conditions := cs\<rparr>))))))"

definition YandexMachine_DeepCopyInto :: "'l Copies \<Rightarrow> ('l, 'l YandexMachineM) copy" where
  "YandexMachine_DeepCopyInto cp src =
     (let out = src\<lparr>ymM_TypeMeta := ymM_TypeMeta src\<rparr>
      in bindG (ObjectMeta_DeepCopyInto cp (ymM_Meta src)) (\<lambda>meta.
         bindG (YandexMachineSpec_DeepCopyInto cp (ymM_Spec src)) (\<lambda>spec.
         bindG (YandexMachineStatus_DeepCopyInto cp (ymM_Status src)) (\<lambda>status.
         ret (out\<lparr>ymM_Meta := meta, ymM_Spec := spec, ymM_Status := status\<rparr>)))))"

section \<open>The machine template\<close>

definition YandexMachineTemplateResource_DeepCopyInto ::
    "'l Copies \<Rightarrow> ('l, 'l YandexMachineTemplateResourceM) copy" where
  "YandexMachineTemplateResource_DeepCopyInto cp src =
     bindG (TemplateMeta_DeepCopyInto cp (ymtrM_Meta src)) (\<lambda>meta.
     bindG (YandexMachineSpec_DeepCopyInto cp (ymtrM_Spec src)) (\<lambda>spec.
     ret (src\<lparr>ymtrM_Meta := meta, ymtrM_Spec := spec\<rparr>)))"

definition YandexMachineTemplateSpec_DeepCopyInto :: "'l Copies \<Rightarrow> ('l, 'l YandexMachineTemplateSpecM) copy" where
  "YandexMachineTemplateSpec_DeepCopyInto cp src =
     bindG (YandexMachineTemplateResource_DeepCopyInto cp (ymtsM_Template src)) (\<lambda>template.
     ret (src\<lparr>ymtsM_Template := template\<rparr>))"

definition YandexMachineTemplate_DeepCopyInto :: "'l Copies \<Rightarrow> ('l, 'l YandexMachineTemplateM) copy" where
  "YandexMachineTemplate_DeepCopyInto cp src =
     (let out = src\<lparr>ymtM_TypeMeta := ymtM_TypeMeta src\<rparr>
      in bindG (ObjectMeta_DeepCopyInto cp (ymtM_Meta src)) (\<lambda>meta.
         bindG (YandexMachineTemplateSpec_DeepCopyInto cp (ymtM_Spec src)) (\<lambda>spec.
         ret (out\<lparr>ymtM_Meta := meta, ymtM_Spec := spec\<rparr>))))"

section \<open>Lists\<close>

definition YandexClusterList_DeepCopyInto :: "'l Copies \<Rightarrow> ('l, 'l YandexClusterListM) copy" where
  "YandexClusterList_DeepCopyInto cp src =
     (let out = src\<lparr>li_TypeMeta := li_TypeMeta src\<rparr>
      in bindG (ListMeta_DeepCopyInto cp (li_ListMeta src)) (\<lambda>meta.
         bindG (copy_pointer C_clusters (view is_C_clusters un_clusters)
                  (copy_elements (YandexCluster_DeepCopyInto cp)) (li_Items src)) (\<lambda>items.
         ret (out\<lparr>li_ListMeta := meta, li_Items := items\<rparr>))))"

definition YandexMachineList_DeepCopyInto :: "'l Copies \<Rightarrow> ('l, 'l YandexMachineListM) copy" where
  "YandexMachineList_DeepCopyInto cp src =
     (let out = src\<lparr>li_TypeMeta := li_TypeMeta src\<rparr>
      in bindG (ListMeta_DeepCopyInto cp (li_ListMeta src)) (\<lambda>meta.
         bindG (copy_pointer C_machines (view is_C_machines un_machines)
                  (copy_elements (YandexMachine_DeepCopyInto cp)) (li_Items src)) (\<lambda>items.
         ret (out\<lparr>li_ListMeta := meta, li_Items := items\<rparr>))))"

definition YandexMachineTemplateList_DeepCopyInto :: "'l Copies \<Rightarrow> ('l, 'l YandexMachineTemplateListM) copy" where
  "YandexMachineTemplateList_DeepCopyInto cp src =
     (let out = src\<lparr>li_TypeMeta := li_TypeMeta src\<rparr>
      in bindG (ListMeta_DeepCopyInto cp (li_ListMeta src)) (\<lambda>meta.
         bindG (copy_pointer C_templates (view is_C_templates un_templates)
                  (copy_elements (YandexMachineTemplate_DeepCopyInto cp)) (li_Items src)) (\<lambda>items.
         ret (out\<lparr>li_ListMeta := meta, li_Items := items\<rparr>))))"

section \<open>DeepCopy: a new struct\<close>

definition HealtcheckSpec_DeepCopy :: "('l, addr option) copy" where
  "HealtcheckSpec_DeepCopy = copy_pointer C_HealtcheckSpec (view is_C_HealtcheckSpec un_HealtcheckSpec) HealtcheckSpec_DeepCopyInto"

definition ListenerSpec_DeepCopy :: "('l, addr option) copy" where
  "ListenerSpec_DeepCopy = copy_pointer C_ListenerSpec (view is_C_ListenerSpec un_ListenerSpec) ListenerSpec_DeepCopyInto"

definition LoadBalancerStatus_DeepCopy :: "('l, addr option) copy" where
  "LoadBalancerStatus_DeepCopy = copy_pointer C_LoadBalancerStatus (view is_C_LoadBalancerStatus un_LoadBalancerStatus) LoadBalancerStatus_DeepCopyInto"

definition NetworkSpec_DeepCopy :: "('l, addr option) copy" where
  "NetworkSpec_DeepCopy = copy_pointer C_NetworkSpec (view is_C_NetworkSpec un_NetworkSpec) NetworkSpec_DeepCopyInto"

definition SubnetSpec_DeepCopy :: "('l, addr option) copy" where
  "SubnetSpec_DeepCopy = copy_pointer C_SubnetSpec (view is_C_SubnetSpec un_SubnetSpec) SubnetSpec_DeepCopyInto"

definition LoadBalancerSpec_DeepCopy :: "('l, addr option) copy" where
  "LoadBalancerSpec_DeepCopy = copy_pointer C_LoadBalancerSpec (view is_C_LoadBalancerSpec un_LoadBalancerSpec) LoadBalancerSpec_DeepCopyInto"

definition NetworkInterface_DeepCopy :: "('l, addr option) copy" where
  "NetworkInterface_DeepCopy = copy_pointer C_NetworkInterface (view is_C_NetworkInterface un_NetworkInterface) NetworkInterface_DeepCopyInto"

definition YandexClusterSpec_DeepCopy :: "'l Copies \<Rightarrow> ('l, addr option) copy" where
  "YandexClusterSpec_DeepCopy cp = copy_pointer C_YandexClusterSpec (view is_C_YandexClusterSpec un_YandexClusterSpec) (YandexClusterSpec_DeepCopyInto cp)"

definition YandexClusterStatus_DeepCopy :: "'l Copies \<Rightarrow> ('l, addr option) copy" where
  "YandexClusterStatus_DeepCopy cp = copy_pointer C_YandexClusterStatus (view is_C_YandexClusterStatus un_YandexClusterStatus) (YandexClusterStatus_DeepCopyInto cp)"

definition YandexCluster_DeepCopy :: "'l Copies \<Rightarrow> ('l, addr option) copy" where
  "YandexCluster_DeepCopy cp = copy_pointer C_YandexCluster (view is_C_YandexCluster un_YandexCluster) (YandexCluster_DeepCopyInto cp)"

definition Disk_DeepCopy :: "'l Copies \<Rightarrow> ('l, addr option) copy" where
  "Disk_DeepCopy cp = copy_pointer C_Disk (view is_C_Disk un_Disk) (Disk_DeepCopyInto cp)"

definition Resources_DeepCopy :: "'l Copies \<Rightarrow> ('l, addr option) copy" where
  "Resources_DeepCopy cp = copy_pointer C_Resources (view is_C_Resources un_Resources) (Resources_DeepCopyInto cp)"

definition YandexMachineSpec_DeepCopy :: "'l Copies \<Rightarrow> ('l, addr option) copy" where
  "YandexMachineSpec_DeepCopy cp = copy_pointer C_YandexMachineSpec (view is_C_YandexMachineSpec un_YandexMachineSpec) (YandexMachineSpec_DeepCopyInto cp)"

definition YandexMachineStatus_DeepCopy :: "'l Copies \<Rightarrow> ('l, addr option) copy" where
  "YandexMachineStatus_DeepCopy cp = copy_pointer C_YandexMachineStatus (view is_C_YandexMachineStatus un_YandexMachineStatus) (YandexMachineStatus_DeepCopyInto cp)"

definition YandexMachine_DeepCopy :: "'l Copies \<Rightarrow> ('l, addr option) copy" where
  "YandexMachine_DeepCopy cp = copy_pointer C_YandexMachine (view is_C_YandexMachine un_YandexMachine) (YandexMachine_DeepCopyInto cp)"

definition YandexMachineTemplateResource_DeepCopy :: "'l Copies \<Rightarrow> ('l, addr option) copy" where
  "YandexMachineTemplateResource_DeepCopy cp = copy_pointer C_YandexMachineTemplateResource (view is_C_YandexMachineTemplateResource un_YandexMachineTemplateResource) (YandexMachineTemplateResource_DeepCopyInto cp)"

definition YandexMachineTemplateSpec_DeepCopy :: "'l Copies \<Rightarrow> ('l, addr option) copy" where
  "YandexMachineTemplateSpec_DeepCopy cp = copy_pointer C_YandexMachineTemplateSpec (view is_C_YandexMachineTemplateSpec un_YandexMachineTemplateSpec) (YandexMachineTemplateSpec_DeepCopyInto cp)"

definition YandexMachineTemplate_DeepCopy :: "'l Copies \<Rightarrow> ('l, addr option) copy" where
  "YandexMachineTemplate_DeepCopy cp = copy_pointer C_YandexMachineTemplate (view is_C_YandexMachineTemplate un_YandexMachineTemplate) (YandexMachineTemplate_DeepCopyInto cp)"

definition YandexClusterList_DeepCopy :: "'l Copies \<Rightarrow> ('l, addr option) copy" where
  "YandexClusterList_DeepCopy cp = copy_pointer C_YandexClusterList (view is_C_YandexClusterList un_YandexClusterList) (YandexClusterList_DeepCopyInto cp)"

definition YandexMachineList_DeepCopy :: "'l Copies \<Rightarrow> ('l, addr option) copy" where
  "YandexMachineList_DeepCopy cp = copy_pointer C_YandexMachineList (view is_C_YandexMachineList un_YandexMachineList) (YandexMachineList_DeepCopyInto cp)"

definition YandexMachineTemplateList_DeepCopy :: "'l Copies \<Rightarrow> ('l, addr option) copy" where
  "YandexMachineTemplateList_DeepCopy cp = copy_pointer C_YandexMachineTemplateList (view is_C_YandexMachineTemplateList un_YandexMachineTemplateList) (YandexMachineTemplateList_DeepCopyInto cp)"

section \<open>DeepCopyObject: API objects\<close>

text \<open>
  A non-nil \<open>runtime.Object\<close> of the API package is a pointer of one of six types; \<open>DeepCopyObject\<close> returns a nil interface for a
  nil pointer, not an interface that holds one.
\<close>

datatype runtime_Object =
    O_YandexCluster "addr option"
  | O_YandexClusterList "addr option"
  | O_YandexMachine "addr option"
  | O_YandexMachineList "addr option"
  | O_YandexMachineTemplate "addr option"
  | O_YandexMachineTemplateList "addr option"

definition YandexCluster_DeepCopyObject :: "'l Copies \<Rightarrow> addr option \<Rightarrow> ('l cell Memory, runtime_Object option) go" where
  "YandexCluster_DeepCopyObject cp src =
     bindG (YandexCluster_DeepCopy cp src) (\<lambda>c. if c \<noteq> None then ret (Some (O_YandexCluster c)) else ret None)"

definition YandexClusterList_DeepCopyObject :: "'l Copies \<Rightarrow> addr option \<Rightarrow> ('l cell Memory, runtime_Object option) go" where
  "YandexClusterList_DeepCopyObject cp src =
     bindG (YandexClusterList_DeepCopy cp src) (\<lambda>c. if c \<noteq> None then ret (Some (O_YandexClusterList c)) else ret None)"

definition YandexMachine_DeepCopyObject :: "'l Copies \<Rightarrow> addr option \<Rightarrow> ('l cell Memory, runtime_Object option) go" where
  "YandexMachine_DeepCopyObject cp src =
     bindG (YandexMachine_DeepCopy cp src) (\<lambda>c. if c \<noteq> None then ret (Some (O_YandexMachine c)) else ret None)"

definition YandexMachineList_DeepCopyObject :: "'l Copies \<Rightarrow> addr option \<Rightarrow> ('l cell Memory, runtime_Object option) go" where
  "YandexMachineList_DeepCopyObject cp src =
     bindG (YandexMachineList_DeepCopy cp src) (\<lambda>c. if c \<noteq> None then ret (Some (O_YandexMachineList c)) else ret None)"

definition YandexMachineTemplate_DeepCopyObject :: "'l Copies \<Rightarrow> addr option \<Rightarrow> ('l cell Memory, runtime_Object option) go" where
  "YandexMachineTemplate_DeepCopyObject cp src =
     bindG (YandexMachineTemplate_DeepCopy cp src) (\<lambda>c. if c \<noteq> None then ret (Some (O_YandexMachineTemplate c)) else ret None)"

definition YandexMachineTemplateList_DeepCopyObject :: "'l Copies \<Rightarrow> addr option \<Rightarrow> ('l cell Memory, runtime_Object option) go" where
  "YandexMachineTemplateList_DeepCopyObject cp src =
     bindG (YandexMachineTemplateList_DeepCopy cp src) (\<lambda>c. if c \<noteq> None then ret (Some (O_YandexMachineTemplateList c)) else ret None)"

text \<open>The method call \<open>obj.DeepCopyObject()\<close> through the interface.\<close>

fun DeepCopyObject :: "'l Copies \<Rightarrow> runtime_Object \<Rightarrow> ('l cell Memory, runtime_Object option) go" where
  "DeepCopyObject cp (O_YandexCluster p) = YandexCluster_DeepCopyObject cp p"
| "DeepCopyObject cp (O_YandexClusterList p) = YandexClusterList_DeepCopyObject cp p"
| "DeepCopyObject cp (O_YandexMachine p) = YandexMachine_DeepCopyObject cp p"
| "DeepCopyObject cp (O_YandexMachineList p) = YandexMachineList_DeepCopyObject cp p"
| "DeepCopyObject cp (O_YandexMachineTemplate p) = YandexMachineTemplate_DeepCopyObject cp p"
| "DeepCopyObject cp (O_YandexMachineTemplateList p) = YandexMachineTemplateList_DeepCopyObject cp p"

section \<open>Each of them is a deep copy\<close>

lemma view_con [simp]: "is c \<Longrightarrow> view is un c = Some (un c)"
  by (simp add: view_def)

lemma copier_blocks:
  "deep_copier string_ptr copy_string"
  "deep_copier bool_ptr copy_bool"
  "deep_copier int64_ptr copy_int64"
  "deep_copier strings_slice copy_strings"
  "deep_copier addresses_slice copy_addresses"
  unfolding copy_string_def copy_bool_def copy_int64_def copy_strings_def copy_addresses_def
  by (rule copier_pointer [OF plain.deep_copier_axioms]; simp)+

lemma copier_labels: "library_copies rp cp \<Longrightarrow> deep_copier labels_map (copy_labels cp)"
  unfolding copy_labels_def library_copies_def by (rule copier_map) simp_all

lemma copier_conditions: "library_copies rp cp \<Longrightarrow> deep_copier (conditions_slice rp) (copy_conditions cp)"
  unfolding copy_conditions_def library_copies_def by (rule copier_pointer [OF copier_elements]) simp_all

lemma copier_library:
  "library_copies rp cp \<Longrightarrow> deep_copier (rp_Quantity rp) (Quantity_DeepCopy cp)"
  "library_copies rp cp \<Longrightarrow> deep_copier (rp_ObjectMeta rp) (ObjectMeta_DeepCopyInto cp)"
  "library_copies rp cp \<Longrightarrow> deep_copier (rp_ListMeta rp) (ListMeta_DeepCopyInto cp)"
  "library_copies rp cp \<Longrightarrow> deep_copier (rp_TemplateMeta rp) (TemplateMeta_DeepCopyInto cp)"
  by (simp_all add: library_copies_def)

text \<open>The structs without pointers stand for themselves.\<close>

lemma copier_plain:
  "deep_copier plain HealtcheckSpec_DeepCopyInto"
  "deep_copier plain ListenerSpec_DeepCopyInto"
  "deep_copier plain LoadBalancerStatus_DeepCopyInto"
  "deep_copier plain NetworkSpec_DeepCopyInto"
  "deep_copier plain SubnetSpec_DeepCopyInto"
  unfolding HealtcheckSpec_DeepCopyInto_def [abs_def] ListenerSpec_DeepCopyInto_def [abs_def]
    LoadBalancerStatus_DeepCopyInto_def [abs_def] NetworkSpec_DeepCopyInto_def [abs_def]
    SubnetSpec_DeepCopyInto_def [abs_def]
  using plain.deep_copier_axioms by simp_all

text \<open>\<open>Labels.DeepCopy\<close> does what the block for a field of type \<open>Labels\<close> does.\<close>

lemma Labels_DeepCopy_block: "Labels_DeepCopy = copy_labels"
  by (simp add: fun_eq_iff Labels_DeepCopy_def Labels_DeepCopyInto_def copy_labels_def copy_map_def
      split: option.split)

lemma Labels_DeepCopyInto_nil:
  assumes "visits (Labels_range cp)"
  shows "Labels_DeepCopyInto cp None m =
    (Ok (Some (next_free m)),
     m\<lparr>next_free := Suc (next_free m), cells := (cells m)(next_free m \<mapsto> C_labels Map.empty)\<rparr>)"
proof -
  have "set (Labels_range cp Map.empty) = {}" using assms by (simp add: visits_def)
  then have "Labels_range cp Map.empty = []" by simp
  then show ?thesis
    by (simp add: Labels_DeepCopyInto_def reserve_def write_cell_def bindG_def tryG_def thenG_def)
qed

lemmas copy_defs = bindG_assoc bindG_ret Let_def split_beta

lemma copier_LoadBalancerSpec: "deep_copier repr_LoadBalancerSpec LoadBalancerSpec_DeepCopyInto"
  unfolding repr_LoadBalancerSpec_def
  by (rule copier_struct [OF copier_blocks(4), where build = "\<lambda>s sgs. s\<lparr>lbsM_SecurityGroups := sgs\<rparr>"])
    (simp_all add: LoadBalancerSpec_DeepCopyInto_def copy_defs del: ret_apply)

interpretation load_balancer_spec: deep_copier repr_LoadBalancerSpec LoadBalancerSpec_DeepCopyInto
  by (rule copier_LoadBalancerSpec)

lemma copier_NetworkInterface: "deep_copier repr_NetworkInterface NetworkInterface_DeepCopyInto"
  unfolding repr_NetworkInterface_def
  by (rule copier_struct [OF copier_blocks(2), where build = "\<lambda>s ip. s\<lparr>niM_HasPublicIP := ip\<rparr>"])
    (simp_all add: NetworkInterface_DeepCopyInto_def copy_defs del: ret_apply)

interpretation network_interface: deep_copier repr_NetworkInterface NetworkInterface_DeepCopyInto
  by (rule copier_NetworkInterface)

lemma copier_YandexClusterSpec:
  assumes "library_copies rp cp"
  shows "deep_copier repr_YandexClusterSpec (YandexClusterSpec_DeepCopyInto cp)"
  unfolding repr_YandexClusterSpec_def
  by (rule copier_struct [OF copier_both [OF copier_LoadBalancerSpec copier_labels [OF assms]],
        where build = "\<lambda>s (lb, labels). s\<lparr>ycsM_LoadBalancer := lb, ycsM_Labels := labels\<rparr>"])
    (simp_all add: YandexClusterSpec_DeepCopyInto_def copy_defs del: ret_apply)

lemma copier_YandexClusterStatus:
  assumes "library_copies rp cp"
  shows "deep_copier (repr_YandexClusterStatus rp) (YandexClusterStatus_DeepCopyInto cp)"
  unfolding repr_YandexClusterStatus_def
  by (rule copier_struct [OF copier_conditions [OF assms], where build = "\<lambda>s cs. s\<lparr>ycstM_Conditions := cs\<rparr>"])
    (simp_all add: YandexClusterStatus_DeepCopyInto_def copy_defs del: ret_apply)

lemma copier_YandexCluster:
  assumes lib: "library_copies rp cp"
  shows "deep_copier (repr_YandexCluster rp) (YandexCluster_DeepCopyInto cp)"
  unfolding repr_YandexCluster_def
  by (rule copier_struct [OF copier_both [OF copier_library(2) [OF lib] copier_both
          [OF copier_YandexClusterSpec [OF lib] copier_YandexClusterStatus [OF lib]]],
        where build = "\<lambda>s (meta, spec, status). s\<lparr>ycM_Meta := meta, ycM_Spec := spec, ycM_Status := status\<rparr>"])
    (simp_all add: YandexCluster_DeepCopyInto_def copy_defs del: ret_apply)

lemma copier_Disk:
  assumes lib: "library_copies rp cp"
  shows "deep_copier (repr_Disk rp) (Disk_DeepCopyInto cp)"
  unfolding repr_Disk_def
  by (rule copier_struct [OF copier_both [OF copier_blocks(1) copier_library(1) [OF lib]],
        where build = "\<lambda>s (type, sz). s\<lparr>diM_TypeID := type, diM_Size := sz\<rparr>"])
    (simp_all add: Disk_DeepCopyInto_def copy_defs del: ret_apply)

lemma copier_Resources:
  assumes lib: "library_copies rp cp"
  shows "deep_copier (repr_Resources rp) (Resources_DeepCopyInto cp)"
  unfolding repr_Resources_def
  by (rule copier_struct [OF copier_both [OF copier_library(1) [OF lib] copier_both
          [OF copier_blocks(3) copier_blocks(3)]],
        where build = "\<lambda>s (memory, fraction, gpus). s\<lparr>reM_Memory := memory, reM_CoreFraction := fraction,
          reM_GPUs := gpus\<rparr>"])
    (simp_all add: Resources_DeepCopyInto_def copy_defs del: ret_apply)

lemma copier_YandexMachineSpec:
  assumes lib: "library_copies rp cp"
  shows "deep_copier (repr_YandexMachineSpec rp) (YandexMachineSpec_DeepCopyInto cp)"
proof -
  have disk: "deep_copier (disk_ptr rp) (copy_pointer C_Disk (view is_C_Disk un_Disk) (Disk_DeepCopyInto cp))"
    by (rule copier_pointer [OF copier_Disk [OF lib]]) simp
  have interfaces: "deep_copier interfaces_slice (copy_pointer C_interfaces (view is_C_interfaces un_interfaces)
      (copy_elements NetworkInterface_DeepCopyInto))"
    by (rule copier_pointer [OF copier_elements [OF copier_NetworkInterface]]) simp
  show ?thesis
    unfolding repr_YandexMachineSpec_def
    by (rule copier_struct [OF copier_both [OF copier_blocks(1) copier_both [OF copier_blocks(1) copier_both
            [OF copier_blocks(1) copier_both [OF disk copier_both [OF copier_Resources [OF lib] interfaces]]]]],
          where build = "\<lambda>s (provider, zone, platform, disk, resources, interfaces).
            s\<lparr>ymsM_ProviderID := provider, ymsM_ZoneID := zone, ymsM_PlatformID := platform,
              ymsM_BootDisk := disk, ymsM_Resources := resources, ymsM_NetworkInterfaces := interfaces\<rparr>"])
      (simp_all add: YandexMachineSpec_DeepCopyInto_def copy_defs del: ret_apply)
qed

lemma copier_YandexMachineStatus:
  assumes lib: "library_copies rp cp"
  shows "deep_copier (repr_YandexMachineStatus rp) (YandexMachineStatus_DeepCopyInto cp)"
  unfolding repr_YandexMachineStatus_def
  by (rule copier_struct [OF copier_both [OF copier_blocks(5) copier_both [OF copier_blocks(1) copier_both
          [OF copier_blocks(1) copier_both [OF copier_blocks(1) copier_conditions [OF lib]]]]],
        where build = "\<lambda>s (addrs, status, reason, message, cs).
          s\<lparr>ymstM_Addresses := addrs, ymstM_InstanceStatus := status, ymstM_FailureReason := reason,
            ymstM_FailureMessage := message, ymstM_Conditions := cs\<rparr>"])
    (simp_all add: YandexMachineStatus_DeepCopyInto_def copy_defs del: ret_apply)

lemma copier_YandexMachine:
  assumes lib: "library_copies rp cp"
  shows "deep_copier (repr_YandexMachine rp) (YandexMachine_DeepCopyInto cp)"
  unfolding repr_YandexMachine_def
  by (rule copier_struct [OF copier_both [OF copier_library(2) [OF lib] copier_both
          [OF copier_YandexMachineSpec [OF lib] copier_YandexMachineStatus [OF lib]]],
        where build = "\<lambda>s (meta, spec, status). s\<lparr>ymM_Meta := meta, ymM_Spec := spec, ymM_Status := status\<rparr>"])
    (simp_all add: YandexMachine_DeepCopyInto_def copy_defs del: ret_apply)

lemma copier_YandexMachineTemplateResource:
  assumes lib: "library_copies rp cp"
  shows "deep_copier (repr_YandexMachineTemplateResource rp) (YandexMachineTemplateResource_DeepCopyInto cp)"
  unfolding repr_YandexMachineTemplateResource_def
  by (rule copier_struct [OF copier_both [OF copier_library(4) [OF lib] copier_YandexMachineSpec [OF lib]],
        where build = "\<lambda>s (meta, spec). s\<lparr>ymtrM_Meta := meta, ymtrM_Spec := spec\<rparr>"])
    (simp_all add: YandexMachineTemplateResource_DeepCopyInto_def copy_defs del: ret_apply)

lemma copier_YandexMachineTemplateSpec:
  assumes lib: "library_copies rp cp"
  shows "deep_copier (repr_YandexMachineTemplateSpec rp) (YandexMachineTemplateSpec_DeepCopyInto cp)"
  unfolding repr_YandexMachineTemplateSpec_def
  by (rule copier_struct [OF copier_YandexMachineTemplateResource [OF lib],
        where build = "\<lambda>s t. s\<lparr>ymtsM_Template := t\<rparr>"])
    (simp_all add: YandexMachineTemplateSpec_DeepCopyInto_def copy_defs del: ret_apply)

lemma copier_YandexMachineTemplate:
  assumes lib: "library_copies rp cp"
  shows "deep_copier (repr_YandexMachineTemplate rp) (YandexMachineTemplate_DeepCopyInto cp)"
  unfolding repr_YandexMachineTemplate_def
  by (rule copier_struct [OF copier_both [OF copier_library(2) [OF lib] copier_YandexMachineTemplateSpec [OF lib]],
        where build = "\<lambda>s (meta, spec). s\<lparr>ymtM_Meta := meta, ymtM_Spec := spec\<rparr>"])
    (simp_all add: YandexMachineTemplate_DeepCopyInto_def copy_defs del: ret_apply)

lemma copier_List:
  assumes lib: "library_copies rp cp" and items: "deep_copier R c"
    and into: "\<And>src. copy src =
      bindG (ListMeta_DeepCopyInto cp (li_ListMeta src)) (\<lambda>meta. bindG (c (li_Items src)) (\<lambda>items.
        ret (src\<lparr>li_ListMeta := meta, li_Items := items\<rparr>)))"
  shows "deep_copier (repr_List rp R) copy"
  unfolding repr_List_def
  by (rule copier_struct [OF copier_both [OF copier_library(3) [OF lib] items],
        where build = "\<lambda>s (meta, items). s\<lparr>li_ListMeta := meta, li_Items := items\<rparr>"])
    (simp_all add: into copy_defs del: ret_apply)

lemma copier_Lists:
  assumes lib: "library_copies rp cp"
  shows "deep_copier (repr_YandexClusterList rp) (YandexClusterList_DeepCopyInto cp)"
    and "deep_copier (repr_YandexMachineList rp) (YandexMachineList_DeepCopyInto cp)"
    and "deep_copier (repr_YandexMachineTemplateList rp) (YandexMachineTemplateList_DeepCopyInto cp)"
  unfolding repr_YandexClusterList_def repr_YandexMachineList_def repr_YandexMachineTemplateList_def
  by (rule copier_List [OF lib copier_pointer [OF copier_elements [OF copier_YandexCluster [OF lib]]]],
      simp_all add: YandexClusterList_DeepCopyInto_def)
    (rule copier_List [OF lib copier_pointer [OF copier_elements [OF copier_YandexMachine [OF lib]]]]
      copier_List [OF lib copier_pointer [OF copier_elements [OF copier_YandexMachineTemplate [OF lib]]]],
      simp_all add: YandexMachineList_DeepCopyInto_def YandexMachineTemplateList_DeepCopyInto_def)+

section \<open>API objects\<close>

text \<open>What a non-nil object stands for.\<close>

datatype object_value =
    V_YandexCluster "TypeMeta \<times> YandexCluster"
  | V_YandexClusterList "TypeMeta \<times> string \<times> (TypeMeta \<times> YandexCluster) list option"
  | V_YandexMachine "TypeMeta \<times> YandexMachine"
  | V_YandexMachineList "TypeMeta \<times> string \<times> (TypeMeta \<times> YandexMachine) list option"
  | V_YandexMachineTemplate "TypeMeta \<times> YandexMachineTemplate"
  | V_YandexMachineTemplateList "TypeMeta \<times> string \<times> (TypeMeta \<times> YandexMachineTemplate) list option"

fun repr_Object :: "'l Reprs \<Rightarrow> ('l, runtime_Object, object_value) repr" where
  "repr_Object rp m (O_YandexCluster p) v A \<longleftrightarrow>
     (\<exists>w. v = V_YandexCluster w \<and> pointer (view is_C_YandexCluster un_YandexCluster) (repr_YandexCluster rp) m p (Some w) A)"
| "repr_Object rp m (O_YandexClusterList p) v A \<longleftrightarrow>
     (\<exists>w. v = V_YandexClusterList w \<and> pointer (view is_C_YandexClusterList un_YandexClusterList) (repr_YandexClusterList rp) m p (Some w) A)"
| "repr_Object rp m (O_YandexMachine p) v A \<longleftrightarrow>
     (\<exists>w. v = V_YandexMachine w \<and> pointer (view is_C_YandexMachine un_YandexMachine) (repr_YandexMachine rp) m p (Some w) A)"
| "repr_Object rp m (O_YandexMachineList p) v A \<longleftrightarrow>
     (\<exists>w. v = V_YandexMachineList w \<and> pointer (view is_C_YandexMachineList un_YandexMachineList) (repr_YandexMachineList rp) m p (Some w) A)"
| "repr_Object rp m (O_YandexMachineTemplate p) v A \<longleftrightarrow>
     (\<exists>w. v = V_YandexMachineTemplate w \<and> pointer (view is_C_YandexMachineTemplate un_YandexMachineTemplate) (repr_YandexMachineTemplate rp) m p (Some w) A)"
| "repr_Object rp m (O_YandexMachineTemplateList p) v A \<longleftrightarrow>
     (\<exists>w. v = V_YandexMachineTemplateList w \<and> pointer (view is_C_YandexMachineTemplateList un_YandexMachineTemplateList) (repr_YandexMachineTemplateList rp) m p (Some w) A)"

lemma copier_objects:
  assumes lib: "library_copies rp cp"
  shows "deep_copier (pointer (view is_C_YandexCluster un_YandexCluster) (repr_YandexCluster rp)) (YandexCluster_DeepCopy cp)"
    and "deep_copier (pointer (view is_C_YandexClusterList un_YandexClusterList) (repr_YandexClusterList rp)) (YandexClusterList_DeepCopy cp)"
    and "deep_copier (pointer (view is_C_YandexMachine un_YandexMachine) (repr_YandexMachine rp)) (YandexMachine_DeepCopy cp)"
    and "deep_copier (pointer (view is_C_YandexMachineList un_YandexMachineList) (repr_YandexMachineList rp)) (YandexMachineList_DeepCopy cp)"
    and "deep_copier (pointer (view is_C_YandexMachineTemplate un_YandexMachineTemplate) (repr_YandexMachineTemplate rp)) (YandexMachineTemplate_DeepCopy cp)"
    and "deep_copier (pointer (view is_C_YandexMachineTemplateList un_YandexMachineTemplateList) (repr_YandexMachineTemplateList rp)) (YandexMachineTemplateList_DeepCopy cp)"
  unfolding YandexCluster_DeepCopy_def YandexClusterList_DeepCopy_def YandexMachine_DeepCopy_def YandexMachineList_DeepCopy_def YandexMachineTemplate_DeepCopy_def YandexMachineTemplateList_DeepCopy_def
  by (rule copier_pointer, rule copier_YandexCluster copier_Lists copier_YandexMachine copier_YandexMachineTemplate,
      rule lib, simp)+

text \<open>A copy of what is not nil is not nil, so the copied object has the type of the original.\<close>

lemma pointer_object_copied:
  assumes c: "deep_copier (pointer get R) copy"
    and r: "pointer get R m p (Some w) A" "A \<subseteq> {..<next_free m}"
    and obj: "\<And>q m'. q \<noteq> None \<Longrightarrow> copy p m = (Ok q, m') \<Longrightarrow> run = (Ok (Some (con q)), m')"
  shows "\<exists>q m' B. run = (Ok (Some (con q)), m') \<and> extends m m' \<and> pointer get R m' q (Some w) B \<and>
    B \<subseteq> {next_free m..<next_free m'}"
proof -
  from deep_copier.copies [OF c r] obtain q m' B where
    q: "copy p m = (Ok q, m')" "extends m m'" "pointer get R m' q (Some w) B" "B \<subseteq> {next_free m..<next_free m'}"
    by blast
  have "q \<noteq> None" using q(3) by (cases q) (auto simp: pointer_def)
  from obj [OF this q(1)] q(2-4) show ?thesis by blast
qed

lemma owned_Object:
  fixes rp :: "'l Reprs"
  assumes lib: "library_copies rp cp"
  shows "owned (repr_Object rp)"
proof
  fix m m' :: "'l cell Memory" and ob v A
  assume r: "repr_Object rp m ob v A" and same: "\<And>a. a \<in> A \<Longrightarrow> cells m' a = cells m a"
  note local = copier_objects [OF lib, THEN deep_copier.axioms(1), THEN owned.local, OF _ same]
  show "repr_Object rp m' ob v A"
    using r by (cases ob) (auto dest: local)
qed

lemmas deep_copy_object_defs = YandexCluster_DeepCopyObject_def YandexClusterList_DeepCopyObject_def YandexMachine_DeepCopyObject_def YandexMachineList_DeepCopyObject_def YandexMachineTemplate_DeepCopyObject_def YandexMachineTemplateList_DeepCopyObject_def

lemma Object_copied:
  assumes lib: "library_copies rp cp" and r: "repr_Object rp m ob v A" "A \<subseteq> {..<next_free m}"
  shows "\<exists>ob' m' B. DeepCopyObject cp ob m = (Ok (Some ob'), m') \<and> extends m m' \<and> repr_Object rp m' ob' v B \<and>
    B \<subseteq> {next_free m..<next_free m'}"
proof (cases ob)
  case (O_YandexCluster p)
  with r(1) obtain w where w: "v = V_YandexCluster w"
    "pointer (view is_C_YandexCluster un_YandexCluster) (repr_YandexCluster rp) m p (Some w) A" by auto
  from pointer_object_copied [OF copier_objects(1) [OF lib] w(2) r(2), of "DeepCopyObject cp ob m" O_YandexCluster]
  show ?thesis using w(1) O_YandexCluster by (fastforce simp: deep_copy_object_defs bindG_def tryG_def)
next
  case (O_YandexClusterList p)
  with r(1) obtain w where w: "v = V_YandexClusterList w"
    "pointer (view is_C_YandexClusterList un_YandexClusterList) (repr_YandexClusterList rp) m p (Some w) A" by auto
  from pointer_object_copied [OF copier_objects(2) [OF lib] w(2) r(2), of "DeepCopyObject cp ob m" O_YandexClusterList]
  show ?thesis using w(1) O_YandexClusterList by (fastforce simp: deep_copy_object_defs bindG_def tryG_def)
next
  case (O_YandexMachine p)
  with r(1) obtain w where w: "v = V_YandexMachine w"
    "pointer (view is_C_YandexMachine un_YandexMachine) (repr_YandexMachine rp) m p (Some w) A" by auto
  from pointer_object_copied [OF copier_objects(3) [OF lib] w(2) r(2), of "DeepCopyObject cp ob m" O_YandexMachine]
  show ?thesis using w(1) O_YandexMachine by (fastforce simp: deep_copy_object_defs bindG_def tryG_def)
next
  case (O_YandexMachineList p)
  with r(1) obtain w where w: "v = V_YandexMachineList w"
    "pointer (view is_C_YandexMachineList un_YandexMachineList) (repr_YandexMachineList rp) m p (Some w) A" by auto
  from pointer_object_copied [OF copier_objects(4) [OF lib] w(2) r(2), of "DeepCopyObject cp ob m" O_YandexMachineList]
  show ?thesis using w(1) O_YandexMachineList by (fastforce simp: deep_copy_object_defs bindG_def tryG_def)
next
  case (O_YandexMachineTemplate p)
  with r(1) obtain w where w: "v = V_YandexMachineTemplate w"
    "pointer (view is_C_YandexMachineTemplate un_YandexMachineTemplate) (repr_YandexMachineTemplate rp) m p (Some w) A" by auto
  from pointer_object_copied [OF copier_objects(5) [OF lib] w(2) r(2), of "DeepCopyObject cp ob m" O_YandexMachineTemplate]
  show ?thesis using w(1) O_YandexMachineTemplate by (fastforce simp: deep_copy_object_defs bindG_def tryG_def)
next
  case (O_YandexMachineTemplateList p)
  with r(1) obtain w where w: "v = V_YandexMachineTemplateList w"
    "pointer (view is_C_YandexMachineTemplateList un_YandexMachineTemplateList) (repr_YandexMachineTemplateList rp) m p (Some w) A" by auto
  from pointer_object_copied [OF copier_objects(6) [OF lib] w(2) r(2), of "DeepCopyObject cp ob m" O_YandexMachineTemplateList]
  show ?thesis using w(1) O_YandexMachineTemplateList by (fastforce simp: deep_copy_object_defs bindG_def tryG_def)
qed

text \<open>
  C24: \<open>DeepCopyObject\<close> of an API object (a cluster, a machine, a machine template or a list of them) returns an object
  of the same type that stands for the same value and shares no memory with the original: whatever is written
  through the one afterwards, the other stands for what it stood for.
\<close>

theorem objects_copied:
  assumes "library_copies rp cp" and "repr_Object rp m ob v A" and "A \<subseteq> {..<next_free m}"
  shows "\<exists>ob' m' B. DeepCopyObject cp ob m = (Ok (Some ob'), m') \<and> repr_Object rp m' ob' v B \<and> A \<inter> B = {} \<and>
    (\<forall>m2. (\<forall>a. a \<notin> B \<longrightarrow> cells m2 a = cells m' a) \<longrightarrow> repr_Object rp m2 ob v A) \<and>
    (\<forall>m2. (\<forall>a. a \<notin> A \<longrightarrow> cells m2 a = cells m' a) \<longrightarrow> repr_Object rp m2 ob' v B)"
proof -
  from Object_copied [OF assms] obtain ob' m' B where
    c: "DeepCopyObject cp ob m = (Ok (Some ob'), m')" "extends m m'" "repr_Object rp m' ob' v B"
      "B \<subseteq> {next_free m..<next_free m'}" by blast
  note apart = owned.apart [OF owned_Object [OF assms(1)] assms(2,3) c(2,3,4)]
  show ?thesis using c(1,3) apart by blast
qed

section \<open>A machine in memory\<close>

text \<open>
  An instance of the parameters: metadata and conditions lie in their field, a quantity is a pointer to its text, and
  the entries of a map are visited in the order of their keys.
\<close>

datatype example_value = E_meta ObjectMeta | E_template TemplateMeta | E_text string | E_condition Condition | E_pointer addr

fun example_quantity :: "(example_value, example_value, Quantity) repr" where
  "example_quantity m (E_pointer a) v A \<longleftrightarrow> cells m a = Some (C_library (E_text v)) \<and> A = {a}"
| "example_quantity m _ v A \<longleftrightarrow> False"

definition example_reprs :: "example_value Reprs" where
  "example_reprs = \<lparr>rp_Quantity = example_quantity,
     rp_ObjectMeta = (\<lambda>m x v A. x = E_meta v \<and> A = {}),
     rp_TemplateMeta = (\<lambda>m x v A. x = E_template v \<and> A = {}),
     rp_ListMeta = (\<lambda>m x v A. x = E_text v \<and> A = {}),
     rp_Condition = (\<lambda>m x v A. x = E_condition v \<and> A = {})\<rparr>"

fun example_quantity_copy :: "(example_value, example_value) copy" where
  "example_quantity_copy (E_pointer a) =
     bindG reserve (\<lambda>b. bindG (read_cell Some a) (\<lambda>c. thenG (write_cell b c) (ret (E_pointer b))))"
| "example_quantity_copy x = ret x"

definition example_copies :: "example_value Copies" where
  "example_copies = \<lparr>Quantity_DeepCopy = example_quantity_copy,
     ObjectMeta_DeepCopyInto = ret, TemplateMeta_DeepCopyInto = ret, ListMeta_DeepCopyInto = ret, Condition_DeepCopyInto = ret,
     Labels_range = (\<lambda>f. map (\<lambda>k. (k, map_get f k)) (sorted_list_of_set (dom f)))\<rparr>"

lemma example_quantity_copier: "deep_copier example_quantity example_quantity_copy"
proof (unfold_locales, goal_cases)
  case (1 m x v A m')
  then show ?case by (cases x) auto
next
  case (2 m x v A)
  then show ?case
    by (cases x) (auto simp: reserve_def read_cell_def write_cell_def bindG_def tryG_def thenG_def extends_def)
qed

lemma example_plain: "deep_copier (\<lambda>m x v A. x = con v \<and> A = {}) ret"
  by unfold_locales (auto intro: extends.refl_R)

lemma example_library: "library_copies example_reprs example_copies"
proof -
  have "visits (Labels_range example_copies)"
    by (auto simp: visits_def example_copies_def map_get_def graph_def domIff split: option.split)
  then show ?thesis
    using example_quantity_copier by (simp add: library_copies_def example_reprs_def example_copies_def example_plain)
qed

definition example_meta :: ObjectMeta where
  "example_meta = \<lparr>om_Name = ''m'', om_Namespace = ''default'', om_Labels = Map.empty, om_Annotations = Map.empty,
     om_Finalizers = [], om_OwnerReferences = [], om_DeletionTimestamp = None\<rparr>"

text \<open>A machine at address 0 with a boot disk at 1, whose size is at 2, a zone at 3, interfaces at 4 and a memory size at 5.\<close>

definition example_machineM :: "example_value YandexMachineM" where
  "example_machineM = \<lparr>ymM_TypeMeta = \<lparr>tm_Kind = ''YandexMachine'', tm_APIVersion = ''v1alpha1''\<rparr>,
     ymM_Meta = E_meta example_meta,
     ymM_Spec = \<lparr>ymsM_ProviderID = None, ymsM_ZoneID = Some 3, ymsM_PlatformID = None, ymsM_BootDisk = Some 1,
       ymsM_Resources = \<lparr>reM_Memory = E_pointer 5, reM_Cores = 2, reM_CoreFraction = None, reM_GPUs = None\<rparr>,
       ymsM_NetworkInterfaces = Some 4\<rparr>,
     ymM_Status = \<lparr>ymstM_Ready = False, ymstM_Addresses = None, ymstM_InstanceStatus = None,
       ymstM_FailureReason = None, ymstM_FailureMessage = None, ymstM_Conditions = None\<rparr>\<rparr>"

definition example_memory :: "example_value cell Memory" where
  "example_memory = \<lparr>next_free = 6, cells =
     [0 \<mapsto> C_YandexMachine example_machineM,
      1 \<mapsto> C_Disk \<lparr>diM_TypeID = None, diM_Size = E_pointer 2, diM_ImageID = ''image''\<rparr>,
      2 \<mapsto> C_library (E_text ''20Gi''),
      3 \<mapsto> C_string ''ru-central1-a'',
      4 \<mapsto> C_interfaces [\<lparr>niM_SubnetID = ''subnet'', niM_HasPublicIP = None\<rparr>],
      5 \<mapsto> C_library (E_text ''4Gi'')]\<rparr>"

definition example_machine :: YandexMachine where
  "example_machine = \<lparr>ym_Meta = example_meta,
     ym_Spec = \<lparr>yms_ProviderID = None, yms_ZoneID = Some ''ru-central1-a'', yms_PlatformID = None,
       yms_BootDisk = Some \<lparr>di_TypeID = None, di_Size = ''20Gi'', di_ImageID = ''image''\<rparr>,
       yms_Resources = \<lparr>re_Memory = ''4Gi'', re_Cores = 2, re_CoreFraction = None, re_GPUs = None\<rparr>,
       yms_NetworkInterfaces = [\<lparr>ni_SubnetID = ''subnet'', ni_HasPublicIP = None\<rparr>]\<rparr>,
     ym_Status = \<lparr>ymst_Ready = False, ymst_Addresses = [], ymst_InstanceStatus = None, ymst_FailureReason = None,
       ymst_FailureMessage = None, ymst_Conditions = []\<rparr>\<rparr>"

lemma example_represented:
  "repr_Object example_reprs example_memory (O_YandexMachine (Some 0))
     (V_YandexMachine (\<lparr>tm_Kind = ''YandexMachine'', tm_APIVersion = ''v1alpha1''\<rparr>, example_machine)) {0, 1, 2, 3, 4, 5}"
proof -
  let ?m = "example_memory"
  note mem = example_memory_def pointer_def plain_def struct_def
  have disk: "disk_ptr example_reprs ?m (Some 1)
      (Some \<lparr>di_TypeID = None, di_Size = ''20Gi'', di_ImageID = ''image''\<rparr>) {1, 2}"
    by (auto simp: mem repr_Disk_def example_reprs_def)
  have resources: "repr_Resources example_reprs ?m
      \<lparr>reM_Memory = E_pointer 5, reM_Cores = 2, reM_CoreFraction = None, reM_GPUs = None\<rparr>
      \<lparr>re_Memory = ''4Gi'', re_Cores = 2, re_CoreFraction = None, re_GPUs = None\<rparr> {5}"
    by (auto simp: mem repr_Resources_def example_reprs_def)
  have interfaces: "interfaces_slice ?m (Some 4) (Some [\<lparr>ni_SubnetID = ''subnet'', ni_HasPublicIP = None\<rparr>]) {4}"
    by (auto simp: mem repr_NetworkInterface_def)
  have strings: "string_ptr ?m None None {}" "string_ptr ?m (Some 3) (Some ''ru-central1-a'') {3}"
    by (simp_all add: mem)
  have "both string_ptr (both string_ptr (both string_ptr (both (disk_ptr example_reprs)
      (both (repr_Resources example_reprs) interfaces_slice)))) ?m
      (None, Some 3, None, Some 1, \<lparr>reM_Memory = E_pointer 5, reM_Cores = 2, reM_CoreFraction = None, reM_GPUs = None\<rparr>, Some 4)
      (None, Some ''ru-central1-a'', None, Some \<lparr>di_TypeID = None, di_Size = ''20Gi'', di_ImageID = ''image''\<rparr>,
       \<lparr>re_Memory = ''4Gi'', re_Cores = 2, re_CoreFraction = None, re_GPUs = None\<rparr>,
       Some [\<lparr>ni_SubnetID = ''subnet'', ni_HasPublicIP = None\<rparr>]) ({} \<union> ({3} \<union> ({} \<union> ({1, 2} \<union> ({5} \<union> {4})))))"
    by (intro both_intro strings disk resources interfaces)
  then have spec: "repr_YandexMachineSpec example_reprs ?m (ymM_Spec example_machineM) (ym_Spec example_machine)
      {1, 2, 3, 4, 5}"
    unfolding repr_YandexMachineSpec_def
    by - (rule structI, simp add: insert_commute example_machineM_def del: both.simps,
        simp add: example_machine_def slice_items_def)
  have status: "repr_YandexMachineStatus example_reprs ?m (ymM_Status example_machineM) (ym_Status example_machine) {}"
    by (auto simp: struct_def pointer_def repr_YandexMachineStatus_def example_machine_def example_machineM_def
        slice_items_def)
  have meta: "rp_ObjectMeta example_reprs ?m (ymM_Meta example_machineM) (ym_Meta example_machine) {}"
    by (simp add: example_reprs_def example_machine_def example_machineM_def)
  have "both (rp_ObjectMeta example_reprs) (both (repr_YandexMachineSpec example_reprs)
      (repr_YandexMachineStatus example_reprs)) ?m
      (ymM_Meta example_machineM, ymM_Spec example_machineM, ymM_Status example_machineM)
      (ym_Meta example_machine, ym_Spec example_machine, ym_Status example_machine) ({} \<union> ({1, 2, 3, 4, 5} \<union> {}))"
    by (intro both_intro meta spec status)
  then have "repr_YandexMachine example_reprs ?m example_machineM
      (\<lparr>tm_Kind = ''YandexMachine'', tm_APIVersion = ''v1alpha1''\<rparr>, example_machine) ({} \<union> ({1, 2, 3, 4, 5} \<union> {}))"
    unfolding repr_YandexMachine_def
    by - (rule structI, assumption, simp add: example_machineM_def)
  moreover have "cells ?m 0 = Some (C_YandexMachine example_machineM)" by (simp add: example_memory_def)
  ultimately show ?thesis by (simp add: pointer_def) blast
qed

theorem objects_copied_witness:
  "\<exists>ob' m' B. DeepCopyObject example_copies (O_YandexMachine (Some 0)) example_memory = (Ok (Some ob'), m') \<and>
     repr_Object example_reprs m' ob'
       (V_YandexMachine (\<lparr>tm_Kind = ''YandexMachine'', tm_APIVersion = ''v1alpha1''\<rparr>, example_machine)) B \<and>
     {0, 1, 2, 3, 4, 5} \<inter> B = {}"
  using objects_copied [OF example_library example_represented] by (fastforce simp: example_memory_def)

end
