(* ===== verification/Mock_Client.thy ===== *)
theory Mock_Client
  imports Yandex_Client
begin

text \<open>
  \<open>internal/pkg/client/mock_client/client.go\<close>, the client the controllers are tested with: every method hands its
  arguments to a gomock controller as a list of untyped values and takes the results out of the list it gets; every
  method of the recorder announces a call to the controller, with the type of the method.  The controller is a
  parameter.  The theorem says that the two sides fit: a call that was announced is answered with the announced results.
\<close>

section \<open>Untyped values\<close>

text \<open>
  A value of type \<open>any\<close>.  A pointer result may be nil (\<open>None\<close>) with its type, unlike \<open>A_nil\<close>, the nil of type \<open>any\<close>; a request
  is never nil.  \<open>A_other\<close> is what the mock only passes on: a context or a matcher of expected arguments.
\<close>

datatype 'x any =
    A_nil
  | A_other 'x
  | A_string string
  | A_error err
  | A_AddTargetsRequest AddTargetsRequest
  | A_RemoveTargetsRequest RemoveTargetsRequest
  | A_NlbAddTargetsRequest AddTargetsRequest
  | A_NlbRemoveTargetsRequest RemoveTargetsRequest
  | A_CreateInstanceRequest CreateInstanceRequest
  | A_CreateBackendGroupRequest CreateBackendGroupRequest
  | A_CreateLoadBalancerRequest CreateLoadBalancerRequest
  | A_CreateTargetGroupRequest CreateTargetGroupRequest
  | A_Operation "Operation option"
  | A_TargetGroup "TargetGroup option"
  | A_NlbTargetGroup "TargetGroup option"
  | A_BackendGroup "BackendGroup option"
  | A_LoadBalancer "LoadBalancer option"
  | A_Instance "Instance option"

text \<open>The types of parameters and results.\<close>

datatype go_type = T_Context | T_string | T_error | T_ptr string

record method_type =
  mt_params :: "go_type list"
  mt_results :: "go_type list"

fun type_of :: "'x any \<Rightarrow> go_type option" where
  "type_of (A_string _) = Some T_string"
| "type_of (A_error _) = Some T_error"
| "type_of (A_AddTargetsRequest _) = Some (T_ptr ''apploadbalancer.AddTargetsRequest'')"
| "type_of (A_RemoveTargetsRequest _) = Some (T_ptr ''apploadbalancer.RemoveTargetsRequest'')"
| "type_of (A_NlbAddTargetsRequest _) = Some (T_ptr ''loadbalancer.AddTargetsRequest'')"
| "type_of (A_NlbRemoveTargetsRequest _) = Some (T_ptr ''loadbalancer.RemoveTargetsRequest'')"
| "type_of (A_CreateInstanceRequest _) = Some (T_ptr ''compute.CreateInstanceRequest'')"
| "type_of (A_CreateBackendGroupRequest _) = Some (T_ptr ''apploadbalancer.CreateBackendGroupRequest'')"
| "type_of (A_CreateLoadBalancerRequest _) = Some (T_ptr ''apploadbalancer.CreateLoadBalancerRequest'')"
| "type_of (A_CreateTargetGroupRequest _) = Some (T_ptr ''apploadbalancer.CreateTargetGroupRequest'')"
| "type_of (A_Operation _) = Some (T_ptr ''operation.Operation'')"
| "type_of (A_TargetGroup _) = Some (T_ptr ''apploadbalancer.TargetGroup'')"
| "type_of (A_NlbTargetGroup _) = Some (T_ptr ''loadbalancer.TargetGroup'')"
| "type_of (A_BackendGroup _) = Some (T_ptr ''apploadbalancer.BackendGroup'')"
| "type_of (A_LoadBalancer _) = Some (T_ptr ''apploadbalancer.LoadBalancer'')"
| "type_of (A_Instance _) = Some (T_ptr ''compute.Instance'')"
| "type_of _ = None"

text \<open>\<open>x, _ := v.(T)\<close>: the value, or the zero value of the type when \<open>v\<close> has another type.\<close>

fun as_string :: "'x any \<Rightarrow> string" where
  "as_string (A_string s) = s"
| "as_string _ = []"

fun as_error :: "'x any \<Rightarrow> err option" where
  "as_error (A_error e) = Some e"
| "as_error _ = None"

fun as_Operation :: "'x any \<Rightarrow> Operation option" where
  "as_Operation (A_Operation p) = p"
| "as_Operation _ = None"

fun as_TargetGroup :: "'x any \<Rightarrow> TargetGroup option" where
  "as_TargetGroup (A_TargetGroup p) = p"
| "as_TargetGroup _ = None"

fun as_NlbTargetGroup :: "'x any \<Rightarrow> TargetGroup option" where
  "as_NlbTargetGroup (A_NlbTargetGroup p) = p"
| "as_NlbTargetGroup _ = None"

fun as_BackendGroup :: "'x any \<Rightarrow> BackendGroup option" where
  "as_BackendGroup (A_BackendGroup p) = p"
| "as_BackendGroup _ = None"

fun as_LoadBalancer :: "'x any \<Rightarrow> LoadBalancer option" where
  "as_LoadBalancer (A_LoadBalancer p) = p"
| "as_LoadBalancer _ = None"

fun as_Instance :: "'x any \<Rightarrow> Instance option" where
  "as_Instance (A_Instance p) = p"
| "as_Instance _ = None"

text \<open>\<open>ret[i]\<close>.\<close>

definition result :: "'x any list \<Rightarrow> nat \<Rightarrow> ('w, 'x any) go" where
  "result rets i = (if i < length rets then ret (rets ! i) else panic ''index out of range'')"

section \<open>The gomock controller\<close>

text \<open>
  A parameter.  \<open>ctrl_Call\<close> takes the receiver, the name of the method and the arguments, and fails the test, which
  ends the goroutine like a panic, when no such call is expected; \<open>ctrl_Record\<close> is \<open>RecordCallWithMethodType\<close> and returns the
  \<open>*gomock.Call\<close>, to which \<open>ctrl_Return\<close> gives results; \<open>ctrl_matches\<close> says which arguments meet an expected one; \<open>ctrl_Helper\<close> is
  \<open>T.Helper\<close>.
\<close>

record ('w, 'x, 'g) Controller =
  ctrl_Helper :: "('w, unit) go"
  ctrl_Call :: "nat \<Rightarrow> string \<Rightarrow> 'x any list \<Rightarrow> ('w, 'x any list) go"
  ctrl_Record :: "nat \<Rightarrow> string \<Rightarrow> method_type \<Rightarrow> 'x any list \<Rightarrow> ('w, 'g) go"
  ctrl_Return :: "'g \<Rightarrow> 'x any list \<Rightarrow> ('w, unit) go"
  ctrl_matches :: "'x any \<Rightarrow> 'x any \<Rightarrow> bool"

text \<open>
  The mock and its recorder point to each other; \<open>m_self\<close> is the mock's own pointer, by which the controller tells
  receivers apart.
\<close>

record ('w, 'x, 'g) MockClient =
  m_ctrl :: "('w, 'x, 'g) Controller"
  m_self :: nat

record ('w, 'x, 'g) MockClientMockRecorder =
  mr_mock :: "('w, 'x, 'g) MockClient"

definition NewMockClient :: "('w, 'x, 'g) Controller \<Rightarrow> nat \<Rightarrow> ('w, 'x, 'g) MockClient" where
  "NewMockClient ctrl self = \<lparr>m_ctrl = ctrl, m_self = self\<rparr>"

definition EXPECT :: "('w, 'x, 'g) MockClient \<Rightarrow> ('w, 'x, 'g) MockClientMockRecorder" where
  "EXPECT m = \<lparr>mr_mock = m\<rparr>"

section \<open>The methods\<close>

definition MockClient_ALBAddTarget :: "('w, 'x, 'g) MockClient \<Rightarrow> 'x \<Rightarrow> AddTargetsRequest \<Rightarrow> ('w, Operation option \<times> err option) go" where
  "MockClient_ALBAddTarget m arg0 arg1 =
     thenG (ctrl_Helper (m_ctrl m))
     (bindG (ctrl_Call (m_ctrl m) (m_self m) ''ALBAddTarget'' [A_other arg0, A_AddTargetsRequest arg1]) (\<lambda>rets.
     bindG (result rets 0) (\<lambda>v0.
     bindG (result rets 1) (\<lambda>v1.
     ret (as_Operation v0, as_error v1)))))"

definition MockClient_ALBBackendGroupCreate :: "('w, 'x, 'g) MockClient \<Rightarrow> 'x \<Rightarrow> CreateBackendGroupRequest \<Rightarrow> ('w, string \<times> err option) go" where
  "MockClient_ALBBackendGroupCreate m arg0 arg1 =
     thenG (ctrl_Helper (m_ctrl m))
     (bindG (ctrl_Call (m_ctrl m) (m_self m) ''ALBBackendGroupCreate'' [A_other arg0, A_CreateBackendGroupRequest arg1]) (\<lambda>rets.
     bindG (result rets 0) (\<lambda>v0.
     bindG (result rets 1) (\<lambda>v1.
     ret (as_string v0, as_error v1)))))"

definition MockClient_ALBBackendGroupDelete :: "('w, 'x, 'g) MockClient \<Rightarrow> 'x \<Rightarrow> string \<Rightarrow> ('w, err option) go" where
  "MockClient_ALBBackendGroupDelete m arg0 arg1 =
     thenG (ctrl_Helper (m_ctrl m))
     (bindG (ctrl_Call (m_ctrl m) (m_self m) ''ALBBackendGroupDelete'' [A_other arg0, A_string arg1]) (\<lambda>rets.
     bindG (result rets 0) (\<lambda>v0.
     ret (as_error v0))))"

definition MockClient_ALBBackendGroupGet :: "('w, 'x, 'g) MockClient \<Rightarrow> 'x \<Rightarrow> string \<Rightarrow> ('w, BackendGroup option \<times> err option) go" where
  "MockClient_ALBBackendGroupGet m arg0 arg1 =
     thenG (ctrl_Helper (m_ctrl m))
     (bindG (ctrl_Call (m_ctrl m) (m_self m) ''ALBBackendGroupGet'' [A_other arg0, A_string arg1]) (\<lambda>rets.
     bindG (result rets 0) (\<lambda>v0.
     bindG (result rets 1) (\<lambda>v1.
     ret (as_BackendGroup v0, as_error v1)))))"

definition MockClient_ALBBackendGroupGetByName :: "('w, 'x, 'g) MockClient \<Rightarrow> 'x \<Rightarrow> string \<Rightarrow> string \<Rightarrow> ('w, BackendGroup option \<times> err option) go" where
  "MockClient_ALBBackendGroupGetByName m arg0 arg1 arg2 =
     thenG (ctrl_Helper (m_ctrl m))
     (bindG (ctrl_Call (m_ctrl m) (m_self m) ''ALBBackendGroupGetByName'' [A_other arg0, A_string arg1, A_string arg2]) (\<lambda>rets.
     bindG (result rets 0) (\<lambda>v0.
     bindG (result rets 1) (\<lambda>v1.
     ret (as_BackendGroup v0, as_error v1)))))"

definition MockClient_ALBCreate :: "('w, 'x, 'g) MockClient \<Rightarrow> 'x \<Rightarrow> CreateLoadBalancerRequest \<Rightarrow> ('w, string \<times> err option) go" where
  "MockClient_ALBCreate m arg0 arg1 =
     thenG (ctrl_Helper (m_ctrl m))
     (bindG (ctrl_Call (m_ctrl m) (m_self m) ''ALBCreate'' [A_other arg0, A_CreateLoadBalancerRequest arg1]) (\<lambda>rets.
     bindG (result rets 0) (\<lambda>v0.
     bindG (result rets 1) (\<lambda>v1.
     ret (as_string v0, as_error v1)))))"

definition MockClient_ALBDelete :: "('w, 'x, 'g) MockClient \<Rightarrow> 'x \<Rightarrow> string \<Rightarrow> ('w, err option) go" where
  "MockClient_ALBDelete m arg0 arg1 =
     thenG (ctrl_Helper (m_ctrl m))
     (bindG (ctrl_Call (m_ctrl m) (m_self m) ''ALBDelete'' [A_other arg0, A_string arg1]) (\<lambda>rets.
     bindG (result rets 0) (\<lambda>v0.
     ret (as_error v0))))"

definition MockClient_ALBGet :: "('w, 'x, 'g) MockClient \<Rightarrow> 'x \<Rightarrow> string \<Rightarrow> ('w, LoadBalancer option \<times> err option) go" where
  "MockClient_ALBGet m arg0 arg1 =
     thenG (ctrl_Helper (m_ctrl m))
     (bindG (ctrl_Call (m_ctrl m) (m_self m) ''ALBGet'' [A_other arg0, A_string arg1]) (\<lambda>rets.
     bindG (result rets 0) (\<lambda>v0.
     bindG (result rets 1) (\<lambda>v1.
     ret (as_LoadBalancer v0, as_error v1)))))"

definition MockClient_ALBGetByName :: "('w, 'x, 'g) MockClient \<Rightarrow> 'x \<Rightarrow> string \<Rightarrow> string \<Rightarrow> ('w, LoadBalancer option \<times> err option) go" where
  "MockClient_ALBGetByName m arg0 arg1 arg2 =
     thenG (ctrl_Helper (m_ctrl m))
     (bindG (ctrl_Call (m_ctrl m) (m_self m) ''ALBGetByName'' [A_other arg0, A_string arg1, A_string arg2]) (\<lambda>rets.
     bindG (result rets 0) (\<lambda>v0.
     bindG (result rets 1) (\<lambda>v1.
     ret (as_LoadBalancer v0, as_error v1)))))"

definition MockClient_ALBGetTargetGroup :: "('w, 'x, 'g) MockClient \<Rightarrow> 'x \<Rightarrow> string \<Rightarrow> ('w, TargetGroup option \<times> err option) go" where
  "MockClient_ALBGetTargetGroup m arg0 arg1 =
     thenG (ctrl_Helper (m_ctrl m))
     (bindG (ctrl_Call (m_ctrl m) (m_self m) ''ALBGetTargetGroup'' [A_other arg0, A_string arg1]) (\<lambda>rets.
     bindG (result rets 0) (\<lambda>v0.
     bindG (result rets 1) (\<lambda>v1.
     ret (as_TargetGroup v0, as_error v1)))))"

definition MockClient_ALBRemoveTarget :: "('w, 'x, 'g) MockClient \<Rightarrow> 'x \<Rightarrow> RemoveTargetsRequest \<Rightarrow> ('w, Operation option \<times> err option) go" where
  "MockClient_ALBRemoveTarget m arg0 arg1 =
     thenG (ctrl_Helper (m_ctrl m))
     (bindG (ctrl_Call (m_ctrl m) (m_self m) ''ALBRemoveTarget'' [A_other arg0, A_RemoveTargetsRequest arg1]) (\<lambda>rets.
     bindG (result rets 0) (\<lambda>v0.
     bindG (result rets 1) (\<lambda>v1.
     ret (as_Operation v0, as_error v1)))))"

definition MockClient_ALBTargetGroupCreate :: "('w, 'x, 'g) MockClient \<Rightarrow> 'x \<Rightarrow> CreateTargetGroupRequest \<Rightarrow> ('w, string \<times> err option) go" where
  "MockClient_ALBTargetGroupCreate m arg0 arg1 =
     thenG (ctrl_Helper (m_ctrl m))
     (bindG (ctrl_Call (m_ctrl m) (m_self m) ''ALBTargetGroupCreate'' [A_other arg0, A_CreateTargetGroupRequest arg1]) (\<lambda>rets.
     bindG (result rets 0) (\<lambda>v0.
     bindG (result rets 1) (\<lambda>v1.
     ret (as_string v0, as_error v1)))))"

definition MockClient_ALBTargetGroupDelete :: "('w, 'x, 'g) MockClient \<Rightarrow> 'x \<Rightarrow> string \<Rightarrow> ('w, err option) go" where
  "MockClient_ALBTargetGroupDelete m arg0 arg1 =
     thenG (ctrl_Helper (m_ctrl m))
     (bindG (ctrl_Call (m_ctrl m) (m_self m) ''ALBTargetGroupDelete'' [A_other arg0, A_string arg1]) (\<lambda>rets.
     bindG (result rets 0) (\<lambda>v0.
     ret (as_error v0))))"

definition MockClient_ALBTargetGroupGet :: "('w, 'x, 'g) MockClient \<Rightarrow> 'x \<Rightarrow> string \<Rightarrow> ('w, TargetGroup option \<times> err option) go" where
  "MockClient_ALBTargetGroupGet m arg0 arg1 =
     thenG (ctrl_Helper (m_ctrl m))
     (bindG (ctrl_Call (m_ctrl m) (m_self m) ''ALBTargetGroupGet'' [A_other arg0, A_string arg1]) (\<lambda>rets.
     bindG (result rets 0) (\<lambda>v0.
     bindG (result rets 1) (\<lambda>v1.
     ret (as_TargetGroup v0, as_error v1)))))"

definition MockClient_ALBTargetGroupGetByName :: "('w, 'x, 'g) MockClient \<Rightarrow> 'x \<Rightarrow> string \<Rightarrow> string \<Rightarrow> ('w, TargetGroup option \<times> err option) go" where
  "MockClient_ALBTargetGroupGetByName m arg0 arg1 arg2 =
     thenG (ctrl_Helper (m_ctrl m))
     (bindG (ctrl_Call (m_ctrl m) (m_self m) ''ALBTargetGroupGetByName'' [A_other arg0, A_string arg1, A_string arg2]) (\<lambda>rets.
     bindG (result rets 0) (\<lambda>v0.
     bindG (result rets 1) (\<lambda>v1.
     ret (as_TargetGroup v0, as_error v1)))))"

definition MockClient_Close :: "('w, 'x, 'g) MockClient \<Rightarrow> 'x \<Rightarrow> ('w, err option) go" where
  "MockClient_Close m arg0 =
     thenG (ctrl_Helper (m_ctrl m))
     (bindG (ctrl_Call (m_ctrl m) (m_self m) ''Close'' [A_other arg0]) (\<lambda>rets.
     bindG (result rets 0) (\<lambda>v0.
     ret (as_error v0))))"

definition MockClient_ComputeCreate :: "('w, 'x, 'g) MockClient \<Rightarrow> 'x \<Rightarrow> CreateInstanceRequest \<Rightarrow> ('w, string \<times> err option) go" where
  "MockClient_ComputeCreate m arg0 arg1 =
     thenG (ctrl_Helper (m_ctrl m))
     (bindG (ctrl_Call (m_ctrl m) (m_self m) ''ComputeCreate'' [A_other arg0, A_CreateInstanceRequest arg1]) (\<lambda>rets.
     bindG (result rets 0) (\<lambda>v0.
     bindG (result rets 1) (\<lambda>v1.
     ret (as_string v0, as_error v1)))))"

definition MockClient_ComputeDelete :: "('w, 'x, 'g) MockClient \<Rightarrow> 'x \<Rightarrow> string \<Rightarrow> ('w, err option) go" where
  "MockClient_ComputeDelete m arg0 arg1 =
     thenG (ctrl_Helper (m_ctrl m))
     (bindG (ctrl_Call (m_ctrl m) (m_self m) ''ComputeDelete'' [A_other arg0, A_string arg1]) (\<lambda>rets.
     bindG (result rets 0) (\<lambda>v0.
     ret (as_error v0))))"

definition MockClient_ComputeGet :: "('w, 'x, 'g) MockClient \<Rightarrow> 'x \<Rightarrow> string \<Rightarrow> ('w, Instance option \<times> err option) go" where
  "MockClient_ComputeGet m arg0 arg1 =
     thenG (ctrl_Helper (m_ctrl m))
     (bindG (ctrl_Call (m_ctrl m) (m_self m) ''ComputeGet'' [A_other arg0, A_string arg1]) (\<lambda>rets.
     bindG (result rets 0) (\<lambda>v0.
     bindG (result rets 1) (\<lambda>v1.
     ret (as_Instance v0, as_error v1)))))"

definition MockClient_NLBAddTarget :: "('w, 'x, 'g) MockClient \<Rightarrow> 'x \<Rightarrow> AddTargetsRequest \<Rightarrow> ('w, Operation option \<times> err option) go" where
  "MockClient_NLBAddTarget m arg0 arg1 =
     thenG (ctrl_Helper (m_ctrl m))
     (bindG (ctrl_Call (m_ctrl m) (m_self m) ''NLBAddTarget'' [A_other arg0, A_NlbAddTargetsRequest arg1]) (\<lambda>rets.
     bindG (result rets 0) (\<lambda>v0.
     bindG (result rets 1) (\<lambda>v1.
     ret (as_Operation v0, as_error v1)))))"

definition MockClient_NLBGetTargetGroup :: "('w, 'x, 'g) MockClient \<Rightarrow> 'x \<Rightarrow> string \<Rightarrow> ('w, TargetGroup option \<times> err option) go" where
  "MockClient_NLBGetTargetGroup m arg0 arg1 =
     thenG (ctrl_Helper (m_ctrl m))
     (bindG (ctrl_Call (m_ctrl m) (m_self m) ''NLBGetTargetGroup'' [A_other arg0, A_string arg1]) (\<lambda>rets.
     bindG (result rets 0) (\<lambda>v0.
     bindG (result rets 1) (\<lambda>v1.
     ret (as_NlbTargetGroup v0, as_error v1)))))"

definition MockClient_NLBRemoveTarget :: "('w, 'x, 'g) MockClient \<Rightarrow> 'x \<Rightarrow> RemoveTargetsRequest \<Rightarrow> ('w, Operation option \<times> err option) go" where
  "MockClient_NLBRemoveTarget m arg0 arg1 =
     thenG (ctrl_Helper (m_ctrl m))
     (bindG (ctrl_Call (m_ctrl m) (m_self m) ''NLBRemoveTarget'' [A_other arg0, A_NlbRemoveTargetsRequest arg1]) (\<lambda>rets.
     bindG (result rets 0) (\<lambda>v0.
     bindG (result rets 1) (\<lambda>v1.
     ret (as_Operation v0, as_error v1)))))"

section \<open>The recorder\<close>

definition Recorder_ALBAddTarget :: "('w, 'x, 'g) MockClientMockRecorder \<Rightarrow> 'x any \<Rightarrow> 'x any \<Rightarrow> ('w, 'g) go" where
  "Recorder_ALBAddTarget mr arg0 arg1 =
     thenG (ctrl_Helper (m_ctrl (mr_mock mr)))
     (ctrl_Record (m_ctrl (mr_mock mr)) (m_self (mr_mock mr)) ''ALBAddTarget''
       \<lparr>mt_params = [T_Context, T_ptr ''apploadbalancer.AddTargetsRequest''],
        mt_results = [T_ptr ''operation.Operation'', T_error]\<rparr> [arg0, arg1])"

definition Recorder_ALBBackendGroupCreate :: "('w, 'x, 'g) MockClientMockRecorder \<Rightarrow> 'x any \<Rightarrow> 'x any \<Rightarrow> ('w, 'g) go" where
  "Recorder_ALBBackendGroupCreate mr arg0 arg1 =
     thenG (ctrl_Helper (m_ctrl (mr_mock mr)))
     (ctrl_Record (m_ctrl (mr_mock mr)) (m_self (mr_mock mr)) ''ALBBackendGroupCreate''
       \<lparr>mt_params = [T_Context, T_ptr ''apploadbalancer.CreateBackendGroupRequest''],
        mt_results = [T_string, T_error]\<rparr> [arg0, arg1])"

definition Recorder_ALBBackendGroupDelete :: "('w, 'x, 'g) MockClientMockRecorder \<Rightarrow> 'x any \<Rightarrow> 'x any \<Rightarrow> ('w, 'g) go" where
  "Recorder_ALBBackendGroupDelete mr arg0 arg1 =
     thenG (ctrl_Helper (m_ctrl (mr_mock mr)))
     (ctrl_Record (m_ctrl (mr_mock mr)) (m_self (mr_mock mr)) ''ALBBackendGroupDelete''
       \<lparr>mt_params = [T_Context, T_string],
        mt_results = [T_error]\<rparr> [arg0, arg1])"

definition Recorder_ALBBackendGroupGet :: "('w, 'x, 'g) MockClientMockRecorder \<Rightarrow> 'x any \<Rightarrow> 'x any \<Rightarrow> ('w, 'g) go" where
  "Recorder_ALBBackendGroupGet mr arg0 arg1 =
     thenG (ctrl_Helper (m_ctrl (mr_mock mr)))
     (ctrl_Record (m_ctrl (mr_mock mr)) (m_self (mr_mock mr)) ''ALBBackendGroupGet''
       \<lparr>mt_params = [T_Context, T_string],
        mt_results = [T_ptr ''apploadbalancer.BackendGroup'', T_error]\<rparr> [arg0, arg1])"

definition Recorder_ALBBackendGroupGetByName :: "('w, 'x, 'g) MockClientMockRecorder \<Rightarrow> 'x any \<Rightarrow> 'x any \<Rightarrow> 'x any \<Rightarrow> ('w, 'g) go" where
  "Recorder_ALBBackendGroupGetByName mr arg0 arg1 arg2 =
     thenG (ctrl_Helper (m_ctrl (mr_mock mr)))
     (ctrl_Record (m_ctrl (mr_mock mr)) (m_self (mr_mock mr)) ''ALBBackendGroupGetByName''
       \<lparr>mt_params = [T_Context, T_string, T_string],
        mt_results = [T_ptr ''apploadbalancer.BackendGroup'', T_error]\<rparr> [arg0, arg1, arg2])"

definition Recorder_ALBCreate :: "('w, 'x, 'g) MockClientMockRecorder \<Rightarrow> 'x any \<Rightarrow> 'x any \<Rightarrow> ('w, 'g) go" where
  "Recorder_ALBCreate mr arg0 arg1 =
     thenG (ctrl_Helper (m_ctrl (mr_mock mr)))
     (ctrl_Record (m_ctrl (mr_mock mr)) (m_self (mr_mock mr)) ''ALBCreate''
       \<lparr>mt_params = [T_Context, T_ptr ''apploadbalancer.CreateLoadBalancerRequest''],
        mt_results = [T_string, T_error]\<rparr> [arg0, arg1])"

definition Recorder_ALBDelete :: "('w, 'x, 'g) MockClientMockRecorder \<Rightarrow> 'x any \<Rightarrow> 'x any \<Rightarrow> ('w, 'g) go" where
  "Recorder_ALBDelete mr arg0 arg1 =
     thenG (ctrl_Helper (m_ctrl (mr_mock mr)))
     (ctrl_Record (m_ctrl (mr_mock mr)) (m_self (mr_mock mr)) ''ALBDelete''
       \<lparr>mt_params = [T_Context, T_string],
        mt_results = [T_error]\<rparr> [arg0, arg1])"

definition Recorder_ALBGet :: "('w, 'x, 'g) MockClientMockRecorder \<Rightarrow> 'x any \<Rightarrow> 'x any \<Rightarrow> ('w, 'g) go" where
  "Recorder_ALBGet mr arg0 arg1 =
     thenG (ctrl_Helper (m_ctrl (mr_mock mr)))
     (ctrl_Record (m_ctrl (mr_mock mr)) (m_self (mr_mock mr)) ''ALBGet''
       \<lparr>mt_params = [T_Context, T_string],
        mt_results = [T_ptr ''apploadbalancer.LoadBalancer'', T_error]\<rparr> [arg0, arg1])"

definition Recorder_ALBGetByName :: "('w, 'x, 'g) MockClientMockRecorder \<Rightarrow> 'x any \<Rightarrow> 'x any \<Rightarrow> 'x any \<Rightarrow> ('w, 'g) go" where
  "Recorder_ALBGetByName mr arg0 arg1 arg2 =
     thenG (ctrl_Helper (m_ctrl (mr_mock mr)))
     (ctrl_Record (m_ctrl (mr_mock mr)) (m_self (mr_mock mr)) ''ALBGetByName''
       \<lparr>mt_params = [T_Context, T_string, T_string],
        mt_results = [T_ptr ''apploadbalancer.LoadBalancer'', T_error]\<rparr> [arg0, arg1, arg2])"

definition Recorder_ALBGetTargetGroup :: "('w, 'x, 'g) MockClientMockRecorder \<Rightarrow> 'x any \<Rightarrow> 'x any \<Rightarrow> ('w, 'g) go" where
  "Recorder_ALBGetTargetGroup mr arg0 arg1 =
     thenG (ctrl_Helper (m_ctrl (mr_mock mr)))
     (ctrl_Record (m_ctrl (mr_mock mr)) (m_self (mr_mock mr)) ''ALBGetTargetGroup''
       \<lparr>mt_params = [T_Context, T_string],
        mt_results = [T_ptr ''apploadbalancer.TargetGroup'', T_error]\<rparr> [arg0, arg1])"

definition Recorder_ALBRemoveTarget :: "('w, 'x, 'g) MockClientMockRecorder \<Rightarrow> 'x any \<Rightarrow> 'x any \<Rightarrow> ('w, 'g) go" where
  "Recorder_ALBRemoveTarget mr arg0 arg1 =
     thenG (ctrl_Helper (m_ctrl (mr_mock mr)))
     (ctrl_Record (m_ctrl (mr_mock mr)) (m_self (mr_mock mr)) ''ALBRemoveTarget''
       \<lparr>mt_params = [T_Context, T_ptr ''apploadbalancer.RemoveTargetsRequest''],
        mt_results = [T_ptr ''operation.Operation'', T_error]\<rparr> [arg0, arg1])"

definition Recorder_ALBTargetGroupCreate :: "('w, 'x, 'g) MockClientMockRecorder \<Rightarrow> 'x any \<Rightarrow> 'x any \<Rightarrow> ('w, 'g) go" where
  "Recorder_ALBTargetGroupCreate mr arg0 arg1 =
     thenG (ctrl_Helper (m_ctrl (mr_mock mr)))
     (ctrl_Record (m_ctrl (mr_mock mr)) (m_self (mr_mock mr)) ''ALBTargetGroupCreate''
       \<lparr>mt_params = [T_Context, T_ptr ''apploadbalancer.CreateTargetGroupRequest''],
        mt_results = [T_string, T_error]\<rparr> [arg0, arg1])"

definition Recorder_ALBTargetGroupDelete :: "('w, 'x, 'g) MockClientMockRecorder \<Rightarrow> 'x any \<Rightarrow> 'x any \<Rightarrow> ('w, 'g) go" where
  "Recorder_ALBTargetGroupDelete mr arg0 arg1 =
     thenG (ctrl_Helper (m_ctrl (mr_mock mr)))
     (ctrl_Record (m_ctrl (mr_mock mr)) (m_self (mr_mock mr)) ''ALBTargetGroupDelete''
       \<lparr>mt_params = [T_Context, T_string],
        mt_results = [T_error]\<rparr> [arg0, arg1])"

definition Recorder_ALBTargetGroupGet :: "('w, 'x, 'g) MockClientMockRecorder \<Rightarrow> 'x any \<Rightarrow> 'x any \<Rightarrow> ('w, 'g) go" where
  "Recorder_ALBTargetGroupGet mr arg0 arg1 =
     thenG (ctrl_Helper (m_ctrl (mr_mock mr)))
     (ctrl_Record (m_ctrl (mr_mock mr)) (m_self (mr_mock mr)) ''ALBTargetGroupGet''
       \<lparr>mt_params = [T_Context, T_string],
        mt_results = [T_ptr ''apploadbalancer.TargetGroup'', T_error]\<rparr> [arg0, arg1])"

definition Recorder_ALBTargetGroupGetByName :: "('w, 'x, 'g) MockClientMockRecorder \<Rightarrow> 'x any \<Rightarrow> 'x any \<Rightarrow> 'x any \<Rightarrow> ('w, 'g) go" where
  "Recorder_ALBTargetGroupGetByName mr arg0 arg1 arg2 =
     thenG (ctrl_Helper (m_ctrl (mr_mock mr)))
     (ctrl_Record (m_ctrl (mr_mock mr)) (m_self (mr_mock mr)) ''ALBTargetGroupGetByName''
       \<lparr>mt_params = [T_Context, T_string, T_string],
        mt_results = [T_ptr ''apploadbalancer.TargetGroup'', T_error]\<rparr> [arg0, arg1, arg2])"

definition Recorder_Close :: "('w, 'x, 'g) MockClientMockRecorder \<Rightarrow> 'x any \<Rightarrow> ('w, 'g) go" where
  "Recorder_Close mr arg0 =
     thenG (ctrl_Helper (m_ctrl (mr_mock mr)))
     (ctrl_Record (m_ctrl (mr_mock mr)) (m_self (mr_mock mr)) ''Close''
       \<lparr>mt_params = [T_Context],
        mt_results = [T_error]\<rparr> [arg0])"

definition Recorder_ComputeCreate :: "('w, 'x, 'g) MockClientMockRecorder \<Rightarrow> 'x any \<Rightarrow> 'x any \<Rightarrow> ('w, 'g) go" where
  "Recorder_ComputeCreate mr arg0 arg1 =
     thenG (ctrl_Helper (m_ctrl (mr_mock mr)))
     (ctrl_Record (m_ctrl (mr_mock mr)) (m_self (mr_mock mr)) ''ComputeCreate''
       \<lparr>mt_params = [T_Context, T_ptr ''compute.CreateInstanceRequest''],
        mt_results = [T_string, T_error]\<rparr> [arg0, arg1])"

definition Recorder_ComputeDelete :: "('w, 'x, 'g) MockClientMockRecorder \<Rightarrow> 'x any \<Rightarrow> 'x any \<Rightarrow> ('w, 'g) go" where
  "Recorder_ComputeDelete mr arg0 arg1 =
     thenG (ctrl_Helper (m_ctrl (mr_mock mr)))
     (ctrl_Record (m_ctrl (mr_mock mr)) (m_self (mr_mock mr)) ''ComputeDelete''
       \<lparr>mt_params = [T_Context, T_string],
        mt_results = [T_error]\<rparr> [arg0, arg1])"

definition Recorder_ComputeGet :: "('w, 'x, 'g) MockClientMockRecorder \<Rightarrow> 'x any \<Rightarrow> 'x any \<Rightarrow> ('w, 'g) go" where
  "Recorder_ComputeGet mr arg0 arg1 =
     thenG (ctrl_Helper (m_ctrl (mr_mock mr)))
     (ctrl_Record (m_ctrl (mr_mock mr)) (m_self (mr_mock mr)) ''ComputeGet''
       \<lparr>mt_params = [T_Context, T_string],
        mt_results = [T_ptr ''compute.Instance'', T_error]\<rparr> [arg0, arg1])"

definition Recorder_NLBAddTarget :: "('w, 'x, 'g) MockClientMockRecorder \<Rightarrow> 'x any \<Rightarrow> 'x any \<Rightarrow> ('w, 'g) go" where
  "Recorder_NLBAddTarget mr arg0 arg1 =
     thenG (ctrl_Helper (m_ctrl (mr_mock mr)))
     (ctrl_Record (m_ctrl (mr_mock mr)) (m_self (mr_mock mr)) ''NLBAddTarget''
       \<lparr>mt_params = [T_Context, T_ptr ''loadbalancer.AddTargetsRequest''],
        mt_results = [T_ptr ''operation.Operation'', T_error]\<rparr> [arg0, arg1])"

definition Recorder_NLBGetTargetGroup :: "('w, 'x, 'g) MockClientMockRecorder \<Rightarrow> 'x any \<Rightarrow> 'x any \<Rightarrow> ('w, 'g) go" where
  "Recorder_NLBGetTargetGroup mr arg0 arg1 =
     thenG (ctrl_Helper (m_ctrl (mr_mock mr)))
     (ctrl_Record (m_ctrl (mr_mock mr)) (m_self (mr_mock mr)) ''NLBGetTargetGroup''
       \<lparr>mt_params = [T_Context, T_string],
        mt_results = [T_ptr ''loadbalancer.TargetGroup'', T_error]\<rparr> [arg0, arg1])"

definition Recorder_NLBRemoveTarget :: "('w, 'x, 'g) MockClientMockRecorder \<Rightarrow> 'x any \<Rightarrow> 'x any \<Rightarrow> ('w, 'g) go" where
  "Recorder_NLBRemoveTarget mr arg0 arg1 =
     thenG (ctrl_Helper (m_ctrl (mr_mock mr)))
     (ctrl_Record (m_ctrl (mr_mock mr)) (m_self (mr_mock mr)) ''NLBRemoveTarget''
       \<lparr>mt_params = [T_Context, T_ptr ''loadbalancer.RemoveTargetsRequest''],
        mt_results = [T_ptr ''operation.Operation'', T_error]\<rparr> [arg0, arg1])"

section \<open>What is relied on\<close>

text \<open>\<open>Return\<close> takes results that can be assigned to the results of the method: a nil also to an error or a pointer.\<close>

definition assignable :: "go_type \<Rightarrow> 'x any \<Rightarrow> bool" where
  "assignable t v \<longleftrightarrow> (v = A_nil \<and> t \<noteq> T_string) \<or> type_of v = Some t"

text \<open>
  In a state of the controller without expectations, a call that was announced and given results of the announced types
  is answered with them, when its arguments meet the announced ones.  \<open>T.Helper\<close> marks a frame of the log only.
\<close>

definition keeps_expectations :: "('w, 'x, 'g) Controller \<Rightarrow> ('w \<Rightarrow> bool) \<Rightarrow> bool" where
  "keeps_expectations c idle \<longleftrightarrow>
     ctrl_Helper c = ret () \<and>
     (\<forall>w self name ty es args rets.
        idle w \<and> list_all2 (ctrl_matches c) es args \<and> length args = length (mt_params ty) \<and>
          list_all2 assignable (mt_results ty) rets \<longrightarrow>
        (\<exists>g w1 w2 w3. ctrl_Record c self name ty es w = (Ok g, w1) \<and> ctrl_Return c g rets w1 = (Ok (), w2) \<and>
           ctrl_Call c self name args w2 = (Ok rets, w3)))"

text \<open>
  \<open>EXPECT().Method(es).Return(rets)\<close> followed by \<open>Method(args)\<close> returns \<open>r\<close>, when the arguments meet the expected ones.
\<close>

definition answered ::
    "('w, 'x, 'g) Controller \<Rightarrow> 'w \<Rightarrow> 'x any list \<Rightarrow> 'x any list \<Rightarrow> ('w, 'g) go \<Rightarrow> 'x any list \<Rightarrow> ('w, 'r) go \<Rightarrow> 'r \<Rightarrow> bool" where
  "answered c w es args announce rets call r \<longleftrightarrow>
     (list_all2 (ctrl_matches c) es args \<longrightarrow>
        fst (bindG announce (\<lambda>g. thenG (ctrl_Return c g rets) call) w) = Ok r)"

definition any_error :: "err option \<Rightarrow> 'x any" where
  "any_error e = (case e of None \<Rightarrow> A_nil | Some x \<Rightarrow> A_error x)"

lemma any_error [simp]: "as_error (any_error e) = e" "any_error e = A_nil \<or> type_of (any_error e) = Some T_error"
  by (cases e; simp add: any_error_def)+

text \<open>The two shapes a method has: one result or two.\<close>

lemma answered_call:
  assumes c: "keeps_expectations c idle" "idle w"
    and types: "length args = length (mt_params ty)" "list_all2 assignable (mt_results ty) rets"
    and k: "\<And>w'. k rets w' = (Ok r, w')"
  shows "answered c w es args (thenG (ctrl_Helper c) (ctrl_Record c self name ty es)) rets
    (thenG (ctrl_Helper c) (bindG (ctrl_Call c self name args) k)) r"
  unfolding answered_def
proof
  assume "list_all2 (ctrl_matches c) es args"
  with c types have h: "ctrl_Helper c = ret ()" and "\<exists>g w1 w2 w3. ctrl_Record c self name ty es w = (Ok g, w1) \<and>
      ctrl_Return c g rets w1 = (Ok (), w2) \<and> ctrl_Call c self name args w2 = (Ok rets, w3)"
    by (auto simp: keeps_expectations_def)
  then obtain g w1 w2 w3 where "ctrl_Record c self name ty es w = (Ok g, w1)"
    "ctrl_Return c g rets w1 = (Ok (), w2)" "ctrl_Call c self name args w2 = (Ok rets, w3)" by blast
  with h k show "fst (bindG (thenG (ctrl_Helper c) (ctrl_Record c self name ty es)) (\<lambda>g. thenG (ctrl_Return c g rets)
      (thenG (ctrl_Helper c) (bindG (ctrl_Call c self name args) k))) w) = Ok r"
    by (simp add: thenG_def bindG_def tryG_def)
qed

lemma answered_one:
  assumes "keeps_expectations c idle" "idle w" "length args = length (mt_params ty)"
    "list_all2 assignable (mt_results ty) [v]" "f v = x"
  shows "answered c w es args (thenG (ctrl_Helper c) (ctrl_Record c self name ty es)) [v]
    (thenG (ctrl_Helper c) (bindG (ctrl_Call c self name args) (\<lambda>rets. bindG (result rets 0) (\<lambda>v0. ret (f v0))))) x"
  by (rule answered_call [OF assms(1-4)]) (use assms in \<open>auto simp: result_def bindG_def tryG_def\<close>)

lemma answered_two:
  assumes "keeps_expectations c idle" "idle w" "length args = length (mt_params ty)"
    "list_all2 assignable (mt_results ty) [u, v]" "f u = x" "g v = y"
  shows "answered c w es args (thenG (ctrl_Helper c) (ctrl_Record c self name ty es)) [u, v]
    (thenG (ctrl_Helper c) (bindG (ctrl_Call c self name args)
      (\<lambda>rets. bindG (result rets 0) (\<lambda>v0. bindG (result rets 1) (\<lambda>v1. ret (f v0, g v1)))))) (x, y)"
  by (rule answered_call [OF assms(1-4)]) (use assms in \<open>auto simp: result_def bindG_def tryG_def\<close>)

lemmas mock_defs = EXPECT_def NewMockClient_def
  MockClient_ALBAddTarget_def Recorder_ALBAddTarget_def MockClient_ALBBackendGroupCreate_def Recorder_ALBBackendGroupCreate_def MockClient_ALBBackendGroupDelete_def Recorder_ALBBackendGroupDelete_def MockClient_ALBBackendGroupGet_def Recorder_ALBBackendGroupGet_def MockClient_ALBBackendGroupGetByName_def Recorder_ALBBackendGroupGetByName_def MockClient_ALBCreate_def Recorder_ALBCreate_def MockClient_ALBDelete_def Recorder_ALBDelete_def MockClient_ALBGet_def Recorder_ALBGet_def MockClient_ALBGetByName_def Recorder_ALBGetByName_def MockClient_ALBGetTargetGroup_def Recorder_ALBGetTargetGroup_def MockClient_ALBRemoveTarget_def Recorder_ALBRemoveTarget_def MockClient_ALBTargetGroupCreate_def Recorder_ALBTargetGroupCreate_def MockClient_ALBTargetGroupDelete_def Recorder_ALBTargetGroupDelete_def MockClient_ALBTargetGroupGet_def Recorder_ALBTargetGroupGet_def MockClient_ALBTargetGroupGetByName_def Recorder_ALBTargetGroupGetByName_def MockClient_Close_def Recorder_Close_def MockClient_ComputeCreate_def Recorder_ComputeCreate_def MockClient_ComputeDelete_def Recorder_ComputeDelete_def MockClient_ComputeGet_def Recorder_ComputeGet_def MockClient_NLBAddTarget_def Recorder_NLBAddTarget_def MockClient_NLBGetTargetGroup_def Recorder_NLBGetTargetGroup_def MockClient_NLBRemoveTarget_def Recorder_NLBRemoveTarget_def

section \<open>Announced calls are answered\<close>

text \<open>
  C38: for every method of the client: after \<open>EXPECT().Method(...).Return(...)\<close> on a fresh mock, a call of the method
  whose arguments meet the expected ones returns exactly the announced results, of whatever value, also a nil pointer or error.
\<close>

theorem expected_calls_answered:
  fixes c :: "('w, 'x, 'g) Controller"
  assumes "keeps_expectations c idle" and "idle w"
  shows "let m = NewMockClient c self in
    answered c w [e0, e1] [A_other ctx, A_AddTargetsRequest q0] (Recorder_ALBAddTarget (EXPECT m) e0 e1)
      [A_Operation p0, any_error e] (MockClient_ALBAddTarget m ctx q0) (p0, e) \<and>
    answered c w [e0, e1] [A_other ctx, A_CreateBackendGroupRequest q5] (Recorder_ALBBackendGroupCreate (EXPECT m) e0 e1)
      [A_string i, any_error e] (MockClient_ALBBackendGroupCreate m ctx q5) (i, e) \<and>
    answered c w [e0, e1] [A_other ctx, A_string s1] (Recorder_ALBBackendGroupDelete (EXPECT m) e0 e1)
      [any_error e] (MockClient_ALBBackendGroupDelete m ctx s1) e \<and>
    answered c w [e0, e1] [A_other ctx, A_string s1] (Recorder_ALBBackendGroupGet (EXPECT m) e0 e1)
      [A_BackendGroup p3, any_error e] (MockClient_ALBBackendGroupGet m ctx s1) (p3, e) \<and>
    answered c w [e0, e1, e2] [A_other ctx, A_string s1, A_string s2] (Recorder_ALBBackendGroupGetByName (EXPECT m) e0 e1 e2)
      [A_BackendGroup p3, any_error e] (MockClient_ALBBackendGroupGetByName m ctx s1 s2) (p3, e) \<and>
    answered c w [e0, e1] [A_other ctx, A_CreateLoadBalancerRequest q6] (Recorder_ALBCreate (EXPECT m) e0 e1)
      [A_string i, any_error e] (MockClient_ALBCreate m ctx q6) (i, e) \<and>
    answered c w [e0, e1] [A_other ctx, A_string s1] (Recorder_ALBDelete (EXPECT m) e0 e1)
      [any_error e] (MockClient_ALBDelete m ctx s1) e \<and>
    answered c w [e0, e1] [A_other ctx, A_string s1] (Recorder_ALBGet (EXPECT m) e0 e1)
      [A_LoadBalancer p4, any_error e] (MockClient_ALBGet m ctx s1) (p4, e) \<and>
    answered c w [e0, e1, e2] [A_other ctx, A_string s1, A_string s2] (Recorder_ALBGetByName (EXPECT m) e0 e1 e2)
      [A_LoadBalancer p4, any_error e] (MockClient_ALBGetByName m ctx s1 s2) (p4, e) \<and>
    answered c w [e0, e1] [A_other ctx, A_string s1] (Recorder_ALBGetTargetGroup (EXPECT m) e0 e1)
      [A_TargetGroup p1, any_error e] (MockClient_ALBGetTargetGroup m ctx s1) (p1, e) \<and>
    answered c w [e0, e1] [A_other ctx, A_RemoveTargetsRequest q1] (Recorder_ALBRemoveTarget (EXPECT m) e0 e1)
      [A_Operation p0, any_error e] (MockClient_ALBRemoveTarget m ctx q1) (p0, e) \<and>
    answered c w [e0, e1] [A_other ctx, A_CreateTargetGroupRequest q7] (Recorder_ALBTargetGroupCreate (EXPECT m) e0 e1)
      [A_string i, any_error e] (MockClient_ALBTargetGroupCreate m ctx q7) (i, e) \<and>
    answered c w [e0, e1] [A_other ctx, A_string s1] (Recorder_ALBTargetGroupDelete (EXPECT m) e0 e1)
      [any_error e] (MockClient_ALBTargetGroupDelete m ctx s1) e \<and>
    answered c w [e0, e1] [A_other ctx, A_string s1] (Recorder_ALBTargetGroupGet (EXPECT m) e0 e1)
      [A_TargetGroup p1, any_error e] (MockClient_ALBTargetGroupGet m ctx s1) (p1, e) \<and>
    answered c w [e0, e1, e2] [A_other ctx, A_string s1, A_string s2] (Recorder_ALBTargetGroupGetByName (EXPECT m) e0 e1 e2)
      [A_TargetGroup p1, any_error e] (MockClient_ALBTargetGroupGetByName m ctx s1 s2) (p1, e) \<and>
    answered c w [e0] [A_other ctx] (Recorder_Close (EXPECT m) e0)
      [any_error e] (MockClient_Close m ctx) e \<and>
    answered c w [e0, e1] [A_other ctx, A_CreateInstanceRequest q4] (Recorder_ComputeCreate (EXPECT m) e0 e1)
      [A_string i, any_error e] (MockClient_ComputeCreate m ctx q4) (i, e) \<and>
    answered c w [e0, e1] [A_other ctx, A_string s1] (Recorder_ComputeDelete (EXPECT m) e0 e1)
      [any_error e] (MockClient_ComputeDelete m ctx s1) e \<and>
    answered c w [e0, e1] [A_other ctx, A_string s1] (Recorder_ComputeGet (EXPECT m) e0 e1)
      [A_Instance p5, any_error e] (MockClient_ComputeGet m ctx s1) (p5, e) \<and>
    answered c w [e0, e1] [A_other ctx, A_NlbAddTargetsRequest q2] (Recorder_NLBAddTarget (EXPECT m) e0 e1)
      [A_Operation p0, any_error e] (MockClient_NLBAddTarget m ctx q2) (p0, e) \<and>
    answered c w [e0, e1] [A_other ctx, A_string s1] (Recorder_NLBGetTargetGroup (EXPECT m) e0 e1)
      [A_NlbTargetGroup p2, any_error e] (MockClient_NLBGetTargetGroup m ctx s1) (p2, e) \<and>
    answered c w [e0, e1] [A_other ctx, A_NlbRemoveTargetsRequest q3] (Recorder_NLBRemoveTarget (EXPECT m) e0 e1)
      [A_Operation p0, any_error e] (MockClient_NLBRemoveTarget m ctx q3) (p0, e)"
  unfolding Let_def mock_defs MockClient.select_convs MockClientMockRecorder.select_convs
  by (intro conjI; rule answered_one [OF assms] answered_two [OF assms]; simp add: assignable_def)

section \<open>An example of the controller\<close>

text \<open>
  The state is the list of the expected calls, each with its results; a call uses up the first expectation it meets.
  \<open>A_other True\<close> is the matcher \<open>gomock.Any()\<close>, any other expected argument has to be equal.
\<close>

definition example_matches :: "bool any \<Rightarrow> bool any \<Rightarrow> bool" where
  "example_matches e v \<longleftrightarrow> e = A_other True \<or> e = v"

type_synonym example_state = "(nat \<times> string \<times> bool any list \<times> bool any list) list"

fun example_return :: "nat \<Rightarrow> bool any list \<Rightarrow> (example_state, unit) go" where
  "example_return g rets w =
     (if g < length w then case w ! g of (self, name, es, _) \<Rightarrow> (Ok (), w[g := (self, name, es, rets)])
      else (Panic ''no such call'', w))"

definition example_call :: "nat \<Rightarrow> string \<Rightarrow> bool any list \<Rightarrow> (example_state, bool any list) go" where
  "example_call self name args w =
     (case find (\<lambda>(s, n, es, _). s = self \<and> n = name \<and> list_all2 example_matches es args) w of
        None \<Rightarrow> (Panic ''unexpected call'', w)
      | Some e \<Rightarrow> (Ok (snd (snd (snd e))), remove1 e w))"

definition example_controller :: "(example_state, bool, nat) Controller" where
  "example_controller =
     \<lparr>ctrl_Helper = ret (), ctrl_Call = example_call,
      ctrl_Record = (\<lambda>self name _ es w. (Ok (length w), w @ [(self, name, es, [])])),
      ctrl_Return = example_return, ctrl_matches = example_matches\<rparr>"

lemma example_keeps: "keeps_expectations example_controller (\<lambda>w. w = [])"
  by (auto simp: keeps_expectations_def example_controller_def example_call_def)

theorem expected_calls_answered_witness:
  "fst (bindG (Recorder_ALBGetByName (EXPECT (NewMockClient example_controller 7)) (A_other True) (A_string ''folder'')
      (A_other True))
     (\<lambda>g. thenG (ctrl_Return example_controller g [A_LoadBalancer None, A_nil])
       (MockClient_ALBGetByName (NewMockClient example_controller 7) False ''folder'' ''lb'')) []) = Ok (None, None)"
proof -
  let ?m = "NewMockClient example_controller 7"
  have "answered example_controller [] [A_other True, A_string ''folder'', A_other True]
      [A_other False, A_string ''folder'', A_string ''lb'']
      (Recorder_ALBGetByName (EXPECT ?m) (A_other True) (A_string ''folder'') (A_other True))
      [A_LoadBalancer None, any_error None] (MockClient_ALBGetByName ?m False ''folder'' ''lb'') (None, None)"
    using expected_calls_answered [OF example_keeps refl, where self = 7 and ?e0.0 = "A_other True" and
        ?e1.0 = "A_string ''folder''" and ?e2.0 = "A_other True" and ctx = False and ?s1.0 = "''folder''" and
        ?s2.0 = "''lb''" and e = None and ?p4.0 = None]
    by (simp only: Let_def)
  then show ?thesis
    by (simp add: answered_def any_error_def example_controller_def example_matches_def)
qed

end
