(* ===== verification/Spec2Isabelle.thy ===== *)
theory Spec2Isabelle
  imports Balancer_Properties Cluster_Progress Machine_Refinement Machine_Progress
    Provider_Runs Admission_Properties Naming_Properties Startup Deep_Copy
    Mock_Client
begin

text \<open>
  The Cluster API provider for Yandex Cloud: a model of its controllers, services, scopes, client and
  admission webhooks, and the theorems that make them correct.

  \<^bold>\<open>The program.\<close>  The provider watches two custom resources.  For a \<open>YandexCluster\<close> it keeps an application
  load balancer with its backend group and target group in the cloud and publishes the listener of
  the load balancer as the control plane endpoint; for a \<open>YandexMachine\<close> it keeps one virtual machine,
  and registers the address of a control plane machine as a target of the load balancer.  Each
  reconciliation reads the object from the API server, opens a scope over it, works on the cloud through
  a service, changes the object in memory, and writes it back with one deferred patch.  Webhooks admit
  or refuse what is written to the API server.

  \<^bold>\<open>The theories\<close>, in the order in which they depend on each other, and the code under \<open>src/\<close> that
  each models:
  \<^item> \<open>Prelude\<close>: results \<open>'a outcome\<close> (a value, an error, or a panic), the state passing type \<open>('s, 'a) go\<close> of a
    Go function, its operators (\<open>tryG\<close> for \<open>if err != nil\<close>, \<open>deferG\<close> for a deferred call, \<open>zoomG\<close>
    for a call that works on part of the state), the locale \<open>run_relation\<close> of reflexive transitive relations
    a run keeps to, and the collections of rules the proofs share;
  \<^item> \<open>GoLib\<close>, \<open>Hashes\<close>, \<open>NetIP\<close>: what is used of the standard library: \<open>strings\<close>, \<open>strconv\<close>, \<open>time\<close>, regular
    expressions with one class, \<open>md5\<close>, \<open>sha256\<close>, and the address parser of \<open>net/netip\<close>;
  \<^item> \<open>Api\<close>: \<open>api/v1alpha1/*_types.go\<close>, the custom resources as records, integers at their width;
  \<^item> \<open>Cloud_Api\<close>: what is outside the repository, as parameters (below);
  \<^item> \<open>Metrics\<close>, \<open>Yandex_Client\<close>: \<open>internal/pkg/metrics\<close> and \<open>internal/pkg/client\<close>, one definition per request, and the
    state \<open>'e World\<close>: the environment, the trace of the requests made, and the counters;
  \<^item> \<open>Cluster_Scope\<close>, \<open>Machine_Scope\<close>: \<open>internal/pkg/cloud/scope\<close>: the scope is a record in the state, its
    setters are steps on it, generated names and labels, provider identifiers, the creation request of
    a virtual machine, the patch;
  \<^item> \<open>Builders\<close>, \<open>Loadbalancer\<close>: \<open>internal/pkg/cloud/services/loadbalancers\<close>;
  \<^item> \<open>Compute\<close>: \<open>internal/pkg/cloud/services/compute\<close>;
  \<^item> \<open>Webhooks\<close>: \<open>api/v1alpha1/*_webhook.go\<close>;
  \<^item> \<open>Cluster_Controller\<close>, \<open>Machine_Controller\<close>: \<open>controllers\<close>, whole reconciliations with early returns and the
    deferred patch;
  \<^item> \<open>Startup\<close>: \<open>main.go\<close>, \<open>options.go\<close>, the set-up of controllers and webhooks, the client's constructor;
  \<^item> \<open>Go_Memory\<close>, \<open>Api_Memory\<close>, \<open>Deep_Copy\<close>: \<open>api/v1alpha1/zz_generated.deepcopy.go\<close>, the one place whose point is which
    objects share memory: cells with addresses, the structs of \<open>Api\<close> with their pointers, and every generated
    deep copy.  Everywhere else an object is a value;
  \<^item> \<open>Mock_Client\<close>: \<open>internal/pkg/client/mock_client\<close>, the generated test double of the client and its recorder, over an
    arbitrary gomock controller;
  \<^item> \<open>Cloud_Sim\<close>, \<open>Runs\<close>: a small cloud, API server and helper library on which the witnesses run.  No
    definition of the model refers to them.

  \<^bold>\<open>Parameters.\<close>  The Yandex Cloud SDK (\<open>'e SDK\<close>), the Kubernetes API server (\<open>'e Kube\<close>) and the
  helper packages of Cluster API and controller-runtime (\<open>Lib\<close>) are records of functions, arguments of every
  definition that calls them.  The first two read and change an opaque environment \<open>'e\<close>, so between two
  requests anything may happen in the cloud and any request may fail.  Safety theorems hold for all
  parameters without a law.  The theorems on progress name what they need: \<open>obliging_server\<close> and
  \<open>serving_machine\<close> (the server stores the patched object and returns it), \<open>obliging_cloud\<close> (look-ups and
  deletions work and a resource asked to go is seen to go), \<open>building_cloud\<close> (creations work and a load balancer is
  active after a number of look-ups), \<open>hosting_cloud\<close> (the same for an instance), \<open>removing_cloud\<close> (an instance
  asked to go is gone after a number of look-ups and requests), \<open>target_cloud\<close> (target groups keep what was
  added and lose what was removed), \<open>answers_request\<close> (a load balancer has the listeners it was asked for with),
  \<open>finalizer_laws\<close> (adding and removing a finalizer); \<open>converts_specs\<close>
  says that the JSON of two specifications differs only in the fields in which they differ; \<open>library_copies\<close> says that the
  library's own types are copied deeply and that \<open>range\<close> visits each entry of a map; \<open>keeps_expectations\<close> says that a
  gomock controller answers an announced call.  Each is met by the simulated
  environment or by an example of the parameters, which the witnesses check.

  \<^bold>\<open>Interfaces.\<close>  The Go interfaces are records of operations.  \<open>condition_setter\<close>, \<open>respectful_client\<close>, \<open>cloud_client\<close>,
  \<open>load_balancer\<close>, \<open>machine_env\<close> and \<open>respectful_machine\<close> are the contracts the layers rely on: what a request adds
  to the trace, what a service may ask for and when, which part of the state a call leaves alone; \<open>evidence\<close> is the contract
  of a judgement that more requests never take back, \<open>owned\<close> and \<open>deep_copier\<close> those of what stands in memory and of its copy.
  Each is interpreted on the model's own client, service, controller or copy, for an arbitrary SDK.

  \<^bold>\<open>The theorems.\<close>
  \<^item> \<open>Balancer_Properties\<close>: the load balancer service.  In which order it creates and deletes, and on what evidence;
    what it does with a load balancer that differs from the specification or is lost; targets; listener
    and health checks.
  \<^item> \<open>Cluster_Lifecycle\<close>, \<open>Cluster_Properties\<close>: an abstract life cycle of a cluster, \<open>cluster_step\<close>, on the object
    alone, and \<open>cluster_refines\<close>: each reconciliation is one patch of one step, preceded only by
    requests the step licenses.  When the finalizer is taken and given up, when an endpoint is published,
    and that the webhook admits the patch.
  \<^item> \<open>Cluster_Liveness\<close>, \<open>Cluster_Progress\<close>: repeated reconciliation.  A deleted cluster is released after at most
    \<open>Suc (left_over V e)\<close> passes, \<open>left_over\<close> being the number of its resources in the cloud: every pass before
    the last makes that number smaller.  A live cluster is ready after at most \<open>to_wait V N e + 2\<close> passes:
    one adds the finalizer, one asks for what is missing, and the rest count the look-ups until the load
    balancer is active.
  \<^item> \<open>Machine_Lifecycle\<close>, \<open>Machine_Properties\<close>: the pass over a machine taken apart by \<open>machine_pass\<close>; at most one
    virtual machine is asked for and the identifier the client returns is remembered; deregistration before deletion; the
    finalizer; the verdict of a pass.
  \<^item> \<open>Machine_Refinement\<close>: an abstract life cycle of a machine, \<open>machine_step\<close>, and \<open>machine_refines\<close>: the last
    patch of a pass is a step of the object fetched, with the changes of the cloud the step licenses.
  \<^item> \<open>Machine_Liveness\<close>, \<open>Machine_Progress\<close>: repeated reconciliation of a machine.  A deleted machine is released
    after at most \<open>Suc (n_rest V e)\<close> passes, \<open>n_rest\<close> counting the look-ups and requests until its instance is
    gone; a live one is ready after at most \<open>Suc (to_boot V N e)\<close> passes, \<open>to_boot\<close> counting the look-ups
    until its instance runs, and every pass before the last asks to be run again.
  \<^item> \<open>Evidence\<close>, \<open>Provider_Runs\<close>: the provider as a whole.  \<open>asks\<close> is a program logic over the combinators of
    \<open>Prelude\<close>, with a triple for every method of the client, operation of the services and body of the
    controllers; by it every request of a pass is \<open>justified\<close> by requests before it.  This survives
    interleaving the passes of the two controllers (\<open>process_run\<close>) and killing and restarting the process
    at any request (\<open>provider_history\<close>); the counters of a process agree with its trace.
  \<^item> \<open>Admission_Properties\<close>: what the webhooks accept, field by field, and along a history of updates;
    the address check against a grammar of dotted quads; the machine controller's patches are admitted.
  \<^item> \<open>Naming_Properties\<close>: names, labels, identifiers and the request for a virtual machine.
  \<^item> \<open>Startup\<close>: the process takes the steps of a plan in order until one fails, and how it ends then.
  \<^item> \<open>Deep_Copy\<close>: each generated function meets the contract \<open>deep_copier\<close> by the rules of \<open>Go_Memory\<close> for structs,
    pointers, slices and maps; so the copy of an API object stands for the same value in new memory.  Below: the
    types registered at start-up are exactly those with such a copy, and a copy keeps the type.
  \<^item> \<open>Mock_Client\<close>: each method of the mock fits its recorder, so a call announced by a test is answered as announced.

  \<^bold>\<open>Bounds.\<close>  Ports and health check numbers are words of the width the code has them in; conversions wrap,
  and the health check durations are exact up to 9223372036 seconds only.  Strings are lists of bytes
  and names are measured in bytes.  No definition uses fuel: every loop of the code runs over a list.

  \<^bold>\<open>Not modelled.\<close>
  Logging, the context and its time-out: a request cut short by the time-out is a request that fails.
  Latencies: an observation counts a request, it does not time it.  Two reconciliations of one object
  never run at once (the work queue of controller-runtime guarantees it), so a pass is a sequence of
  steps; what other actors, and the passes over other objects, do to the cloud and the API server
  meanwhile is in the environment.  When the work queue runs a pass is left open: the theorems on progress
  count passes, and those on histories allow any.
  The compile-time assertions that a type implements an interface.  In the memory model a slice is a pointer
  to its array: that two slices may overlap in one array is left out, as the code only copies whole slices.
\<close>

section \<open>The registered types\<close>

fun object_kind :: "runtime_Object \<Rightarrow> Kind" where
  "object_kind (O_YandexCluster _) = K_YandexCluster"
| "object_kind (O_YandexClusterList _) = K_YandexClusterList"
| "object_kind (O_YandexMachine _) = K_YandexMachine"
| "object_kind (O_YandexMachineList _) = K_YandexMachineList"
| "object_kind (O_YandexMachineTemplate _) = K_YandexMachineTemplate"
| "object_kind (O_YandexMachineTemplateList _) = K_YandexMachineTemplateList"

text \<open>Each type of the API package is registered once, and it is one that \<open>DeepCopyObject\<close> serves.\<close>

lemma registered_types:
  "distinct SchemeBuilder" "k \<in> set SchemeBuilder \<longleftrightarrow> (\<exists>ob. object_kind ob = k)"
proof -
  show "distinct SchemeBuilder"
    by (simp add: SchemeBuilder_def register_YandexCluster_def register_YandexMachine_def
        register_YandexMachineTemplate_def)
  have "object_kind ob \<in> set SchemeBuilder" for ob
    by (cases ob) (simp_all add: SchemeBuilder_def register_YandexCluster_def register_YandexMachine_def
        register_YandexMachineTemplate_def)
  moreover have "\<exists>ob. object_kind ob = k" if "k \<in> set SchemeBuilder"
    using that object_kind.simps
    by (auto simp: SchemeBuilder_def register_YandexCluster_def register_YandexMachine_def
        register_YandexMachineTemplate_def intro: object_kind.simps)
  ultimately show "k \<in> set SchemeBuilder \<longleftrightarrow> (\<exists>ob. object_kind ob = k)" by blast
qed

lemma copy_keeps_kind:
  assumes "DeepCopyObject cp ob m = (Ok (Some ob'), m')"
  shows "object_kind ob' = object_kind ob"
  using assms
  by (cases ob) (auto simp: deep_copy_object_defs bindG_Ok_iff split: if_splits)

end
